(* ===== verification/Prelude.thy ===== *)
theory Prelude
  imports Main "HOL-Library.Word" "HOL-Library.Multiset"
begin

text \<open>
  Types and generic facts shared by every component.

  Go's fixed-size byte arrays are words: an address (\<open>[20]byte\<close>) is a \<open>160 word\<close>, a hash
  (\<open>[32]byte\<close>) a \<open>256 word\<close>. Both are compared by the code either for equality or with
  \<open>bytes.Compare\<close>, which on big-endian arrays of one length is the unsigned order of the words;
  \<open>IsEmpty\<close> is the comparison with zero. A \<open>uint64\<close> is a \<open>64 word\<close> and wraps; a \<open>*big.Int\<close> is an
  \<open>int\<close>.

  A Go map whose keys are computed from its values is a list of values with pairwise distinct keys
  (\<open>put\<close>, \<open>lookup\<close>). The position in the list stands for the order in which one \<open>range\<close>
  over the map happens to visit it; theorems about the operations are stated for every such list.
\<close>

section \<open>Types\<close>

type_synonym byte = "8 word"
type_synonym bytes = "byte list"
type_synonym uint64 = "64 word"
type_synonym address = "160 word"
type_synonym hash = "256 word"

named_theorems go_map "lookups in and updates of Go maps"
named_theorems store_simps "reads of the key-value store after writes"

section \<open>Results\<close>

text \<open>
  \<open>result.Result\<close> as the code uses it: \<open>result.OK\<close>, or \<open>result.Error\<close> with a message.
\<close>

datatype result = OK | Error string

fun IsError :: "result \<Rightarrow> bool" where
  "IsError OK = False"
| "IsError (Error _) = True"

lemma not_IsError_iff [simp]: "\<not> IsError r \<longleftrightarrow> r = OK"
  by (cases r) auto

section \<open>Decimal printing\<close>

text \<open>The digits \<open>%d\<close> prints for an unsigned integer.\<close>

fun dec :: "nat \<Rightarrow> string" where
  "dec n = (if n < 10 then [char_of (48 + n)] else dec (n div 10) @ [char_of (48 + n mod 10)])"

declare dec.simps [simp del]

definition dec_value :: "string \<Rightarrow> nat" where
  "dec_value s = foldl (\<lambda>acc c. 10 * acc + (of_char c - 48)) 0 s"

lemma dec_value_dec: "dec_value (dec n) = n"
proof (induction n rule: dec.induct)
  case (1 n)
  show ?case
  proof (cases "n < 10")
    case True
    then show ?thesis
      by (simp add: dec.simps dec_value_def)
  next
    case False
    have "dec_value (dec n) = 10 * dec_value (dec (n div 10)) + n mod 10"
      using False by (subst dec.simps) (simp add: dec_value_def)
    with 1[OF False] show ?thesis
      by simp
  qed
qed

lemma dec_inj: "dec m = dec n \<longleftrightarrow> m = n"
  by (metis dec_value_dec)

section \<open>Lists\<close>

lemma sum_list_filter_split:
  fixes f :: "'a \<Rightarrow> int"
  shows "(\<Sum>x\<leftarrow>xs. f x) = (\<Sum>x\<leftarrow>filter P xs. f x) + (\<Sum>x\<leftarrow>filter (\<lambda>x. \<not> P x) xs. f x)"
  by (induction xs) auto

lemma sum_list_filter_le:
  fixes f :: "'a \<Rightarrow> int"
  assumes "\<And>x. x \<in> set xs \<Longrightarrow> 0 \<le> f x" and "\<And>x. x \<in> set xs \<Longrightarrow> P x \<Longrightarrow> Q x"
  shows "(\<Sum>x\<leftarrow>filter P xs. f x) \<le> (\<Sum>x\<leftarrow>filter Q xs. f x)"
  using assms
proof (induction xs)
  case (Cons a xs)
  then have "(\<Sum>x\<leftarrow>filter P xs. f x) \<le> (\<Sum>x\<leftarrow>filter Q xs. f x)" "0 \<le> f a"
    by auto
  with Cons.prems(2)[of a] show ?case
    by (auto intro: add_increasing)
qed simp

lemma sum_list_nonneg_int:
  fixes f :: "'a \<Rightarrow> int"
  assumes "\<And>x. x \<in> set xs \<Longrightarrow> 0 \<le> f x"
  shows "0 \<le> (\<Sum>x\<leftarrow>xs. f x)"
  using assms by (induction xs) auto

text \<open>
  \<open>sort.Sort\<close> is not stable, so what it returns is fixed only up to the order of elements with
  equal keys. With distinct keys every result that meets its contract is the one of \<open>sort_key\<close>.
\<close>

lemma sort_contract_unique:
  assumes "mset ys = mset xs" "sorted (map f ys)" "distinct (map f xs)"
  shows "ys = sort_key f xs"
proof (rule map_sorted_distinct_set_unique[where f = f])
  have set_eq: "set ys = set xs"
    using assms(1) by (rule mset_eq_setD)
  have "mset (map f ys) = mset (map f xs)"
    using assms(1) by simp
  then show "distinct (map f ys)"
    using assms(3) by (metis mset_eq_imp_distinct_iff)
  show "inj_on f (set ys \<union> set (sort_key f xs))"
    using assms(3) set_eq by (simp add: distinct_map)
  show "distinct (map f (sort_key f xs))"
    using assms(3) by (simp add: distinct_map)
qed (use assms in \<open>auto dest: mset_eq_setD\<close>)

section \<open>Go maps keyed by a projection of their values\<close>

fun put :: "('v \<Rightarrow> 'k) \<Rightarrow> 'v \<Rightarrow> 'v list \<Rightarrow> 'v list" where
  "put f v [] = [v]"
| "put f v (x # xs) = (if f x = f v then v # xs else x # put f v xs)"

fun lookup :: "('v \<Rightarrow> 'k) \<Rightarrow> 'k \<Rightarrow> 'v list \<Rightarrow> 'v option" where
  "lookup f k [] = None"
| "lookup f k (x # xs) = (if f x = k then Some x else lookup f k xs)"

abbreviation keyed :: "('v \<Rightarrow> 'k) \<Rightarrow> 'v list \<Rightarrow> bool" where
  "keyed f xs \<equiv> distinct (map f xs)"

lemma lookup_put [go_map]: "lookup f k (put f v xs) = (if k = f v then Some v else lookup f k xs)"
  by (induction xs) auto

lemma lookup_SomeD: "lookup f k xs = Some v \<Longrightarrow> v \<in> set xs \<and> f v = k"
  by (induction xs) (auto split: if_splits)

lemma lookup_None_iff [go_map]: "lookup f k xs = None \<longleftrightarrow> k \<notin> f ` set xs"
  by (induction xs) auto

lemma lookup_Some_iff: "keyed f xs \<Longrightarrow> lookup f k xs = Some v \<longleftrightarrow> v \<in> set xs \<and> f v = k"
  by (induction xs) (auto simp: rev_image_eqI)

lemma keys_put [go_map]: "f ` set (put f v xs) = insert (f v) (f ` set xs)"
  by (induction xs) auto

lemma keyed_put [go_map]: "keyed f xs \<Longrightarrow> keyed f (put f v xs)"
proof (induction xs)
  case (Cons x xs)
  then show ?case
    using keys_put[of f v xs] by auto
qed simp

lemma put_fresh: "f v \<notin> f ` set xs \<Longrightarrow> put f v xs = xs @ [v]"
  by (induction xs) auto

lemma set_put_subset: "set (put f v xs) \<subseteq> insert v (set xs)"
  by (induction xs) auto

lemma set_put [go_map]: "keyed f xs \<Longrightarrow> set (put f v xs) = insert v {x \<in> set xs. f x \<noteq> f v}"
  by (induction xs) (auto simp: rev_image_eqI)

lemma in_set_put: "v \<in> set (put f v xs)"
  by (induction xs) auto

text \<open>Filling an empty map from a list: later entries replace earlier ones with the same key.\<close>

definition put_all :: "('v \<Rightarrow> 'k) \<Rightarrow> 'v list \<Rightarrow> 'v list \<Rightarrow> 'v list" where
  "put_all f vs xs = fold (put f) vs xs"

lemma put_all_simps [simp]:
  "put_all f [] xs = xs" "put_all f (v # vs) xs = put_all f vs (put f v xs)"
  by (simp_all add: put_all_def)

lemma keyed_put_all [go_map]: "keyed f xs \<Longrightarrow> keyed f (put_all f vs xs)"
  by (induction vs arbitrary: xs) (auto simp: keyed_put)

lemma keys_put_all [go_map]: "f ` set (put_all f vs xs) = f ` set vs \<union> f ` set xs"
  by (induction vs arbitrary: xs) (auto simp: keys_put)

lemma set_put_all_subset: "set (put_all f vs xs) \<subseteq> set vs \<union> set xs"
  by (induction vs arbitrary: xs) (use set_put_subset in fastforce)+

lemma put_all_fresh: "keyed f (xs @ vs) \<Longrightarrow> put_all f vs xs = xs @ vs"
proof (induction vs arbitrary: xs)
  case (Cons v vs)
  then have "put f v xs = xs @ [v]"
    by (intro put_fresh) auto
  with Cons show ?case by simp
qed simp

lemma put_all_empty: "keyed f vs \<Longrightarrow> put_all f vs [] = vs"
  by (simp add: put_all_fresh)

lemma lookup_put_all:
  assumes "keyed f vs"
  shows "lookup f k (put_all f vs xs) = (case lookup f k vs of Some v \<Rightarrow> Some v | None \<Rightarrow> lookup f k xs)"
  using assms
proof (induction vs arbitrary: xs)
  case (Cons v vs)
  then have "lookup f (f v) vs = None" "keyed f vs"
    by (auto simp: lookup_None_iff)
  with Cons.IH[of "put f v xs"] show ?case
    by (cases "k = f v") (simp_all add: lookup_put split: option.splits)
qed simp

lemma keyed_mset_eq: "mset xs = mset ys \<Longrightarrow> keyed f xs \<longleftrightarrow> keyed f ys"
  by (intro mset_eq_imp_distinct_iff) simp

lemma lookup_mset_eq:
  assumes "mset xs = mset ys" "keyed f xs"
  shows "lookup f k xs = lookup f k ys"
proof (cases "lookup f k ys")
  case None
  then have "lookup f k xs = None"
    using mset_eq_setD[OF assms(1)] by (simp add: lookup_None_iff)
  with None show ?thesis
    by simp
next
  case (Some v)
  then show ?thesis
    using mset_eq_setD[OF assms(1)] lookup_SomeD[OF Some] lookup_Some_iff[OF assms(2), of k v] by simp
qed

lemma keyed_card: "keyed f xs \<Longrightarrow> length xs = card (f ` set xs)"
  by (metis distinct_card length_map list.set_map)

end
