(* ===== verification/Vote.thy ===== *)
theory Vote
  imports Prelude
begin

text \<open>
  Votes and vote sets (\<open>core/vote.go\<close>).

  A \<open>vote\<close> has the fields of the Go struct; a nil signature is \<open>None\<close>. What the code takes from
  the packages \<open>crypto\<close> and \<open>rlp\<close> is the parameter \<open>crypto\<close> of the definitions. A vote set is a Go
  map from the string \<open>ID:Block:Epoch\<close> to votes; the string determines the triple
  (\<open>vote_key_string_inj\<close> below), so the set is a list of votes with distinct triples
  \<open>vote_key\<close>.

  The lemmas show that every operation keeps the keys distinct, what \<open>Merge\<close> returns, and that the
  loops of \<open>UniqueVoter\<close> and \<open>UniqueVoterAndBlock\<close> keep one vote of the latest epoch per key, in
  whatever order the map is visited.
\<close>

section \<open>Votes\<close>

type_synonym signature = bytes

record vote =
  vBlock :: hash
  vHeight :: uint64
  vMainchainHeight :: uint64
  vEpoch :: uint64
  vID :: address
  vSignature :: "signature option"

record crypto =
  sigIsEmpty :: "signature \<Rightarrow> bool"
  sigVerify :: "signature \<Rightarrow> bytes \<Rightarrow> address \<Rightarrow> bool"
  rlpVote :: "vote \<Rightarrow> bytes"
  keccak256 :: "bytes \<Rightarrow> hash"

definition SignBytes :: "crypto \<Rightarrow> vote \<Rightarrow> bytes" where
  "SignBytes C v =
    rlpVote C \<lparr>vBlock = vBlock v, vHeight = 0, vMainchainHeight = 0, vEpoch = vEpoch v,
               vID = vID v, vSignature = None\<rparr>"

definition SetSignature :: "signature \<Rightarrow> vote \<Rightarrow> vote" where
  "SetSignature sig v = v\<lparr>vSignature := Some sig\<rparr>"

text \<open>\<open>privSign\<close> is \<open>PrivateKey.Sign\<close>; an error of it panics, here \<open>None\<close>.\<close>

definition Sign :: "crypto \<Rightarrow> (bytes \<Rightarrow> signature option) \<Rightarrow> vote \<Rightarrow> vote option" where
  "Sign C privSign v = map_option (\<lambda>sig. SetSignature sig v) (privSign (SignBytes C v))"

definition Vote_Validate :: "crypto \<Rightarrow> vote \<Rightarrow> result" where
  "Vote_Validate C v =
    (if vBlock v = 0 then Error ''Block is not specified''
     else if vID v = 0 then Error ''Voter is not specified''
     else case vSignature v of
       None \<Rightarrow> Error ''Vote is not signed''
     | Some sig \<Rightarrow>
         if sigIsEmpty C sig then Error ''Vote is not signed''
         else if \<not> sigVerify C sig (SignBytes C v) (vID v) then Error ''Signature verification failed''
         else OK)"

definition Vote_Hash :: "crypto \<Rightarrow> vote \<Rightarrow> hash" where
  "Vote_Hash C v = keccak256 C (rlpVote C v)"

lemma Vote_Validate_OK_iff:
  "Vote_Validate C v = OK \<longleftrightarrow>
    vBlock v \<noteq> 0 \<and> vID v \<noteq> 0 \<and>
    (\<exists>sig. vSignature v = Some sig \<and> \<not> sigIsEmpty C sig \<and> sigVerify C sig (SignBytes C v) (vID v))"
  by (auto simp: Vote_Validate_def split: option.splits)

section \<open>Vote sets\<close>

type_synonym voteset = "vote list"

definition vote_key :: "vote \<Rightarrow> address \<times> hash \<times> uint64" where
  "vote_key v = (vID v, vBlock v, vEpoch v)"

text \<open>
  The string \<open>AddVote\<close> builds. \<open>fa\<close> and \<open>fh\<close> are what \<open>%s\<close> prints for an address and for a hash.
\<close>

definition vote_key_string :: "(address \<Rightarrow> string) \<Rightarrow> (hash \<Rightarrow> string) \<Rightarrow> vote \<Rightarrow> string" where
  "vote_key_string fa fh v = fa (vID v) @ '':'' @ fh (vBlock v) @ '':'' @ dec (unat (vEpoch v))"

definition NewVoteSet :: voteset where
  "NewVoteSet = []"

definition AddVote :: "vote \<Rightarrow> voteset \<Rightarrow> voteset" where
  "AddVote v s = put vote_key v s"

definition VoteSet_Size :: "voteset \<Rightarrow> nat" where
  "VoteSet_Size s = length s"

definition VoteSet_IsEmpty :: "voteset \<Rightarrow> bool" where
  "VoteSet_IsEmpty s = (VoteSet_Size s = 0)"

definition Votes :: "voteset \<Rightarrow> vote list" where
  "Votes s = sort_key vID s"

definition AddVotes :: "vote list \<Rightarrow> voteset \<Rightarrow> voteset" where
  "AddVotes vs s = fold AddVote vs s"

definition VoteSet_Copy :: "voteset \<Rightarrow> voteset" where
  "VoteSet_Copy s = AddVotes (Votes s) NewVoteSet"

fun VoteSet_Validate :: "crypto \<Rightarrow> voteset \<Rightarrow> result" where
  "VoteSet_Validate C [] = OK"
| "VoteSet_Validate C (v # vs) =
    (if IsError (Vote_Validate C v) then Error ''Contains invalid vote'' else VoteSet_Validate C vs)"

text \<open>
  \<open>encode\<close> and \<open>decode\<close> are the codec of \<open>[]Vote\<close> (RLP in \<open>EncodeRLP\<close> and \<open>DecodeRLP\<close>, JSON in
  \<open>MarshalJSON\<close> and \<open>UnmarshalJSON\<close>), and \<open>'w\<close> is the type of what it writes.
\<close>

definition VoteSet_EncodeRLP :: "(vote list \<Rightarrow> 'w) \<Rightarrow> voteset option \<Rightarrow> 'w" where
  "VoteSet_EncodeRLP encode s = (case s of None \<Rightarrow> encode [] | Some s \<Rightarrow> encode (Votes s))"

definition VoteSet_DecodeRLP :: "('w \<Rightarrow> vote list option) \<Rightarrow> 'w \<Rightarrow> voteset option" where
  "VoteSet_DecodeRLP decode b = map_option (\<lambda>vs. AddVotes vs NewVoteSet) (decode b)"

definition VoteSet_MarshalJSON :: "(vote list \<Rightarrow> 'w) \<Rightarrow> voteset \<Rightarrow> 'w" where
  "VoteSet_MarshalJSON encode s = encode (Votes s)"

definition VoteSet_UnmarshalJSON :: "('w \<Rightarrow> vote list option) \<Rightarrow> 'w \<Rightarrow> voteset option" where
  "VoteSet_UnmarshalJSON decode b = map_option (\<lambda>vs. AddVotes vs NewVoteSet) (decode b)"

definition Merge :: "voteset \<Rightarrow> voteset \<Rightarrow> voteset" where
  "Merge s another = AddVotes (Votes another) (AddVotes (Votes s) NewVoteSet)"

text \<open>
  The loop shared by \<open>UniqueVoter\<close> and \<open>UniqueVoterAndBlock\<close>: \<open>latestVotes\<close> is a map on \<open>key\<close>, and a
  vote is skipped when the map has one with the key and an epoch that is not older.
\<close>

definition latest_step :: "(vote \<Rightarrow> 'k) \<Rightarrow> vote \<Rightarrow> vote list \<Rightarrow> vote list" where
  "latest_step key v latest =
    (case lookup key (key v) latest of
       Some prev \<Rightarrow> if vEpoch prev \<ge> vEpoch v then latest else put key v latest
     | None \<Rightarrow> put key v latest)"

definition latestVotes :: "(vote \<Rightarrow> 'k) \<Rightarrow> voteset \<Rightarrow> vote list" where
  "latestVotes key s = fold (latest_step key) s []"

definition UniqueVoterAndBlock :: "voteset \<Rightarrow> voteset" where
  "UniqueVoterAndBlock s = AddVotes (latestVotes (\<lambda>v. (vID v, vBlock v)) s) NewVoteSet"

definition UniqueVoter :: "voteset \<Rightarrow> voteset" where
  "UniqueVoter s = AddVotes (latestVotes vID s) NewVoteSet"

section \<open>Well-formed vote sets\<close>

abbreviation voteset_wf :: "voteset \<Rightarrow> bool" where
  "voteset_wf s \<equiv> keyed vote_key s"

lemma AddVotes_put_all: "AddVotes vs s = put_all vote_key vs s"
proof -
  have "AddVote = put vote_key"
    by (intro ext) (simp add: AddVote_def)
  then show ?thesis
    by (simp add: AddVotes_def put_all_def)
qed

lemma vote_key_vID: "keyed vID s \<Longrightarrow> voteset_wf s"
  by (induction s) (auto simp: vote_key_def)

lemma vote_key_vID_vBlock: "keyed (\<lambda>v. (vID v, vBlock v)) s \<Longrightarrow> voteset_wf s"
  by (induction s) (auto simp: vote_key_def)

lemma mset_Votes [simp]: "mset (Votes s) = mset s"
  by (simp add: Votes_def)

lemma set_Votes [simp]: "set (Votes s) = set s"
  by (simp add: Votes_def)

lemma wf_Votes [simp]: "keyed f (Votes s) \<longleftrightarrow> keyed f s"
  by (rule keyed_mset_eq) simp

lemma AddVote_wf [simp]: "voteset_wf s \<Longrightarrow> voteset_wf (AddVote v s)"
  by (simp add: AddVote_def keyed_put)

lemma AddVotes_wf [simp]: "voteset_wf s \<Longrightarrow> voteset_wf (AddVotes vs s)"
  by (simp add: AddVotes_put_all keyed_put_all)

lemma NewVoteSet_wf [simp]: "voteset_wf NewVoteSet"
  by (simp add: NewVoteSet_def)

lemma Merge_wf: "voteset_wf (Merge s t)"
  by (simp add: Merge_def)

lemma lookup_Votes: "voteset_wf s \<Longrightarrow> lookup vote_key k (Votes s) = lookup vote_key k s"
  by (rule lookup_mset_eq) simp_all

lemma lookup_Merge:
  assumes "voteset_wf s" "voteset_wf t"
  shows "lookup vote_key k (Merge s t) =
    (case lookup vote_key k t of Some v \<Rightarrow> Some v | None \<Rightarrow> lookup vote_key k s)"
  using assms
  by (simp add: Merge_def AddVotes_put_all lookup_put_all lookup_Votes NewVoteSet_def split: option.splits)

lemma Copy_mset: "voteset_wf s \<Longrightarrow> mset (VoteSet_Copy s) = mset s"
  by (simp add: VoteSet_Copy_def AddVotes_put_all NewVoteSet_def put_all_empty)

lemma decode_encode_mset:
  assumes "\<And>vs. decode (encode vs) = Some vs" "voteset_wf s"
  shows "\<exists>t. VoteSet_DecodeRLP decode (VoteSet_EncodeRLP encode (Some s)) = Some t \<and> mset t = mset s"
  using assms by (simp add: VoteSet_DecodeRLP_def VoteSet_EncodeRLP_def AddVotes_put_all NewVoteSet_def put_all_empty)

lemma VoteSet_Validate_OK_iff: "VoteSet_Validate C s = OK \<longleftrightarrow> (\<forall>v \<in> set s. Vote_Validate C v = OK)"
proof (induction s)
  case (Cons v s)
  then show ?case
    by (cases "Vote_Validate C v") auto
qed simp

section \<open>The latest vote of each key\<close>

definition latest_inv :: "(vote \<Rightarrow> 'k) \<Rightarrow> vote set \<Rightarrow> vote list \<Rightarrow> bool" where
  "latest_inv key seen latest \<longleftrightarrow>
    keyed key latest \<and> set latest \<subseteq> seen \<and>
    (\<forall>v \<in> seen. \<exists>p \<in> set latest. key p = key v \<and> vEpoch v \<le> vEpoch p)"

lemma latest_inv_put:
  assumes inv: "latest_inv key seen latest"
    and newer: "\<And>p. p \<in> set latest \<Longrightarrow> key p = key v \<Longrightarrow> vEpoch p \<le> vEpoch v"
  shows "latest_inv key (insert v seen) (put key v latest)"
proof -
  have keyed: "keyed key latest"
    using inv by (simp add: latest_inv_def)
  have "\<exists>q \<in> set (put key v latest). key q = key u \<and> vEpoch u \<le> vEpoch q" if u: "u \<in> seen" for u
  proof -
    obtain p where p: "p \<in> set latest" "key p = key u" "vEpoch u \<le> vEpoch p"
      using inv u by (auto simp: latest_inv_def)
    show ?thesis
    proof (cases "key p = key v")
      case True
      with newer[OF p(1)] p have "vEpoch u \<le> vEpoch v" "key v = key u"
        by auto
      then show ?thesis
        using in_set_put by metis
    next
      case False
      with p keyed show ?thesis
        by (auto simp: set_put)
    qed
  qed
  then show ?thesis
    using inv keyed by (auto simp: latest_inv_def keyed_put set_put)
qed

lemma latest_step_inv:
  assumes "latest_inv key seen latest"
  shows "latest_inv key (insert v seen) (latest_step key v latest)"
proof (cases "lookup key (key v) latest")
  case None
  then have "key p \<noteq> key v" if "p \<in> set latest" for p
    using that unfolding lookup_None_iff by (metis imageI)
  with latest_inv_put[OF assms, of v] None show ?thesis
    by (auto simp: latest_step_def)
next
  case (Some prev)
  then have prev: "prev \<in> set latest" "key prev = key v"
    by (auto dest: lookup_SomeD)
  have "inj_on key (set latest)"
    using assms by (simp add: latest_inv_def distinct_map)
  then have unique: "p = prev" if "p \<in> set latest" "key p = key v" for p
    using prev that inj_onD[of key "set latest" p prev] by simp
  show ?thesis
  proof (cases "vEpoch v \<le> vEpoch prev")
    case True
    with Some prev assms show ?thesis
      by (auto simp: latest_step_def latest_inv_def)
  next
    case False
    have "latest_inv key (insert v seen) (put key v latest)"
    proof (rule latest_inv_put[OF assms])
      fix p
      assume "p \<in> set latest" "key p = key v"
      then show "vEpoch p \<le> vEpoch v"
        using unique[of p] False by simp
    qed
    with Some False show ?thesis
      by (simp add: latest_step_def)
  qed
qed

lemma latestVotes_inv: "latest_inv key (set s) (latestVotes key s)"
proof -
  have "latest_inv key (set s \<union> seen) (fold (latest_step key) s latest)"
    if "latest_inv key seen latest" for seen latest
    using that
  proof (induction s arbitrary: seen latest)
    case (Cons v s)
    from Cons.IH[OF latest_step_inv[OF Cons.prems, of v]] show ?case
      by simp
  qed simp
  from this[of "{}" "[]"] show ?thesis
    by (simp add: latestVotes_def latest_inv_def)
qed

lemma latestVotes_id: "keyed key s \<Longrightarrow> latestVotes key s = s"
proof -
  have "fold (latest_step key) s latest = latest @ s" if "keyed key (latest @ s)" for latest
    using that
  proof (induction s arbitrary: latest)
    case (Cons v s)
    then have fresh: "key v \<notin> key ` set latest"
      by auto
    then have "lookup key (key v) latest = None"
      by (simp add: lookup_None_iff)
    with fresh have "latest_step key v latest = latest @ [v]"
      by (simp add: latest_step_def put_fresh)
    with Cons show ?case
      by simp
  qed simp
  then show "keyed key s \<Longrightarrow> latestVotes key s = s"
    by (simp add: latestVotes_def)
qed

lemma keyed_latestVotes: "keyed key (latestVotes key s)"
  using latestVotes_inv[of key s] by (simp add: latest_inv_def)

lemma UniqueVoter_latest: "UniqueVoter s = latestVotes vID s"
  using keyed_latestVotes[of vID s]
  by (simp add: UniqueVoter_def AddVotes_put_all NewVoteSet_def put_all_empty vote_key_vID)

lemma UniqueVoterAndBlock_latest: "UniqueVoterAndBlock s = latestVotes (\<lambda>v. (vID v, vBlock v)) s"
  using keyed_latestVotes[of "\<lambda>v. (vID v, vBlock v)" s]
  by (simp add: UniqueVoterAndBlock_def AddVotes_put_all NewVoteSet_def put_all_empty vote_key_vID_vBlock)

lemma keyed_UniqueVoter [simp]: "keyed vID (UniqueVoter s)"
  by (simp add: UniqueVoter_latest keyed_latestVotes)

lemma UniqueVoter_voters: "vID ` set (UniqueVoter s) = vID ` set s"
proof
  have inv: "latest_inv vID (set s) (UniqueVoter s)"
    by (simp add: UniqueVoter_latest latestVotes_inv)
  then show "vID ` set (UniqueVoter s) \<subseteq> vID ` set s"
    by (auto simp: latest_inv_def)
  show "vID ` set s \<subseteq> vID ` set (UniqueVoter s)"
  proof
    fix a
    assume "a \<in> vID ` set s"
    then obtain p where "p \<in> set (UniqueVoter s)" "vID p = a"
      using inv by (fastforce simp: latest_inv_def)
    then show "a \<in> vID ` set (UniqueVoter s)"
      by blast
  qed
qed

lemma UniqueVoter_size: "VoteSet_Size (UniqueVoter s) = card (vID ` set s)"
  using keyed_card[OF keyed_UniqueVoter, of s] by (simp add: VoteSet_Size_def UniqueVoter_voters)

lemma UniqueVoter_subset: "set (UniqueVoter s) \<subseteq> set s"
  using latestVotes_inv[of vID s] by (simp add: UniqueVoter_latest latest_inv_def)

lemma UniqueVoter_id: "keyed vID s \<Longrightarrow> UniqueVoter s = s"
  by (simp add: UniqueVoter_latest latestVotes_id)

lemma UniqueVoter_same_size_iff: "VoteSet_Size (UniqueVoter s) = VoteSet_Size s \<longleftrightarrow> keyed vID s"
proof -
  have "card (set (map vID s)) = length (map vID s) \<longleftrightarrow> keyed vID s"
    using card_distinct distinct_card by blast
  then show ?thesis
    by (simp add: UniqueVoter_size) (simp add: VoteSet_Size_def)
qed

section \<open>Properties\<close>

text \<open>A codec and a signature scheme for examples: a signature is any non-empty byte string.\<close>

definition example_crypto :: crypto where
  "example_crypto =
    \<lparr>sigIsEmpty = (\<lambda>sig. sig = []), sigVerify = (\<lambda>sig _ _. sig \<noteq> []),
     rlpVote = (\<lambda>v. [ucast (vBlock v), ucast (vEpoch v), ucast (vID v)]), keccak256 = (\<lambda>b. word_of_nat (length b))\<rparr>"

definition example_vote :: "hash \<Rightarrow> uint64 \<Rightarrow> address \<Rightarrow> vote" where
  "example_vote b e a =
    \<lparr>vBlock = b, vHeight = 1, vMainchainHeight = 1, vEpoch = e, vID = a, vSignature = Some [1]\<rparr>"

text \<open>A printer of words with strings of one length.\<close>

definition word_string :: "'a::len word \<Rightarrow> string" where
  "word_string w = map (\<lambda>i. if bit w i then CHR ''1'' else CHR ''0'') [0..<LENGTH('a)]"

lemma length_word_string: "length (word_string (w :: 'a::len word)) = LENGTH('a)"
  by (simp add: word_string_def)

lemma word_string_inj:
  assumes "word_string v = word_string (w :: 'a::len word)"
  shows "v = w"
proof (rule bit_word_eqI)
  fix n
  assume "n < LENGTH('a)"
  then show "bit v n \<longleftrightarrow> bit w n"
    using arg_cong[OF assms, of "\<lambda>s. s ! n"] by (simp add: word_string_def split: if_splits)
qed

lemmas example_vote_simps = example_crypto_def example_vote_def

text \<open>C14: \<open>UniqueVoter\<close> returns votes of the set, exactly one for each voter of the set, and the vote it
  keeps for a voter has the latest epoch among that voter's votes. This holds for every order in which
  the loop visits the map.\<close>

theorem UniqueVoter_spec:
  "distinct (map vID (UniqueVoter s)) \<and> set (UniqueVoter s) \<subseteq> set s \<and>
   vID ` set (UniqueVoter s) = vID ` set s \<and>
   (\<forall>v w. v \<in> set (UniqueVoter s) \<and> w \<in> set s \<and> vID w = vID v \<longrightarrow> vEpoch w \<le> vEpoch v)"
proof -
  have inv: "latest_inv vID (set s) (UniqueVoter s)"
    by (simp add: UniqueVoter_latest latestVotes_inv)
  have "vEpoch w \<le> vEpoch v" if v: "v \<in> set (UniqueVoter s)" and w: "w \<in> set s" "vID w = vID v" for v w
  proof -
    obtain p where p: "p \<in> set (UniqueVoter s)" "vID p = vID w" "vEpoch w \<le> vEpoch p"
      using inv w(1) by (auto simp: latest_inv_def)
    then have "p = v"
      using inj_onD[of vID "set (UniqueVoter s)" p v] keyed_UniqueVoter[of s] v w(2) by (simp add: distinct_map)
    with p show ?thesis
      by simp
  qed
  then show ?thesis
    using UniqueVoter_subset UniqueVoter_voters by auto
qed

theorem UniqueVoter_spec_witness:
  "vEpoch (example_vote 1 4 7) \<le> vEpoch (example_vote 2 5 7)
   \<and> UniqueVoter [example_vote 1 4 7, example_vote 2 5 7, example_vote 1 4 8] =
      [example_vote 2 5 7, example_vote 1 4 8]"
proof -
  have eq: "UniqueVoter [example_vote 1 4 7, example_vote 2 5 7, example_vote 1 4 8] =
      [example_vote 2 5 7, example_vote 1 4 8]"
    by (simp add: UniqueVoter_latest latestVotes_def latest_step_def example_vote_def)
  with UniqueVoter_spec[of "[example_vote 1 4 7, example_vote 2 5 7, example_vote 1 4 8]"]
  show ?thesis
    by (simp add: example_vote_def)
qed

text \<open>C18: the votes of \<open>Merge\<close> are, key by key, those of the second set, and those of the first
  where the second has none.\<close>

theorem Merge_lookup:
  assumes "voteset_wf s" "voteset_wf t"
  shows "voteset_wf (Merge s t) \<and>
    (\<forall>k. lookup vote_key k (Merge s t) =
      (case lookup vote_key k t of Some v \<Rightarrow> Some v | None \<Rightarrow> lookup vote_key k s))"
  using assms Merge_wf lookup_Merge by blast

theorem Merge_lookup_witness:
  "lookup vote_key (8, 1, 4) (Merge [example_vote 1 4 7] [example_vote 1 4 8]) = Some (example_vote 1 4 8)"
  using Merge_lookup[of "[example_vote 1 4 7]" "[example_vote 1 4 8]"]
  by (simp add: example_vote_def vote_key_def)

text \<open>C20: the key string that \<open>AddVote\<close> builds determines voter, block and epoch, provided addresses
  and hashes print to strings of a fixed length that determine them. Two votes share an entry of the
  map exactly when the three fields agree.\<close>

theorem vote_key_string_inj:
  assumes fa: "\<And>a b. fa a = fa b \<Longrightarrow> a = b" "\<And>a. length (fa a) = la"
    and fh: "\<And>a b. fh a = fh b \<Longrightarrow> a = b" "\<And>a. length (fh a) = lh"
  shows "vote_key_string fa fh v = vote_key_string fa fh w \<longleftrightarrow> vote_key v = vote_key w"
proof
  assume "vote_key_string fa fh v = vote_key_string fa fh w"
  then have "fa (vID v) = fa (vID w)" "fh (vBlock v) = fh (vBlock w)" "dec (unat (vEpoch v)) = dec (unat (vEpoch w))"
    by (auto simp: vote_key_string_def append_eq_append_conv fa(2) fh(2))
  moreover from this(3) have "vEpoch v = vEpoch w"
    unfolding dec_inj by (rule iffD2[OF word_unat_eq_iff])
  ultimately show "vote_key v = vote_key w"
    using fa(1) fh(1) by (simp add: vote_key_def)
qed (simp add: vote_key_string_def vote_key_def)

theorem vote_key_string_inj_witness:
  "vote_key_string word_string word_string (example_vote 1 4 7)
    \<noteq> vote_key_string word_string word_string (example_vote 1 14 7)"
  using vote_key_string_inj[of word_string "LENGTH(160)" word_string "LENGTH(256)"
      "example_vote 1 4 7" "example_vote 1 14 7", OF word_string_inj length_word_string word_string_inj length_word_string]
  by (simp add: vote_key_def example_vote_def)

text \<open>C19: the signature of a vote does not cover its \<open>Height\<close> and \<open>MainchainHeight\<close>, and neither does
  its key in a vote set: from any vote that validates, anyone can build one with other heights that
  validates as well and that replaces the original when it is added after it.\<close>

theorem vote_heights_unauthenticated:
  assumes "Vote_Validate C v = OK" "voteset_wf s"
  shows "Vote_Validate C (v\<lparr>vHeight := h, vMainchainHeight := m\<rparr>) = OK \<and>
    lookup vote_key (vote_key v) (AddVote (v\<lparr>vHeight := h, vMainchainHeight := m\<rparr>) (AddVote v s))
      = Some (v\<lparr>vHeight := h, vMainchainHeight := m\<rparr>)"
  using assms by (simp add: Vote_Validate_OK_iff SignBytes_def AddVote_def lookup_put vote_key_def)

theorem vote_heights_unauthenticated_witness:
  "Vote_Validate example_crypto ((example_vote 1 4 7)\<lparr>vHeight := 1000, vMainchainHeight := 9\<rparr>) = OK"
  using vote_heights_unauthenticated[of example_crypto "example_vote 1 4 7" "[]" 1000 9]
  by (simp add: Vote_Validate_def example_vote_simps)

text \<open>C21: decoding what \<open>EncodeRLP\<close> writes for a vote set gives a set with the same votes, for every
  codec of vote lists that decodes what it encodes.\<close>

theorem voteset_codec_roundtrip:
  assumes "\<And>vs. decode (encode vs) = Some vs" "voteset_wf s"
  shows "\<exists>t. VoteSet_DecodeRLP decode (VoteSet_EncodeRLP encode (Some s)) = Some t \<and>
    voteset_wf t \<and> mset t = mset s"
proof -
  obtain t where "VoteSet_DecodeRLP decode (VoteSet_EncodeRLP encode (Some s)) = Some t" "mset t = mset s"
    using decode_encode_mset[of decode encode, OF assms] by blast
  with keyed_mset_eq[of t s vote_key] assms(2) show ?thesis
    by auto
qed

theorem voteset_codec_roundtrip_witness:
  "\<exists>t. VoteSet_DecodeRLP Some (VoteSet_EncodeRLP (\<lambda>vs. vs) (Some [example_vote 1 4 8, example_vote 1 4 7])) = Some t
    \<and> mset t = {# example_vote 1 4 7, example_vote 1 4 8 #}"
  using voteset_codec_roundtrip[of Some "\<lambda>vs. vs" "[example_vote 1 4 8, example_vote 1 4 7]"]
  by (auto simp: vote_key_def example_vote_def)

end
