(* ===== verification/ValidatorSet.thy ===== *)
theory ValidatorSet
  imports Vote
begin

text \<open>
  Validators and validator sets (\<open>core/validator.go\<close>), the votes of a set's members
  (\<open>VoteSet.FilterByValidators\<close>), and the two-thirds majority of stake.

  The contract of a majority, what consensus relies on, is the locale \<open>quorum_system\<close>: a majority of
  distinct voters holds more than two thirds of the weight. The locale shows that two majorities
  share more than a third; the interpretation \<open>vq\<close> discharges its laws for \<open>HasMajorityVotes\<close> on
  well-formed validator sets (distinct addresses, no negative stake).
\<close>

section \<open>Validators\<close>

record validator =
  valAddress :: address
  valStake :: int

definition Validator_Equals :: "validator \<Rightarrow> validator \<Rightarrow> bool" where
  "Validator_Equals v x =
    (if valAddress v \<noteq> valAddress x then False
     else if valStake v \<noteq> valStake x then False
     else True)"

section \<open>Validator sets\<close>

record validatorset =
  dynasty :: int
  validators :: "validator list"

definition NewValidatorSet :: "int \<Rightarrow> validatorset" where
  "NewValidatorSet d = \<lparr>dynasty = d, validators = []\<rparr>"

definition ValidatorSet_Size :: "validatorset \<Rightarrow> nat" where
  "ValidatorSet_Size s = length (validators s)"

text \<open>\<open>sort.Sort(ByID(s.validators))\<close>; the contract of the sort is in \<open>AddValidator_any_sort\<close>.\<close>

definition AddValidator :: "validator \<Rightarrow> validatorset \<Rightarrow> validatorset" where
  "AddValidator v s = s\<lparr>validators := sort_key valAddress (validators s @ [v])\<rparr>"

definition ValidatorSet_Copy :: "validatorset \<Rightarrow> validatorset" where
  "ValidatorSet_Copy s = fold AddValidator (validators s) (NewValidatorSet (dynasty s))"

fun equal_upto :: "nat \<Rightarrow> validator list \<Rightarrow> validator list \<Rightarrow> bool" where
  "equal_upto 0 xs ys = True"
| "equal_upto (Suc n) (x # xs) (y # ys) = (if \<not> Validator_Equals x y then False else equal_upto n xs ys)"
| "equal_upto (Suc n) _ _ = False"

definition ValidatorSet_Equals :: "validatorset \<Rightarrow> validatorset \<Rightarrow> bool" where
  "ValidatorSet_Equals s t =
    (if dynasty s \<noteq> dynasty t then False
     else if length (validators s) \<noteq> length (validators t) then False
     else equal_upto (length (validators s)) (validators s) (validators t))"

definition GetValidator :: "validatorset \<Rightarrow> address \<Rightarrow> validator option" where
  "GetValidator s a = lookup valAddress a (validators s)"

definition TotalStake :: "validatorset \<Rightarrow> int" where
  "TotalStake s = fold (\<lambda>v ret. ret + valStake v) (validators s) 0"

definition votedStake :: "validatorset \<Rightarrow> vote list \<Rightarrow> int" where
  "votedStake s votes =
    fold (\<lambda>vote acc. case GetValidator s (vID vote) of
                       Some validator \<Rightarrow> acc + valStake validator
                     | None \<Rightarrow> acc) votes 0"

definition HasMajorityVotes :: "validatorset \<Rightarrow> vote list \<Rightarrow> bool" where
  "HasMajorityVotes s votes = (votedStake s votes * 3 > TotalStake s * 2)"

definition HasMajority :: "validatorset \<Rightarrow> voteset \<Rightarrow> bool" where
  "HasMajority s votes = HasMajorityVotes s (Votes votes)"

definition FilterByValidators :: "validatorset \<Rightarrow> voteset \<Rightarrow> voteset" where
  "FilterByValidators vs s =
    fold (\<lambda>v ret. if GetValidator vs (vID v) \<noteq> None then AddVote v ret else ret) s NewVoteSet"

section \<open>Sums of stake\<close>

definition stakeOf :: "validatorset \<Rightarrow> address \<Rightarrow> int" where
  "stakeOf s a = (case GetValidator s a of Some v \<Rightarrow> valStake v | None \<Rightarrow> 0)"

definition members :: "validatorset \<Rightarrow> address set" where
  "members s = valAddress ` set (validators s)"

definition validatorset_wf :: "validatorset \<Rightarrow> bool" where
  "validatorset_wf s \<longleftrightarrow> keyed valAddress (validators s) \<and> (\<forall>v \<in> set (validators s). 0 \<le> valStake v)"

lemma fold_plus_sum_list: "fold (\<lambda>x acc. acc + f x) xs a = a + (\<Sum>x\<leftarrow>xs. f x :: int)"
  by (induction xs arbitrary: a) auto

lemma TotalStake_sum_list: "TotalStake s = (\<Sum>v\<leftarrow>validators s. valStake v)"
  by (simp add: TotalStake_def fold_plus_sum_list)

lemma votedStake_sum_list: "votedStake s votes = (\<Sum>v\<leftarrow>votes. stakeOf s (vID v))"
proof -
  have "(\<lambda>vote acc. case GetValidator s (vID vote) of Some v \<Rightarrow> acc + valStake v | None \<Rightarrow> acc)
      = (\<lambda>vote acc. acc + stakeOf s (vID vote))"
    by (intro ext) (simp add: stakeOf_def split: option.splits)
  then have "votedStake s votes = fold (\<lambda>vote acc. acc + stakeOf s (vID vote)) votes 0"
    unfolding votedStake_def by (rule arg_cong)
  then show ?thesis
    by (simp add: fold_plus_sum_list)
qed

lemma GetValidator_None_iff: "GetValidator s a = None \<longleftrightarrow> a \<notin> members s"
  by (simp add: GetValidator_def lookup_None_iff members_def)

lemma GetValidator_ex_iff: "(\<exists>v. GetValidator s a = Some v) \<longleftrightarrow> a \<in> members s"
  using GetValidator_None_iff[of s a] by auto

lemma GetValidator_SomeD: "GetValidator s a = Some v \<Longrightarrow> v \<in> set (validators s) \<and> valAddress v = a"
  unfolding GetValidator_def by (rule lookup_SomeD)

lemma stakeOf_member:
  "validatorset_wf s \<Longrightarrow> v \<in> set (validators s) \<Longrightarrow> stakeOf s (valAddress v) = valStake v"
  using lookup_Some_iff[of valAddress "validators s" "valAddress v" v]
  by (simp add: stakeOf_def GetValidator_def validatorset_wf_def)

lemma stakeOf_nonmember: "a \<notin> members s \<Longrightarrow> stakeOf s a = 0"
  using GetValidator_None_iff[of s a] by (simp add: stakeOf_def)

lemma stakeOf_nonneg: "validatorset_wf s \<Longrightarrow> 0 \<le> stakeOf s a"
  by (auto simp: stakeOf_def GetValidator_def validatorset_wf_def split: option.splits dest: lookup_SomeD)

lemma finite_members [simp]: "finite (members s)"
  by (simp add: members_def)

lemma TotalStake_sum:
  assumes "validatorset_wf s"
  shows "TotalStake s = (\<Sum>a \<in> members s. stakeOf s a)"
proof -
  have "(\<Sum>v\<leftarrow>validators s. valStake v) = (\<Sum>v\<leftarrow>validators s. stakeOf s (valAddress v))"
    using stakeOf_member[OF assms] by (intro arg_cong[where f = sum_list] map_cong) auto
  also have "\<dots> = (\<Sum>a\<leftarrow>map valAddress (validators s). stakeOf s a)"
    by (simp add: o_def)
  also have "\<dots> = (\<Sum>a \<in> set (map valAddress (validators s)). stakeOf s a)"
    using assms by (intro sum_list_distinct_conv_sum_set) (simp add: validatorset_wf_def)
  finally show ?thesis
    by (simp add: TotalStake_sum_list members_def)
qed

lemma votedStake_sum:
  assumes "keyed vID votes"
  shows "votedStake s votes = (\<Sum>a \<in> vID ` set votes \<inter> members s. stakeOf s a)"
proof -
  have "votedStake s votes = (\<Sum>a\<leftarrow>map vID votes. stakeOf s a)"
    by (simp add: votedStake_sum_list o_def)
  also have "\<dots> = (\<Sum>a \<in> vID ` set votes. stakeOf s a)"
    using sum_list_distinct_conv_sum_set[OF assms] by simp
  also have "\<dots> = (\<Sum>a \<in> vID ` set votes \<inter> members s. stakeOf s a)"
    by (rule sum.mono_neutral_right) (auto simp: stakeOf_nonmember)
  finally show ?thesis .
qed

lemma votedStake_mset: "mset xs = mset ys \<Longrightarrow> votedStake s xs = votedStake s ys"
  using arg_cong[where f = "\<lambda>M. \<Sum>v \<in># M. stakeOf s (vID v)"]
  by (simp add: votedStake_sum_list flip: sum_mset_sum_list)

lemma HasMajority_mset: "mset xs = mset ys \<Longrightarrow> HasMajority s xs = HasMajority s ys"
  unfolding HasMajority_def HasMajorityVotes_def
  using votedStake_mset[of "Votes xs" "Votes ys" s] by simp

lemma HasMajority_iff: "HasMajority s votes = HasMajorityVotes s votes"
  unfolding HasMajority_def HasMajorityVotes_def
  using votedStake_mset[of "Votes votes" votes s] by simp

section \<open>Quorums\<close>

locale quorum_system =
  fixes invar :: "'s \<Rightarrow> bool"
    and weight :: "'s \<Rightarrow> 'id \<Rightarrow> int"
    and member_ids :: "'s \<Rightarrow> 'id set"
    and voter :: "'v \<Rightarrow> 'id"
    and majority :: "'s \<Rightarrow> 'v list \<Rightarrow> bool"
  assumes finite_ids: "invar s \<Longrightarrow> finite (member_ids s)"
    and weight_nonneg: "invar s \<Longrightarrow> 0 \<le> weight s i"
    and majority_iff: "invar s \<Longrightarrow> distinct (map voter vs) \<Longrightarrow>
      majority s vs \<longleftrightarrow>
        2 * (\<Sum>i \<in> member_ids s. weight s i) < 3 * (\<Sum>i \<in> voter ` set vs \<inter> member_ids s. weight s i)"
begin

lemma shared_weight:
  assumes inv: "invar s"
    and vs: "distinct (map voter vs)" "majority s vs"
    and ws: "distinct (map voter ws)" "majority s ws"
  shows "(\<Sum>i \<in> member_ids s. weight s i)
      < 3 * (\<Sum>i \<in> voter ` set vs \<inter> voter ` set ws \<inter> member_ids s. weight s i)"
proof -
  let ?V = "voter ` set vs \<inter> member_ids s" and ?W = "voter ` set ws \<inter> member_ids s"
  let ?w = "\<lambda>A. \<Sum>i \<in> A. weight s i"
  have fin: "finite ?V" "finite ?W"
    using finite_ids[OF inv] by auto
  have "?w (?V \<union> ?W) + ?w (?V \<inter> ?W) = ?w ?V + ?w ?W"
    using fin by (rule sum.union_inter)
  moreover have "?w (?V \<union> ?W) \<le> ?w (member_ids s)"
    using finite_ids[OF inv] weight_nonneg[OF inv] by (intro sum_mono2) auto
  moreover have "?V \<inter> ?W = voter ` set vs \<inter> voter ` set ws \<inter> member_ids s"
    by auto
  ultimately show ?thesis
    using vs ws majority_iff[OF inv] by simp
qed

lemma shared_voter:
  assumes inv: "invar s"
    and vs: "distinct (map voter vs)" "majority s vs"
    and ws: "distinct (map voter ws)" "majority s ws"
  shows "\<exists>i \<in> member_ids s. 0 < weight s i \<and> i \<in> voter ` set vs \<and> i \<in> voter ` set ws"
proof (rule ccontr)
  let ?I = "voter ` set vs \<inter> voter ` set ws \<inter> member_ids s"
  assume "\<not> ?thesis"
  then have "weight s i \<le> 0" if "i \<in> ?I" for i
    using that by force
  then have "(\<Sum>i \<in> ?I. weight s i) \<le> 0"
    by (rule sum_nonpos)
  moreover have "0 \<le> (\<Sum>i \<in> member_ids s. weight s i)"
    by (rule sum_nonneg) (rule weight_nonneg[OF inv])
  ultimately show False
    using shared_weight[OF inv vs ws] by simp
qed

lemma majority_mono:
  assumes inv: "invar s" and vs: "distinct (map voter vs)" "majority s vs"
    and ws: "distinct (map voter ws)" "voter ` set vs \<subseteq> voter ` set ws"
  shows "majority s ws"
proof -
  have "(\<Sum>i \<in> voter ` set vs \<inter> member_ids s. weight s i) \<le> (\<Sum>i \<in> voter ` set ws \<inter> member_ids s. weight s i)"
    using ws(2) finite_ids[OF inv] weight_nonneg[OF inv] by (intro sum_mono2) auto
  then show ?thesis
    using vs ws majority_iff[OF inv] by simp
qed

lemma blocking_minority:
  assumes inv: "invar s" and vs: "distinct (map voter vs)"
    and absent: "A \<inter> voter ` set vs = {}" "A \<subseteq> member_ids s"
    and third: "(\<Sum>i \<in> member_ids s. weight s i) \<le> 3 * (\<Sum>i \<in> A. weight s i)"
  shows "\<not> majority s vs"
proof -
  let ?V = "voter ` set vs \<inter> member_ids s"
  have fin: "finite ?V" "finite A"
    using finite_ids[OF inv] absent(2) by (auto intro: finite_subset)
  have "(\<Sum>i \<in> ?V. weight s i) + (\<Sum>i \<in> A. weight s i) = (\<Sum>i \<in> ?V \<union> A. weight s i)"
    using fin absent(1) by (intro sum.union_disjoint[symmetric]) auto
  also have "\<dots> \<le> (\<Sum>i \<in> member_ids s. weight s i)"
    using finite_ids[OF inv] weight_nonneg[OF inv] absent(2) by (intro sum_mono2) auto
  finally show ?thesis
    using third majority_iff[OF inv vs] by simp
qed

end

interpretation vq: quorum_system validatorset_wf stakeOf members vID HasMajorityVotes
proof
  fix s :: validatorset and vs :: "vote list"
  assume "validatorset_wf s" "distinct (map vID vs)"
  then show "HasMajorityVotes s vs \<longleftrightarrow>
      2 * (\<Sum>i \<in> members s. stakeOf s i) < 3 * (\<Sum>i \<in> vID ` set vs \<inter> members s. stakeOf s i)"
    by (simp add: HasMajorityVotes_def TotalStake_sum votedStake_sum mult.commute)
qed (auto simp: stakeOf_nonneg)

section \<open>Building validator sets\<close>

definition validatorset_sorted :: "validatorset \<Rightarrow> bool" where
  "validatorset_sorted s \<longleftrightarrow> sorted (map valAddress (validators s))"

lemma AddValidator_sorted: "validatorset_sorted (AddValidator v s)"
  by (simp add: validatorset_sorted_def AddValidator_def)

lemma AddValidator_mset: "mset (validators (AddValidator v s)) = add_mset v (mset (validators s))"
  by (simp add: AddValidator_def)

lemma AddValidator_wf:
  assumes "validatorset_wf s" "valAddress v \<notin> members s" "0 \<le> valStake v"
  shows "validatorset_wf (AddValidator v s)"
proof -
  have "keyed valAddress (validators s @ [v])"
    using assms by (auto simp: validatorset_wf_def members_def)
  then have "keyed valAddress (validators (AddValidator v s))"
    by (subst keyed_mset_eq[of _ "validators s @ [v]"]) (simp_all add: AddValidator_mset)
  then show ?thesis
    using assms by (auto simp: validatorset_wf_def AddValidator_def)
qed

lemma GetValidator_AddValidator:
  assumes "validatorset_wf s" "valAddress v \<notin> members s"
  shows "GetValidator (AddValidator v s) a = (if a = valAddress v then Some v else GetValidator s a)"
proof -
  have keyed: "keyed valAddress (v # validators s)"
    using assms by (auto simp: validatorset_wf_def members_def)
  have "lookup valAddress a (validators (AddValidator v s)) = lookup valAddress a (v # validators s)"
    by (rule lookup_mset_eq[symmetric]) (use keyed in \<open>simp_all add: AddValidator_mset\<close>)
  then show ?thesis
    by (auto simp: GetValidator_def)
qed

lemma TotalStake_AddValidator: "TotalStake (AddValidator v s) = TotalStake s + valStake v"
proof -
  have "TotalStake t = (\<Sum>v \<in># mset (validators t). valStake v)" for t
    by (simp add: TotalStake_sum_list flip: sum_mset_sum_list)
  then show ?thesis
    by (simp add: AddValidator_mset)
qed

lemma AddValidator_append:
  "sorted (map valAddress (validators s @ [v])) \<Longrightarrow> AddValidator v s = s\<lparr>validators := validators s @ [v]\<rparr>"
  by (simp add: AddValidator_def sort_key_id_if_sorted)

lemma fold_AddValidator_append:
  "sorted (map valAddress (validators s @ xs)) \<Longrightarrow>
    fold AddValidator xs s = s\<lparr>validators := validators s @ xs\<rparr>"
proof (induction xs arbitrary: s)
  case (Cons x xs)
  then have "AddValidator x s = s\<lparr>validators := validators s @ [x]\<rparr>"
    by (intro AddValidator_append) (auto simp: sorted_append)
  with Cons show ?case
    by simp
qed simp

lemma Copy_sorted: "validatorset_sorted s \<Longrightarrow> ValidatorSet_Copy s = s"
  by (simp add: ValidatorSet_Copy_def NewValidatorSet_def validatorset_sorted_def fold_AddValidator_append)

lemma equal_upto_iff: "length xs = n \<Longrightarrow> length ys = n \<Longrightarrow> equal_upto n xs ys \<longleftrightarrow> xs = ys"
  by (induction n xs ys rule: equal_upto.induct) (auto simp: Validator_Equals_def)

lemma Equals_iff: "ValidatorSet_Equals s t \<longleftrightarrow> s = t"
  by (auto simp: ValidatorSet_Equals_def equal_upto_iff)

section \<open>Votes of members\<close>

lemma FilterByValidators_filter:
  assumes "voteset_wf s"
  shows "FilterByValidators vs s = filter (\<lambda>v. vID v \<in> members vs) s"
proof -
  have "fold (\<lambda>v ret. if GetValidator vs (vID v) \<noteq> None then AddVote v ret else ret) s acc
      = acc @ filter (\<lambda>v. vID v \<in> members vs) s" if "voteset_wf (acc @ s)" for acc
    using that
  proof (induction s arbitrary: acc)
    case (Cons v s)
    then have "AddVote v acc = acc @ [v]"
      by (auto simp: AddVote_def intro!: put_fresh)
    moreover note GetValidator_ex_iff[of vs "vID v"]
    moreover have "voteset_wf ((acc @ [v]) @ s)" "voteset_wf (acc @ s)"
      using Cons.prems by auto
    ultimately show ?case
      using Cons.IH[of acc] Cons.IH[of "acc @ [v]"] by simp
  qed simp
  from this[of "[]"] assms show ?thesis
    by (simp add: FilterByValidators_def NewVoteSet_def)
qed

lemma FilterByValidators_majority:
  assumes "voteset_wf s"
  shows "HasMajority vs (FilterByValidators vs s) = HasMajority vs s"
proof -
  have "(\<Sum>v\<leftarrow>filter (\<lambda>v. vID v \<notin> members vs) t. stakeOf vs (vID v)) = 0" for t
    by (induction t) (auto simp: stakeOf_nonmember)
  then have "votedStake vs (filter (\<lambda>v. vID v \<in> members vs) s) = votedStake vs s"
    using sum_list_filter_split[of "\<lambda>v. stakeOf vs (vID v)" s "\<lambda>v. vID v \<in> members vs"]
    by (simp add: votedStake_sum_list)
  then show ?thesis
    by (simp add: HasMajority_iff HasMajorityVotes_def FilterByValidators_filter[OF assms])
qed

section \<open>Properties\<close>

definition example_validators :: validatorset where
  "example_validators =
    \<lparr>dynasty = 1, validators = map (\<lambda>a. \<lparr>valAddress = a, valStake = 10\<rparr>) [1, 2, 3, 4]\<rparr>"

lemmas example_validators_simps =
  example_validators_def example_vote_simps validatorset_wf_def members_def stakeOf_def GetValidator_def
  HasMajorityVotes_def votedStake_def TotalStake_def

text \<open>C15: adding to a well-formed set a validator with a new address and a non-negative stake gives
  a well-formed set sorted by address, whose lookups are those of the old set with the new validator
  added, and whose total stake grows by its stake. Whatever \<open>sort.Sort\<close> returns within its contract
  (a permutation sorted by address) is the list of the model.\<close>

theorem AddValidator_correct:
  assumes "validatorset_wf s" "valAddress v \<notin> members s" "0 \<le> valStake v"
  shows "validatorset_wf (AddValidator v s) \<and> validatorset_sorted (AddValidator v s) \<and>
    (\<forall>a. GetValidator (AddValidator v s) a = (if a = valAddress v then Some v else GetValidator s a)) \<and>
    TotalStake (AddValidator v s) = TotalStake s + valStake v \<and>
    (\<forall>ys. mset ys = mset (validators s @ [v]) \<and> sorted (map valAddress ys) \<longrightarrow>
      ys = validators (AddValidator v s))"
proof -
  have "keyed valAddress (validators s @ [v])"
    using assms by (auto simp: validatorset_wf_def members_def)
  then have "ys = validators (AddValidator v s)"
    if "mset ys = mset (validators s @ [v])" "sorted (map valAddress ys)" for ys
    using sort_contract_unique[OF that] by (simp add: AddValidator_def)
  then show ?thesis
    using assms AddValidator_wf AddValidator_sorted GetValidator_AddValidator TotalStake_AddValidator by blast
qed

theorem AddValidator_correct_witness:
  "TotalStake (AddValidator \<lparr>valAddress = 9, valStake = 5\<rparr> example_validators) = 45"
  using AddValidator_correct[of example_validators "\<lparr>valAddress = 9, valStake = 5\<rparr>"]
  by (simp add: example_validators_simps)

text \<open>C16: a majority of distinct voters holds more than two thirds of the stake, so it survives the
  arrival of more votes, and validators that hold a third of the stake and do not vote block it.\<close>

theorem majority_monotone_and_blocked:
  assumes "validatorset_wf s" "keyed vID vs"
  shows "(HasMajorityVotes s vs \<longrightarrow>
      (\<forall>ws. keyed vID ws \<and> vID ` set vs \<subseteq> vID ` set ws \<longrightarrow> HasMajorityVotes s ws)) \<and>
    (\<forall>A. A \<subseteq> members s \<and> A \<inter> vID ` set vs = {} \<and> TotalStake s \<le> 3 * (\<Sum>a \<in> A. stakeOf s a) \<longrightarrow>
      \<not> HasMajorityVotes s vs)"
  using vq.majority_mono[OF assms] vq.blocking_minority[OF assms] TotalStake_sum[OF assms(1)] by auto

theorem majority_monotone_and_blocked_witness:
  "\<not> HasMajorityVotes example_validators [example_vote 1 4 1, example_vote 1 4 2]"
proof -
  have absent: "{3, 4} \<subseteq> members example_validators \<and>
      {3, 4} \<inter> vID ` set [example_vote 1 4 1, example_vote 1 4 2] = {} \<and>
      TotalStake example_validators \<le> 3 * (\<Sum>a \<in> {3, 4}. stakeOf example_validators a)"
    by (simp add: example_validators_simps)
  have wf: "validatorset_wf example_validators" "keyed vID [example_vote 1 4 1, example_vote 1 4 2]"
    by (simp_all add: example_validators_simps)
  from majority_monotone_and_blocked[OF wf, THEN conjunct2, THEN spec, THEN mp, OF absent] show ?thesis .
qed

text \<open>C17: votes of non-members carry no stake: \<open>FilterByValidators\<close> keeps exactly the votes of members
  and does not change whether the set has a majority.\<close>

theorem FilterByValidators_correct:
  assumes "voteset_wf s"
  shows "set (FilterByValidators vs s) = {v \<in> set s. vID v \<in> members vs} \<and>
    voteset_wf (FilterByValidators vs s) \<and>
    HasMajority vs (FilterByValidators vs s) = HasMajority vs s"
  using assms FilterByValidators_majority[OF assms]
  by (auto simp: FilterByValidators_filter distinct_map_filter)

theorem FilterByValidators_correct_witness:
  "example_vote 1 4 1 \<in> set (FilterByValidators example_validators [example_vote 1 4 1, example_vote 1 4 9]) \<and>
   example_vote 1 4 9 \<notin> set (FilterByValidators example_validators [example_vote 1 4 1, example_vote 1 4 9])"
proof -
  have wf: "voteset_wf [example_vote 1 4 1, example_vote 1 4 9]"
    by (simp add: vote_key_def example_vote_def)
  have members: "vID (example_vote 1 4 1) \<in> members example_validators"
      "vID (example_vote 1 4 9) \<notin> members example_validators"
    by (simp_all add: example_validators_def members_def example_vote_def)
  show ?thesis
    unfolding FilterByValidators_correct[OF wf, of example_validators, THEN conjunct1]
    using members by simp
qed

end
