(* ===== verification/Certificate.thy ===== *)
theory Certificate
  imports ValidatorSet
begin

text \<open>
  Commit certificates (\<open>core/vote.go\<close>): \<open>IsValid\<close> and \<open>Copy\<close>, and what a valid certificate proves.

  \<open>IsValid\<close> visits a Go map several times; the characterisation \<open>CC_IsValid_iff\<close> shows that its
  answer depends on the votes only and not on the order of the visits.
\<close>

record cc =
  ccVotes :: "voteset option"
  ccBlockHash :: hash

definition CC_Copy :: "cc \<Rightarrow> cc" where
  "CC_Copy c = \<lparr>ccVotes = map_option VoteSet_Copy (ccVotes c), ccBlockHash = ccBlockHash c\<rparr>"

fun votes_for_block :: "crypto \<Rightarrow> hash \<Rightarrow> vote list \<Rightarrow> bool" where
  "votes_for_block C h [] = True"
| "votes_for_block C h (v # vs) =
    (if vBlock v \<noteq> h then False
     else if IsError (Vote_Validate C v) then False
     else votes_for_block C h vs)"

definition CC_IsValid :: "crypto \<Rightarrow> cc \<Rightarrow> validatorset \<Rightarrow> bool" where
  "CC_IsValid C c vs =
    (case ccVotes c of
       None \<Rightarrow> False
     | Some votes \<Rightarrow>
         if VoteSet_IsEmpty votes then False
         else let filtered = UniqueVoter votes in
           if VoteSet_Size filtered \<noteq> VoteSet_Size votes then False
           else if VoteSet_Size filtered > ValidatorSet_Size vs then False
           else if \<not> votes_for_block C (ccBlockHash c) (Votes filtered) then False
           else HasMajority vs filtered)"

record 'block proposal =
  pBlock :: "'block option"
  pProposerID :: address
  pVotes :: "voteset option"

lemma votes_for_block_iff:
  "votes_for_block C h vs \<longleftrightarrow> (\<forall>v \<in> set vs. vBlock v = h \<and> Vote_Validate C v = OK)"
proof (induction vs)
  case (Cons v vs)
  then show ?case
    by (cases "Vote_Validate C v") auto
qed simp

lemma CC_IsValid_iff:
  "CC_IsValid C c vs \<longleftrightarrow>
    (\<exists>votes. ccVotes c = Some votes \<and> votes \<noteq> [] \<and> keyed vID votes \<and> length votes \<le> ValidatorSet_Size vs \<and>
      (\<forall>v \<in> set votes. vBlock v = ccBlockHash c \<and> Vote_Validate C v = OK) \<and> HasMajorityVotes vs votes)"
proof (cases "ccVotes c")
  case (Some votes)
  show ?thesis
  proof (cases "keyed vID votes")
    case True
    then have "UniqueVoter votes = votes"
      by (rule UniqueVoter_id)
    with True Some show ?thesis
      by (auto simp: CC_IsValid_def VoteSet_IsEmpty_def VoteSet_Size_def votes_for_block_iff HasMajority_iff)
  next
    case False
    then have "VoteSet_Size (UniqueVoter votes) \<noteq> VoteSet_Size votes"
      by (simp add: UniqueVoter_same_size_iff)
    with False Some show ?thesis
      by (simp add: CC_IsValid_def Let_def)
  qed
qed (simp add: CC_IsValid_def)

text \<open>Certificates with the same votes, in any order of the map.\<close>

definition cc_equiv :: "cc \<Rightarrow> cc \<Rightarrow> bool" where
  "cc_equiv c d \<longleftrightarrow> ccBlockHash c = ccBlockHash d \<and> map_option mset (ccVotes c) = map_option mset (ccVotes d)"

lemma CC_IsValid_equiv_imp:
  assumes "cc_equiv c d" "CC_IsValid C c vs"
  shows "CC_IsValid C d vs"
proof -
  obtain votes where votes: "ccVotes c = Some votes" "votes \<noteq> []" "keyed vID votes"
      "length votes \<le> ValidatorSet_Size vs" "HasMajorityVotes vs votes"
      "\<forall>v \<in> set votes. vBlock v = ccBlockHash c \<and> Vote_Validate C v = OK"
    using assms(2) by (auto simp: CC_IsValid_iff)
  then obtain votes' where votes': "ccVotes d = Some votes'" "mset votes = mset votes'"
    using assms(1) by (cases "ccVotes d") (auto simp: cc_equiv_def)
  have "HasMajorityVotes vs votes'"
    using votes(5) votedStake_mset[OF votes'(2), of vs] by (simp add: HasMajorityVotes_def)
  moreover have "length votes' = length votes" "set votes' = set votes" "keyed vID votes'"
    using mset_eq_length[OF votes'(2)] mset_eq_setD[OF votes'(2)] keyed_mset_eq[OF votes'(2), of vID] votes(3)
    by simp_all
  ultimately show ?thesis
    using votes votes'(1) assms(1) by (auto simp: CC_IsValid_iff cc_equiv_def)
qed

lemma cc_equiv_sym: "cc_equiv c d \<Longrightarrow> cc_equiv d c"
  by (simp add: cc_equiv_def)

lemma cc_equiv_Copy: "(\<And>votes. ccVotes c = Some votes \<Longrightarrow> voteset_wf votes) \<Longrightarrow> cc_equiv (CC_Copy c) c"
  by (cases "ccVotes c") (auto simp: cc_equiv_def CC_Copy_def Copy_mset)

text \<open>A validator that signed both of two certificates.\<close>

definition signed_both :: "cc \<Rightarrow> cc \<Rightarrow> address set" where
  "signed_both c d =
    (case (ccVotes c, ccVotes d) of
       (Some vs, Some ws) \<Rightarrow> vID ` set vs \<inter> vID ` set ws
     | _ \<Rightarrow> {})"

lemma CC_IsValid_signed_both_stake:
  assumes wf: "validatorset_wf vs" and c: "CC_IsValid C c vs" and d: "CC_IsValid C d vs"
  shows "TotalStake vs < 3 * (\<Sum>a \<in> signed_both c d \<inter> members vs. stakeOf vs a)"
proof -
  obtain votes where votes: "ccVotes c = Some votes" "keyed vID votes" "HasMajorityVotes vs votes"
    using c by (auto simp: CC_IsValid_iff)
  obtain votes' where votes': "ccVotes d = Some votes'" "keyed vID votes'" "HasMajorityVotes vs votes'"
    using d by (auto simp: CC_IsValid_iff)
  show ?thesis
    using vq.shared_weight[OF wf votes(2,3) votes'(2,3)] votes(1) votes'(1) TotalStake_sum[OF wf]
    by (simp add: signed_both_def)
qed

lemma CC_IsValid_double_vote:
  assumes wf: "validatorset_wf vs" and c: "CC_IsValid C c vs" and d: "CC_IsValid C d vs"
  shows "\<exists>a v w. a \<in> members vs \<and> 0 < stakeOf vs a \<and>
    vID v = a \<and> vBlock v = ccBlockHash c \<and> Vote_Validate C v = OK \<and>
    vID w = a \<and> vBlock w = ccBlockHash d \<and> Vote_Validate C w = OK"
proof -
  obtain votes where votes: "keyed vID votes" "HasMajorityVotes vs votes"
      "\<forall>v \<in> set votes. vBlock v = ccBlockHash c \<and> Vote_Validate C v = OK"
    using c by (auto simp: CC_IsValid_iff)
  obtain votes' where votes': "keyed vID votes'" "HasMajorityVotes vs votes'"
      "\<forall>v \<in> set votes'. vBlock v = ccBlockHash d \<and> Vote_Validate C v = OK"
    using d by (auto simp: CC_IsValid_iff)
  obtain a where a: "a \<in> members vs" "0 < stakeOf vs a" "a \<in> vID ` set votes" "a \<in> vID ` set votes'"
    using vq.shared_voter[OF wf votes(1,2) votes'(1,2)] by blast
  then obtain v w where "v \<in> set votes" "vID v = a" "w \<in> set votes'" "vID w = a"
    by (metis imageE)
  with a votes(3) votes'(3) show ?thesis
    by blast
qed

section \<open>Properties\<close>

definition example_cc :: "hash \<Rightarrow> address list \<Rightarrow> cc" where
  "example_cc h voters = \<lparr>ccVotes = Some (map (example_vote h 4) voters), ccBlockHash = h\<rparr>"

lemma example_cc_valid:
  "CC_IsValid example_crypto (example_cc 8 [1, 2, 3]) example_validators"
  "CC_IsValid example_crypto (example_cc 9 [2, 3, 4]) example_validators"
  by (simp_all add: CC_IsValid_iff example_cc_def example_validators_simps ValidatorSet_Size_def
      Vote_Validate_def)

text \<open>C12: two valid commit certificates of one validator set share voters that hold more than a third
  of the stake. In particular some validator with stake has signed, with signatures that verify, both
  certified blocks; if less than a third of the stake double-votes, all valid certificates are for one
  block.\<close>

theorem valid_certificates_intersect:
  assumes "validatorset_wf vs" "CC_IsValid C c vs" "CC_IsValid C d vs"
  shows "TotalStake vs < 3 * (\<Sum>a \<in> signed_both c d \<inter> members vs. stakeOf vs a) \<and>
    (\<exists>a v w. a \<in> members vs \<and> 0 < stakeOf vs a \<and>
      vID v = a \<and> vBlock v = ccBlockHash c \<and> Vote_Validate C v = OK \<and>
      vID w = a \<and> vBlock w = ccBlockHash d \<and> Vote_Validate C w = OK)"
  using CC_IsValid_signed_both_stake[OF assms] CC_IsValid_double_vote[OF assms] by blast

theorem valid_certificates_intersect_witness:
  "TotalStake example_validators <
    3 * (\<Sum>a \<in> signed_both (example_cc 8 [1, 2, 3]) (example_cc 9 [2, 3, 4]) \<inter> members example_validators.
      stakeOf example_validators a)"
proof -
  have "validatorset_wf example_validators"
    by (simp add: example_validators_simps)
  from valid_certificates_intersect[OF this example_cc_valid] show ?thesis
    by blast
qed

text \<open>C13: \<open>IsValid\<close> accepts a certificate exactly when its votes are non-empty, come from distinct
  voters that are no more than the validators, are all for the certified block and validate, and hold
  a majority. The answer is the same for every order in which the runtime visits the map of votes, and
  for a copy of the certificate.\<close>

theorem certificate_validity:
  "(CC_IsValid C c vs \<longleftrightarrow>
    (\<exists>votes. ccVotes c = Some votes \<and> votes \<noteq> [] \<and> keyed vID votes \<and> length votes \<le> ValidatorSet_Size vs \<and>
      (\<forall>v \<in> set votes. vBlock v = ccBlockHash c \<and> Vote_Validate C v = OK) \<and> HasMajorityVotes vs votes)) \<and>
   (\<forall>d. cc_equiv c d \<longrightarrow> CC_IsValid C c vs = CC_IsValid C d vs) \<and>
   ((\<forall>votes. ccVotes c = Some votes \<longrightarrow> voteset_wf votes) \<longrightarrow>
      CC_IsValid C (CC_Copy c) vs = CC_IsValid C c vs)"
proof (intro conjI)
  have order: "CC_IsValid C c vs = CC_IsValid C d vs" if "cc_equiv c d" for c d
    using CC_IsValid_equiv_imp[OF that] CC_IsValid_equiv_imp[OF cc_equiv_sym[OF that]] by blast
  then show "\<forall>d. cc_equiv c d \<longrightarrow> CC_IsValid C c vs = CC_IsValid C d vs"
    by blast
  show "(\<forall>votes. ccVotes c = Some votes \<longrightarrow> voteset_wf votes) \<longrightarrow>
      CC_IsValid C (CC_Copy c) vs = CC_IsValid C c vs"
    using order cc_equiv_Copy by blast
qed (rule CC_IsValid_iff)

theorem certificate_validity_witness:
  "CC_IsValid example_crypto (example_cc 8 [3, 1, 2]) example_validators"
proof -
  have "cc_equiv (example_cc 8 [1, 2, 3]) (example_cc 8 [3, 1, 2])"
    by (simp add: cc_equiv_def example_cc_def)
  then show ?thesis
    using certificate_validity[of example_crypto "example_cc 8 [1, 2, 3]" example_validators] example_cc_valid(1)
    by blast
qed

end
