(* ===== verification/Stake.thy ===== *)
theory Stake
  imports Prelude
begin

text \<open>
  Stakes and stake holders (\<open>core/stake.go\<close>).

  The methods loop over \<open>sh.Stakes\<close> up to the first stake of the source; each loop is a recursive
  function on the list. Errors are the left values of a sum. \<open>ReturnHeight\<close> is kept at its width: the
  sum of \<open>withdrawStake\<close> wraps.

  The operations are the steps of a small machine (\<open>stake_step\<close>); its invariant and the conservation
  of amounts are shown for every run of it.
\<close>

section \<open>Stakes\<close>

definition ReturnLockingPeriod :: uint64 where
  "ReturnLockingPeriod = 28800"

definition InvalidReturnHeight :: uint64 where
  "InvalidReturnHeight = not 0"

record stake =
  stHolder :: address
  stSource :: address
  stAmount :: int
  stWithdrawn :: bool
  stReturnHeight :: uint64

definition NewStake :: "address \<Rightarrow> int \<Rightarrow> stake" where
  "NewStake source amount =
    \<lparr>stHolder = 0, stSource = source, stAmount = amount, stWithdrawn = False, stReturnHeight = InvalidReturnHeight\<rparr>"

text \<open>The JSON form has no holder and carries the return height as a big integer.\<close>

record stakejson =
  sjSource :: address
  sjAmount :: int
  sjWithdrawn :: bool
  sjReturnHeight :: int

definition NewStakeJSON :: "stake \<Rightarrow> stakejson" where
  "NewStakeJSON st =
    \<lparr>sjSource = stSource st, sjAmount = stAmount st, sjWithdrawn = stWithdrawn st,
     sjReturnHeight = uint (stReturnHeight st)\<rparr>"

definition StakeJSON_Stake :: "stakejson \<Rightarrow> stake" where
  "StakeJSON_Stake s =
    \<lparr>stHolder = 0, stSource = sjSource s, stAmount = sjAmount s, stWithdrawn = sjWithdrawn s,
     stReturnHeight = word_of_int (sjReturnHeight s)\<rparr>"

lemma StakeJSON_roundtrip: "StakeJSON_Stake (NewStakeJSON st) = st\<lparr>stHolder := 0\<rparr>"
  by (simp add: StakeJSON_Stake_def NewStakeJSON_def)

section \<open>Stake holders\<close>

record stakeholder =
  shHolder :: address
  shStakes :: "stake list"

definition NewStakeHolder :: "address \<Rightarrow> stake list \<Rightarrow> stakeholder" where
  "NewStakeHolder holder stakes = \<lparr>shHolder = holder, shStakes = stakes\<rparr>"

definition StakeHolder_TotalStake :: "stakeholder \<Rightarrow> int" where
  "StakeHolder_TotalStake sh =
    fold (\<lambda>st total. if \<not> stWithdrawn st then total + stAmount st else total) (shStakes sh) 0"

datatype stake_error =
    InvalidStake int
  | DepositDuringLocking address
  | AlreadyWithdrawn address
  | NotWithdrawn
  | TooEarly uint64 uint64
  | NoMatchedSource address

fun deposit_loop :: "address \<Rightarrow> int \<Rightarrow> stake list \<Rightarrow> stake_error + stake list" where
  "deposit_loop source amount [] = Inr [NewStake source amount]"
| "deposit_loop source amount (st # sts) =
    (if stSource st = source then
       if stWithdrawn st then Inl (DepositDuringLocking source)
       else Inr (st\<lparr>stAmount := stAmount st + amount\<rparr> # sts)
     else map_sum id ((#) st) (deposit_loop source amount sts))"

definition depositStake :: "address \<Rightarrow> int \<Rightarrow> stakeholder \<Rightarrow> stake_error + stakeholder" where
  "depositStake source amount sh =
    (if amount < 0 then Inl (InvalidStake amount)
     else map_sum id (\<lambda>sts. sh\<lparr>shStakes := sts\<rparr>) (deposit_loop source amount (shStakes sh)))"

fun withdraw_loop :: "address \<Rightarrow> uint64 \<Rightarrow> stake list \<Rightarrow> stake_error + stake \<times> stake list" where
  "withdraw_loop source h [] = Inl (NoMatchedSource source)"
| "withdraw_loop source h (st # sts) =
    (if stSource st = source then
       if stWithdrawn st then Inl (AlreadyWithdrawn source)
       else let st' = st\<lparr>stWithdrawn := True, stReturnHeight := h + ReturnLockingPeriod\<rparr>
            in Inr (st', st' # sts)
     else map_sum id (map_prod id ((#) st)) (withdraw_loop source h sts))"

definition withdrawStake :: "address \<Rightarrow> uint64 \<Rightarrow> stakeholder \<Rightarrow> stake_error + stake \<times> stakeholder" where
  "withdrawStake source h sh =
    map_sum id (map_prod id (\<lambda>sts. sh\<lparr>shStakes := sts\<rparr>)) (withdraw_loop source h (shStakes sh))"

fun return_loop :: "address \<Rightarrow> uint64 \<Rightarrow> stake list \<Rightarrow> stake_error + stake \<times> stake list" where
  "return_loop source h [] = Inl (NoMatchedSource source)"
| "return_loop source h (st # sts) =
    (if stSource st = source then
       if \<not> stWithdrawn st then Inl NotWithdrawn
       else if stReturnHeight st > h then Inl (TooEarly h (stReturnHeight st))
       else Inr (st, sts)
     else map_sum id (map_prod id ((#) st)) (return_loop source h sts))"

definition returnStake :: "address \<Rightarrow> uint64 \<Rightarrow> stakeholder \<Rightarrow> stake_error + stake \<times> stakeholder" where
  "returnStake source h sh =
    map_sum id (map_prod id (\<lambda>sts. sh\<lparr>shStakes := sts\<rparr>)) (return_loop source h (shStakes sh))"

section \<open>Invariant\<close>

definition stakeholder_wf :: "stakeholder \<Rightarrow> bool" where
  "stakeholder_wf sh \<longleftrightarrow>
    keyed stSource (shStakes sh) \<and>
    (\<forall>st \<in> set (shStakes sh). 0 \<le> stAmount st \<and> (\<not> stWithdrawn st \<longrightarrow> stReturnHeight st = InvalidReturnHeight))"

text \<open>All amounts the holder has, those in the locking period included.\<close>

definition heldAmount :: "stakeholder \<Rightarrow> int" where
  "heldAmount sh = (\<Sum>st\<leftarrow>shStakes sh. stAmount st)"

lemma TotalStake_filter: "StakeHolder_TotalStake sh = (\<Sum>st\<leftarrow>filter (\<lambda>st. \<not> stWithdrawn st) (shStakes sh). stAmount st)"
proof -
  have "fold (\<lambda>st total. if \<not> stWithdrawn st then total + stAmount st else total) sts a
      = a + (\<Sum>st\<leftarrow>filter (\<lambda>st. \<not> stWithdrawn st) sts. stAmount st)" for sts :: "stake list" and a
    by (induction sts arbitrary: a) auto
  then show ?thesis
    by (simp add: StakeHolder_TotalStake_def)
qed

lemma map_sum_Inr_iff [simp]: "map_sum id f x = Inr z \<longleftrightarrow> (\<exists>y. x = Inr y \<and> z = f y)"
  by (cases x) auto

lemma map_sum_Inl_iff [simp]: "map_sum id f x = Inl e \<longleftrightarrow> x = Inl e"
  by (cases x) auto

lemma deposit_loop_Inr:
  assumes "deposit_loop source amount sts = Inr sts'"
  shows "(\<exists>xs st ys. sts = xs @ st # ys \<and> stSource st = source \<and> \<not> stWithdrawn st \<and> source \<notin> stSource ` set xs \<and>
            sts' = xs @ st\<lparr>stAmount := stAmount st + amount\<rparr> # ys) \<or>
         (source \<notin> stSource ` set sts \<and> sts' = sts @ [NewStake source amount])"
  using assms
proof (induction sts arbitrary: sts')
  case (Cons st sts)
  show ?case
  proof (cases "stSource st = source")
    case True
    with Cons.prems show ?thesis
      by (intro disjI1 exI[of _ "[]"]) (auto split: if_splits)
  next
    case False
    with Cons.prems obtain ys where ys: "deposit_loop source amount sts = Inr ys" "sts' = st # ys"
      by auto
    from Cons.IH[OF ys(1)] show ?thesis
    proof (elim disjE exE conjE)
      fix xs s zs
      assume "sts = xs @ s # zs" "stSource s = source" "\<not> stWithdrawn s" "source \<notin> stSource ` set xs"
        "ys = xs @ s\<lparr>stAmount := stAmount s + amount\<rparr> # zs"
      with False ys(2) show ?thesis
        by (intro disjI1 exI[of _ "st # xs"] exI[of _ s] exI[of _ zs]) auto
    qed (use False ys(2) in auto)
  qed
qed simp

lemma withdraw_loop_Inr:
  assumes "withdraw_loop source h sts = Inr (st', sts')"
  shows "\<exists>xs st ys. sts = xs @ st # ys \<and> stSource st = source \<and> \<not> stWithdrawn st \<and> source \<notin> stSource ` set xs \<and>
    st' = st\<lparr>stWithdrawn := True, stReturnHeight := h + ReturnLockingPeriod\<rparr> \<and> sts' = xs @ st' # ys"
  using assms
proof (induction sts arbitrary: sts')
  case (Cons st sts)
  show ?case
  proof (cases "stSource st = source")
    case True
    with Cons.prems show ?thesis
      by (intro exI[of _ "[]"]) (auto simp: Let_def split: if_splits)
  next
    case False
    with Cons.prems obtain ys where ys: "withdraw_loop source h sts = Inr (st', ys)" "sts' = st # ys"
      by auto
    from Cons.IH[OF ys(1)] show ?thesis
    proof (elim exE conjE)
      fix xs s zs
      assume "sts = xs @ s # zs" "stSource s = source" "\<not> stWithdrawn s" "source \<notin> stSource ` set xs"
        "st' = s\<lparr>stWithdrawn := True, stReturnHeight := h + ReturnLockingPeriod\<rparr>" "ys = xs @ st' # zs"
      with False ys(2) show ?thesis
        by (intro exI[of _ "st # xs"] exI[of _ s] exI[of _ zs]) auto
    qed
  qed
qed simp

lemma return_loop_Inr:
  assumes "return_loop source h sts = Inr (st, sts')"
  shows "\<exists>xs ys. sts = xs @ st # ys \<and> stSource st = source \<and> stWithdrawn st \<and> source \<notin> stSource ` set xs \<and>
    stReturnHeight st \<le> h \<and> sts' = xs @ ys"
  using assms
proof (induction sts arbitrary: sts')
  case (Cons s sts)
  show ?case
  proof (cases "stSource s = source")
    case True
    with Cons.prems show ?thesis
      by (intro exI[of _ "[]"] exI[of _ sts]) (auto split: if_splits)
  next
    case False
    with Cons.prems obtain ys where ys: "return_loop source h sts = Inr (st, ys)" "sts' = s # ys"
      by auto
    from Cons.IH[OF ys(1)] show ?thesis
    proof (elim exE conjE)
      fix xs zs
      assume "sts = xs @ st # zs" "stSource st = source" "stWithdrawn st" "source \<notin> stSource ` set xs"
        "stReturnHeight st \<le> h" "ys = xs @ zs"
      with False ys(2) show ?thesis
        by (intro exI[of _ "s # xs"] exI[of _ zs]) auto
    qed
  qed
qed simp

lemma depositStake_effect:
  assumes "depositStake source amount sh = Inr sh'" "stakeholder_wf sh"
  shows "stakeholder_wf sh' \<and> heldAmount sh' = heldAmount sh + amount \<and>
    StakeHolder_TotalStake sh' = StakeHolder_TotalStake sh + amount \<and> shHolder sh' = shHolder sh"
proof -
  obtain sts' where sts': "deposit_loop source amount (shStakes sh) = Inr sts'" "sh' = sh\<lparr>shStakes := sts'\<rparr>" "0 \<le> amount"
    using assms(1) by (auto simp: depositStake_def split: if_splits)
  from deposit_loop_Inr[OF sts'(1)] assms(2) sts'(2,3) show ?thesis
    by (auto simp: stakeholder_wf_def heldAmount_def TotalStake_filter NewStake_def)
qed

lemma withdrawStake_effect:
  assumes "withdrawStake source h sh = Inr (st, sh')" "stakeholder_wf sh"
  shows "stakeholder_wf sh' \<and> heldAmount sh' = heldAmount sh \<and>
    StakeHolder_TotalStake sh' = StakeHolder_TotalStake sh - stAmount st \<and> shHolder sh' = shHolder sh \<and>
    st \<in> set (shStakes sh') \<and> stSource st = source \<and> stWithdrawn st \<and> stReturnHeight st = h + ReturnLockingPeriod"
proof -
  obtain sts' where sts': "withdraw_loop source h (shStakes sh) = Inr (st, sts')" "sh' = sh\<lparr>shStakes := sts'\<rparr>"
    using assms(1) by (auto simp: withdrawStake_def)
  from withdraw_loop_Inr[OF sts'(1)] assms(2) sts'(2) show ?thesis
    by (auto simp: stakeholder_wf_def heldAmount_def TotalStake_filter)
qed

lemma returnStake_effect:
  assumes "returnStake source h sh = Inr (st, sh')" "stakeholder_wf sh"
  shows "stakeholder_wf sh' \<and> heldAmount sh' = heldAmount sh - stAmount st \<and>
    StakeHolder_TotalStake sh' = StakeHolder_TotalStake sh \<and> shHolder sh' = shHolder sh \<and>
    source \<notin> stSource ` set (shStakes sh') \<and> st \<in> set (shStakes sh) \<and> stSource st = source \<and>
    stWithdrawn st \<and> stReturnHeight st \<le> h"
proof -
  obtain sts' where sts': "return_loop source h (shStakes sh) = Inr (st, sts')" "sh' = sh\<lparr>shStakes := sts'\<rparr>"
    using assms(1) by (auto simp: returnStake_def)
  from return_loop_Inr[OF sts'(1)] assms(2) sts'(2) show ?thesis
    by (auto simp: stakeholder_wf_def heldAmount_def TotalStake_filter)
qed

lemma loops_at_source:
  assumes "source \<notin> stSource ` set xs" "stSource st = source"
  shows "deposit_loop source a (xs @ st # ys) =
      (if stWithdrawn st then Inl (DepositDuringLocking source)
       else Inr (xs @ st\<lparr>stAmount := stAmount st + a\<rparr> # ys))"
    and "withdraw_loop source h (xs @ st # ys) =
      (if stWithdrawn st then Inl (AlreadyWithdrawn source)
       else let st' = st\<lparr>stWithdrawn := True, stReturnHeight := h + ReturnLockingPeriod\<rparr> in Inr (st', xs @ st' # ys))"
    and "return_loop source h (xs @ st # ys) =
      (if \<not> stWithdrawn st then Inl NotWithdrawn
       else if stReturnHeight st > h then Inl (TooEarly h (stReturnHeight st))
       else Inr (st, xs @ ys))"
  using assms by (induction xs) (auto simp: Let_def)

text \<open>
  After a withdrawal the stake refuses deposits and withdrawals, and is returned from its return
  height on.
\<close>

lemma withdrawn_stake_state:
  assumes "withdrawStake source h sh = Inr (st, sh')"
  shows "depositStake source a sh' = Inl (if a < 0 then InvalidStake a else DepositDuringLocking source)"
    and "withdrawStake source h' sh' = Inl (AlreadyWithdrawn source)"
    and "returnStake source h' sh' =
      (if h + ReturnLockingPeriod > h' then Inl (TooEarly h' (h + ReturnLockingPeriod))
       else Inr (st, sh'\<lparr>shStakes := remove1 st (shStakes sh')\<rparr>))"
proof -
  obtain sts' where sts': "withdraw_loop source h (shStakes sh) = Inr (st, sts')" "sh' = sh\<lparr>shStakes := sts'\<rparr>"
    using assms by (auto simp: withdrawStake_def)
  obtain xs ys where xs: "source \<notin> stSource ` set xs" "sts' = xs @ st # ys" "stSource st = source"
      "stWithdrawn st" "stReturnHeight st = h + ReturnLockingPeriod"
    using withdraw_loop_Inr[OF sts'(1)] by auto
  have "remove1 st sts' = xs @ ys"
    using xs by (auto simp: remove1_append)
  then show "depositStake source a sh' = Inl (if a < 0 then InvalidStake a else DepositDuringLocking source)"
    and "withdrawStake source h' sh' = Inl (AlreadyWithdrawn source)"
    and "returnStake source h' sh' =
      (if h + ReturnLockingPeriod > h' then Inl (TooEarly h' (h + ReturnLockingPeriod))
       else Inr (st, sh'\<lparr>shStakes := remove1 st (shStakes sh')\<rparr>))"
    using xs sts'(2)
    by (simp_all add: depositStake_def withdrawStake_def returnStake_def loops_at_source)
qed

section \<open>Runs of a stake holder\<close>

text \<open>\<open>stake_run sh n sh'\<close>: successful operations lead from \<open>sh\<close> to \<open>sh'\<close>, and the deposits among them
  exceed the returned amounts by \<open>n\<close>.\<close>

inductive stake_run :: "stakeholder \<Rightarrow> int \<Rightarrow> stakeholder \<Rightarrow> bool" for sh where
  start: "stake_run sh 0 sh"
| deposit: "stake_run sh n sh1 \<Longrightarrow> depositStake source amount sh1 = Inr sh2 \<Longrightarrow> stake_run sh (n + amount) sh2"
| withdraw: "stake_run sh n sh1 \<Longrightarrow> withdrawStake source h sh1 = Inr (st, sh2) \<Longrightarrow> stake_run sh n sh2"
| return: "stake_run sh n sh1 \<Longrightarrow> returnStake source h sh1 = Inr (st, sh2) \<Longrightarrow> stake_run sh (n - stAmount st) sh2"

lemma stake_run_conserves:
  assumes "stake_run sh n sh'" "stakeholder_wf sh"
  shows "stakeholder_wf sh' \<and> heldAmount sh' = heldAmount sh + n \<and> shHolder sh' = shHolder sh"
  using assms
proof (induction rule: stake_run.induct)
  case (deposit n sh1 source amount sh2)
  then show ?case
    using depositStake_effect[of source amount sh1 sh2] by simp
next
  case (withdraw n sh1 source h st sh2)
  then show ?case
    using withdrawStake_effect[of source h sh1 st sh2] by simp
next
  case (return n sh1 source h st sh2)
  then show ?case
    using returnStake_effect[of source h sh1 st sh2] by simp
qed simp

lemma TotalStake_bounds:
  assumes "stakeholder_wf sh"
  shows "0 \<le> StakeHolder_TotalStake sh" "StakeHolder_TotalStake sh \<le> heldAmount sh"
proof -
  have nonneg: "\<And>st. st \<in> set (shStakes sh) \<Longrightarrow> 0 \<le> stAmount st"
    using assms by (simp add: stakeholder_wf_def)
  show "0 \<le> StakeHolder_TotalStake sh"
    unfolding TotalStake_filter using nonneg by (intro sum_list_nonneg_int) auto
  show "StakeHolder_TotalStake sh \<le> heldAmount sh"
    using sum_list_filter_le[of "shStakes sh" stAmount "\<lambda>st. \<not> stWithdrawn st" "\<lambda>_. True"] nonneg
    by (simp add: TotalStake_filter heldAmount_def)
qed

section \<open>Properties\<close>

definition example_holder :: stakeholder where
  "example_holder = NewStakeHolder 1 [NewStake 7 100]"

lemmas example_holder_simps =
  example_holder_def NewStakeHolder_def NewStake_def stakeholder_wf_def heldAmount_def depositStake_def
  withdrawStake_def returnStake_def ReturnLockingPeriod_def

text \<open>C22: over any run of successful deposits, withdrawals and returns the sources of the stakes
  stay distinct, amounts stay non-negative, and the amounts held (locked ones included) are those
  at the start plus the deposits minus the returned stakes; the voting stake \<open>TotalStake\<close> is between
  zero and that sum.\<close>

theorem stake_conservation:
  assumes "stake_run sh n sh'" "stakeholder_wf sh"
  shows "stakeholder_wf sh' \<and> heldAmount sh' = heldAmount sh + n \<and>
    0 \<le> StakeHolder_TotalStake sh' \<and> StakeHolder_TotalStake sh' \<le> heldAmount sh'"
  using stake_run_conserves[OF assms] TotalStake_bounds by blast

theorem stake_conservation_witness:
  "\<exists>sh'. stake_run example_holder 40 sh' \<and> heldAmount sh' = 140"
proof -
  let ?sh = "NewStakeHolder 1 [NewStake 7 100, NewStake 8 40]"
  have run: "stake_run example_holder (0 + 40) ?sh"
    by (rule stake_run.deposit[OF stake_run.start, where source = 8]) (simp add: example_holder_simps)
  have wf: "stakeholder_wf example_holder"
    by (simp add: example_holder_simps)
  show ?thesis
    using stake_conservation[OF run wf] run
    by (intro exI[of _ ?sh]) (simp add: example_holder_simps)
qed

text \<open>C23: a stake withdrawn at height \<open>h\<close> accepts no further deposit or withdrawal, is refused by
  \<open>returnStake\<close> before height \<open>h + 28800\<close> and is returned from that height on, unless the sum leaves
  64 bits: then the return height wraps below \<open>h\<close> and the stake is returned at once.\<close>

theorem withdrawn_stake_locked:
  assumes "withdrawStake source h sh = Inr (st, sh')"
  shows "(\<forall>a \<ge> 0. depositStake source a sh' = Inl (DepositDuringLocking source)) \<and>
    (\<forall>h'. withdrawStake source h' sh' = Inl (AlreadyWithdrawn source)) \<and>
    (unat h + 28800 < 2 ^ 64 \<longrightarrow>
      (\<forall>h'. isl (returnStake source h' sh') \<longleftrightarrow> unat h' < unat h + 28800)) \<and>
    (2 ^ 64 \<le> unat h + 28800 \<longrightarrow> \<not> isl (returnStake source h sh'))"
proof -
  have "unat (h + ReturnLockingPeriod) = (unat h + 28800) mod 2 ^ 64"
    by (simp add: unat_word_ariths ReturnLockingPeriod_def)
  moreover have "(unat h + 28800) mod 2 ^ 64 \<le> unat h" if "2 ^ 64 \<le> unat h + 28800"
  proof -
    have "unat h < 2 ^ 64"
      using unsigned_less[of h] by simp
    then have "(unat h + 28800) mod 2 ^ 64 = unat h + 28800 - 2 ^ 64"
      using that by (subst le_mod_geq) auto
    with \<open>unat h < 2 ^ 64\<close> show ?thesis
      by simp
  qed
  ultimately show ?thesis
    using withdrawn_stake_state[OF assms] by (auto simp: word_less_nat_alt)
qed

theorem withdrawn_stake_locked_witness:
  "isl (returnStake 7 28899 (example_holder\<lparr>shStakes := [\<lparr>stHolder = 0, stSource = 7, stAmount = 100, stWithdrawn = True, stReturnHeight = 28900\<rparr>]\<rparr>))
   \<and> \<not> isl (returnStake 7 28900 (example_holder\<lparr>shStakes := [\<lparr>stHolder = 0, stSource = 7, stAmount = 100, stWithdrawn = True, stReturnHeight = 28900\<rparr>]\<rparr>))"
proof -
  let ?st = "\<lparr>stHolder = 0, stSource = 7, stAmount = 100, stWithdrawn = True, stReturnHeight = 28900\<rparr>"
  have "withdrawStake 7 100 example_holder = Inr (?st, example_holder\<lparr>shStakes := [?st]\<rparr>)"
    by (simp add: example_holder_simps Let_def)
  from withdrawn_stake_locked[OF this] show ?thesis
    by simp
qed

end
