(* ===== verification/Bloom.thy ===== *)
theory Bloom
  imports Prelude
begin

text \<open>
  The 2048-bit Bloom filter of block headers (\<open>core/bloom.go\<close>).

  A filter is the byte array of the source, 256 bytes long; the operations convert it to a big
  integer and back with \<open>big.Int.SetBytes\<close> and \<open>big.Int.Bytes\<close>, modelled by \<open>be_value\<close> and \<open>be_bytes\<close>.
  \<open>crypto.Keccak256\<close> is a parameter.
\<close>

unbundle bit_operations_syntax

section \<open>Big-endian bytes\<close>

definition be_value :: "bytes \<Rightarrow> nat" where
  "be_value bs = foldl (\<lambda>acc b. 256 * acc + unat b) 0 bs"

fun be_bytes :: "nat \<Rightarrow> bytes" where
  "be_bytes n = (if n = 0 then [] else be_bytes (n div 256) @ [word_of_nat n])"

declare be_bytes.simps [simp del]

lemma be_value_Nil [simp]: "be_value [] = 0"
  by (simp add: be_value_def)

lemma be_value_snoc [simp]: "be_value (bs @ [b]) = 256 * be_value bs + unat b"
  by (simp add: be_value_def)

lemma be_value_append: "be_value (xs @ ys) = be_value xs * 256 ^ length ys + be_value ys"
proof (induction ys rule: rev_induct)
  case (snoc y ys)
  then show ?case
    by (simp add: append_assoc[symmetric] algebra_simps del: append_assoc)
qed simp

lemma be_value_be_bytes [simp]: "be_value (be_bytes n) = n"
proof (induction n rule: be_bytes.induct)
  case (1 n)
  show ?case
  proof (cases "n = 0")
    case False
    then have "be_value (be_bytes n) = 256 * (n div 256) + n mod 256"
      using 1 by (subst be_bytes.simps) (simp add: unat_of_nat)
    then show ?thesis
      by simp
  qed (simp add: be_bytes.simps)
qed

lemma be_value_less: "be_value bs < 256 ^ length bs"
proof (induction bs rule: rev_induct)
  case (snoc b bs)
  have "unat b < 256"
    using unsigned_less[of b, where ?'a = nat] by simp
  with snoc have "256 * be_value bs + unat b < 256 * (be_value bs + 1)" "be_value bs + 1 \<le> 256 ^ length bs"
    by auto
  then have "256 * be_value bs + unat b < 256 * 256 ^ length bs"
    by (meson less_le_trans mult_le_mono2)
  then show ?case
    by simp
qed simp

lemma length_be_bytes: "n < 256 ^ k \<Longrightarrow> length (be_bytes n) \<le> k"
proof (induction n arbitrary: k rule: be_bytes.induct)
  case (1 n)
  show ?case
  proof (cases "n = 0")
    case False
    then obtain j where k: "k = Suc j"
      using 1(2) by (cases k) auto
    then have "n div 256 < 256 ^ j"
      using 1(2) by (simp add: less_mult_imp_div_less mult.commute)
    with 1(1)[OF False] False k show ?thesis
      by (subst be_bytes.simps) simp
  qed (simp add: be_bytes.simps)
qed

section \<open>The filter\<close>

type_synonym bloom = bytes

definition BloomByteLength :: nat where
  "BloomByteLength = 256"

definition EmptyBloom :: bloom where
  "EmptyBloom = replicate BloomByteLength 0"

text \<open>\<open>SetBytes\<close> panics (\<open>None\<close>) when the bytes do not fit.\<close>

definition Bloom_SetBytes :: "bloom \<Rightarrow> bytes \<Rightarrow> bloom option" where
  "Bloom_SetBytes b d =
    (if length b < length d then None else Some (take (BloomByteLength - length d) b @ d))"

definition BytesToBloom :: "bytes \<Rightarrow> bloom option" where
  "BytesToBloom d = Bloom_SetBytes EmptyBloom d"

definition bloom9 :: "(bytes \<Rightarrow> bytes) \<Rightarrow> bytes \<Rightarrow> nat" where
  "bloom9 keccak b =
    (let h = keccak b in
     fold (\<lambda>i r. r OR push_bit ((unat (h ! (i + 1)) + push_bit 8 (unat (h ! i))) AND 2047) 1) [0, 2, 4] 0)"

definition Bloom_Big :: "bloom \<Rightarrow> nat" where
  "Bloom_Big b = be_value b"

definition Bloom_Add :: "(bytes \<Rightarrow> bytes) \<Rightarrow> bloom \<Rightarrow> nat \<Rightarrow> bloom option" where
  "Bloom_Add keccak b d = Bloom_SetBytes b (be_bytes (be_value b OR bloom9 keccak (be_bytes d)))"

definition BloomLookup :: "(bytes \<Rightarrow> bytes) \<Rightarrow> bloom \<Rightarrow> nat \<Rightarrow> bool" where
  "BloomLookup keccak b topic =
    (let cmp = bloom9 keccak (be_bytes topic) in (Bloom_Big b AND cmp) = cmp)"

definition Bloom_Test :: "(bytes \<Rightarrow> bytes) \<Rightarrow> bloom \<Rightarrow> nat \<Rightarrow> bool" where
  "Bloom_Test keccak b test = BloomLookup keccak b test"

definition Bloom_TestBytes :: "(bytes \<Rightarrow> bytes) \<Rightarrow> bloom \<Rightarrow> bytes \<Rightarrow> bool" where
  "Bloom_TestBytes keccak b test = Bloom_Test keccak b (be_value test)"

section \<open>No false negatives\<close>

lemma power_256: "(256 :: nat) ^ k = 2 ^ (8 * k)"
proof -
  have "(256 :: nat) = 2 ^ 8"
    by simp
  then show ?thesis
    by (simp only: power_mult)
qed

lemma or_less_256: "m < 256 ^ k \<Longrightarrow> n < 256 ^ k \<Longrightarrow> (m OR n) < (256 ^ k :: nat)"
  unfolding power_256 by (metis take_bit_nat_eq_self_iff take_bit_or)

lemma and_2047: "m AND 2047 = m mod (2048 :: nat)"
  using take_bit_eq_mask[of 11 m] by (simp add: take_bit_eq_mod mask_eq_exp_minus_1)

lemma bit_less: "2 ^ (m AND 2047) < (256 :: nat) ^ BloomByteLength"
  unfolding and_2047 power_256 BloomByteLength_def
  by (rule power_strict_increasing) simp_all

lemma bloom9_less: "bloom9 keccak b < 256 ^ BloomByteLength"
  unfolding bloom9_def Let_def by (simp add: or_less_256 bit_less)

lemma SetBytes_value:
  assumes "length b = BloomByteLength" "be_value b \<le> n" "n < 256 ^ BloomByteLength"
  shows "\<exists>b'. Bloom_SetBytes b (be_bytes n) = Some b' \<and> length b' = BloomByteLength \<and> be_value b' = n"
proof -
  let ?d = "be_bytes n" and ?k = "BloomByteLength - length (be_bytes n)"
  have len: "length ?d \<le> BloomByteLength"
    using assms(3) by (rule length_be_bytes)
  have "be_value (take ?k b) * 256 ^ length ?d \<le> be_value (take ?k b @ drop ?k b)"
    using len assms(1) by (simp add: be_value_append del: append_take_drop_id)
  also have "\<dots> \<le> n"
    using assms(2) by simp
  also have "\<dots> < 256 ^ length ?d"
    using be_value_less[of ?d] by simp
  finally have "be_value (take ?k b) = 0"
    by simp
  then show ?thesis
    using len assms(1) by (simp add: Bloom_SetBytes_def be_value_append)
qed

lemma or_greater_eq_nat: "m \<le> (m OR n :: nat)"
proof -
  have "int m \<le> int (m OR n)"
    using or_greater_eq[of "int n" "int m"] by (simp add: of_nat_or_eq)
  then show ?thesis
    by simp
qed

lemma Bloom_Add_value:
  assumes "length b = BloomByteLength"
  shows "\<exists>b'. Bloom_Add keccak b d = Some b' \<and> length b' = BloomByteLength \<and>
    Bloom_Big b' = (Bloom_Big b OR bloom9 keccak (be_bytes d))"
  unfolding Bloom_Add_def Bloom_Big_def
proof (rule SetBytes_value[OF assms])
  show "be_value b \<le> (be_value b OR bloom9 keccak (be_bytes d))"
    by (rule or_greater_eq_nat)
  show "(be_value b OR bloom9 keccak (be_bytes d)) < 256 ^ BloomByteLength"
    using be_value_less[of b] assms bloom9_less by (simp add: or_less_256)
qed

lemma and_or_absorb: "((x OR y) AND z) = z" if "(x AND z) = z" for x y z :: nat
proof (rule bit_eqI)
  fix n
  show "bit ((x OR y) AND z) n \<longleftrightarrow> bit z n"
    using arg_cong[OF that, of "\<lambda>v. bit v n"] by (auto simp: bit_and_iff bit_or_iff)
qed

lemma Bloom_Add_Test:
  assumes "Bloom_Add keccak b d = Some b'" "length b = BloomByteLength"
  shows "length b' = BloomByteLength \<and> Bloom_Test keccak b' d \<and> (Bloom_Test keccak b e \<longrightarrow> Bloom_Test keccak b' e)"
proof -
  have b': "length b' = BloomByteLength" "Bloom_Big b' = (Bloom_Big b OR bloom9 keccak (be_bytes d))"
    using Bloom_Add_value[OF assms(2), of keccak d] assms(1) by auto
  have "(Bloom_Big b' AND bloom9 keccak (be_bytes d)) = bloom9 keccak (be_bytes d)"
    unfolding b'(2) or.commute[of "Bloom_Big b"] by (rule and_or_absorb) simp
  then show ?thesis
    using b' by (auto simp: Bloom_Test_def BloomLookup_def Let_def and_or_absorb)
qed

section \<open>Properties\<close>

fun Bloom_AddAll :: "(bytes \<Rightarrow> bytes) \<Rightarrow> bloom \<Rightarrow> nat list \<Rightarrow> bloom option" where
  "Bloom_AddAll keccak b [] = Some b"
| "Bloom_AddAll keccak b (d # ds) =
    (case Bloom_Add keccak b d of None \<Rightarrow> None | Some b' \<Rightarrow> Bloom_AddAll keccak b' ds)"

text \<open>C26: adding values to a Bloom filter never panics and keeps its 256 bytes, and the filter then
  answers yes for every value that was added, and for every value it answered yes for before: it has no
  false negatives. This holds for any hash function.\<close>

theorem bloom_no_false_negatives:
  assumes "length b = BloomByteLength"
  shows "\<exists>b'. Bloom_AddAll keccak b ds = Some b' \<and> length b' = BloomByteLength \<and>
    (\<forall>d. d \<in> set ds \<or> Bloom_Test keccak b d \<longrightarrow> Bloom_Test keccak b' d)"
  using assms
proof (induction ds arbitrary: b)
  case (Cons d ds)
  obtain b1 where b1: "Bloom_Add keccak b d = Some b1"
    using Bloom_Add_value[OF Cons.prems] by blast
  have step: "length b1 = BloomByteLength" "Bloom_Test keccak b1 d"
      "\<And>e. Bloom_Test keccak b e \<Longrightarrow> Bloom_Test keccak b1 e"
    using Bloom_Add_Test[OF b1 Cons.prems] by auto
  from Cons.IH[OF step(1)] b1 step(2,3) show ?case
    by auto
qed simp

theorem bloom_no_false_negatives_witness:
  "\<exists>b'. Bloom_AddAll (\<lambda>b. replicate 32 7) EmptyBloom [5, 6] = Some b' \<and> Bloom_Test (\<lambda>b. replicate 32 7) b' 6"
proof -
  have "length EmptyBloom = BloomByteLength"
    by (simp add: EmptyBloom_def)
  from bloom_no_false_negatives[OF this, of "\<lambda>b. replicate 32 7" "[5, 6]"] show ?thesis
    by auto
qed

end
