(* ===== verification/Block.thy ===== *)
theory Block
  imports Certificate Bloom "HOL-Library.Monad_Syntax"
begin

text \<open>
  Blocks, headers and their status (\<open>core/block.go\<close>).

  Go's embedding of \<open>BlockHeader\<close> in \<open>Block\<close> and of \<open>Block\<close> in \<open>ExtendedBlock\<close> is record extension, so
  that the fields and methods of a header apply to the larger records. \<open>hHash\<close> is the cached hash,
  zero while it is not computed. A \<open>BlockStatus\<close> is a byte, as in the source.

  \<open>EncodeRLP\<close> and \<open>DecodeRLP\<close> are modelled on the list of values the methods pass to and take from the
  \<open>rlp\<close> package (type \<open>rlp\<close>), one constructor per Go type; reading a value of another type, or a list of
  another length, is an error (\<open>None\<close>). What the code calls of \<open>rlp\<close>, \<open>crypto\<close> and \<open>trie\<close> is the parameter
  \<open>block_ops\<close>.
\<close>

section \<open>Headers and blocks\<close>

type_synonym BlockStatus = byte

record header =
  hChainID :: string
  hEpoch :: uint64
  hHeight :: uint64
  hParent :: hash
  hHCC :: cc
  hTxHash :: hash
  hReceiptHash :: hash
  hBloom :: bloom
  hStateHash :: hash
  hTimestamp :: "int option"
  hProposer :: address
  hSignature :: "signature option"
  hHash :: hash

record block = header +
  bTxs :: "bytes list"

record extblock = block +
  eChildren :: "hash list"
  eStatus :: BlockStatus
  eHasValidatorUpdate :: bool

datatype rlp =
    RStr string
  | RU64 uint64
  | RHash hash
  | RCC cc
  | RBloom bloom
  | RBig "int option"
  | RAddr address
  | RSig "signature option"
  | RTxs "bytes list"
  | RHashes "hash list"
  | RByte byte
  | RBool bool
  | RList "rlp list"

text \<open>
  \<open>rlpBytes\<close> is \<open>rlp.EncodeToBytes\<close>, \<open>rlpUint\<close> the encoding of an index, and \<open>trieRoot\<close> the root hash of
  an empty trie after a sequence of updates. \<open>nilSig\<close> is what decoding gives where a nil signature was
  encoded.
\<close>

record block_ops =
  bCrypto :: crypto
  rlpBytes :: "rlp \<Rightarrow> bytes"
  rlpUint :: "nat \<Rightarrow> bytes"
  trieRoot :: "(bytes \<times> bytes) list \<Rightarrow> hash"
  nilSig :: signature

section \<open>Encoding\<close>

definition Header_EncodeRLP :: "'a header_scheme \<Rightarrow> rlp" where
  "Header_EncodeRLP h =
    RList [RStr (hChainID h), RU64 (hEpoch h), RU64 (hHeight h), RHash (hParent h), RCC (hHCC h),
      RHash (hTxHash h), RHash (hReceiptHash h), RBloom (hBloom h), RHash (hStateHash h),
      RBig (hTimestamp h), RAddr (hProposer h), RSig (hSignature h)]"

text \<open>
  A stream of values inside a list: \<open>enterList\<close> is \<open>stream.List\<close>, \<open>listEnd\<close> is \<open>stream.ListEnd\<close>, and a reader
  \<open>dec\<dots>\<close> is \<open>stream.Decode\<close> into a variable of its type.
\<close>

definition enterList :: "rlp \<Rightarrow> rlp list option" where
  "enterList r = (case r of RList xs \<Rightarrow> Some xs | _ \<Rightarrow> None)"

definition listEnd :: "rlp list \<Rightarrow> unit option" where
  "listEnd xs = (if xs = [] then Some () else None)"

definition nextItem :: "(rlp \<Rightarrow> 'a option) \<Rightarrow> rlp list \<Rightarrow> ('a \<times> rlp list) option" where
  "nextItem reader xs = (case xs of [] \<Rightarrow> None | x # rest \<Rightarrow> map_option (\<lambda>v. (v, rest)) (reader x))"

definition decStr :: "rlp \<Rightarrow> string option" where
  "decStr r = (case r of RStr x \<Rightarrow> Some x | _ \<Rightarrow> None)"

definition decU64 :: "rlp \<Rightarrow> uint64 option" where
  "decU64 r = (case r of RU64 x \<Rightarrow> Some x | _ \<Rightarrow> None)"

definition decHash :: "rlp \<Rightarrow> hash option" where
  "decHash r = (case r of RHash x \<Rightarrow> Some x | _ \<Rightarrow> None)"

definition decCC :: "rlp \<Rightarrow> cc option" where
  "decCC r = (case r of RCC x \<Rightarrow> Some x | _ \<Rightarrow> None)"

definition decBloom :: "rlp \<Rightarrow> bloom option" where
  "decBloom r = (case r of RBloom x \<Rightarrow> Some x | _ \<Rightarrow> None)"

definition decAddr :: "rlp \<Rightarrow> address option" where
  "decAddr r = (case r of RAddr x \<Rightarrow> Some x | _ \<Rightarrow> None)"

definition decTxs :: "rlp \<Rightarrow> (bytes list) option" where
  "decTxs r = (case r of RTxs x \<Rightarrow> Some x | _ \<Rightarrow> None)"

definition decHashes :: "rlp \<Rightarrow> (hash list) option" where
  "decHashes r = (case r of RHashes x \<Rightarrow> Some x | _ \<Rightarrow> None)"

definition decByte :: "rlp \<Rightarrow> byte option" where
  "decByte r = (case r of RByte x \<Rightarrow> Some x | _ \<Rightarrow> None)"

definition decBool :: "rlp \<Rightarrow> bool option" where
  "decBool r = (case r of RBool x \<Rightarrow> Some x | _ \<Rightarrow> None)"

definition decBig :: "rlp \<Rightarrow> int option option" where
  "decBig r = (case r of RBig x \<Rightarrow> Some (Some (case x of None \<Rightarrow> 0 | Some t \<Rightarrow> t)) | _ \<Rightarrow> None)"

definition decSig :: "block_ops \<Rightarrow> rlp \<Rightarrow> signature option option" where
  "decSig B r = (case r of RSig x \<Rightarrow> Some (Some (case x of None \<Rightarrow> nilSig B | Some s \<Rightarrow> s)) | _ \<Rightarrow> None)"

lemmas rlp_reader_defs = enterList_def listEnd_def nextItem_def decStr_def decU64_def decHash_def decCC_def
  decBloom_def decAddr_def decTxs_def decHashes_def decByte_def decBool_def decBig_def decSig_def

definition Header_DecodeRLP :: "block_ops \<Rightarrow> rlp \<Rightarrow> header option" where
  "Header_DecodeRLP B r = do {
    s \<leftarrow> enterList r;
    (chainID, s) \<leftarrow> nextItem decStr s;
    (epoch, s) \<leftarrow> nextItem decU64 s;
    (height, s) \<leftarrow> nextItem decU64 s;
    (parent, s) \<leftarrow> nextItem decHash s;
    (hcc, s) \<leftarrow> nextItem decCC s;
    (txHash, s) \<leftarrow> nextItem decHash s;
    (receiptHash, s) \<leftarrow> nextItem decHash s;
    (bloom, s) \<leftarrow> nextItem decBloom s;
    (stateHash, s) \<leftarrow> nextItem decHash s;
    (timestamp, s) \<leftarrow> nextItem decBig s;
    (proposer, s) \<leftarrow> nextItem decAddr s;
    (sig, s) \<leftarrow> nextItem (decSig B) s;
    _ \<leftarrow> listEnd s;
    Some \<lparr>hChainID = chainID, hEpoch = epoch, hHeight = height, hParent = parent, hHCC = hcc,
      hTxHash = txHash, hReceiptHash = receiptHash, hBloom = bloom, hStateHash = stateHash,
      hTimestamp = timestamp, hProposer = proposer, hSignature = sig, hHash = 0\<rparr>
  }"

definition Block_EncodeRLP :: "'a block_scheme \<Rightarrow> rlp" where
  "Block_EncodeRLP b = RList [Header_EncodeRLP b, RTxs (bTxs b)]"

definition Block_DecodeRLP :: "block_ops \<Rightarrow> rlp \<Rightarrow> block option" where
  "Block_DecodeRLP B r = do {
    s \<leftarrow> enterList r;
    (h, s) \<leftarrow> nextItem (Header_DecodeRLP B) s;
    (txs, s) \<leftarrow> nextItem decTxs s;
    _ \<leftarrow> listEnd s;
    Some (header.extend h (block.fields txs))
  }"

definition ExtendedBlock_EncodeRLP :: "extblock \<Rightarrow> rlp" where
  "ExtendedBlock_EncodeRLP eb =
    RList [Block_EncodeRLP eb, RHashes (eChildren eb), RByte (eStatus eb), RBool (eHasValidatorUpdate eb)]"

definition ExtendedBlock_DecodeRLP :: "block_ops \<Rightarrow> rlp \<Rightarrow> extblock option" where
  "ExtendedBlock_DecodeRLP B r = do {
    s \<leftarrow> enterList r;
    (b, s) \<leftarrow> nextItem (Block_DecodeRLP B) s;
    (children, s) \<leftarrow> nextItem decHashes s;
    (status, s) \<leftarrow> nextItem decByte s;
    (hasValidatorUpdate, s) \<leftarrow> nextItem decBool s;
    _ \<leftarrow> listEnd s;
    Some (block.extend b (extblock.fields children status hasValidatorUpdate))
  }"

section \<open>Hashes and signatures\<close>

definition calculateHash :: "block_ops \<Rightarrow> 'a header_scheme \<Rightarrow> hash" where
  "calculateHash B h = keccak256 (bCrypto B) (rlpBytes B (Header_EncodeRLP h))"

definition Header_Hash :: "block_ops \<Rightarrow> 'a header_scheme \<Rightarrow> hash" where
  "Header_Hash B h = (if hHash h = 0 then calculateHash B h else hHash h)"

definition UpdateHash :: "block_ops \<Rightarrow> 'a header_scheme \<Rightarrow> 'a header_scheme" where
  "UpdateHash B h = h\<lparr>hHash := calculateHash B h\<rparr>"

definition Header_SignBytes :: "block_ops \<Rightarrow> 'a header_scheme \<Rightarrow> bytes" where
  "Header_SignBytes B h = rlpBytes B (Header_EncodeRLP (h\<lparr>hSignature := None\<rparr>))"

definition Header_SetSignature :: "signature \<Rightarrow> 'a header_scheme \<Rightarrow> 'a header_scheme" where
  "Header_SetSignature sig h = h\<lparr>hSignature := Some sig\<rparr>"

definition CalculateRootHash :: "block_ops \<Rightarrow> bytes list \<Rightarrow> hash" where
  "CalculateRootHash B items = trieRoot B (map (\<lambda>i. (rlpUint B i, items ! i)) [0..<length items])"

definition EmptyRootHash :: "block_ops \<Rightarrow> hash" where
  "EmptyRootHash B = CalculateRootHash B []"

definition updateTxHash :: "block_ops \<Rightarrow> 'a block_scheme \<Rightarrow> 'a block_scheme" where
  "updateTxHash B b = b\<lparr>hTxHash := CalculateRootHash B (bTxs b), hReceiptHash := EmptyRootHash B\<rparr>"

definition AddTxs :: "block_ops \<Rightarrow> bytes list \<Rightarrow> 'a block_scheme \<Rightarrow> 'a block_scheme" where
  "AddTxs B txs b = updateTxHash B (b\<lparr>bTxs := bTxs b @ txs\<rparr>)"

definition Header_Validate :: "block_ops \<Rightarrow> string \<Rightarrow> 'a header_scheme \<Rightarrow> result" where
  "Header_Validate B chainID h =
    (if chainID \<noteq> hChainID h then Error ''ChainID mismatch''
     else if hParent h = 0 then Error ''Parent is empty''
     else if ccBlockHash (hHCC h) = 0 then Error ''HCC is empty''
     else if hTimestamp h = None then Error ''Timestamp is missing''
     else if hProposer h = 0 then Error ''Proposer is not specified''
     else case hSignature h of
       None \<Rightarrow> Error ''Block is not signed''
     | Some sig \<Rightarrow>
         if sigIsEmpty (bCrypto B) sig then Error ''Block is not signed''
         else if \<not> sigVerify (bCrypto B) sig (Header_SignBytes B h) (hProposer h)
         then Error ''Signature verification failed''
         else OK)"

definition Block_Validate :: "block_ops \<Rightarrow> string \<Rightarrow> 'a block_scheme \<Rightarrow> result" where
  "Block_Validate B chainID b =
    (let res = Header_Validate B chainID b in
     if IsError res then res
     else if hTxHash b \<noteq> CalculateRootHash B (bTxs b) then Error ''TxHash does not match''
     else OK)"

section \<open>Status\<close>

abbreviation BlockStatusPending :: BlockStatus where "BlockStatusPending \<equiv> 0"
abbreviation BlockStatusValid :: BlockStatus where "BlockStatusValid \<equiv> 1"
abbreviation BlockStatusInvalid :: BlockStatus where "BlockStatusInvalid \<equiv> 2"
abbreviation BlockStatusCommitted :: BlockStatus where "BlockStatusCommitted \<equiv> 3"
abbreviation BlockStatusDirectlyFinalized :: BlockStatus where "BlockStatusDirectlyFinalized \<equiv> 4"
abbreviation BlockStatusIndirectlyFinalized :: BlockStatus where "BlockStatusIndirectlyFinalized \<equiv> 5"
abbreviation BlockStatusTrusted :: BlockStatus where "BlockStatusTrusted \<equiv> 6"
abbreviation BlockStatusDisposed :: BlockStatus where "BlockStatusDisposed \<equiv> 7"

definition IsPending :: "BlockStatus \<Rightarrow> bool" where
  "IsPending bs = (bs = BlockStatusPending)"

definition IsCommitted :: "BlockStatus \<Rightarrow> bool" where
  "IsCommitted bs = (bs = BlockStatusCommitted)"

definition IsFinalized :: "BlockStatus \<Rightarrow> bool" where
  "IsFinalized bs =
    (bs = BlockStatusDirectlyFinalized \<or> bs = BlockStatusIndirectlyFinalized \<or> bs = BlockStatusTrusted)"

definition IsDirectlyFinalized :: "BlockStatus \<Rightarrow> bool" where
  "IsDirectlyFinalized bs = (bs = BlockStatusDirectlyFinalized)"

definition IsIndirectlyFinalized :: "BlockStatus \<Rightarrow> bool" where
  "IsIndirectlyFinalized bs = (bs = BlockStatusIndirectlyFinalized)"

definition IsTrusted :: "BlockStatus \<Rightarrow> bool" where
  "IsTrusted bs = (bs = BlockStatusTrusted)"

definition IsInvalid :: "BlockStatus \<Rightarrow> bool" where
  "IsInvalid bs = (bs = BlockStatusInvalid \<or> bs = BlockStatusDisposed)"

definition IsValid :: "BlockStatus \<Rightarrow> bool" where
  "IsValid bs = (bs \<noteq> BlockStatusPending \<and> bs \<noteq> BlockStatusInvalid \<and> bs \<noteq> BlockStatusDisposed)"

lemmas status_defs = IsPending_def IsCommitted_def IsFinalized_def IsDirectlyFinalized_def
  IsIndirectlyFinalized_def IsTrusted_def IsInvalid_def IsValid_def

lemma finalized_valid: "IsFinalized bs \<Longrightarrow> IsValid bs"
  by (auto simp: status_defs)

section \<open>Facts\<close>

lemma Header_EncodeRLP_cached [simp]: "Header_EncodeRLP (h\<lparr>hHash := x\<rparr>) = Header_EncodeRLP h"
  by (simp add: Header_EncodeRLP_def)

lemma calculateHash_cached [simp]: "calculateHash B (h\<lparr>hHash := x\<rparr>) = calculateHash B h"
  by (simp add: calculateHash_def)

lemma Header_EncodeRLP_ext [simp]:
  "Header_EncodeRLP (b\<lparr>bTxs := txs\<rparr>) = Header_EncodeRLP b"
  "Header_EncodeRLP (e\<lparr>eChildren := cs\<rparr>) = Header_EncodeRLP e"
  "Header_EncodeRLP (e\<lparr>eStatus := st\<rparr>) = Header_EncodeRLP e"
  "Header_EncodeRLP (e\<lparr>eHasValidatorUpdate := u\<rparr>) = Header_EncodeRLP e"
  by (simp_all add: Header_EncodeRLP_def)

lemma Header_Hash_ext [simp]:
  "Header_Hash B (b\<lparr>bTxs := txs\<rparr>) = Header_Hash B b"
  "Header_Hash B (e\<lparr>eChildren := cs\<rparr>) = Header_Hash B e"
  "Header_Hash B (e\<lparr>eStatus := st\<rparr>) = Header_Hash B e"
  "Header_Hash B (e\<lparr>eHasValidatorUpdate := u\<rparr>) = Header_Hash B e"
  by (simp_all add: Header_Hash_def calculateHash_def)

text \<open>The cache of a header is empty or holds the hash of its fields.\<close>

definition cache_ok :: "block_ops \<Rightarrow> 'a header_scheme \<Rightarrow> bool" where
  "cache_ok B h \<longleftrightarrow> hHash h = 0 \<or> hHash h = calculateHash B h"

lemma Header_Hash_cache_ok: "cache_ok B h \<Longrightarrow> Header_Hash B h = calculateHash B h"
  by (auto simp: cache_ok_def Header_Hash_def)

lemma UpdateHash_ok: "cache_ok B (UpdateHash B h)" "Header_Hash B (UpdateHash B h) = calculateHash B h"
  by (simp_all add: cache_ok_def UpdateHash_def Header_Hash_def)

text \<open>What a stored block looks like when it is read back: the cache is empty.\<close>

definition clearCache :: "'a header_scheme \<Rightarrow> 'a header_scheme" where
  "clearCache h = h\<lparr>hHash := 0\<rparr>"

lemma Header_Hash_clearCache [simp]: "Header_Hash B (clearCache h) = calculateHash B h"
  by (simp add: clearCache_def Header_Hash_def)

lemma Header_Validate_OK_iff:
  "Header_Validate B chainID h = OK \<longleftrightarrow>
    chainID = hChainID h \<and> hParent h \<noteq> 0 \<and> ccBlockHash (hHCC h) \<noteq> 0 \<and> hTimestamp h \<noteq> None \<and> hProposer h \<noteq> 0 \<and>
    (\<exists>sig. hSignature h = Some sig \<and> \<not> sigIsEmpty (bCrypto B) sig \<and>
      sigVerify (bCrypto B) sig (Header_SignBytes B h) (hProposer h))"
  by (auto simp: Header_Validate_def split: option.splits)

lemma Block_Validate_OK_iff:
  "Block_Validate B chainID b = OK \<longleftrightarrow>
    Header_Validate B chainID b = OK \<and> hTxHash b = CalculateRootHash B (bTxs b)"
  by (cases "Header_Validate B chainID b") (auto simp: Block_Validate_def Let_def)

lemma AddTxs_TxHash: "hTxHash (AddTxs B txs b) = CalculateRootHash B (bTxs (AddTxs B txs b))"
  by (simp add: AddTxs_def updateTxHash_def)

lemma Header_DecodeRLP_EncodeRLP:
  assumes "hTimestamp h \<noteq> None" "hSignature h \<noteq> None"
  shows "Header_DecodeRLP B (Header_EncodeRLP h) = Some (header.truncate (clearCache h))"
  using assms by (auto simp: Header_DecodeRLP_def Header_EncodeRLP_def rlp_reader_defs clearCache_def header.defs)

lemma ExtendedBlock_DecodeRLP_EncodeRLP:
  assumes "hTimestamp eb \<noteq> None" "hSignature eb \<noteq> None"
  shows "ExtendedBlock_DecodeRLP B (ExtendedBlock_EncodeRLP eb) = Some (clearCache eb)"
  using Header_DecodeRLP_EncodeRLP[OF assms, of B]
  by (simp add: ExtendedBlock_DecodeRLP_def Block_DecodeRLP_def ExtendedBlock_EncodeRLP_def Block_EncodeRLP_def
      rlp_reader_defs header.defs block.defs extblock.defs clearCache_def)

end
