(* ===== verification/StoreKeys.thy ===== *)
theory StoreKeys
  imports Prelude
begin

text \<open>
  The keys under which the chain keeps its records in one key-value store (\<open>blockchain/chain.go\<close>,
  \<open>blockchain/vote.go\<close>, \<open>blockchain/tx.go\<close>): byte strings built from prefixes, hashes and
  variable-length heights.

  The lemmas collected in \<open>key_simps\<close> decide every equation between two keys: keys of one kind are equal
  only for equal arguments, and keys of different kinds are never equal.
\<close>

section \<open>Bytes of hashes and heights\<close>

definition hash_bytes :: "hash \<Rightarrow> bytes" where
  "hash_bytes h = map (\<lambda>i. ucast (drop_bit (8 * (31 - i)) h)) [0..<32]"

text \<open>\<open>binary.PutUvarint\<close>.\<close>

fun PutUvarint :: "nat \<Rightarrow> bytes" where
  "PutUvarint x = (if x < 128 then [word_of_nat x] else word_of_nat (x mod 128 + 128) # PutUvarint (x div 128))"

declare PutUvarint.simps [simp del]

definition ascii :: "string \<Rightarrow> bytes" where
  "ascii s = map (\<lambda>c. word_of_nat (of_char c)) s"

section \<open>Keys\<close>

definition blockKey :: "hash \<Rightarrow> bytes" where
  "blockKey h = hash_bytes h"

definition blockByHeightIndexKey :: "uint64 \<Rightarrow> bytes" where
  "blockByHeightIndexKey height = ascii ''bh/'' @ PutUvarint (unat height)"

definition voteIndexKey :: "hash \<Rightarrow> bytes" where
  "voteIndexKey h = ascii ''vt/'' @ hash_bytes h"

definition txIndexKey :: "hash \<Rightarrow> bytes" where
  "txIndexKey h = ascii ''tx/'' @ hash_bytes h"

definition txReceiptKeyV1 :: "hash \<Rightarrow> bytes" where
  "txReceiptKeyV1 h = ascii ''txr/'' @ hash_bytes h"

definition txReceiptKeyV2 :: "hash \<Rightarrow> hash \<Rightarrow> bytes" where
  "txReceiptKeyV2 blockHash txHash = ascii ''txr/v2/'' @ hash_bytes blockHash @ ascii ''/'' @ hash_bytes txHash"

definition txBalanceChangesKey :: "hash \<Rightarrow> hash \<Rightarrow> bytes" where
  "txBalanceChangesKey blockHash txHash = ascii ''txb/'' @ hash_bytes blockHash @ ascii ''/'' @ hash_bytes txHash"

section \<open>Injectivity\<close>

lemma length_hash_bytes [simp]: "length (hash_bytes h) = 32"
  by (simp add: hash_bytes_def)

lemma nth_hash_bytes: "i < 32 \<Longrightarrow> hash_bytes h ! i = ucast (drop_bit (8 * (31 - i)) h)"
  by (simp add: hash_bytes_def)

lemma bit_hash_bytes:
  assumes "n < 256"
  shows "bit h n \<longleftrightarrow> bit (hash_bytes h ! (31 - n div 8)) (n mod 8)"
proof -
  have "8 * (31 - (31 - n div 8)) + n mod 8 = n"
    using assms by simp
  then show ?thesis
    using assms by (simp add: nth_hash_bytes bit_ucast_iff bit_drop_bit_eq)
qed

lemma hash_bytes_inj [simp]: "hash_bytes a = hash_bytes b \<longleftrightarrow> a = b"
proof
  assume "hash_bytes a = hash_bytes b"
  then show "a = b"
    by (intro bit_word_eqI) (simp add: bit_hash_bytes)
qed simp

lemma PutUvarint_Cons: "\<exists>b bs. PutUvarint x = b # bs"
  by (subst PutUvarint.simps) simp

lemma word_of_nat_byte_inj:
  assumes "m < 256" "n < 256" "(word_of_nat m :: byte) = word_of_nat n"
  shows "m = n"
proof -
  have "unat (word_of_nat m :: byte) = unat (word_of_nat n :: byte)"
    using assms(3) by (rule arg_cong)
  then show ?thesis
    unfolding unat_of_nat using assms(1,2) by simp
qed

lemma PutUvarint_small: "x < 128 \<Longrightarrow> PutUvarint x = [word_of_nat x]"
  by (subst PutUvarint.simps) simp

lemma PutUvarint_big:
  "\<not> x < 128 \<Longrightarrow> PutUvarint x = word_of_nat (x mod 128 + 128) # PutUvarint (x div 128)"
  by (subst PutUvarint.simps) simp

lemma length_small: "x < 128 \<Longrightarrow> length (PutUvarint x) = 1"
  unfolding PutUvarint_small by simp

lemma length_big: "\<not> x < 128 \<Longrightarrow> 1 < length (PutUvarint x)"
  unfolding PutUvarint_big using PutUvarint_Cons[of "x div 128"] by auto

lemma PutUvarint_inj: "PutUvarint m = PutUvarint n \<Longrightarrow> m = n"
proof (induction m arbitrary: n rule: PutUvarint.induct)
  case (1 m)
  show ?case
  proof (cases "m < 128"; cases "n < 128")
    assume "m < 128" "n < 128"
    then have "word_of_nat m = (word_of_nat n :: byte)" "m < 256" "n < 256"
      using 1(2) unfolding PutUvarint_small[OF \<open>m < 128\<close>] PutUvarint_small[OF \<open>n < 128\<close>] list.inject
      by (blast, linarith, linarith)
    then show ?thesis
      using word_of_nat_byte_inj[of m n] by blast
  next
    assume "m < 128" "\<not> n < 128"
    with length_small[of m] length_big[of n] 1(2) show ?thesis
      by simp
  next
    assume "\<not> m < 128" "n < 128"
    with length_small[of n] length_big[of m] 1(2) show ?thesis
      by simp
  next
    assume big: "\<not> m < 128" "\<not> n < 128"
    then have eqs: "word_of_nat (m mod 128 + 128) = (word_of_nat (n mod 128 + 128) :: byte)"
        "PutUvarint (m div 128) = PutUvarint (n div 128)"
      using 1(2) unfolding PutUvarint_big[OF big(1)] PutUvarint_big[OF big(2)] list.inject by blast+
    have "m mod 128 + 128 < 256" "n mod 128 + 128 < 256"
      using mod_less_divisor[of 128 m] mod_less_divisor[of 128 n] by linarith+
    from word_of_nat_byte_inj[OF this eqs(1)] have "m mod 128 = n mod 128"
      by simp
    moreover have "m div 128 = n div 128"
      using 1(1)[OF big(1) eqs(2)] .
    ultimately have "m div 128 * 128 + m mod 128 = n div 128 * 128 + n mod 128"
      by (rule arg_cong2[where f = "\<lambda>x y. y * 128 + x"])
    then show ?thesis
      unfolding div_mult_mod_eq .
  qed
qed

lemma length_PutUvarint: "n < 128 ^ k \<Longrightarrow> 0 < k \<Longrightarrow> length (PutUvarint n) \<le> k"
proof (induction n arbitrary: k rule: PutUvarint.induct)
  case (1 n)
  show ?case
  proof (cases "n < 128")
    case True
    with 1(3) show ?thesis
      by (simp add: PutUvarint.simps[of n])
  next
    case False
    then obtain j where k: "k = Suc j" "0 < j"
      using 1(2,3) by (cases k; cases "k = 1") auto
    then have "n div 128 < 128 ^ j"
      using 1(2) by (simp add: less_mult_imp_div_less mult.commute)
    with 1(1)[OF False] False k show ?thesis
      by (simp add: PutUvarint.simps[of n])
  qed
qed

lemma length_ascii [simp]: "length (ascii s) = length s"
  by (simp add: ascii_def)

lemma length_height_key: "length (blockByHeightIndexKey h) \<le> 13"
proof -
  have "unat h < 128 ^ 10"
    using unsigned_less[of h, where ?'a = nat] by simp
  then show ?thesis
    using length_PutUvarint[of "unat h" 10] by (simp add: blockByHeightIndexKey_def)
qed

lemma ascii_simps: "ascii (c # s) = word_of_nat (of_char c) # ascii s" "ascii [] = []"
  by (simp_all add: ascii_def)

lemma key_lengths:
  "length (blockKey h) = 32" "length (voteIndexKey h) = 35" "length (txIndexKey h) = 35"
  "length (txReceiptKeyV1 h) = 36" "length (txReceiptKeyV2 a b) = 72" "length (txBalanceChangesKey a b) = 69"
  by (simp_all add: blockKey_def voteIndexKey_def txIndexKey_def txReceiptKeyV1_def txReceiptKeyV2_def
      txBalanceChangesKey_def)

lemma keys_of_one_kind:
  "blockKey a = blockKey b \<longleftrightarrow> a = b"
  "blockByHeightIndexKey m = blockByHeightIndexKey n \<longleftrightarrow> m = n"
  "voteIndexKey a = voteIndexKey b \<longleftrightarrow> a = b"
  "txIndexKey a = txIndexKey b \<longleftrightarrow> a = b"
  "txReceiptKeyV1 a = txReceiptKeyV1 b \<longleftrightarrow> a = b"
  "txReceiptKeyV2 a c = txReceiptKeyV2 b d \<longleftrightarrow> a = b \<and> c = d"
  "txBalanceChangesKey a c = txBalanceChangesKey b d \<longleftrightarrow> a = b \<and> c = d"
proof -
  show "blockByHeightIndexKey m = blockByHeightIndexKey n \<longleftrightarrow> m = n"
    using PutUvarint_inj[of "unat m" "unat n"] iffD2[OF word_unat_eq_iff, of m n]
    by (auto simp: blockByHeightIndexKey_def)
qed (simp_all add: blockKey_def voteIndexKey_def txIndexKey_def txReceiptKeyV1_def txReceiptKeyV2_def
      txBalanceChangesKey_def)

lemma vote_tx_keys: "voteIndexKey a \<noteq> txIndexKey b" "txIndexKey b \<noteq> voteIndexKey a"
  by (simp_all add: voteIndexKey_def txIndexKey_def ascii_simps)

lemma keys_of_different_length: "length xs \<noteq> length ys \<Longrightarrow> xs \<noteq> ys"
  by auto

lemma keys_of_two_kinds:
  "blockKey a \<noteq> blockByHeightIndexKey n" "blockKey a \<noteq> voteIndexKey b" "blockKey a \<noteq> txIndexKey b"
  "blockKey a \<noteq> txReceiptKeyV1 b" "blockKey a \<noteq> txReceiptKeyV2 b c" "blockKey a \<noteq> txBalanceChangesKey b c"
  "blockByHeightIndexKey n \<noteq> voteIndexKey b" "blockByHeightIndexKey n \<noteq> txIndexKey b"
  "blockByHeightIndexKey n \<noteq> txReceiptKeyV1 b" "blockByHeightIndexKey n \<noteq> txReceiptKeyV2 b c"
  "blockByHeightIndexKey n \<noteq> txBalanceChangesKey b c"
  "voteIndexKey a \<noteq> txReceiptKeyV1 b" "voteIndexKey a \<noteq> txReceiptKeyV2 b c" "voteIndexKey a \<noteq> txBalanceChangesKey b c"
  "txIndexKey a \<noteq> txReceiptKeyV1 b" "txIndexKey a \<noteq> txReceiptKeyV2 b c" "txIndexKey a \<noteq> txBalanceChangesKey b c"
  "txReceiptKeyV1 a \<noteq> txReceiptKeyV2 b c" "txReceiptKeyV1 a \<noteq> txBalanceChangesKey b c"
  "txReceiptKeyV2 a d \<noteq> txBalanceChangesKey b c"
  using length_height_key[of n] key_lengths by (auto dest!: arg_cong[where f = length])

lemmas key_simps = keys_of_one_kind vote_tx_keys keys_of_two_kinds keys_of_two_kinds[symmetric]

end
