(* ===== verification/RollingDB.thy ===== *)
theory RollingDB
  imports Prelude
begin

text \<open>
  Key-value stores: the contract the block store relies on (locale \<open>kv_store\<close>), and the layered
  database that implements it (\<open>store/rollingdb/rollingdb.go\<close>).

  A layer is a name; \<open>dbs\<close> gives the contents of the database of each layer (LevelDB, outside the
  repository: a map with its documented behaviour). The active layer is the root layer itself when
  rolling is disabled, so names may coincide.
\<close>

section \<open>The contract of a key-value store\<close>

locale kv_store =
  fixes get :: "'s \<Rightarrow> 'k \<Rightarrow> 'v option"
    and put :: "'s \<Rightarrow> 'k \<Rightarrow> 'v \<Rightarrow> 's"
    and delete :: "'s \<Rightarrow> 'k \<Rightarrow> 's"
  assumes get_put: "get (put s k v) k' = (if k' = k then Some v else get s k')"
    and get_delete: "get (delete s k) k' = (if k' = k then None else get s k')"

section \<open>Layers\<close>

record ('k, 'v) rollingdb =
  dbs :: "nat \<Rightarrow> 'k \<rightharpoonup> 'v"
  rootLayer :: nat
  layers :: "nat list"
  activeLayer :: nat

definition allLayers :: "('k, 'v) rollingdb \<Rightarrow> nat list" where
  "allLayers r = activeLayer r # rev (layers r) @ [rootLayer r]"

fun get_first :: "(nat \<Rightarrow> 'k \<rightharpoonup> 'v) \<Rightarrow> nat list \<Rightarrow> 'k \<Rightarrow> 'v option" where
  "get_first d [] k = None"
| "get_first d (l # ls) k = (case d l k of Some v \<Rightarrow> Some v | None \<Rightarrow> get_first d ls k)"

definition rdb_Get :: "('k, 'v) rollingdb \<Rightarrow> 'k \<Rightarrow> 'v option" where
  "rdb_Get r k = get_first (dbs r) (allLayers r) k"

text \<open>
  \<open>has\<close> is the method \<open>Has\<close> of a layer's database: an answer, or an error (\<open>None\<close>). The loop returns the
  first answer without an error.
\<close>

fun has_first :: "(('k \<rightharpoonup> 'v) \<Rightarrow> 'k \<Rightarrow> bool option) \<Rightarrow> (nat \<Rightarrow> 'k \<rightharpoonup> 'v) \<Rightarrow> nat list \<Rightarrow> 'k \<Rightarrow> bool option" where
  "has_first has d [] k = None"
| "has_first has d (l # ls) k = (case has (d l) k of Some b \<Rightarrow> Some b | None \<Rightarrow> has_first has d ls k)"

definition rdb_Has :: "(('k \<rightharpoonup> 'v) \<Rightarrow> 'k \<Rightarrow> bool option) \<Rightarrow> ('k, 'v) rollingdb \<Rightarrow> 'k \<Rightarrow> bool option" where
  "rdb_Has has r k = has_first has (dbs r) (allLayers r) k"

definition rdb_Put :: "('k, 'v) rollingdb \<Rightarrow> 'k \<Rightarrow> 'v \<Rightarrow> ('k, 'v) rollingdb" where
  "rdb_Put r k v = r\<lparr>dbs := (dbs r)(activeLayer r := (dbs r (activeLayer r))(k \<mapsto> v))\<rparr>"

definition layer_Delete :: "'k \<Rightarrow> nat \<Rightarrow> ('k, 'v) rollingdb \<Rightarrow> ('k, 'v) rollingdb" where
  "layer_Delete k l r = r\<lparr>dbs := (dbs r)(l := (dbs r l)(k := None))\<rparr>"

definition rdb_Delete :: "('k, 'v) rollingdb \<Rightarrow> 'k \<Rightarrow> ('k, 'v) rollingdb" where
  "rdb_Delete r k = fold (layer_Delete k) (allLayers r) r"

text \<open>\<open>addLayer\<close>: the new layer's database is the one found under its name, empty for a new name.\<close>

definition addLayer :: "('k, 'v) rollingdb \<Rightarrow> ('k, 'v) rollingdb" where
  "addLayer r = r\<lparr>layers := layers r @ [activeLayer r], activeLayer := activeLayer r + 1\<rparr>"

text \<open>\<open>int(height)%interval == 50\<close> and \<open>== 70\<close>; Go's remainder has the sign of the dividend.\<close>

definition go_rem :: "int \<Rightarrow> int \<Rightarrow> int" where
  "go_rem a b = sgn a * (\<bar>a\<bar> mod \<bar>b\<bar>)"

definition isRollingHeight :: "int \<Rightarrow> uint64 \<Rightarrow> bool" where
  "isRollingHeight interval height = (go_rem (sint height) interval = 50)"

definition isCompactionHeight :: "int \<Rightarrow> uint64 \<Rightarrow> bool" where
  "isCompactionHeight interval height = (go_rem (sint height) interval = 70)"

section \<open>The layered database meets the contract\<close>

lemma get_first_upd_other: "m k = d l k \<Longrightarrow> get_first (d(l := m)) ls k = get_first d ls k"
  by (induction ls) (auto split: option.splits)

lemma allLayers_dbs [simp]: "allLayers (r\<lparr>dbs := d\<rparr>) = allLayers r"
  by (simp add: allLayers_def)

lemma rdb_Get_Put: "rdb_Get (rdb_Put r k v) k' = (if k' = k then Some v else rdb_Get r k')"
proof (cases "k' = k")
  case False
  then have "((dbs r (activeLayer r))(k \<mapsto> v)) k' = dbs r (activeLayer r) k'"
    by simp
  with False show ?thesis
    by (simp add: rdb_Get_def rdb_Put_def get_first_upd_other)
qed (simp add: rdb_Get_def rdb_Put_def allLayers_def)

lemma layer_Delete_simps:
  "dbs (layer_Delete k l r) = (dbs r)(l := (dbs r l)(k := None))"
  "(layer_Delete k l r)\<lparr>dbs := d\<rparr> = r\<lparr>dbs := d\<rparr>"
  by (simp_all add: layer_Delete_def)

lemma fold_delete_dbs:
  "fold (layer_Delete k) ls r = r\<lparr>dbs := \<lambda>l. if l \<in> set ls then (dbs r l)(k := None) else dbs r l\<rparr>"
proof (induction ls arbitrary: r)
  case (Cons l ls)
  have "fold (layer_Delete k) (l # ls) r =
      r\<lparr>dbs := \<lambda>m. if m \<in> set ls then (((dbs r)(l := (dbs r l)(k := None))) m)(k := None)
                 else ((dbs r)(l := (dbs r l)(k := None))) m\<rparr>"
    unfolding fold_simps Cons.IH layer_Delete_simps by (rule refl)
  also have "\<dots> = r\<lparr>dbs := \<lambda>m. if m \<in> set (l # ls) then (dbs r m)(k := None) else dbs r m\<rparr>"
    by (intro arg_cong[where f = "\<lambda>d. r\<lparr>dbs := d\<rparr>"]) (auto simp: fun_eq_iff)
  finally show ?case .
qed simp

lemma get_first_cong: "(\<And>l. l \<in> set ls \<Longrightarrow> d l k = d' l k) \<Longrightarrow> get_first d ls k = get_first d' ls k"
  by (induction ls) (auto split: option.splits)

lemma get_first_None: "(\<And>l. l \<in> set ls \<Longrightarrow> d l k = None) \<Longrightarrow> get_first d ls k = None"
  by (induction ls) auto

lemma rdb_Get_Delete: "rdb_Get (rdb_Delete r k) k' = (if k' = k then None else rdb_Get r k')"
proof (cases "k' = k")
  case True
  then show ?thesis
    by (simp add: rdb_Get_def rdb_Delete_def fold_delete_dbs get_first_None)
next
  case False
  then show ?thesis
    by (auto simp: rdb_Get_def rdb_Delete_def fold_delete_dbs intro: get_first_cong)
qed

interpretation rdb: kv_store rdb_Get rdb_Put rdb_Delete
  by unfold_locales (simp_all add: rdb_Get_Put rdb_Get_Delete)

lemma rdb_Get_addLayer:
  assumes "dbs r (activeLayer r + 1) = Map.empty"
  shows "rdb_Get (addLayer r) k = rdb_Get r k"
  using assms by (simp add: rdb_Get_def addLayer_def allLayers_def)

section \<open>Properties\<close>

definition example_rdb :: "(nat, nat) rollingdb" where
  "example_rdb = \<lparr>dbs = (\<lambda>_. Map.empty)(0 := [1 \<mapsto> 10]), rootLayer = 0, layers = [1], activeLayer = 2\<rparr>"

text \<open>C24: reading the layered database after \<open>Put\<close> and \<open>Delete\<close> behaves as one map does, and rolling over
  to a new empty layer changes no read, whatever layers are active.\<close>

theorem rollingdb_is_a_map:
  "rdb_Get (rdb_Put r k v) k' = (if k' = k then Some v else rdb_Get r k') \<and>
   rdb_Get (rdb_Delete r k) k' = (if k' = k then None else rdb_Get r k') \<and>
   (dbs r (activeLayer r + 1) = Map.empty \<longrightarrow> rdb_Get (addLayer r) k = rdb_Get r k)"
  using rdb.get_put[of r k v k'] rdb.get_delete[of r k k'] rdb_Get_addLayer[of r k] by simp

theorem rollingdb_is_a_map_witness:
  "rdb_Get (addLayer example_rdb) 1 = Some 10"
  using rollingdb_is_a_map[of example_rdb 1 0 0]
  by (simp add: example_rdb_def rdb_Get_def allLayers_def)

text \<open>C25: \<open>Has\<close> asks the active layer only. Where the databases of the layers answer \<open>Has\<close> as LevelDB
  does, with a yes or no and no error, the loop ends in its first round: for a key that is not in the
  active layer the answer is no, even where \<open>Get\<close> finds a value in an older layer.\<close>

theorem rdb_Has_ignores_older_layers:
  assumes "\<And>m k. has m k = Some (m k \<noteq> None)" "dbs r (activeLayer r) k = None"
  shows "rdb_Has has r k = Some False"
  using assms by (simp add: rdb_Has_def allLayers_def)

theorem rdb_Has_ignores_older_layers_witness:
  "rdb_Get example_rdb 1 = Some 10 \<and> rdb_Has (\<lambda>m k. Some (m k \<noteq> None)) example_rdb 1 = Some False"
  using rdb_Has_ignores_older_layers[of "\<lambda>m k. Some (m k \<noteq> None)" example_rdb 1]
  by (simp add: example_rdb_def rdb_Get_def allLayers_def)

end
