(* ===== verification/Chain.thy ===== *)
theory Chain
  imports Block StoreKeys RollingDB
begin

text \<open>
  The block store: blocks and their indices (\<open>blockchain/chain.go\<close>), votes by block
  (\<open>blockchain/vote.go\<close>), transactions and receipts (\<open>blockchain/tx.go\<close>).

  The chain keeps everything in one key-value store, the parameter \<open>chain_ops\<close> of the definitions, under
  the keys of \<open>StoreKeys\<close>. A stored value is one of the Go types the code writes; reading a key into a
  variable of another type is a decoding error. Errors of \<open>Put\<close> make the code panic and are not
  modelled. The mutex of the chain makes every exported method one atomic step.

  The locale \<open>chain_store\<close> holds the facts about a chain over any store that meets the contract
  \<open>kv_store\<close>.
\<close>

section \<open>Stored values\<close>

text \<open>\<open>types.Log\<close> and \<open>types.BalanceChange\<close> of the library, as this code fills them in.\<close>

record evmlog =
  lgAddress :: address
  lgTopics :: "hash list"
  lgData :: bytes

record balancechange =
  bcAddress :: address
  bcTokenType :: nat
  bcIsNegative :: bool
  bcDelta :: int

record txindexentry =
  tiBlockHash :: hash
  tiBlockHeight :: uint64
  tiIndex :: uint64

record txreceipt =
  trTxHash :: hash
  trLogs :: "evmlog list"
  trEvmRet :: bytes
  trContractAddress :: address
  trGasUsed :: uint64
  trEvmErr :: string

record txbalances =
  tbTxHash :: hash
  tbBalanceChanges :: "balancechange list"
  tbEvmRet :: bytes
  tbContractAddress :: address
  tbGasUsed :: uint64
  tbEvmErr :: string

datatype storeval =
    VBlock extblock
  | VHeightIndex "hash list"
  | VVotes voteset
  | VTxIndex txindexentry
  | VReceipt txreceipt
  | VBalances txbalances

text \<open>The result of \<open>store.Get\<close> into a variable.\<close>

datatype 'a got = NotFound | DecodeError | Got 'a

fun isGot :: "'a got \<Rightarrow> bool" where
  "isGot (Got _) = True"
| "isGot _ = False"

fun as_block :: "storeval \<Rightarrow> extblock option" where
  "as_block (VBlock b) = Some b"
| "as_block _ = None"

fun as_heightindex :: "storeval \<Rightarrow> hash list option" where
  "as_heightindex (VHeightIndex hs) = Some hs"
| "as_heightindex _ = None"

fun as_votes :: "storeval \<Rightarrow> voteset option" where
  "as_votes (VVotes vs) = Some vs"
| "as_votes _ = None"

fun as_txindex :: "storeval \<Rightarrow> txindexentry option" where
  "as_txindex (VTxIndex t) = Some t"
| "as_txindex _ = None"

fun as_receipt :: "storeval \<Rightarrow> txreceipt option" where
  "as_receipt (VReceipt r) = Some r"
| "as_receipt _ = None"

fun as_balances :: "storeval \<Rightarrow> txbalances option" where
  "as_balances (VBalances r) = Some r"
| "as_balances _ = None"

section \<open>Parameters and state\<close>

text \<open>
  What \<open>CalcEthTxHash\<close> reads of a smart contract transaction, and the Ethereum transaction it builds.
  \<open>txFromBytes\<close> is \<open>None\<close> for bytes that do not decode and \<open>Some None\<close> for transactions of other types.
\<close>

record sctx =
  scFromAddress :: address
  scFromSignature :: signature
  scFromSequence :: uint64
  scFromTFuelWei :: int
  scToAddress :: address
  scGasPrice :: int
  scGasLimit :: uint64
  scData :: bytes

record ethtx =
  etNonce :: uint64
  etGasPrice :: int
  etGas :: uint64
  etTo :: "address option"
  etValue :: int
  etData :: bytes
  etV :: int
  etR :: int
  etS :: int

record eth_ops =
  txFromBytes :: "bytes \<Rightarrow> sctx option option"
  EthSigningHash :: "sctx \<Rightarrow> string \<Rightarrow> uint64 \<Rightarrow> hash"
  ValidateEthSignature :: "address \<Rightarrow> hash \<Rightarrow> signature \<Rightarrow> bool"
  DecodeSignature :: "signature \<Rightarrow> int \<times> int \<times> int"
  MapChainID :: "string \<Rightarrow> uint64 \<Rightarrow> int"
  ethHash :: "ethtx \<Rightarrow> hash"

record 's chain_ops =
  kvGet :: "'s \<Rightarrow> bytes \<Rightarrow> storeval option"
  kvPut :: "'s \<Rightarrow> bytes \<Rightarrow> storeval \<Rightarrow> 's"
  kvDelete :: "'s \<Rightarrow> bytes \<Rightarrow> 's"
  cB :: block_ops
  cEth :: eth_ops

record 's chain =
  chStore :: 's
  chChainID :: string
  chRoot :: hash

definition readAs :: "(storeval \<Rightarrow> 'a option) \<Rightarrow> 's chain_ops \<Rightarrow> bytes \<Rightarrow> 's chain \<Rightarrow> 'a got" where
  "readAs as X k ch =
    (case kvGet X (chStore ch) k of
       None \<Rightarrow> NotFound
     | Some v \<Rightarrow> (case as v of None \<Rightarrow> DecodeError | Some x \<Rightarrow> Got x))"

definition writeVal :: "'s chain_ops \<Rightarrow> bytes \<Rightarrow> storeval \<Rightarrow> 's chain \<Rightarrow> 's chain" where
  "writeVal X k v ch = ch\<lparr>chStore := kvPut X (chStore ch) k v\<rparr>"

section \<open>Blocks\<close>

definition findBlock :: "'s chain_ops \<Rightarrow> hash \<Rightarrow> 's chain \<Rightarrow> extblock got" where
  "findBlock X h ch = readAs as_block X (blockKey h) ch"

definition saveBlock :: "'s chain_ops \<Rightarrow> extblock \<Rightarrow> 's chain \<Rightarrow> 's chain" where
  "saveBlock X b ch = writeVal X (blockKey (Header_Hash (cB X) b)) (VBlock (clearCache b)) ch"

text \<open>An entry that is missing or does not decode leaves the empty list of the caller.\<close>

definition heightIndex :: "'s chain_ops \<Rightarrow> uint64 \<Rightarrow> 's chain \<Rightarrow> hash list" where
  "heightIndex X height ch =
    (case readAs as_heightindex X (blockByHeightIndexKey height) ch of Got hs \<Rightarrow> hs | _ \<Rightarrow> [])"

definition AddBlockByHeightIndex :: "'s chain_ops \<Rightarrow> uint64 \<Rightarrow> hash \<Rightarrow> 's chain \<Rightarrow> 's chain" where
  "AddBlockByHeightIndex X height h ch =
    (let hs = heightIndex X height ch in
     if h \<in> set hs then ch
     else writeVal X (blockByHeightIndexKey height) (VHeightIndex (hs @ [h])) ch)"

fun collectBlocks :: "'s chain_ops \<Rightarrow> hash list \<Rightarrow> 's chain \<Rightarrow> extblock list" where
  "collectBlocks X [] ch = []"
| "collectBlocks X (h # hs) ch =
    (case findBlock X h ch of Got b \<Rightarrow> b # collectBlocks X hs ch | _ \<Rightarrow> collectBlocks X hs ch)"

definition findBlocksByHeight :: "'s chain_ops \<Rightarrow> uint64 \<Rightarrow> 's chain \<Rightarrow> extblock list" where
  "findBlocksByHeight X height ch = collectBlocks X (heightIndex X height ch) ch"

section \<open>Transactions\<close>

definition CalcEthTxHash :: "'s chain_ops \<Rightarrow> 'a header_scheme \<Rightarrow> bytes \<Rightarrow> hash option" where
  "CalcEthTxHash X block raw =
    (case txFromBytes (cEth X) raw of
       None \<Rightarrow> None
     | Some None \<Rightarrow> None
     | Some (Some sc) \<Rightarrow>
         if \<not> ValidateEthSignature (cEth X) (scFromAddress sc)
             (EthSigningHash (cEth X) sc (hChainID block) (hHeight block)) (scFromSignature sc)
         then None
         else
           (let to = (if scToAddress sc \<noteq> 0 then Some (scToAddress sc) else None);
                (r, s, v) = DecodeSignature (cEth X) (scFromSignature sc);
                vPrime = MapChainID (cEth X) (hChainID block) (hHeight block) * 2 + 8 + v
            in Some (ethHash (cEth X)
                 \<lparr>etNonce = scFromSequence sc - 1, etGasPrice = scGasPrice sc, etGas = scGasLimit sc,
                  etTo = to, etValue = scFromTFuelWei sc, etData = scData sc,
                  etV = vPrime, etR = r, etS = s\<rparr>)))"

definition insertEthTxHash :: "'s chain_ops \<Rightarrow> extblock \<Rightarrow> bytes \<Rightarrow> txindexentry \<Rightarrow> 's chain \<Rightarrow> 's chain" where
  "insertEthTxHash X block raw entry ch =
    (case CalcEthTxHash X block raw of
       None \<Rightarrow> ch
     | Some h \<Rightarrow> writeVal X (txIndexKey h) (VTxIndex entry) ch)"

definition txHashOf :: "'s chain_ops \<Rightarrow> bytes \<Rightarrow> hash" where
  "txHashOf X tx = keccak256 (bCrypto (cB X)) tx"

fun addTxs_loop :: "'s chain_ops \<Rightarrow> extblock \<Rightarrow> bool \<Rightarrow> nat \<Rightarrow> bytes list \<Rightarrow> 's chain \<Rightarrow> 's chain" where
  "addTxs_loop X block force idx [] ch = ch"
| "addTxs_loop X block force idx (tx # txs) ch =
    (let entry = \<lparr>tiBlockHash = Header_Hash (cB X) block, tiBlockHeight = hHeight block, tiIndex = word_of_nat idx\<rparr>;
         key = txIndexKey (txHashOf X tx)
     in if \<not> force \<and> readAs as_txindex X key ch \<noteq> NotFound
        then addTxs_loop X block force (idx + 1) txs ch
        else addTxs_loop X block force (idx + 1) txs
               (insertEthTxHash X block tx entry (writeVal X key (VTxIndex entry) ch)))"

definition AddTxsToIndex :: "'s chain_ops \<Rightarrow> extblock \<Rightarrow> bool \<Rightarrow> 's chain \<Rightarrow> 's chain" where
  "AddTxsToIndex X block force ch = addTxs_loop X block force 0 (bTxs block) ch"

text \<open>\<open>FindTxByHash\<close>: a store error on the block, or an index out of range, panics.\<close>

datatype findtx = TxNotFound | TxPanic | TxFound bytes extblock

definition FindTxByHash :: "'s chain_ops \<Rightarrow> hash \<Rightarrow> 's chain \<Rightarrow> findtx" where
  "FindTxByHash X h ch =
    (case readAs as_txindex X (txIndexKey h) ch of
       Got entry \<Rightarrow>
         (case findBlock X (tiBlockHash entry) ch of
            NotFound \<Rightarrow> TxNotFound
          | DecodeError \<Rightarrow> TxPanic
          | Got block \<Rightarrow>
              if unat (tiIndex entry) < length (bTxs block)
              then TxFound (bTxs block ! unat (tiIndex entry)) block else TxPanic)
     | _ \<Rightarrow> TxNotFound)"

text \<open>\<open>AddTxReceipt\<close> gets the transaction as its encoding, the result of \<open>TxToBytes\<close>.\<close>

definition AddTxReceipt ::
  "'s chain_ops \<Rightarrow> 'a header_scheme \<Rightarrow> bytes \<Rightarrow> evmlog list \<Rightarrow> balancechange list \<Rightarrow> bytes \<Rightarrow> address \<Rightarrow> uint64 \<Rightarrow>
    string option \<Rightarrow> 's chain \<Rightarrow> 's chain" where
  "AddTxReceipt X block raw logs balanceChanges evmRet contractAddr gasUsed evmErr ch =
    (let txHash = txHashOf X raw;
         errStr = (case evmErr of None \<Rightarrow> [] | Some e \<Rightarrow> e);
         receipt = \<lparr>trTxHash = txHash, trLogs = logs, trEvmRet = evmRet, trContractAddress = contractAddr,
                    trGasUsed = gasUsed, trEvmErr = errStr\<rparr>;
         balances = \<lparr>tbTxHash = txHash, tbBalanceChanges = balanceChanges, tbEvmRet = evmRet,
                     tbContractAddress = contractAddr, tbGasUsed = gasUsed, tbEvmErr = errStr\<rparr>;
         blockHash = Header_Hash (cB X) block
     in writeVal X (txBalanceChangesKey blockHash txHash) (VBalances balances)
          (writeVal X (txReceiptKeyV1 txHash) (VReceipt receipt)
            (writeVal X (txReceiptKeyV2 blockHash txHash) (VReceipt receipt) ch)))"

definition FindTxReceiptByHash :: "'s chain_ops \<Rightarrow> hash \<Rightarrow> hash \<Rightarrow> 's chain \<Rightarrow> txreceipt option" where
  "FindTxReceiptByHash X blockHash txHash ch =
    (case readAs as_receipt X (txReceiptKeyV2 blockHash txHash) ch of
       Got r \<Rightarrow> Some r
     | DecodeError \<Rightarrow> None
     | NotFound \<Rightarrow>
         (case readAs as_receipt X (txReceiptKeyV1 txHash) ch of Got r \<Rightarrow> Some r | _ \<Rightarrow> None))"

definition FindTxBalanceChangesByHash :: "'s chain_ops \<Rightarrow> hash \<Rightarrow> hash \<Rightarrow> 's chain \<Rightarrow> txbalances option" where
  "FindTxBalanceChangesByHash X blockHash txHash ch =
    (case readAs as_balances X (txBalanceChangesKey blockHash txHash) ch of Got r \<Rightarrow> Some r | _ \<Rightarrow> None)"

section \<open>Votes\<close>

definition FindVotesByHash :: "'s chain_ops \<Rightarrow> hash \<Rightarrow> 's chain \<Rightarrow> voteset" where
  "FindVotesByHash X h ch = (case readAs as_votes X (voteIndexKey h) ch of Got vs \<Rightarrow> vs | _ \<Rightarrow> NewVoteSet)"

definition AddVoteToIndex :: "'s chain_ops \<Rightarrow> vote \<Rightarrow> 's chain \<Rightarrow> 's chain" where
  "AddVoteToIndex X v ch =
    (if vBlock v = 0 then ch
     else writeVal X (voteIndexKey (vBlock v)) (VVotes (AddVote v (FindVotesByHash X (vBlock v) ch))) ch)"

definition RemoveVotesByHash :: "'s chain_ops \<Rightarrow> hash \<Rightarrow> 's chain \<Rightarrow> 's chain" where
  "RemoveVotesByHash X h ch = ch\<lparr>chStore := kvDelete X (chStore ch) (voteIndexKey h)\<rparr>"

section \<open>Adding and marking blocks\<close>

datatype addresult = ChainIDMismatch | AlreadyAdded extblock | Added extblock

definition linkParent :: "'s chain_ops \<Rightarrow> 'a header_scheme \<Rightarrow> bool \<Rightarrow> hash \<Rightarrow> 's chain \<Rightarrow> 's chain" where
  "linkParent X block isSnapshotRoot h ch =
    (if hParent block \<noteq> 0 \<and> \<not> isSnapshotRoot then
       case findBlock X (hParent block) ch of
         Got parent \<Rightarrow> saveBlock X (parent\<lparr>eChildren := eChildren parent @ [h]\<rparr>) ch
       | _ \<Rightarrow> ch
     else ch)"

definition newExtendedBlock :: "'s chain_ops \<Rightarrow> block \<Rightarrow> 's chain \<Rightarrow> extblock" where
  "newExtendedBlock X block ch =
    block.extend block
      (extblock.fields
        (map (Header_Hash (cB X))
          (filter (\<lambda>c. hParent c = Header_Hash (cB X) block) (findBlocksByHeight X (hHeight block + 1) ch)))
        BlockStatusPending False)"

definition addBlock :: "'s chain_ops \<Rightarrow> block \<Rightarrow> bool \<Rightarrow> 's chain \<Rightarrow> addresult \<times> 's chain" where
  "addBlock X block isSnapshotRoot ch =
    (if hChainID block \<noteq> chChainID ch then (ChainIDMismatch, ch)
     else let h = Header_Hash (cB X) block in
       case findBlock X h ch of
         Got b \<Rightarrow> (AlreadyAdded b, ch)
       | _ \<Rightarrow>
         let ch1 = linkParent X block isSnapshotRoot h ch;
             eb = newExtendedBlock X block ch1;
             ch2 = saveBlock X eb ch1;
             ch3 = AddBlockByHeightIndex X (hHeight eb) (Header_Hash (cB X) eb) ch2
         in (Added eb, AddTxsToIndex X eb False ch3))"

definition AddBlock :: "'s chain_ops \<Rightarrow> block \<Rightarrow> 's chain \<Rightarrow> addresult \<times> 's chain" where
  "AddBlock X block ch = addBlock X block False ch"

definition AddSnapshotRoot :: "'s chain_ops \<Rightarrow> block \<Rightarrow> 's chain \<Rightarrow> addresult \<times> 's chain" where
  "AddSnapshotRoot X block ch = addBlock X block True ch"

definition FixBlockIndex :: "'s chain_ops \<Rightarrow> extblock \<Rightarrow> 's chain \<Rightarrow> 's chain" where
  "FixBlockIndex X block ch =
    AddTxsToIndex X block False (AddBlockByHeightIndex X (hHeight block) (Header_Hash (cB X) block) ch)"

definition FixMissingChildren :: "'s chain_ops \<Rightarrow> extblock \<Rightarrow> 's chain \<Rightarrow> extblock \<times> 's chain" where
  "FixMissingChildren X block ch =
    (let block' = block\<lparr>eChildren := filter (\<lambda>h. isGot (findBlock X h ch)) (eChildren block)\<rparr>
     in (block', saveBlock X block' ch))"

text \<open>The marking methods panic (\<open>None\<close>) on a block that is not in the store.\<close>

definition updateBlock :: "(extblock \<Rightarrow> extblock) \<Rightarrow> 's chain_ops \<Rightarrow> hash \<Rightarrow> 's chain \<Rightarrow> (extblock \<times> 's chain) option" where
  "updateBlock f X h ch =
    (case findBlock X h ch of Got b \<Rightarrow> Some (f b, saveBlock X (f b) ch) | _ \<Rightarrow> None)"

definition MarkBlockValid :: "'s chain_ops \<Rightarrow> hash \<Rightarrow> 's chain \<Rightarrow> (extblock \<times> 's chain) option" where
  "MarkBlockValid = updateBlock (\<lambda>b. b\<lparr>eStatus := BlockStatusValid\<rparr>)"

definition MarkBlockInvalid :: "'s chain_ops \<Rightarrow> hash \<Rightarrow> 's chain \<Rightarrow> (extblock \<times> 's chain) option" where
  "MarkBlockInvalid = updateBlock (\<lambda>b. b\<lparr>eStatus := BlockStatusInvalid\<rparr>)"

definition MarkBlockHasValidatorUpdate :: "'s chain_ops \<Rightarrow> hash \<Rightarrow> 's chain \<Rightarrow> (extblock \<times> 's chain) option" where
  "MarkBlockHasValidatorUpdate = updateBlock (\<lambda>b. b\<lparr>eHasValidatorUpdate := True\<rparr>)"

definition CommitBlock :: "'s chain_ops \<Rightarrow> hash \<Rightarrow> 's chain \<Rightarrow> 's chain option" where
  "CommitBlock X h ch = map_option snd (updateBlock (\<lambda>b. b\<lparr>eStatus := BlockStatusCommitted\<rparr>) X h ch)"

section \<open>Finalization and ancestry\<close>

text \<open>The loop of \<open>FinalizePreviousBlocks\<close>; the flag is false when it ends at a disposed block.\<close>

partial_function (option) finalize_loop ::
  "'s chain_ops \<Rightarrow> BlockStatus \<Rightarrow> hash \<Rightarrow> 's chain \<Rightarrow> (bool \<times> 's chain) option" where
  "finalize_loop X status h ch =
    (if h = 0 then Some (True, ch)
     else case findBlock X h ch of
       Got block \<Rightarrow>
         if IsFinalized (eStatus block) then Some (True, ch)
         else if eStatus block = BlockStatusDisposed then Some (False, ch)
         else
           let block' = block\<lparr>eStatus := status\<rparr>
           in finalize_loop X BlockStatusIndirectlyFinalized (hParent block)
                (AddTxsToIndex X block' True (saveBlock X block' ch))
     | _ \<Rightarrow> Some (True, ch))"

definition FinalizePreviousBlocks :: "'s chain_ops \<Rightarrow> hash \<Rightarrow> 's chain \<Rightarrow> (bool \<times> 's chain) option" where
  "FinalizePreviousBlocks X h ch = finalize_loop X BlockStatusDirectlyFinalized h ch"

definition NewChain :: "'s chain_ops \<Rightarrow> string \<Rightarrow> 's \<Rightarrow> block \<Rightarrow> 's chain option" where
  "NewChain X chainID store root =
    (let ch = \<lparr>chStore = store, chChainID = chainID, chRoot = 0\<rparr>;
         r = Header_Hash (cB X) root
     in case findBlock X r ch of
          Got b \<Rightarrow> map_option (\<lambda>(_, ch'). ch'\<lparr>chRoot := Header_Hash (cB X) b\<rparr>)
                     (FinalizePreviousBlocks X (Header_Hash (cB X) b) ch)
        | _ \<Rightarrow>
            (case AddSnapshotRoot X root ch of
               (Added b, ch1) \<Rightarrow> map_option (\<lambda>(_, ch'). ch'\<lparr>chRoot := Header_Hash (cB X) b\<rparr>)
                     (FinalizePreviousBlocks X (Header_Hash (cB X) b) ch1)
             | _ \<Rightarrow> None))"

definition IsOrphan :: "'s chain_ops \<Rightarrow> 'a header_scheme \<Rightarrow> 's chain \<Rightarrow> bool" where
  "IsOrphan X block ch = (\<not> isGot (findBlock X (hParent block) ch))"

definition maxDistance :: nat where
  "maxDistance = 2000"

fun descendant_loop :: "'s chain_ops \<Rightarrow> 's chain \<Rightarrow> hash \<Rightarrow> nat \<Rightarrow> hash \<Rightarrow> bool" where
  "descendant_loop X ch ascendant 0 h = False"
| "descendant_loop X ch ascendant (Suc n) h =
    (if h = ascendant then True
     else case findBlock X h ch of
       Got b \<Rightarrow> descendant_loop X ch ascendant n (hParent b)
     | _ \<Rightarrow> False)"

definition IsDescendant :: "'s chain_ops \<Rightarrow> hash \<Rightarrow> hash \<Rightarrow> 's chain \<Rightarrow> bool" where
  "IsDescendant X ascendant descendant ch = descendant_loop X ch ascendant maxDistance descendant"

end
