(* ===== verification/BlockTree.thy ===== *)
theory BlockTree
  imports Prelude
begin

text \<open>
  The tree of blocks as seen through parent, height and children: its consistency \<open>links_ok\<close>, and that
  adding a fresh block keeps it. The type is that of the skeleton of a chain (\<open>ChainFacts\<close>).
\<close>

type_synonym tree = "hash \<Rightarrow> (hash \<times> uint64 \<times> hash list) option"

text \<open>The children a block lists are stored blocks whose parent it is, each listed once.\<close>

definition children_ok :: "tree \<Rightarrow> bool" where
  "children_ok S \<longleftrightarrow>
    (\<forall>h p n cs. S h = Some (p, n, cs) \<longrightarrow> distinct cs \<and> (\<forall>c \<in> set cs. \<exists>n' cs'. S c = Some (h, n', cs')))"

text \<open>The height index lists exactly the stored blocks of that height, each once.\<close>

definition index_ok :: "tree \<Rightarrow> (uint64 \<Rightarrow> hash list) \<Rightarrow> bool" where
  "index_ok S I \<longleftrightarrow> (\<forall>n. distinct (I n) \<and> (\<forall>h. h \<in> set (I n) \<longleftrightarrow> (\<exists>p cs. S h = Some (p, n, cs))))"

text \<open>A stored block one above its stored parent is among the parent's children.\<close>

definition children_complete :: "tree \<Rightarrow> bool" where
  "children_complete S \<longleftrightarrow>
    (\<forall>c p n cs pp pn pcs. S c = Some (p, n, cs) \<longrightarrow> S p = Some (pp, pn, pcs) \<longrightarrow> p \<noteq> 0 \<longrightarrow> n = pn + 1 \<longrightarrow> c \<in> set pcs)"

definition links_ok :: "tree \<Rightarrow> (uint64 \<Rightarrow> hash list) \<Rightarrow> bool" where
  "links_ok S I \<longleftrightarrow> children_ok S \<and> index_ok S I \<and> children_complete S"

lemma children_okD:
  assumes "children_ok S" "S h = Some (p, n, cs)"
  shows "distinct cs" and "c \<in> set cs \<Longrightarrow> \<exists>n' cs'. S c = Some (h, n', cs')"
  using assms unfolding children_ok_def by blast+

lemma index_okD:
  assumes "index_ok S I"
  shows "distinct (I n)" and "h \<in> set (I n) \<longleftrightarrow> (\<exists>p cs. S h = Some (p, n, cs))"
  using assms unfolding index_ok_def by blast+

lemma children_completeD:
  "children_complete S \<Longrightarrow> S c = Some (p, n, cs) \<Longrightarrow> S p = Some (pp, pn, pcs) \<Longrightarrow> p \<noteq> 0 \<Longrightarrow> n = pn + 1 \<Longrightarrow> c \<in> set pcs"
  unfolding children_complete_def by blast

section \<open>Adding a block\<close>

text \<open>The parent \<open>p\<close>, if stored, gets \<open>h\<close> as a child.\<close>

definition link_parent :: "hash \<Rightarrow> hash \<Rightarrow> tree \<Rightarrow> tree" where
  "link_parent h p S =
    (case S p of Some (pp, pn, pcs) \<Rightarrow> if p \<noteq> 0 then S(p \<mapsto> (pp, pn, pcs @ [h])) else S | None \<Rightarrow> S)"

definition add_block :: "hash \<Rightarrow> hash \<Rightarrow> uint64 \<Rightarrow> hash list \<Rightarrow> tree \<Rightarrow> tree" where
  "add_block h p n cs S = (link_parent h p S)(h \<mapsto> (p, n, cs))"

lemma link_parent_Some_iff:
  "link_parent h p S k = Some (q, m, ccs) \<longleftrightarrow>
    (\<exists>ccs'. S k = Some (q, m, ccs') \<and> ccs = (if k = p \<and> p \<noteq> 0 then ccs' @ [h] else ccs'))"
  by (auto simp: link_parent_def split: option.splits)

lemma add_block_Some_iff:
  "add_block h p n cs S k = Some (q, m, ccs) \<longleftrightarrow>
    (if k = h then q = p \<and> m = n \<and> ccs = cs
     else \<exists>ccs'. S k = Some (q, m, ccs') \<and> ccs = (if k = p \<and> p \<noteq> 0 then ccs' @ [h] else ccs'))"
  by (auto simp: add_block_def link_parent_Some_iff)

lemma add_block_ex_iff:
  "(\<exists>q ccs. add_block h p n cs S k = Some (q, m, ccs)) \<longleftrightarrow> (if k = h then m = n else \<exists>q ccs. S k = Some (q, m, ccs))"
  by (simp add: add_block_Some_iff)

text \<open>
  The new block is not stored before, and the children it gets are the blocks the index lists one
  above it whose parent it is.
\<close>

lemma add_block_children_ok:
  assumes ok: "children_ok S" and fresh: "S h = None" and cs: "distinct cs"
    "\<And>c. c \<in> set cs \<Longrightarrow> \<exists>m ccs. S c = Some (h, m, ccs)"
  shows "children_ok (add_block h p n cs S)"
proof -
  have kept: "\<exists>n' cs'. add_block h p n cs S c = Some (k, n', cs')" if "S c = Some (k, m, ccs)" for c k m ccs
  proof -
    have "c \<noteq> h"
      using that fresh by auto
    with that show ?thesis
      by (auto simp: add_block_Some_iff)
  qed
  have "distinct ccs \<and> (\<forall>c \<in> set ccs. \<exists>n' cs'. add_block h p n cs S c = Some (k, n', cs'))"
    if k: "add_block h p n cs S k = Some (q, m, ccs)" for k q m ccs
  proof (cases "k = h")
    case True
    then have "ccs = cs"
      using k by (simp add: add_block_Some_iff)
    moreover have "\<exists>n' cs'. add_block h p n cs S c = Some (k, n', cs')" if "c \<in> set cs" for c
      using cs(2)[OF that] kept True by blast
    ultimately show ?thesis
      using cs(1) by blast
  next
    case False
    then obtain ccs' where ccs': "S k = Some (q, m, ccs')" "ccs = (if k = p \<and> p \<noteq> 0 then ccs' @ [h] else ccs')"
      using k by (auto simp: add_block_Some_iff)
    have old: "\<exists>n' cs'. add_block h p n cs S c = Some (k, n', cs')" if "c \<in> set ccs'" for c
      using children_okD(2)[OF ok ccs'(1) that] kept by blast
    have "h \<notin> set ccs'"
      using children_okD(2)[OF ok ccs'(1), of h] fresh by auto
    moreover have "\<exists>n' cs'. add_block h p n cs S h = Some (p, n', cs')"
      by (simp add: add_block_Some_iff)
    ultimately show ?thesis
      using ccs'(2) old children_okD(1)[OF ok ccs'(1)] by (auto split: if_splits)
  qed
  then show ?thesis
    unfolding children_ok_def by blast
qed

lemma add_block_index_ok:
  assumes ok: "index_ok S I" and fresh: "S h = None"
  shows "index_ok (add_block h p n cs S) (I(n := I n @ [h]))"
proof -
  have "h \<notin> set (I m)" for m
    using index_okD(2)[OF ok, of h m] fresh by simp
  moreover have "k \<in> set ((I(n := I n @ [h])) m) \<longleftrightarrow> (if k = h then m = n else k \<in> set (I m))" for k m
    using calculation[of m] by auto
  ultimately show ?thesis
    unfolding index_ok_def add_block_ex_iff using index_okD[OF ok] fresh by auto
qed

lemma add_block_children_complete:
  assumes ok: "children_complete S"
    and cs: "\<And>c m ccs. S c = Some (h, m, ccs) \<Longrightarrow> m = n + 1 \<Longrightarrow> c \<in> set cs"
  shows "children_complete (add_block h p n cs S)"
proof -
  have "c \<in> set pcs"
    if c: "add_block h p n cs S c = Some (q, m, ccs)" "add_block h p n cs S q = Some (pp, pn, pcs)"
      and q: "q \<noteq> 0" "m = pn + 1" for c q m ccs pp pn pcs
  proof (cases "c = h"; cases "q = h")
    assume "c = h" "q = h"
    with c q show ?thesis
      by (auto simp: add_block_Some_iff)
  next
    assume "c = h" "q \<noteq> h"
    with c q show ?thesis
      by (auto simp: add_block_Some_iff)
  next
    assume "c \<noteq> h" "q = h"
    with c q cs show ?thesis
      by (auto simp: add_block_Some_iff)
  next
    assume "c \<noteq> h" "q \<noteq> h"
    then obtain ccs' pcs' where S: "S c = Some (q, m, ccs')" "S q = Some (pp, pn, pcs')"
        "pcs = (if q = p \<and> p \<noteq> 0 then pcs' @ [h] else pcs')"
      using c by (auto simp: add_block_Some_iff)
    from children_completeD[OF ok S(1,2) q] S(3) show ?thesis
      by simp
  qed
  then show ?thesis
    unfolding children_complete_def by blast
qed

lemma add_block_links_ok:
  assumes ok: "links_ok S I" and fresh: "S h = None"
    and cs: "cs = filter (\<lambda>c. \<exists>m ccs. S c = Some (h, m, ccs)) (I (n + 1))"
  shows "links_ok (add_block h p n cs S) (I(n := I n @ [h]))"
proof -
  have parts: "children_ok S" "index_ok S I" "children_complete S"
    using ok by (simp_all add: links_ok_def)
  have "children_ok (add_block h p n cs S)"
  proof (rule add_block_children_ok[OF parts(1) fresh])
    show "distinct cs"
      unfolding cs by (intro distinct_filter index_okD(1)[OF parts(2)])
    show "\<exists>m ccs. S c = Some (h, m, ccs)" if "c \<in> set cs" for c
      using that unfolding cs by simp
  qed
  moreover have "index_ok (add_block h p n cs S) (I(n := I n @ [h]))"
    by (rule add_block_index_ok[OF parts(2) fresh])
  moreover have "children_complete (add_block h p n cs S)"
  proof (rule add_block_children_complete[OF parts(3)])
    fix c m ccs
    assume c: "S c = Some (h, m, ccs)" "m = n + 1"
    then have "c \<in> set (I (n + 1))"
      unfolding index_okD(2)[OF parts(2)] by blast
    with c show "c \<in> set cs"
      unfolding cs by simp
  qed
  ultimately show ?thesis
    by (simp add: links_ok_def)
qed

end
