(* ===== verification/ChainFacts.thy ===== *)
theory ChainFacts
  imports Chain BlockTree
begin

text \<open>
  Facts about the chain over any key-value store that meets its contract, proved in the locale
  \<open>chain_store\<close>: what each operation leaves unchanged, the invariant of the block tree, and the
  behaviour of \<open>FinalizePreviousBlocks\<close>.

  The tree of blocks is seen through two functions: \<open>skeleton\<close> gives parent, height and children of the
  stored blocks, \<open>heightIndex\<close> the hashes per height. Changes of status leave both unchanged, so that the
  invariant \<open>links_ok\<close> has to be shown for \<open>addBlock\<close> only.
\<close>

section \<open>The block tree\<close>

definition skeleton :: "'s chain_ops \<Rightarrow> 's chain \<Rightarrow> hash \<Rightarrow> (hash \<times> uint64 \<times> hash list) option" where
  "skeleton X ch h = (case findBlock X h ch of Got b \<Rightarrow> Some (hParent b, hHeight b, eChildren b) | _ \<Rightarrow> None)"

text \<open>Every block is stored under the hash of its header, with an empty cache.\<close>

definition hashes_ok :: "'s chain_ops \<Rightarrow> 's chain \<Rightarrow> bool" where
  "hashes_ok X ch \<longleftrightarrow> (\<forall>h b. findBlock X h ch = Got b \<longrightarrow> hHash b = 0 \<and> calculateHash (cB X) b = h)"

definition chain_inv :: "'s chain_ops \<Rightarrow> 's chain \<Rightarrow> bool" where
  "chain_inv X ch \<longleftrightarrow> hashes_ok X ch \<and> links_ok (skeleton X ch) (\<lambda>n. heightIndex X n ch)"

lemma clearCache_id: "hHash b = 0 \<Longrightarrow> clearCache b = b"
  by (simp add: clearCache_def)

lemma clearCache_simps [simp]:
  "hParent (clearCache b) = hParent b" "hHeight (clearCache b) = hHeight b" "hHash (clearCache b) = 0"
  "calculateHash B (clearCache b) = calculateHash B b" "eChildren (clearCache e) = eChildren e"
  "eStatus (clearCache e) = eStatus e" "eHasValidatorUpdate (clearCache e) = eHasValidatorUpdate e"
  by (simp_all add: clearCache_def)

lemma calculateHash_ext [simp]:
  "calculateHash B (e\<lparr>eChildren := cs\<rparr>) = calculateHash B e"
  "calculateHash B (e\<lparr>eStatus := st\<rparr>) = calculateHash B e"
  "calculateHash B (e\<lparr>eHasValidatorUpdate := u\<rparr>) = calculateHash B e"
  by (simp_all add: calculateHash_def)

lemma newExtendedBlock_simps [simp]:
  "hParent (newExtendedBlock X b ch) = hParent b" "hHeight (newExtendedBlock X b ch) = hHeight b"
  "hHash (newExtendedBlock X b ch) = hHash b" "bTxs (newExtendedBlock X b ch) = bTxs b"
  "eStatus (newExtendedBlock X b ch) = BlockStatusPending"
  "calculateHash B (newExtendedBlock X b ch) = calculateHash B b"
  "Header_Hash B (newExtendedBlock X b ch) = Header_Hash B b"
  by (simp_all add: newExtendedBlock_def block.defs extblock.defs calculateHash_def Header_Hash_def Header_EncodeRLP_def)

lemma hashes_okD:
  assumes "hashes_ok X ch" "findBlock X h ch = Got b"
  shows "hHash b = 0" "calculateHash (cB X) b = h" "Header_Hash (cB X) b = h" "clearCache b = b"
  using assms by (auto simp: hashes_ok_def Header_Hash_def clearCache_id)

text \<open>An update of a stored block that keeps its header fields, hash and children.\<close>

definition keeps_links :: "(extblock \<Rightarrow> extblock) \<Rightarrow> bool" where
  "keeps_links f \<longleftrightarrow> (\<forall>b. hHash (f b) = hHash b \<and> Header_EncodeRLP (f b) = Header_EncodeRLP b \<and>
     hParent (f b) = hParent b \<and> hHeight (f b) = hHeight b \<and> eChildren (f b) = eChildren b)"

text \<open>One round of the loop marks the block at \<open>h\<close> and indexes its transactions.\<close>

definition finalize_one :: "'s chain_ops \<Rightarrow> BlockStatus \<Rightarrow> extblock \<Rightarrow> 's chain \<Rightarrow> 's chain" where
  "finalize_one X status b ch = AddTxsToIndex X (b\<lparr>eStatus := status\<rparr>) True (saveBlock X (b\<lparr>eStatus := status\<rparr>) ch)"

text \<open>The hashes of the stored blocks that are not final; the loop removes one of them per round.\<close>

definition unfinalized :: "'s chain_ops \<Rightarrow> 's chain \<Rightarrow> hash set" where
  "unfinalized X ch = {h. \<exists>b. findBlock X h ch = Got b \<and> \<not> IsFinalized (eStatus b)}"

text \<open>Ancestors: the blocks reached along the parents of stored blocks.\<close>

definition parentOf :: "'s chain_ops \<Rightarrow> 's chain \<Rightarrow> hash \<Rightarrow> hash option" where
  "parentOf X ch h = (case findBlock X h ch of Got b \<Rightarrow> Some (hParent b) | _ \<Rightarrow> None)"

definition parent_rel :: "'s chain_ops \<Rightarrow> 's chain \<Rightarrow> hash \<Rightarrow> hash \<Rightarrow> bool" where
  "parent_rel X ch h p \<longleftrightarrow> parentOf X ch h = Some p"

text \<open>The final blocks are closed under stored parents.\<close>

definition finalized_closed :: "'s chain_ops \<Rightarrow> 's chain \<Rightarrow> bool" where
  "finalized_closed X ch \<longleftrightarrow>
    (\<forall>k b p. findBlock X k ch = Got b \<and> IsFinalized (eStatus b) \<and> hParent b \<noteq> 0 \<and> findBlock X (hParent b) ch = Got p
      \<longrightarrow> IsFinalized (eStatus p))"

text \<open>The same, but for the parent at which the loop of \<open>FinalizePreviousBlocks\<close> has arrived.\<close>

definition finalized_closed_upto :: "'s chain_ops \<Rightarrow> hash \<Rightarrow> 's chain \<Rightarrow> bool" where
  "finalized_closed_upto X h ch \<longleftrightarrow>
    (\<forall>k b p. findBlock X k ch = Got b \<and> IsFinalized (eStatus b) \<and> hParent b \<noteq> 0 \<and> findBlock X (hParent b) ch = Got p
      \<longrightarrow> IsFinalized (eStatus p) \<or> hParent b = h)"

text \<open>
  What finalizing from \<open>h\<close> may do: stored blocks keep everything but their status, and the status changes
  only for ancestors of \<open>h\<close> that were neither final nor disposed, to a final one.
\<close>

definition finalize_effect :: "'s chain_ops \<Rightarrow> hash \<Rightarrow> 's chain \<Rightarrow> 's chain \<Rightarrow> bool" where
  "finalize_effect X h ch ch' \<longleftrightarrow>
    (\<forall>k. case findBlock X k ch of
       Got b \<Rightarrow> \<exists>st. findBlock X k ch' = Got (b\<lparr>eStatus := st\<rparr>) \<and>
         (st = eStatus b \<or>
          IsFinalized st \<and> \<not> IsFinalized (eStatus b) \<and> eStatus b \<noteq> BlockStatusDisposed \<and> (parent_rel X ch)\<^sup>*\<^sup>* h k)
     | r \<Rightarrow> findBlock X k ch' = r)"

locale chain_store = kv_store "kvGet X" "kvPut X" "kvDelete X"
  for X :: "'s chain_ops"

context chain_store
begin

section \<open>Reads after writes\<close>

lemma readAs_writeVal [store_simps]:
  "readAs as X k (writeVal X k' v ch) =
    (if k = k' then (case as v of None \<Rightarrow> DecodeError | Some x \<Rightarrow> Got x) else readAs as X k ch)"
  by (simp add: readAs_def writeVal_def get_put)

lemma findBlock_saveBlock [store_simps]:
  "findBlock X h (saveBlock X b ch) = (if h = Header_Hash (cB X) b then Got (clearCache b) else findBlock X h ch)"
  by (simp add: findBlock_def saveBlock_def readAs_writeVal key_simps)

lemma findBlock_writeVal [store_simps]: "blockKey h \<noteq> k \<Longrightarrow> findBlock X h (writeVal X k v ch) = findBlock X h ch"
  by (simp add: findBlock_def readAs_writeVal)

lemma heightIndex_writeVal [store_simps]:
  "blockByHeightIndexKey n \<noteq> k \<Longrightarrow> heightIndex X n (writeVal X k v ch) = heightIndex X n ch"
  by (simp add: heightIndex_def readAs_writeVal)

lemma heightIndex_saveBlock [store_simps]: "heightIndex X n (saveBlock X b ch) = heightIndex X n ch"
  by (simp add: saveBlock_def store_simps key_simps)

lemma insertEthTxHash_frame [store_simps]:
  "findBlock X h (insertEthTxHash X b raw e ch) = findBlock X h ch"
  "heightIndex X n (insertEthTxHash X b raw e ch) = heightIndex X n ch"
  by (simp_all add: insertEthTxHash_def store_simps key_simps split: option.splits)

lemma addTxs_loop_frame:
  "findBlock X h (addTxs_loop X b force i txs ch) = findBlock X h ch \<and>
   heightIndex X n (addTxs_loop X b force i txs ch) = heightIndex X n ch"
proof (induction txs arbitrary: i ch)
  case (Cons tx txs)
  then show ?case
    by (cases force) (simp_all add: Let_def store_simps key_simps)
qed simp

lemma AddTxsToIndex_frame [store_simps]:
  "findBlock X h (AddTxsToIndex X b force ch) = findBlock X h ch"
  "heightIndex X n (AddTxsToIndex X b force ch) = heightIndex X n ch"
  using addTxs_loop_frame by (simp_all add: AddTxsToIndex_def)

lemma findBlock_AddBlockByHeightIndex [store_simps]:
  "findBlock X h (AddBlockByHeightIndex X n k ch) = findBlock X h ch"
  by (simp add: AddBlockByHeightIndex_def Let_def store_simps key_simps)

lemma heightIndex_AddBlockByHeightIndex [store_simps]:
  "heightIndex X m (AddBlockByHeightIndex X n k ch) =
    (if m = n \<and> k \<notin> set (heightIndex X n ch) then heightIndex X n ch @ [k] else heightIndex X m ch)"
proof (cases "m = n")
  case True
  then show ?thesis
    by (simp add: AddBlockByHeightIndex_def Let_def heightIndex_def readAs_writeVal)
next
  case False
  then show ?thesis
    by (simp add: AddBlockByHeightIndex_def Let_def store_simps key_simps)
qed

lemma chChainID_ops [simp]:
  "chChainID (writeVal X k v ch) = chChainID ch" "chChainID (saveBlock X b ch) = chChainID ch"
  by (simp_all add: writeVal_def saveBlock_def)

lemma collectBlocks_eq: "collectBlocks X hs ch = [b. h \<leftarrow> hs, b \<leftarrow> (case findBlock X h ch of Got b \<Rightarrow> [b] | _ \<Rightarrow> [])]"
  by (induction hs) (auto split: got.splits)

section \<open>Adding a block\<close>

lemma findBlock_linkParent:
  assumes ok: "hashes_ok X ch"
  shows "findBlock X k (linkParent X blk False h ch) =
    (case findBlock X k ch of
       Got b \<Rightarrow> Got (if k = hParent blk \<and> hParent blk \<noteq> 0 then b\<lparr>eChildren := eChildren b @ [h]\<rparr> else b)
     | r \<Rightarrow> r)"
proof (cases "findBlock X (hParent blk) ch")
  case (Got p)
  note p = hashes_okD[OF ok Got]
  have "clearCache (p\<lparr>eChildren := eChildren p @ [h]\<rparr>) = p\<lparr>eChildren := eChildren p @ [h]\<rparr>"
    using p(1) by (intro clearCache_id) simp
  with Got p(3) show ?thesis
    by (auto simp: linkParent_def findBlock_saveBlock split: got.splits)
qed (auto simp: linkParent_def split: got.splits)

lemma heightIndex_linkParent [store_simps]: "heightIndex X n (linkParent X blk snap h ch) = heightIndex X n ch"
  by (simp add: linkParent_def store_simps split: got.splits)

lemma skeleton_linkParent:
  assumes "hashes_ok X ch"
  shows "skeleton X (linkParent X blk False h ch) = link_parent h (hParent blk) (skeleton X ch)"
proof
  fix k
  show "skeleton X (linkParent X blk False h ch) k = link_parent h (hParent blk) (skeleton X ch) k"
    using findBlock_linkParent[OF assms, of k blk h]
    by (cases "findBlock X k ch"; cases "findBlock X (hParent blk) ch") (auto simp: skeleton_def link_parent_def)
qed

lemma hashes_ok_linkParent: "hashes_ok X ch \<Longrightarrow> hashes_ok X (linkParent X blk False h ch)"
  using findBlock_linkParent[of ch _ blk h]
  by (auto simp: hashes_ok_def split: got.splits if_splits)

lemma linkParent_unstored:
  "snap \<or> \<not> isGot (findBlock X (hParent blk) ch) \<Longrightarrow> linkParent X blk snap h ch = ch"
  by (auto simp: linkParent_def split: got.splits)

lemma children_from_index:
  assumes "hashes_ok X ch"
  shows "map (Header_Hash (cB X)) (filter (\<lambda>c. hParent c = h) (collectBlocks X hs ch)) =
    filter (\<lambda>c. \<exists>m ccs. skeleton X ch c = Some (h, m, ccs)) hs"
proof (induction hs)
  case (Cons k hs)
  then show ?case
    using hashes_okD(3)[OF assms, of k] by (cases "findBlock X k ch") (auto simp: skeleton_def)
qed simp

lemma eChildren_newExtendedBlock:
  assumes "hashes_ok X ch"
  shows "eChildren (newExtendedBlock X blk ch) =
    filter (\<lambda>c. \<exists>m ccs. skeleton X ch c = Some (Header_Hash (cB X) blk, m, ccs)) (heightIndex X (hHeight blk + 1) ch)"
  using children_from_index[OF assms]
  by (simp add: newExtendedBlock_def block.defs extblock.defs findBlocksByHeight_def)

text \<open>The state after a block that is not yet stored is added.\<close>

lemma addBlock_new:
  assumes "hChainID blk = chChainID ch" "\<not> isGot (findBlock X (Header_Hash (cB X) blk) ch)"
  shows "addBlock X blk snap ch =
    (let ch1 = linkParent X blk snap (Header_Hash (cB X) blk) ch; eb = newExtendedBlock X blk ch1
     in (Added eb, AddTxsToIndex X eb False
          (AddBlockByHeightIndex X (hHeight blk) (Header_Hash (cB X) blk) (saveBlock X eb ch1))))"
  using assms by (cases "findBlock X (Header_Hash (cB X) blk) ch") (simp_all add: addBlock_def Let_def)

lemma findBlock_addBlock:
  assumes "hChainID blk = chChainID ch" "\<not> isGot (findBlock X (Header_Hash (cB X) blk) ch)"
    and "ch1 = linkParent X blk snap (Header_Hash (cB X) blk) ch"
  shows "findBlock X k (snd (addBlock X blk snap ch)) =
    (if k = Header_Hash (cB X) blk then Got (clearCache (newExtendedBlock X blk ch1)) else findBlock X k ch1)"
  using assms(3) by (simp add: addBlock_new[OF assms(1,2)] Let_def store_simps)

lemma heightIndex_addBlock:
  assumes "hChainID blk = chChainID ch" "\<not> isGot (findBlock X (Header_Hash (cB X) blk) ch)"
  shows "heightIndex X n (snd (addBlock X blk snap ch)) =
    (if n = hHeight blk \<and> Header_Hash (cB X) blk \<notin> set (heightIndex X n ch)
     then heightIndex X n ch @ [Header_Hash (cB X) blk] else heightIndex X n ch)"
  by (auto simp: addBlock_new[OF assms] Let_def store_simps)

text \<open>
  A snapshot root is added without its parent; the tree is the same as if the parent were looked up as
  long as the parent is not stored.
\<close>

lemma linkParent_snapshot:
  "\<not> snap \<or> \<not> isGot (findBlock X (hParent blk) ch) \<Longrightarrow> linkParent X blk snap h ch = linkParent X blk False h ch"
  using linkParent_unstored[of snap blk ch h] linkParent_unstored[of False blk ch h] by (cases snap) simp_all

lemma skeleton_addBlock:
  assumes ok: "hashes_ok X ch" and blk: "hChainID blk = chChainID ch" "\<not> isGot (findBlock X (Header_Hash (cB X) blk) ch)"
    and snap: "\<not> snap \<or> \<not> isGot (findBlock X (hParent blk) ch)"
  shows "skeleton X (snd (addBlock X blk snap ch)) =
    add_block (Header_Hash (cB X) blk) (hParent blk) (hHeight blk)
      (filter (\<lambda>c. \<exists>m ccs. skeleton X ch c = Some (Header_Hash (cB X) blk, m, ccs)) (heightIndex X (hHeight blk + 1) ch))
      (skeleton X ch)"
proof -
  define h ch1 where "h = Header_Hash (cB X) blk" and "ch1 = linkParent X blk snap h ch"
  have ch1: "ch1 = linkParent X blk False h ch"
    using linkParent_snapshot[OF snap] by (simp add: ch1_def)
  have ok1: "hashes_ok X ch1" and sk1: "skeleton X ch1 = link_parent h (hParent blk) (skeleton X ch)"
    unfolding ch1 by (rule hashes_ok_linkParent[OF ok], rule skeleton_linkParent[OF ok])
  have "heightIndex X (hHeight blk + 1) ch1 = heightIndex X (hHeight blk + 1) ch"
    by (simp add: ch1 store_simps)
  moreover have "(\<exists>m ccs. skeleton X ch1 c = Some (h, m, ccs)) \<longleftrightarrow> (\<exists>m ccs. skeleton X ch c = Some (h, m, ccs))" for c
    unfolding sk1 link_parent_Some_iff by blast
  ultimately have cs: "eChildren (newExtendedBlock X blk ch1) =
      filter (\<lambda>c. \<exists>m ccs. skeleton X ch c = Some (h, m, ccs)) (heightIndex X (hHeight blk + 1) ch)"
    using eChildren_newExtendedBlock[OF ok1, of blk] by (simp add: h_def)
  have "skeleton X (snd (addBlock X blk snap ch)) =
      (skeleton X ch1)(h \<mapsto> (hParent blk, hHeight blk, eChildren (newExtendedBlock X blk ch1)))"
    using findBlock_addBlock[OF blk ch1_def[unfolded h_def]] by (auto simp: skeleton_def fun_eq_iff h_def)
  then show ?thesis
    unfolding cs by (simp add: add_block_def sk1 h_def)
qed

lemma hashes_ok_addBlock:
  assumes ok: "hashes_ok X ch" and blk: "hChainID blk = chChainID ch" "\<not> isGot (findBlock X (Header_Hash (cB X) blk) ch)"
    and snap: "\<not> snap \<or> \<not> isGot (findBlock X (hParent blk) ch)" and cache: "cache_ok (cB X) blk"
  shows "hashes_ok X (snd (addBlock X blk snap ch))"
proof -
  have "hashes_ok X (linkParent X blk snap (Header_Hash (cB X) blk) ch)"
    unfolding linkParent_snapshot[OF snap] by (rule hashes_ok_linkParent[OF ok])
  then show ?thesis
    unfolding hashes_ok_def findBlock_addBlock[OF blk refl] using Header_Hash_cache_ok[OF cache] by auto
qed

lemma chain_inv_addBlock:
  assumes inv: "chain_inv X ch" and cache: "cache_ok (cB X) blk"
    and snap: "\<not> snap \<or> \<not> isGot (findBlock X (hParent blk) ch)"
  shows "chain_inv X (snd (addBlock X blk snap ch))"
proof (cases "hChainID blk = chChainID ch \<and> \<not> isGot (findBlock X (Header_Hash (cB X) blk) ch)")
  case True
  define h where "h = Header_Hash (cB X) blk"
  have blk: "hChainID blk = chChainID ch" "\<not> isGot (findBlock X (Header_Hash (cB X) blk) ch)"
    using True by auto
  have ok: "hashes_ok X ch" and links: "links_ok (skeleton X ch) (\<lambda>n. heightIndex X n ch)"
    using inv by (simp_all add: chain_inv_def)
  have fresh: "skeleton X ch h = None"
    using True by (auto simp: skeleton_def h_def split: got.splits)
  then have "h \<notin> set (heightIndex X n ch)" for n
    using index_okD(2)[of "skeleton X ch" "\<lambda>n. heightIndex X n ch" h n] links by (simp add: links_ok_def)
  then have "(\<lambda>n. heightIndex X n (snd (addBlock X blk snap ch))) =
      (\<lambda>n. heightIndex X n ch)(hHeight blk := heightIndex X (hHeight blk) ch @ [h])"
    by (auto simp: fun_eq_iff heightIndex_addBlock[OF blk] h_def)
  then show ?thesis
    using add_block_links_ok[OF links fresh refl, where n = "hHeight blk" and p = "hParent blk"]
      skeleton_addBlock[OF ok blk snap] hashes_ok_addBlock[OF ok blk snap cache]
    by (simp add: chain_inv_def h_def)
next
  case False
  then have "snd (addBlock X blk snap ch) = ch"
    by (cases "findBlock X (Header_Hash (cB X) blk) ch") (auto simp: addBlock_def Let_def)
  with inv show ?thesis
    by simp
qed

section \<open>Marking blocks\<close>

lemma keeps_links_marks:
  "keeps_links (\<lambda>b. b\<lparr>eStatus := st\<rparr>)" "keeps_links (\<lambda>b. b\<lparr>eHasValidatorUpdate := u\<rparr>)"
  by (simp_all add: keeps_links_def)

lemma keeps_links_hash:
  assumes "keeps_links f" "hashes_ok X ch" "findBlock X h ch = Got b"
  shows "Header_Hash (cB X) (f b) = h" "clearCache (f b) = f b"
proof -
  have f: "hHash (f b) = hHash b" "Header_EncodeRLP (f b) = Header_EncodeRLP b"
    using assms(1) by (auto simp: keeps_links_def)
  show "Header_Hash (cB X) (f b) = h"
    using hashes_okD[OF assms(2,3)] f by (simp add: Header_Hash_def calculateHash_def)
  show "clearCache (f b) = f b"
    using hashes_okD(1)[OF assms(2,3)] f by (simp add: clearCache_id)
qed

lemma findBlock_mark:
  assumes "keeps_links f" "hashes_ok X ch" "findBlock X h ch = Got b"
  shows "findBlock X k (saveBlock X (f b) ch) = (if k = h then Got (f b) else findBlock X k ch)"
  by (simp add: findBlock_saveBlock keeps_links_hash[OF assms])

lemma chain_inv_frame:
  assumes "chain_inv X ch" "\<And>k. findBlock X k ch' = findBlock X k ch" "\<And>n. heightIndex X n ch' = heightIndex X n ch"
  shows "chain_inv X ch'"
proof -
  have "skeleton X ch' = skeleton X ch"
    using assms(2) by (simp add: skeleton_def fun_eq_iff)
  with assms show ?thesis
    by (simp add: chain_inv_def hashes_ok_def)
qed

lemma hashes_ok_mark:
  assumes f: "keeps_links f" and ok: "hashes_ok X ch" and b: "findBlock X h ch = Got b"
  shows "hashes_ok X (saveBlock X (f b) ch)"
proof -
  have "calculateHash (cB X) (f b) = h" "hHash (f b) = 0"
    using f hashes_okD(1,2)[OF ok b] by (simp_all add: keeps_links_def calculateHash_def)
  with ok show ?thesis
    unfolding hashes_ok_def findBlock_mark[OF assms] by auto
qed

lemma chain_inv_mark:
  assumes f: "keeps_links f" and inv: "chain_inv X ch" and b: "findBlock X h ch = Got b"
  shows "chain_inv X (saveBlock X (f b) ch)"
proof -
  have ok: "hashes_ok X ch"
    using inv by (simp add: chain_inv_def)
  have "skeleton X (saveBlock X (f b) ch) = skeleton X ch"
    using f b by (auto simp: skeleton_def fun_eq_iff findBlock_mark[OF f ok b] keeps_links_def)
  with inv hashes_ok_mark[OF f ok b] show ?thesis
    by (simp add: chain_inv_def heightIndex_saveBlock)
qed

lemma chain_inv_updateBlock:
  "keeps_links f \<Longrightarrow> chain_inv X ch \<Longrightarrow> updateBlock f X h ch = Some (b, ch') \<Longrightarrow> chain_inv X ch'"
  by (auto simp: updateBlock_def chain_inv_mark split: got.splits)

section \<open>Finalization\<close>

lemma finalize_loop_unfold:
  "finalize_loop X status h ch =
    (if h = 0 then Some (True, ch)
     else case findBlock X h ch of
       Got b \<Rightarrow>
         if IsFinalized (eStatus b) then Some (True, ch)
         else if eStatus b = BlockStatusDisposed then Some (False, ch)
         else finalize_loop X BlockStatusIndirectlyFinalized (hParent b) (finalize_one X status b ch)
     | _ \<Rightarrow> Some (True, ch))"
  by (subst finalize_loop.simps) (simp add: finalize_one_def Let_def split: got.split)

lemma findBlock_finalize_one:
  assumes "hashes_ok X ch" "findBlock X h ch = Got b"
  shows "findBlock X k (finalize_one X status b ch) = (if k = h then Got (b\<lparr>eStatus := status\<rparr>) else findBlock X k ch)"
  using findBlock_mark[OF keeps_links_marks(1) assms, where k = k]
  by (simp add: finalize_one_def AddTxsToIndex_frame)

lemma hashes_ok_finalize_one:
  assumes "hashes_ok X ch" "findBlock X h ch = Got b"
  shows "hashes_ok X (finalize_one X status b ch)"
  using hashes_ok_mark[OF keeps_links_marks(1) assms]
  by (simp add: finalize_one_def hashes_ok_def AddTxsToIndex_frame)

lemma chain_inv_finalize_one:
  assumes "chain_inv X ch" "findBlock X h ch = Got b"
  shows "chain_inv X (finalize_one X status b ch)"
  unfolding finalize_one_def
  by (rule chain_inv_frame[OF chain_inv_mark[OF keeps_links_marks(1) assms]]) (simp_all add: AddTxsToIndex_frame)

lemma unfinalized_finalize_one:
  assumes "hashes_ok X ch" "findBlock X h ch = Got b" "IsFinalized status" "\<not> IsFinalized (eStatus b)"
  shows "card (unfinalized X (finalize_one X status b ch)) < card (unfinalized X ch)"
proof (rule psubset_card_mono)
  show "unfinalized X (finalize_one X status b ch) \<subset> unfinalized X ch"
    using assms unfolding unfinalized_def findBlock_finalize_one[OF assms(1,2)] by auto
qed simp

text \<open>
  An induction rule for the loop: a property of the result that holds where the loop stops and is
  handed up by one round holds of every run, and every run ends.
\<close>

lemma finalize_loop_induct [consumes 2, case_names stop round]:
  assumes "hashes_ok X ch" "IsFinalized status"
    and stop: "\<And>status h ch ok. IsFinalized status \<Longrightarrow> hashes_ok X ch \<Longrightarrow>
       (ok \<Longrightarrow> h = 0 \<or> (\<forall>b. findBlock X h ch = Got b \<longrightarrow> IsFinalized (eStatus b))) \<Longrightarrow> P status h ch ok ch"
    and round: "\<And>status h ch b ok ch'. IsFinalized status \<Longrightarrow> hashes_ok X ch \<Longrightarrow> h \<noteq> 0 \<Longrightarrow> findBlock X h ch = Got b \<Longrightarrow>
       \<not> IsFinalized (eStatus b) \<Longrightarrow> eStatus b \<noteq> BlockStatusDisposed \<Longrightarrow>
       P BlockStatusIndirectlyFinalized (hParent b) (finalize_one X status b ch) ok ch' \<Longrightarrow> P status h ch ok ch'"
  shows "\<exists>ok ch'. finalize_loop X status h ch = Some (ok, ch') \<and> P status h ch ok ch'"
  using assms(1,2)
proof (induction "card (unfinalized X ch)" arbitrary: status h ch rule: less_induct)
  case less
  show ?case
  proof (cases "h \<noteq> 0 \<and> (\<exists>b. findBlock X h ch = Got b \<and> \<not> IsFinalized (eStatus b) \<and> eStatus b \<noteq> BlockStatusDisposed)")
    case True
    then obtain b where b: "h \<noteq> 0" "findBlock X h ch = Got b" "\<not> IsFinalized (eStatus b)" "eStatus b \<noteq> BlockStatusDisposed"
      by blast
    have "\<exists>ok ch'. finalize_loop X BlockStatusIndirectlyFinalized (hParent b) (finalize_one X status b ch) = Some (ok, ch') \<and>
        P BlockStatusIndirectlyFinalized (hParent b) (finalize_one X status b ch) ok ch'"
      by (rule less.hyps[OF unfinalized_finalize_one[OF less.prems(1) b(2) less.prems(2) b(3)]])
        (use hashes_ok_finalize_one[OF less.prems(1) b(2)] in \<open>simp_all add: IsFinalized_def\<close>)
    then show ?thesis
      using b round[OF less.prems(2,1) b] by (subst finalize_loop_unfold) auto
  next
    case False
    then have "\<exists>ok. finalize_loop X status h ch = Some (ok, ch) \<and>
        (ok \<longrightarrow> h = 0 \<or> (\<forall>b. findBlock X h ch = Got b \<longrightarrow> IsFinalized (eStatus b)))"
      by (subst finalize_loop_unfold) (auto split: got.splits)
    with stop[OF less.prems(2,1)] show ?thesis
      by blast
  qed
qed

lemma finalize_effect_refl: "finalize_effect X h ch ch"
proof -
  have same: "\<exists>st. b = b\<lparr>eStatus := st\<rparr> \<and> (st = eStatus b \<or> Q st)" for b :: extblock and Q
    by (rule exI[of _ "eStatus b"]) simp
  show ?thesis
    unfolding finalize_effect_def by (intro allI) (simp add: same split: got.split)
qed

lemma finalize_effect_finalized:
  assumes "finalize_effect X h ch ch'" "findBlock X k ch = Got b" "IsFinalized (eStatus b)"
  shows "findBlock X k ch' = Got b"
  using assms(1)[unfolded finalize_effect_def, rule_format, of k] assms(2,3) by auto

lemma parent_rel_finalize_one:
  assumes "hashes_ok X ch" "findBlock X h ch = Got b"
  shows "parent_rel X (finalize_one X status b ch) = parent_rel X ch"
  using assms(2) by (auto simp: parent_rel_def parentOf_def fun_eq_iff findBlock_finalize_one[OF assms])

lemma finalize_effect_round:
  assumes ok: "hashes_ok X ch" and b: "findBlock X h ch = Got b" and st: "IsFinalized status"
    and old: "\<not> IsFinalized (eStatus b)" "eStatus b \<noteq> BlockStatusDisposed"
    and rest: "finalize_effect X (hParent b) (finalize_one X status b ch) ch'"
  shows "finalize_effect X h ch ch'"
proof -
  have up: "(parent_rel X ch)\<^sup>*\<^sup>* h k" if "(parent_rel X ch)\<^sup>*\<^sup>* (hParent b) k" for k
    using that b by (intro converse_rtranclp_into_rtranclp[of "parent_rel X ch" h "hParent b"])
      (simp_all add: parent_rel_def parentOf_def)
  note r = rest[unfolded finalize_effect_def parent_rel_finalize_one[OF ok b] findBlock_finalize_one[OF ok b], rule_format]
  show ?thesis
    unfolding finalize_effect_def
  proof
    fix k
    show "case findBlock X k ch of
        Got c \<Rightarrow> \<exists>st. findBlock X k ch' = Got (c\<lparr>eStatus := st\<rparr>) \<and>
          (st = eStatus c \<or>
           IsFinalized st \<and> \<not> IsFinalized (eStatus c) \<and> eStatus c \<noteq> BlockStatusDisposed \<and> (parent_rel X ch)\<^sup>*\<^sup>* h k)
      | r \<Rightarrow> findBlock X k ch' = r"
    proof (cases "k = h")
      case True
      then have "findBlock X k ch' = Got (b\<lparr>eStatus := status\<rparr>)"
        using r[of k] st by auto
      with True b st old show ?thesis
        by auto
    next
      case False
      then show ?thesis
        using r[of k] up by (auto split: got.splits)
    qed
  qed
qed

lemma finalized_closed_upto_stop:
  "finalized_closed_upto X h ch \<Longrightarrow> h = 0 \<or> (\<forall>b. findBlock X h ch = Got b \<longrightarrow> IsFinalized (eStatus b)) \<Longrightarrow>
    finalized_closed X ch"
  unfolding finalized_closed_def finalized_closed_upto_def by metis

lemma finalized_closed_upto_round:
  assumes ok: "hashes_ok X ch" and b: "findBlock X h ch = Got b" and st: "IsFinalized status"
    and upto: "finalized_closed_upto X h ch"
  shows "finalized_closed_upto X (hParent b) (finalize_one X status b ch)"
  unfolding finalized_closed_upto_def findBlock_finalize_one[OF ok b]
proof (intro allI impI, elim conjE)
  fix k c p
  assume c: "(if k = h then Got (b\<lparr>eStatus := status\<rparr>) else findBlock X k ch) = Got c" "IsFinalized (eStatus c)"
    and par: "hParent c \<noteq> 0" "(if hParent c = h then Got (b\<lparr>eStatus := status\<rparr>) else findBlock X (hParent c) ch) = Got p"
  show "IsFinalized (eStatus p) \<or> hParent c = hParent b"
  proof (cases "k = h \<or> hParent c = h")
    case True
    with c par st show ?thesis
      by (auto split: if_splits)
  next
    case False
    with c par upto show ?thesis
      unfolding finalized_closed_upto_def by auto
  qed
qed

lemma finalize_loop_total:
  assumes "hashes_ok X ch" "IsFinalized status"
  shows "\<exists>ok ch'. finalize_loop X status h ch = Some (ok, ch') \<and>
    (chain_inv X ch \<longrightarrow> chain_inv X ch') \<and> finalize_effect X h ch ch' \<and>
    (ok \<longrightarrow> finalized_closed_upto X h ch \<longrightarrow> finalized_closed X ch') \<and>
    (ok \<longrightarrow> h \<noteq> 0 \<longrightarrow> (\<forall>b. findBlock X h ch' = Got b \<longrightarrow> IsFinalized (eStatus b)))"
  using assms
proof (induction rule: finalize_loop_induct)
  case (stop status h ch ok)
  then show ?case
    using finalized_closed_upto_stop finalize_effect_refl by blast
next
  case (round status h ch b ok ch')
  have "finalize_effect X h ch ch'"
    by (rule finalize_effect_round[OF round(2,4,1,5,6)]) (use round(7) in blast)
  moreover have "findBlock X h ch' = Got (b\<lparr>eStatus := status\<rparr>)"
    by (rule finalize_effect_finalized[OF round(7)[THEN conjunct2, THEN conjunct1]])
      (simp_all add: findBlock_finalize_one[OF round(2,4)] round(1))
  ultimately show ?case
    using chain_inv_finalize_one[OF _ round(4), of status]
      finalized_closed_upto_round[OF round(2,4,1)] round(7,1) by auto
qed

end

section \<open>The chain over the layered database\<close>

text \<open>
  The chain of a node runs on the root database, which is a layered database with that one layer
  (\<open>activeLayer = rootLayer\<close>, as when rolling is disabled). The facts hold for any layers.
\<close>

definition rdb_chain_ops :: "block_ops \<Rightarrow> eth_ops \<Rightarrow> (bytes, storeval) rollingdb chain_ops" where
  "rdb_chain_ops B E = \<lparr>kvGet = rdb_Get, kvPut = rdb_Put, kvDelete = rdb_Delete, cB = B, cEth = E\<rparr>"

lemma rdb_chain_ops_simps [simp]:
  "kvGet (rdb_chain_ops B E) = rdb_Get" "cB (rdb_chain_ops B E) = B" "cEth (rdb_chain_ops B E) = E"
  by (simp_all add: rdb_chain_ops_def)

interpretation rc: chain_store "rdb_chain_ops B E" for B E
  by unfold_locales (simp_all add: rdb_chain_ops_def rdb.get_put rdb.get_delete)

end
