(* ===== verification/ChainProps.thy ===== *)
theory ChainProps
  imports ChainFacts
begin

text \<open>
  Properties of the block store: the invariant of every state the chain's methods can reach, what
  \<open>AddBlock\<close>, \<open>FinalizePreviousBlocks\<close> and \<open>IsDescendant\<close> do, and the indices of transactions, receipts
  and votes. The facts are proved in the locale \<open>chain_store\<close> and stated for the layered database.
\<close>

section \<open>Steps of the chain\<close>

text \<open>
  One call of an exported method. The cached hash of an added block is that of its header, a snapshot
  root has no stored parent, and the repair methods are called on stored blocks. \<open>SaveBlock\<close> is called by
  the consensus engine for a stored block with another status.
\<close>

inductive chain_step :: "'s chain_ops \<Rightarrow> 's chain \<Rightarrow> 's chain \<Rightarrow> bool" for X where
  add_block: "cache_ok (cB X) blk \<Longrightarrow> chain_step X ch (snd (AddBlock X blk ch))"
| add_snapshot_root:
    "cache_ok (cB X) blk \<Longrightarrow> \<not> isGot (findBlock X (hParent blk) ch) \<Longrightarrow> chain_step X ch (snd (AddSnapshotRoot X blk ch))"
| mark_valid: "MarkBlockValid X h ch = Some (b, ch') \<Longrightarrow> chain_step X ch ch'"
| mark_invalid: "MarkBlockInvalid X h ch = Some (b, ch') \<Longrightarrow> chain_step X ch ch'"
| mark_update: "MarkBlockHasValidatorUpdate X h ch = Some (b, ch') \<Longrightarrow> chain_step X ch ch'"
| save_status: "findBlock X h ch = Got b \<Longrightarrow> chain_step X ch (saveBlock X (b\<lparr>eStatus := st\<rparr>) ch)"
| commit: "CommitBlock X h ch = Some ch' \<Longrightarrow> chain_step X ch ch'"
| finalize: "FinalizePreviousBlocks X h ch = Some (ok, ch') \<Longrightarrow> chain_step X ch ch'"
| add_vote: "chain_step X ch (AddVoteToIndex X v ch)"
| remove_votes: "chain_step X ch (RemoveVotesByHash X h ch)"
| add_receipt: "chain_step X ch (AddTxReceipt X (blk :: block) raw logs bcs ret addr gas err ch)"
| add_txs: "chain_step X ch (AddTxsToIndex X b force ch)"
| fix_index: "findBlock X h ch = Got b \<Longrightarrow> chain_step X ch (FixBlockIndex X b ch)"
| fix_children: "findBlock X h ch = Got b \<Longrightarrow> chain_step X ch (snd (FixMissingChildren X b ch))"

definition chain_reach :: "'s chain_ops \<Rightarrow> 's chain \<Rightarrow> 's chain \<Rightarrow> bool" where
  "chain_reach X = (chain_step X)\<^sup>*\<^sup>*"

text \<open>Stored blocks keep header and transactions for ever.\<close>

definition blocks_kept :: "'s chain_ops \<Rightarrow> 's chain \<Rightarrow> 's chain \<Rightarrow> bool" where
  "blocks_kept X ch ch' \<longleftrightarrow>
    (\<forall>h b. findBlock X h ch = Got b \<longrightarrow> (\<exists>b'. findBlock X h ch' = Got b' \<and> block.truncate b' = block.truncate b))"

context chain_store
begin

lemma RemoveVotes_frame [store_simps]:
  "findBlock X k (RemoveVotesByHash X h ch) = findBlock X k ch"
  "heightIndex X n (RemoveVotesByHash X h ch) = heightIndex X n ch"
  by (simp_all add: RemoveVotesByHash_def findBlock_def heightIndex_def readAs_def get_delete key_simps)

lemma index_frames [store_simps]:
  "findBlock X k (AddVoteToIndex X v ch) = findBlock X k ch"
  "heightIndex X n (AddVoteToIndex X v ch) = heightIndex X n ch"
  "findBlock X k (AddTxReceipt X blk raw logs bcs ret addr gas err ch) = findBlock X k ch"
  "heightIndex X n (AddTxReceipt X blk raw logs bcs ret addr gas err ch) = heightIndex X n ch"
  by (simp_all add: AddVoteToIndex_def AddTxReceipt_def Let_def store_simps key_simps)

lemma chain_invD:
  assumes "chain_inv X ch"
  shows "hashes_ok X ch" "children_ok (skeleton X ch)" "index_ok (skeleton X ch) (\<lambda>n. heightIndex X n ch)"
    "children_complete (skeleton X ch)"
  using assms by (simp_all add: chain_inv_def links_ok_def)

lemma stored_in_index:
  assumes "chain_inv X ch"
  shows "h \<in> set (heightIndex X n ch) \<longleftrightarrow> (\<exists>b. findBlock X h ch = Got b \<and> hHeight b = n)"
  using index_okD(2)[OF chain_invD(3)[OF assms], of h n] by (auto simp: skeleton_def split: got.splits)

lemma stored_children:
  assumes inv: "chain_inv X ch" and b: "findBlock X h ch = Got b"
  shows "distinct (eChildren b)"
    and "c \<in> set (eChildren b) \<Longrightarrow> \<exists>cb. findBlock X c ch = Got cb \<and> hParent cb = h"
    and "findBlock X c ch = Got cb \<Longrightarrow> hParent cb = h \<Longrightarrow> h \<noteq> 0 \<Longrightarrow> hHeight cb = hHeight b + 1 \<Longrightarrow> c \<in> set (eChildren b)"
proof -
  have sk: "skeleton X ch h = Some (hParent b, hHeight b, eChildren b)"
    using b by (simp add: skeleton_def)
  show "distinct (eChildren b)"
    by (rule children_okD(1)[OF chain_invD(2)[OF inv] sk])
  show "\<exists>cb. findBlock X c ch = Got cb \<and> hParent cb = h" if "c \<in> set (eChildren b)"
    using children_okD(2)[OF chain_invD(2)[OF inv] sk that] by (auto simp: skeleton_def split: got.splits)
  show "c \<in> set (eChildren b)"
    if "findBlock X c ch = Got cb" "hParent cb = h" "h \<noteq> 0" "hHeight cb = hHeight b + 1"
    using that by (intro children_completeD[OF chain_invD(4)[OF inv] _ sk]) (auto simp: skeleton_def)
qed

text \<open>On a consistent chain the repair methods change nothing of the tree.\<close>

lemma FixMissingChildren_id:
  assumes "chain_inv X ch" "findBlock X h ch = Got b"
  shows "FixMissingChildren X b ch = (b, saveBlock X b ch)"
proof -
  have "filter (\<lambda>c. isGot (findBlock X c ch)) (eChildren b) = eChildren b"
    using stored_children(2)[OF assms] by (force intro: filter_True)
  then show ?thesis
    by (simp add: FixMissingChildren_def)
qed

lemma chain_inv_FixBlockIndex:
  assumes "chain_inv X ch" "findBlock X h ch = Got b"
  shows "chain_inv X (FixBlockIndex X b ch)"
proof (rule chain_inv_frame[OF assms(1)])
  have "h \<in> set (heightIndex X (hHeight b) ch)" "Header_Hash (cB X) b = h"
    using assms stored_in_index[OF assms(1)] hashes_okD(3)[OF chain_invD(1)] by auto
  then show "heightIndex X n (FixBlockIndex X b ch) = heightIndex X n ch" for n
    by (auto simp: FixBlockIndex_def store_simps)
qed (simp add: FixBlockIndex_def store_simps)

lemma chain_inv_finalize:
  "chain_inv X ch \<Longrightarrow> FinalizePreviousBlocks X h ch = Some (ok, ch') \<Longrightarrow> chain_inv X ch'"
  using finalize_loop_total[OF chain_invD(1), of ch BlockStatusDirectlyFinalized h]
  by (auto simp: FinalizePreviousBlocks_def IsFinalized_def)

lemma chain_inv_step: "chain_step X ch ch' \<Longrightarrow> chain_inv X ch \<Longrightarrow> chain_inv X ch'"
proof (induction rule: chain_step.induct)
  case (add_block blk ch)
  then show ?case
    by (simp add: AddBlock_def chain_inv_addBlock)
next
  case (add_snapshot_root blk ch)
  then show ?case
    by (simp add: AddSnapshotRoot_def chain_inv_addBlock)
next
  case (commit h ch ch')
  then show ?case
    by (auto simp: CommitBlock_def intro: chain_inv_updateBlock[OF keeps_links_marks(1)])
next
  case (fix_children h ch b)
  then show ?case
    using chain_inv_mark[of "\<lambda>b. b"] by (simp add: FixMissingChildren_id keeps_links_def)
qed (auto simp: MarkBlockValid_def MarkBlockInvalid_def MarkBlockHasValidatorUpdate_def store_simps
    intro: chain_inv_mark[OF keeps_links_marks(1)] chain_inv_updateBlock keeps_links_marks chain_inv_finalize chain_inv_frame chain_inv_FixBlockIndex)

lemma blocks_kept_refl: "blocks_kept X ch ch"
  by (simp add: blocks_kept_def)

lemma blocks_kept_trans: "blocks_kept X ch ch' \<Longrightarrow> blocks_kept X ch' ch'' \<Longrightarrow> blocks_kept X ch ch''"
  unfolding blocks_kept_def by metis

lemma blocks_kept_frame: "(\<And>k. findBlock X k ch' = findBlock X k ch) \<Longrightarrow> blocks_kept X ch ch'"
  by (simp add: blocks_kept_def)

lemma blocks_kept_addBlock:
  assumes inv: "chain_inv X ch" and snap: "\<not> snap \<or> \<not> isGot (findBlock X (hParent blk) ch)"
  shows "blocks_kept X ch (snd (addBlock X blk snap ch))"
proof (cases "hChainID blk = chChainID ch \<and> \<not> isGot (findBlock X (Header_Hash (cB X) blk) ch)")
  case True
  then have blk: "hChainID blk = chChainID ch" "\<not> isGot (findBlock X (Header_Hash (cB X) blk) ch)"
    by auto
  show ?thesis
    unfolding blocks_kept_def
  proof (intro allI impI)
    fix h b
    assume b: "findBlock X h ch = Got b"
    then have "h \<noteq> Header_Hash (cB X) blk"
      using blk(2) by auto
    with b show "\<exists>b'. findBlock X h (snd (addBlock X blk snap ch)) = Got b' \<and> block.truncate b' = block.truncate b"
      unfolding findBlock_addBlock[OF blk refl] linkParent_snapshot[OF snap] findBlock_linkParent[OF chain_invD(1)[OF inv]]
      by (auto simp: block.defs)
  qed
next
  case False
  then have "snd (addBlock X blk snap ch) = ch"
    by (cases "findBlock X (Header_Hash (cB X) blk) ch") (auto simp: addBlock_def Let_def)
  then show ?thesis
    by (simp add: blocks_kept_refl)
qed

lemma blocks_kept_mark:
  assumes "keeps_links f" "\<And>b. block.truncate (f b) = block.truncate b" "chain_inv X ch" "findBlock X h ch = Got b"
  shows "blocks_kept X ch (saveBlock X (f b) ch)"
  using assms(2,4) unfolding blocks_kept_def findBlock_mark[OF assms(1) chain_invD(1)[OF assms(3)] assms(4)] by auto

lemma blocks_kept_updateBlock:
  assumes "keeps_links f" "\<And>b. block.truncate (f b) = block.truncate b" "chain_inv X ch"
    and "updateBlock f X h ch = Some (b, ch')"
  shows "blocks_kept X ch ch'"
  using blocks_kept_mark[OF assms(1-3)] assms(4) by (auto simp: updateBlock_def split: got.splits)

lemma truncate_marks [simp]:
  "block.truncate (b\<lparr>eStatus := st\<rparr>) = block.truncate b" "block.truncate (b\<lparr>eHasValidatorUpdate := u\<rparr>) = block.truncate b"
  by (simp_all add: block.defs)

lemma blocks_kept_finalize:
  assumes inv: "chain_inv X ch" and run: "FinalizePreviousBlocks X h ch = Some (ok, ch')"
  shows "blocks_kept X ch ch'"
proof -
  have "finalize_effect X h ch ch'"
    using finalize_loop_total[OF chain_invD(1)[OF inv], of BlockStatusDirectlyFinalized h] run
    by (auto simp: FinalizePreviousBlocks_def IsFinalized_def)
  then have "\<exists>st. findBlock X k ch' = Got (b\<lparr>eStatus := st\<rparr>)" if "findBlock X k ch = Got b" for k b
    using that unfolding finalize_effect_def by (auto dest!: spec[of _ k])
  then show ?thesis
    unfolding blocks_kept_def by fastforce
qed

lemma blocks_kept_marks:
  assumes "chain_inv X ch"
  shows "MarkBlockValid X h ch = Some (b, ch') \<Longrightarrow> blocks_kept X ch ch'"
    "MarkBlockInvalid X h ch = Some (b, ch') \<Longrightarrow> blocks_kept X ch ch'"
    "MarkBlockHasValidatorUpdate X h ch = Some (b, ch') \<Longrightarrow> blocks_kept X ch ch'"
    "CommitBlock X h ch = Some ch' \<Longrightarrow> blocks_kept X ch ch'"
    "findBlock X h ch = Got b \<Longrightarrow> blocks_kept X ch (saveBlock X (b\<lparr>eStatus := st\<rparr>) ch)"
  unfolding MarkBlockValid_def MarkBlockInvalid_def MarkBlockHasValidatorUpdate_def CommitBlock_def
  using blocks_kept_updateBlock[OF keeps_links_marks(1) _ assms] blocks_kept_updateBlock[OF keeps_links_marks(2) _ assms]
    blocks_kept_mark[OF keeps_links_marks(1) _ assms] by auto

lemma blocks_kept_step: "chain_step X ch ch' \<Longrightarrow> chain_inv X ch \<Longrightarrow> blocks_kept X ch ch'"
proof (induction rule: chain_step.induct)
  case (add_block blk ch)
  then show ?case
    by (simp add: AddBlock_def blocks_kept_addBlock)
next
  case (add_snapshot_root blk ch)
  then show ?case
    by (simp add: AddSnapshotRoot_def blocks_kept_addBlock)
next
  case (fix_children h ch b)
  then show ?case
    using blocks_kept_mark[of "\<lambda>b. b"] by (simp add: FixMissingChildren_id keeps_links_def)
next
  case (fix_index h ch b)
  show ?case
    by (rule blocks_kept_frame) (simp add: FixBlockIndex_def store_simps)
qed (auto simp: store_simps intro: blocks_kept_marks blocks_kept_finalize blocks_kept_frame)

lemma chain_inv_reach: "chain_reach X ch ch' \<Longrightarrow> chain_inv X ch \<Longrightarrow> chain_inv X ch'"
  unfolding chain_reach_def by (induction rule: rtranclp_induct) (auto intro: chain_inv_step)

lemma blocks_kept_reach: "chain_reach X ch ch' \<Longrightarrow> chain_inv X ch \<Longrightarrow> blocks_kept X ch ch'"
  unfolding chain_reach_def
proof (induction rule: rtranclp_induct)
  case (step ch' ch'')
  then have "chain_inv X ch'"
    using chain_inv_reach by (simp add: chain_reach_def)
  with step show ?case
    using blocks_kept_step blocks_kept_trans by blast
qed (rule blocks_kept_refl)

lemma chain_inv_empty:
  assumes "\<And>k. kvGet X (chStore ch) k = None"
  shows "chain_inv X ch"
  using assms
  by (simp add: chain_inv_def hashes_ok_def links_ok_def children_ok_def index_ok_def children_complete_def
      skeleton_def heightIndex_def findBlock_def readAs_def)

lemma chain_inv_root [simp]: "chain_inv X (ch\<lparr>chRoot := r\<rparr>) \<longleftrightarrow> chain_inv X ch"
  by (simp add: chain_inv_def hashes_ok_def skeleton_def[abs_def] heightIndex_def[abs_def] findBlock_def readAs_def)

lemma NewChain_empty:
  assumes "\<And>k. kvGet X store k = None" "cache_ok (cB X) root" "hChainID root = chainID"
  shows "\<exists>ch. NewChain X chainID store root = Some ch \<and> chain_inv X ch \<and> chRoot ch = Header_Hash (cB X) root"
proof -
  define ch0 where "ch0 = \<lparr>chStore = store, chChainID = chainID, chRoot = 0\<rparr>"
  have inv0: "chain_inv X ch0" and none: "findBlock X k ch0 = NotFound" for k
    using assms(1) by (auto intro: chain_inv_empty simp: ch0_def findBlock_def readAs_def)
  obtain eb where added: "AddSnapshotRoot X root ch0 = (Added eb, snd (AddSnapshotRoot X root ch0))"
      and eb: "Header_Hash (cB X) eb = Header_Hash (cB X) root"
    using none assms(3) by (simp add: AddSnapshotRoot_def addBlock_def Let_def ch0_def)
  have inv1: "chain_inv X (snd (AddSnapshotRoot X root ch0))"
    using none by (simp add: AddSnapshotRoot_def chain_inv_addBlock[OF inv0 assms(2)])
  from finalize_loop_total[OF chain_invD(1)[OF inv1], of BlockStatusDirectlyFinalized "Header_Hash (cB X) root"] inv1
  obtain ok ch' where "FinalizePreviousBlocks X (Header_Hash (cB X) root) (snd (AddSnapshotRoot X root ch0)) = Some (ok, ch')"
      "chain_inv X ch'"
    by (auto simp: FinalizePreviousBlocks_def IsFinalized_def)
  then show ?thesis
    unfolding NewChain_def Let_def ch0_def[symmetric] none by (subst added) (simp add: eb)
qed

section \<open>Ancestry\<close>

lemma parent_rel_iff: "parent_rel X ch h p \<longleftrightarrow> (\<exists>b. findBlock X h ch = Got b \<and> hParent b = p)"
  by (auto simp: parent_rel_def parentOf_def split: got.splits)

lemma descendant_loop_iff:
  "descendant_loop X ch a n h \<longleftrightarrow> (\<exists>i<n. (parent_rel X ch ^^ i) h a)"
proof (induction n arbitrary: h)
  case (Suc n)
  have "(\<exists>i<Suc n. (parent_rel X ch ^^ i) h a) \<longleftrightarrow> h = a \<or> (\<exists>p. parent_rel X ch h p \<and> (\<exists>i<n. (parent_rel X ch ^^ i) p a))"
    unfolding Ex_less_Suc2 relpowp_Suc_left by (auto simp: OO_def)
  also have "(\<exists>p. parent_rel X ch h p \<and> (\<exists>i<n. (parent_rel X ch ^^ i) p a)) \<longleftrightarrow>
      (case findBlock X h ch of Got b \<Rightarrow> descendant_loop X ch a n (hParent b) | _ \<Rightarrow> False)"
    unfolding parent_rel_iff[of ch h] by (auto simp: Suc.IH split: got.splits)
  finally show ?case
    by simp
qed simp

section \<open>Transactions\<close>

lemma readTx_insertEthTxHash:
  "CalcEthTxHash X b t \<noteq> Some k \<Longrightarrow>
    readAs as_txindex X (txIndexKey k) (insertEthTxHash X b t e ch) = readAs as_txindex X (txIndexKey k) ch"
  by (auto simp: insertEthTxHash_def readAs_writeVal key_simps split: option.splits)

lemma readTx_other:
  assumes "k \<notin> txHashOf X ` set txs" "\<And>t. t \<in> set txs \<Longrightarrow> CalcEthTxHash X b t \<noteq> Some k"
  shows "readAs as_txindex X (txIndexKey k) (addTxs_loop X b force i txs ch) = readAs as_txindex X (txIndexKey k) ch"
  using assms
proof (induction txs arbitrary: i ch)
  case (Cons t txs)
  then show ?case
    by (cases force) (simp_all add: Let_def readTx_insertEthTxHash readAs_writeVal key_simps)
qed simp

lemma readTx_forced:
  assumes "k \<in> txHashOf X ` set txs" "\<And>t. t \<in> set txs \<Longrightarrow> CalcEthTxHash X b t \<noteq> Some k"
  shows "\<exists>j < length txs. txHashOf X (txs ! j) = k \<and>
    readAs as_txindex X (txIndexKey k) (addTxs_loop X b True i txs ch) =
      Got \<lparr>tiBlockHash = Header_Hash (cB X) b, tiBlockHeight = hHeight b, tiIndex = word_of_nat (i + j)\<rparr>"
  using assms
proof (induction txs arbitrary: i ch)
  case (Cons t txs)
  show ?case
  proof (cases "k \<in> txHashOf X ` set txs")
    case True
    obtain ch1 where ch1: "addTxs_loop X b True i (t # txs) ch = addTxs_loop X b True (Suc i) txs ch1"
      by (simp add: Let_def)
    from Cons.IH[OF True, of "Suc i" ch1] Cons.prems(2) obtain j where
      "j < length txs" "txHashOf X (txs ! j) = k" "readAs as_txindex X (txIndexKey k) (addTxs_loop X b True (Suc i) txs ch1) =
        Got \<lparr>tiBlockHash = Header_Hash (cB X) b, tiBlockHeight = hHeight b, tiIndex = word_of_nat (Suc i + j)\<rparr>"
      by auto
    then show ?thesis
      unfolding ch1 by (intro exI[of _ "Suc j"]) simp
  next
    case False
    then show ?thesis
      using Cons.prems by (intro exI[of _ 0]) (simp add: Let_def readTx_other readTx_insertEthTxHash readAs_writeVal)
  qed
qed simp

lemma FindTx_indexed:
  assumes ok: "hashes_ok X ch" and b: "findBlock X h ch = Got b" and tx: "tx \<in> set (bTxs b)"
    and len: "length (bTxs b) < 2 ^ 64"
    and eth: "\<And>t. t \<in> set (bTxs b) \<Longrightarrow> CalcEthTxHash X b t \<noteq> Some (txHashOf X tx)"
  shows "\<exists>tx' \<in> set (bTxs b). txHashOf X tx' = txHashOf X tx \<and>
    FindTxByHash X (txHashOf X tx) (AddTxsToIndex X b True ch) = TxFound tx' b"
proof -
  obtain j where j: "j < length (bTxs b)" "txHashOf X (bTxs b ! j) = txHashOf X tx"
    and entry: "readAs as_txindex X (txIndexKey (txHashOf X tx)) (AddTxsToIndex X b True ch) =
      Got \<lparr>tiBlockHash = h, tiBlockHeight = hHeight b, tiIndex = word_of_nat j\<rparr>"
    using readTx_forced[OF imageI[OF tx] eth, of 0 ch] hashes_okD(3)[OF ok b] by (auto simp: AddTxsToIndex_def)
  have "unat (word_of_nat j :: uint64) = j"
    using j(1) len by (simp add: unsigned_of_nat take_bit_nat_eq_self)
  then have "FindTxByHash X (txHashOf X tx) (AddTxsToIndex X b True ch) = TxFound (bTxs b ! j) b"
    using j(1) b by (simp add: FindTxByHash_def entry AddTxsToIndex_frame)
  with j show ?thesis
    by (metis nth_mem)
qed

section \<open>Receipts and votes\<close>

lemma FindTxReceipt_added:
  "FindTxReceiptByHash X bh th (AddTxReceipt X blk raw logs bcs ret addr gas err ch) =
    (let r = \<lparr>trTxHash = txHashOf X raw, trLogs = logs, trEvmRet = ret, trContractAddress = addr,
              trGasUsed = gas, trEvmErr = (case err of None \<Rightarrow> [] | Some e \<Rightarrow> e)\<rparr>
     in if th = txHashOf X raw \<and> (bh = Header_Hash (cB X) blk \<or> readAs as_receipt X (txReceiptKeyV2 bh th) ch = NotFound)
        then Some r else FindTxReceiptByHash X bh th ch)"
  by (auto simp: FindTxReceiptByHash_def AddTxReceipt_def Let_def readAs_writeVal key_simps split: got.split)

lemma FindVotes_added:
  "FindVotesByHash X h (AddVoteToIndex X v ch) =
    (if h = vBlock v \<and> h \<noteq> 0 then AddVote v (FindVotesByHash X h ch) else FindVotesByHash X h ch)"
  "FindVotesByHash X h (RemoveVotesByHash X h' ch) = (if h = h' then NewVoteSet else FindVotesByHash X h ch)"
  by (auto simp: FindVotesByHash_def AddVoteToIndex_def RemoveVotesByHash_def readAs_def writeVal_def get_put get_delete key_simps)

end

section \<open>A concrete chain\<close>

text \<open>In the examples the hash of a header is its height plus one.\<close>

definition example_block_ops :: block_ops where
  "example_block_ops =
    \<lparr>bCrypto = example_crypto\<lparr>keccak256 := \<lambda>b. case b of [] \<Rightarrow> 0 | x # _ \<Rightarrow> ucast x + 1\<rparr>,
     rlpBytes = (\<lambda>r. case r of RList (_ # _ # RU64 n # _) \<Rightarrow> [ucast n] | _ \<Rightarrow> []),
     rlpUint = (\<lambda>n. [word_of_nat n]), trieRoot = (\<lambda>kvs. word_of_nat (length kvs)), nilSig = []\<rparr>"

definition example_eth_ops :: eth_ops where
  "example_eth_ops =
    \<lparr>txFromBytes = (\<lambda>_. Some None), EthSigningHash = (\<lambda>_ _ _. 0), ValidateEthSignature = (\<lambda>_ _ _. False),
     DecodeSignature = (\<lambda>_. (0, 0, 0)), MapChainID = (\<lambda>_ _. 0), ethHash = (\<lambda>_. 0)\<rparr>"

abbreviation example_chain_ops :: "(bytes, storeval) rollingdb chain_ops" where
  "example_chain_ops \<equiv> rdb_chain_ops example_block_ops example_eth_ops"

definition example_block :: "uint64 \<Rightarrow> hash \<Rightarrow> block" where
  "example_block n p =
    \<lparr>hChainID = ''sub'', hEpoch = n, hHeight = n, hParent = p, hHCC = \<lparr>ccVotes = None, ccBlockHash = p\<rparr>, hTxHash = 0,
     hReceiptHash = 0, hBloom = EmptyBloom, hStateHash = 0, hTimestamp = Some 0, hProposer = 1, hSignature = Some [1],
     hHash = 0, bTxs = [[ucast n, 1], [ucast n, 2]]\<rparr>"

definition example_store :: "(bytes, storeval) rollingdb" where
  "example_store = \<lparr>dbs = \<lambda>_. Map.empty, rootLayer = 0, layers = [], activeLayer = 1\<rparr>"

definition example_chain0 :: "(bytes, storeval) rollingdb chain" where
  "example_chain0 = \<lparr>chStore = example_store, chChainID = ''sub'', chRoot = 0\<rparr>"

definition example_chain1 :: "(bytes, storeval) rollingdb chain" where
  "example_chain1 = snd (AddBlock example_chain_ops (example_block 0 0) example_chain0)"

lemma example_store_empty [simp]: "rdb_Get example_store k = None"
  by (simp add: rdb_Get_def allLayers_def example_store_def)

lemma example_block_simps [simp]:
  "hParent (example_block n p) = p" "hHeight (example_block n p) = n" "hHash (example_block n p) = 0"
  "hChainID (example_block n p) = ''sub''" "bTxs (example_block n p) = [[ucast n, 1], [ucast n, 2]]"
  "Header_Hash example_block_ops (example_block n p) = ucast (ucast n :: byte) + 1"
  "cache_ok example_block_ops (example_block n p)"
  by (simp_all add: example_block_def Header_Hash_def calculateHash_def Header_EncodeRLP_def example_block_ops_def cache_ok_def)

lemma example_find0 [simp]: "findBlock example_chain_ops k example_chain0 = NotFound"
  by (simp add: findBlock_def readAs_def example_chain0_def)

lemma example_chain_id [simp]: "chChainID example_chain0 = ''sub''"
  by (simp add: example_chain0_def)

lemma example_find1:
  "findBlock example_chain_ops k example_chain1 =
    (if k = 1 then Got (clearCache (newExtendedBlock example_chain_ops (example_block 0 0) example_chain0)) else NotFound)"
  using rc.findBlock_addBlock[of "example_block 0 0" example_chain0 example_block_ops example_eth_ops, OF _ _ refl, where snap = False and k = k]
  by (simp add: example_chain1_def AddBlock_def linkParent_def)

lemma example_inv: "chain_inv example_chain_ops example_chain0" "chain_inv example_chain_ops example_chain1"
proof -
  show inv0: "chain_inv example_chain_ops example_chain0"
    by (rule rc.chain_inv_empty) (simp add: example_chain0_def)
  show "chain_inv example_chain_ops example_chain1"
    by (simp add: example_chain1_def AddBlock_def rc.chain_inv_addBlock[OF inv0])
qed

section \<open>Properties\<close>

text \<open>C27: every state that the methods of the chain can reach from a new chain on an empty store is a
  consistent block tree: a block is stored under the hash of its header; the children a block lists are
  distinct stored blocks whose parent it is; a stored block one above its stored parent is among the
  parent's children, in whichever order the two were added; and the height index lists exactly the
  stored blocks of each height, once each.\<close>

theorem chain_reachable_consistent:
  assumes "\<And>k. rdb_Get store k = None" "cache_ok B root" "hChainID root = chainID"
    and "NewChain (rdb_chain_ops B E) chainID store root = Some ch0" "chain_reach (rdb_chain_ops B E) ch0 ch"
  shows "(\<forall>h b. findBlock (rdb_chain_ops B E) h ch = Got b \<longrightarrow>
      Header_Hash B b = h \<and> distinct (eChildren b) \<and>
      (\<forall>c \<in> set (eChildren b). \<exists>cb. findBlock (rdb_chain_ops B E) c ch = Got cb \<and> hParent cb = h) \<and>
      (\<forall>c cb. findBlock (rdb_chain_ops B E) c ch = Got cb \<and> hParent cb = h \<and> h \<noteq> 0 \<and> hHeight cb = hHeight b + 1 \<longrightarrow>
        c \<in> set (eChildren b))) \<and>
    (\<forall>n. distinct (heightIndex (rdb_chain_ops B E) n ch) \<and>
      (\<forall>h. h \<in> set (heightIndex (rdb_chain_ops B E) n ch) \<longleftrightarrow>
        (\<exists>b. findBlock (rdb_chain_ops B E) h ch = Got b \<and> hHeight b = n)))"
proof -
  let ?X = "rdb_chain_ops B E"
  have "chain_inv ?X ch0"
    using rc.NewChain_empty[of B E store root chainID] assms(1-4) by auto
  then have inv: "chain_inv ?X ch"
    by (rule rc.chain_inv_reach[OF assms(5)])
  have "Header_Hash B b = h" if "findBlock ?X h ch = Got b" for h b
    using hashes_okD(3)[OF rc.chain_invD(1)[OF inv] that] by simp
  moreover have "distinct (heightIndex ?X n ch)" for n
    by (rule index_okD(1)[OF rc.chain_invD(3)[OF inv]])
  ultimately show ?thesis
    using rc.stored_children[OF inv] rc.stored_in_index[OF inv] by blast
qed

theorem chain_reachable_consistent_witness:
  "\<exists>ch0. NewChain example_chain_ops ''sub'' example_store (example_block 0 0) = Some ch0 \<and>
    distinct (heightIndex example_chain_ops 1 (snd (AddBlock example_chain_ops (example_block 1 1) ch0)))"
proof -
  obtain ch0 where ch0: "NewChain example_chain_ops ''sub'' example_store (example_block 0 0) = Some ch0"
    using rc.NewChain_empty[of example_block_ops example_eth_ops example_store "example_block 0 0" "''sub''"] by auto
  have "chain_reach example_chain_ops ch0 (snd (AddBlock example_chain_ops (example_block 1 1) ch0))"
    unfolding chain_reach_def by (intro r_into_rtranclp chain_step.add_block) simp
  from chain_reachable_consistent[OF example_store_empty _ _ ch0 this] ch0 show ?thesis
    by auto
qed

text \<open>C28: \<open>FinalizePreviousBlocks\<close> always returns, and keeps the block tree consistent. It changes nothing
  of a stored block but the status, only for ancestors of the given block that were neither final nor
  disposed, and only to a final status. If it does not report an error, the given block is final
  afterwards, and, if the final blocks were closed under stored parents before, so they are after.\<close>

theorem finalization_correct:
  assumes "chain_inv (rdb_chain_ops B E) ch"
  shows "\<exists>ok ch'. FinalizePreviousBlocks (rdb_chain_ops B E) h ch = Some (ok, ch') \<and>
    chain_inv (rdb_chain_ops B E) ch' \<and> finalize_effect (rdb_chain_ops B E) h ch ch' \<and>
    (ok \<and> h \<noteq> 0 \<longrightarrow> (\<forall>b. findBlock (rdb_chain_ops B E) h ch' = Got b \<longrightarrow> IsFinalized (eStatus b))) \<and>
    (ok \<and> finalized_closed (rdb_chain_ops B E) ch \<longrightarrow> finalized_closed (rdb_chain_ops B E) ch')"
proof -
  have "finalized_closed (rdb_chain_ops B E) ch \<Longrightarrow> finalized_closed_upto (rdb_chain_ops B E) h ch"
    unfolding finalized_closed_def finalized_closed_upto_def by blast
  then show ?thesis
    using rc.finalize_loop_total[OF rc.chain_invD(1)[OF assms], of BlockStatusDirectlyFinalized h] assms
    by (auto simp: FinalizePreviousBlocks_def IsFinalized_def)
qed

theorem finalization_correct_witness:
  "\<exists>ok ch' b. FinalizePreviousBlocks example_chain_ops 1 example_chain1 = Some (ok, ch') \<and> ok \<and>
    findBlock example_chain_ops 1 ch' = Got b \<and> IsFinalized (eStatus b)"
proof -
  from finalization_correct[OF example_inv(2), of 1] obtain ok ch' where
    run: "FinalizePreviousBlocks example_chain_ops 1 example_chain1 = Some (ok, ch')"
    and eff: "finalize_effect example_chain_ops 1 example_chain1 ch'"
    and fin: "ok \<longrightarrow> (\<forall>b. findBlock example_chain_ops 1 ch' = Got b \<longrightarrow> IsFinalized (eStatus b))"
    by auto
  have ok: ok
    using run unfolding FinalizePreviousBlocks_def
    by (subst (asm) rc.finalize_loop_unfold, subst (asm) rc.finalize_loop_unfold)
      (simp add: example_find1 IsFinalized_def)
  obtain st b where "findBlock example_chain_ops 1 ch' = Got (b\<lparr>eStatus := st\<rparr>)"
    using eff[unfolded finalize_effect_def, rule_format, of 1] by (auto simp: example_find1)
  with run ok fin show ?thesis
    by blast
qed

text \<open>C29: a block that \<open>AddBlock\<close> accepts is found under its hash afterwards, with the header and
  transactions it was given, status pending, and it is listed at its height; the other blocks stay as they
  are, but that the parent has one more child. Adding it again is rejected and changes nothing.\<close>

theorem AddBlock_FindBlock:
  assumes "chain_inv (rdb_chain_ops B E) ch" "cache_ok B blk" "AddBlock (rdb_chain_ops B E) blk ch = (Added eb, ch')"
  shows "findBlock (rdb_chain_ops B E) (Header_Hash B blk) ch' = Got (clearCache eb) \<and>
    block.truncate eb = blk \<and> eStatus eb = BlockStatusPending \<and>
    Header_Hash B blk \<in> set (heightIndex (rdb_chain_ops B E) (hHeight blk) ch') \<and>
    (\<forall>k. k \<noteq> Header_Hash B blk \<longrightarrow> findBlock (rdb_chain_ops B E) k ch' =
      (case findBlock (rdb_chain_ops B E) k ch of
         Got b \<Rightarrow> Got (if k = hParent blk \<and> k \<noteq> 0 then b\<lparr>eChildren := eChildren b @ [Header_Hash B blk]\<rparr> else b)
       | r \<Rightarrow> r)) \<and>
    (\<forall>blk'. Header_Hash B blk' = Header_Hash B blk \<and> hChainID blk' = chChainID ch' \<longrightarrow>
      AddBlock (rdb_chain_ops B E) blk' ch' = (AlreadyAdded (clearCache eb), ch'))"
proof -
  let ?X = "rdb_chain_ops B E" and ?h = "Header_Hash B blk"
  have ops: "cB ?X = B"
    by simp
  have ch': "ch' = snd (addBlock ?X blk False ch)"
    using assms(3) by (simp add: AddBlock_def)
  have blk: "hChainID blk = chChainID ch" "\<not> isGot (findBlock ?X (Header_Hash (cB ?X) blk) ch)"
    using assms(3) by (auto simp: AddBlock_def addBlock_def Let_def split: if_splits got.splits)
  define ch1 where "ch1 = linkParent ?X blk False ?h ch"
  have eb: "eb = newExtendedBlock ?X blk ch1"
    using assms(3) by (simp add: AddBlock_def rc.addBlock_new[OF blk] Let_def ch1_def ops)
  note find = rc.findBlock_addBlock[OF blk, of ch1 False, unfolded ops, OF ch1_def, folded ch']
  have "?h \<in> set (heightIndex ?X (hHeight blk) ch')"
    unfolding ch' rc.heightIndex_addBlock[OF blk] ops by simp
  moreover have "block.truncate eb = blk" "eStatus eb = BlockStatusPending"
    unfolding eb by (simp_all add: newExtendedBlock_def block.defs extblock.defs)
  moreover have "findBlock ?X k ch1 = (case findBlock ?X k ch of
         Got b \<Rightarrow> Got (if k = hParent blk \<and> k \<noteq> 0 then b\<lparr>eChildren := eChildren b @ [?h]\<rparr> else b) | r \<Rightarrow> r)" for k
    using rc.findBlock_linkParent[OF rc.chain_invD(1)[OF assms(1)], of k blk ?h] by (auto simp: ch1_def split: got.splits)
  moreover have "AddBlock ?X blk' ch' = (AlreadyAdded (clearCache eb), ch')"
    if "Header_Hash B blk' = ?h" "hChainID blk' = chChainID ch'" for blk'
    using that find[of ?h] by (simp add: AddBlock_def addBlock_def ops eb)
  ultimately show ?thesis
    using find eb by simp
qed

theorem AddBlock_FindBlock_witness:
  "\<exists>eb ch'. AddBlock example_chain_ops (example_block 1 1) example_chain1 = (Added eb, ch') \<and>
    findBlock example_chain_ops 2 ch' = Got (clearCache eb)"
proof -
  have "\<not> isGot (findBlock example_chain_ops (Header_Hash example_block_ops (example_block 1 1)) example_chain1)"
    by (simp add: example_find1)
  moreover have "chChainID example_chain1 = ''sub''"
    by code_simp
  ultimately obtain eb ch' where "AddBlock example_chain_ops (example_block 1 1) example_chain1 = (Added eb, ch')"
    using rc.addBlock_new[of "example_block 1 1" example_chain1 example_block_ops example_eth_ops False]
    by (auto simp: AddBlock_def Let_def)
  with AddBlock_FindBlock[OF example_inv(2) _ this] show ?thesis
    by simp
qed

text \<open>C30: \<open>IsDescendant\<close> answers yes exactly for a block that is reached from the other in fewer than 2000
  steps to a stored parent; an ancestor farther away is missed.\<close>

theorem IsDescendant_iff:
  "IsDescendant (rdb_chain_ops B E) a d ch \<longleftrightarrow> (\<exists>i < 2000. (parent_rel (rdb_chain_ops B E) ch ^^ i) d a)"
  unfolding IsDescendant_def maxDistance_def by (rule rc.descendant_loop_iff)

text \<open>C31: after the transactions of a stored block are indexed with \<open>force\<close>, as finalization does, looking
  up the hash of any of them finds a transaction of that block with that hash, and the block. The block
  has fewer than \<open>2^64\<close> transactions, and none has the hash looked up as its Ethereum hash.\<close>

theorem FindTxByHash_indexed:
  assumes "chain_inv (rdb_chain_ops B E) ch" "findBlock (rdb_chain_ops B E) h ch = Got b"
    and "tx \<in> set (bTxs b)" "length (bTxs b) < 2 ^ 64"
    and "\<And>t. t \<in> set (bTxs b) \<Longrightarrow> CalcEthTxHash (rdb_chain_ops B E) b t \<noteq> Some (txHashOf (rdb_chain_ops B E) tx)"
  shows "\<exists>tx' \<in> set (bTxs b). txHashOf (rdb_chain_ops B E) tx' = txHashOf (rdb_chain_ops B E) tx \<and>
    FindTxByHash (rdb_chain_ops B E) (txHashOf (rdb_chain_ops B E) tx) (AddTxsToIndex (rdb_chain_ops B E) b True ch)
      = TxFound tx' b"
  by (rule rc.FindTx_indexed[OF rc.chain_invD(1)[OF assms(1)] assms(2-5)])

theorem FindTxByHash_indexed_witness:
  "\<exists>b tx'. findBlock example_chain_ops 1 example_chain1 = Got b \<and>
    FindTxByHash example_chain_ops 1 (AddTxsToIndex example_chain_ops b True example_chain1) = TxFound tx' b"
proof -
  obtain b where b: "findBlock example_chain_ops 1 example_chain1 = Got b" "bTxs b = [[0, 1], [0, 2]]"
    by (simp add: example_find1 clearCache_def)
  have eth: "CalcEthTxHash example_chain_ops b t = None" for t
    by (simp add: CalcEthTxHash_def example_eth_ops_def)
  have "txHashOf example_chain_ops [0, 1] = 1"
    by (simp add: txHashOf_def example_block_ops_def)
  with FindTxByHash_indexed[OF example_inv(2) b(1), of "[0, 1]"] b eth show ?thesis
    by auto
qed

text \<open>C32: a receipt is found under its block and transaction after it is added. For any other block the
  answer does not change where that block has a receipt of its own; where it has none, the lookup falls
  back to the key without block and returns the receipt added last, whichever block it is for.\<close>

theorem FindTxReceipt_after_AddTxReceipt:
  "FindTxReceiptByHash (rdb_chain_ops B E) bh th (AddTxReceipt (rdb_chain_ops B E) blk raw logs bcs ret addr gas err ch) =
    (if th = txHashOf (rdb_chain_ops B E) raw \<and>
        (bh = Header_Hash B blk \<or> readAs as_receipt (rdb_chain_ops B E) (txReceiptKeyV2 bh th) ch = NotFound)
     then Some \<lparr>trTxHash = txHashOf (rdb_chain_ops B E) raw, trLogs = logs, trEvmRet = ret, trContractAddress = addr,
                trGasUsed = gas, trEvmErr = (case err of None \<Rightarrow> [] | Some e \<Rightarrow> e)\<rparr>
     else FindTxReceiptByHash (rdb_chain_ops B E) bh th ch)"
  using rc.FindTxReceipt_added[of B E bh th blk raw logs bcs ret addr gas err ch] by (simp only: Let_def rdb_chain_ops_simps)

end
