(* ===== verification/StoreView.thy ===== *)
theory StoreView
  imports Chain ValidatorSet "HOL-Library.Monad_Syntax"
begin

text \<open>
  The state of the accounts: tree stores (\<open>store/treestore/treestore.go\<close>), the keys of the state
  (\<open>ledger/state/keys.go\<close>) and the store view (\<open>ledger/state/storeview.go\<close>), which is the state database of
  the virtual machine.

  Parameters (\<open>state_ops\<close>): the Merkle trie of the library with its database, the encoding of the values
  kept in it, the constructor of accounts, and the arithmetic of coins; \<open>tree_laws\<close>, \<open>codec_laws\<close> and
  \<open>coin_laws\<close> state what the code relies on of them. A trie \<open>'t\<close> includes the nodes its in-memory database
  holds; the persistent database \<open>'d\<close> is shared by all views and is passed explicitly. Where the code
  panics, the result is \<open>None\<close>. Amounts of coins are never nil: \<open>NoNil\<close> is the identity.
\<close>

section \<open>Parameters\<close>

record coins =
  coTheta :: int
  coTFuel :: int

record account =
  acAddress :: address
  acSequence :: uint64
  acBalance :: coins
  acRoot :: hash
  acCodeHash :: hash
  acLastUpdated :: uint64

record ('t, 'd) state_ops =
  trNew :: "hash \<Rightarrow> 'd \<Rightarrow> 't option"
  trGet :: "'t \<Rightarrow> bytes \<Rightarrow> bytes"
  trUpdate :: "bytes \<Rightarrow> bytes \<Rightarrow> 't \<Rightarrow> 't"
  trDelete :: "bytes \<Rightarrow> 't \<Rightarrow> 't"
  trHash :: "'t \<Rightarrow> hash"
  trCommit :: "'t \<Rightarrow> (hash \<times> 't) option"
  trFlush :: "'t \<Rightarrow> hash \<Rightarrow> 'd \<Rightarrow> 'd option"
  trOpen :: "'t \<Rightarrow> hash \<Rightarrow> 't option"
  trCopy :: "'t \<Rightarrow> 't option"
  encAccount :: "account \<Rightarrow> bytes"
  decAccount :: "bytes \<Rightarrow> account option"
  encValidatorSet :: "validatorset \<Rightarrow> bytes"
  decValidatorSet :: "bytes \<Rightarrow> validatorset option"
  encHeightList :: "uint64 list \<Rightarrow> bytes"
  decHeightList :: "bytes \<Rightarrow> uint64 list option"
  decAddress :: "bytes \<Rightarrow> address option"
  encSlot :: "bytes \<Rightarrow> bytes"
  decSlot :: "bytes \<Rightarrow> bytes option"
  NewAccount :: "address \<Rightarrow> account"
  EmptyCodeHash :: hash
  emptyRoot :: hash
  codeHashOf :: "bytes \<Rightarrow> hash"
  coPlus :: "coins \<Rightarrow> coins \<Rightarrow> coins"
  coMinus :: "coins \<Rightarrow> coins \<Rightarrow> coins"
  coIsGTE :: "coins \<Rightarrow> coins \<Rightarrow> bool"
  coIsEqual :: "coins \<Rightarrow> coins \<Rightarrow> bool"
  coIsNonnegative :: "coins \<Rightarrow> bool"
  coIsZero :: "coins \<Rightarrow> bool"

definition coin_laws :: "('t, 'd) state_ops \<Rightarrow> bool" where
  "coin_laws S \<longleftrightarrow>
    (\<forall>a b. coPlus S a b = \<lparr>coTheta = coTheta a + coTheta b, coTFuel = coTFuel a + coTFuel b\<rparr> \<and>
      coMinus S a b = \<lparr>coTheta = coTheta a - coTheta b, coTFuel = coTFuel a - coTFuel b\<rparr> \<and>
      (coIsGTE S a b \<longleftrightarrow> coTheta b \<le> coTheta a \<and> coTFuel b \<le> coTFuel a) \<and>
      (coIsEqual S a b \<longleftrightarrow> a = b) \<and>
      (coIsNonnegative S a \<longleftrightarrow> 0 \<le> coTheta a \<and> 0 \<le> coTFuel a) \<and>
      (coIsZero S a \<longleftrightarrow> coTheta a = 0 \<and> coTFuel a = 0))"

definition codec_laws :: "('t, 'd) state_ops \<Rightarrow> bool" where
  "codec_laws S \<longleftrightarrow>
    (\<forall>a. decAccount S (encAccount S a) = Some a \<and> encAccount S a \<noteq> []) \<and>
    (\<forall>vs. decValidatorSet S (encValidatorSet S vs) = Some vs \<and> encValidatorSet S vs \<noteq> []) \<and>
    (\<forall>hl. decHeightList S (encHeightList S hl) = Some hl \<and> encHeightList S hl \<noteq> []) \<and>
    (\<forall>b. decSlot S (encSlot S b) = Some b \<and> encSlot S b \<noteq> []) \<and>
    (\<forall>a. acAddress (NewAccount S a) = a \<and> acSequence (NewAccount S a) = 0 \<and> acRoot (NewAccount S a) = 0 \<and>
      acBalance (NewAccount S a) = \<lparr>coTheta = 0, coTFuel = 0\<rparr> \<and> acCodeHash (NewAccount S a) = EmptyCodeHash S)"

section \<open>Tree stores\<close>

text \<open>
  A tree that comes from another by updates, deletions, commits to the in-memory database and returns to
  earlier roots.
\<close>

inductive tree_later :: "('t, 'd) state_ops \<Rightarrow> 't \<Rightarrow> 't \<Rightarrow> bool" for S where
  refl: "tree_later S t t"
| update: "tree_later S t u \<Longrightarrow> tree_later S t (trUpdate S k v u)"
| delete: "tree_later S t u \<Longrightarrow> tree_later S t (trDelete S k u)"
| commit: "tree_later S t u \<Longrightarrow> trCommit S u = Some (h, u') \<Longrightarrow> tree_later S t u'"
| reopen: "tree_later S t u \<Longrightarrow> trOpen S u h = Some u' \<Longrightarrow> tree_later S t u'"

text \<open>
  What the code relies on of the trie: it is a map from keys to values, its hash is a function of its
  contents, a committed root can be opened again later, and a root flushed to the database can be opened
  from there, as can all that could be opened before.
\<close>

definition tree_laws :: "('t, 'd) state_ops \<Rightarrow> bool" where
  "tree_laws S \<longleftrightarrow>
    (\<forall>t k v. trGet S (trUpdate S k v t) = (trGet S t)(k := v)) \<and>
    (\<forall>t k. trGet S (trDelete S k t) = (trGet S t)(k := [])) \<and>
    (\<forall>t u. trGet S t = trGet S u \<longrightarrow> trHash S t = trHash S u) \<and>
    (\<forall>t h t'. trCommit S t = Some (h, t') \<longrightarrow> h = trHash S t \<and> trGet S t' = trGet S t) \<and>
    (\<forall>t u. trCopy S t = Some u \<longrightarrow> trGet S u = trGet S t) \<and>
    (\<forall>t h t' u. trCommit S t = Some (h, t') \<and> tree_later S t' u \<longrightarrow>
      (\<exists>t''. trOpen S u h = Some t'' \<and> trGet S t'' = trGet S t)) \<and>
    (\<forall>t h t' d d'. trCommit S t = Some (h, t') \<and> trFlush S t' h d = Some d' \<longrightarrow>
      (\<exists>u. trNew S h d' = Some u \<and> trGet S u = trGet S t) \<and>
      (\<forall>r u. trNew S r d = Some u \<longrightarrow> (\<exists>u'. trNew S r d' = Some u' \<and> trGet S u' = trGet S u)))"

definition TreeStore_Commit :: "('t, 'd) state_ops \<Rightarrow> 't \<Rightarrow> 'd \<Rightarrow> (hash \<times> 't \<times> 'd) option" where
  "TreeStore_Commit S t d = do {
    (h, t1) \<leftarrow> trCommit S t;
    d1 \<leftarrow> trFlush S t1 h d;
    Some (h, t1, d1)
  }"

definition TreeStore_Revert :: "('t, 'd) state_ops \<Rightarrow> hash \<Rightarrow> 't \<Rightarrow> 't option" where
  "TreeStore_Revert S root t = trOpen S t root"

text \<open>The copy, if there is one, and the store itself, which is committed first.\<close>

definition TreeStore_Copy :: "('t, 'd) state_ops \<Rightarrow> 't \<Rightarrow> 't option \<times> 't" where
  "TreeStore_Copy S t =
    (let t1 = (case trCommit S t of Some (_, t1) \<Rightarrow> t1 | None \<Rightarrow> t) in (trCopy S t1, t1))"

section \<open>Keys\<close>

definition addr_bytes :: "address \<Rightarrow> bytes" where
  "addr_bytes a = map (\<lambda>i. ucast (drop_bit (8 * (19 - i)) a)) [0..<20]"

definition decInt :: "int \<Rightarrow> string" where
  "decInt i = (if i < 0 then ''-'' @ dec (nat (- i)) else dec (nat i))"

definition ChainIDKey :: bytes where
  "ChainIDKey = ascii ''chainid''"

definition AccountKey :: "address \<Rightarrow> bytes" where
  "AccountKey addr = ascii ''ls/a/'' @ addr_bytes addr"

definition SplitRuleKeyPrefix :: bytes where
  "SplitRuleKeyPrefix = ascii ''ls/ssc/split/''"

definition SplitRuleKey :: "string \<Rightarrow> bytes" where
  "SplitRuleKey resourceID = SplitRuleKeyPrefix @ ascii resourceID"

definition CodeKey :: "bytes \<Rightarrow> bytes" where
  "CodeKey codeHash = ascii ''ls/ch/'' @ codeHash"

definition CurrentValidatorSetKey :: bytes where
  "CurrentValidatorSetKey = ascii ''ls/vs''"

definition ValidatorSetForChainDuringDynastyKey :: "int \<Rightarrow> int \<Rightarrow> bytes" where
  "ValidatorSetForChainDuringDynastyKey chainID dyn =
    ascii ''ls/vscd/'' @ ascii (decInt chainID) @ ascii ''/'' @ ascii (decInt dyn)"

definition ValidatorSetUpdateTxHeightListKey :: bytes where
  "ValidatorSetUpdateTxHeightListKey = ascii ''ls/sthl''"

definition StatePruningProgressKey :: bytes where
  "StatePruningProgressKey = ascii ''ls/spp''"

definition ChainRegistrarContractAddressKey :: bytes where
  "ChainRegistrarContractAddressKey = ascii ''ls/trca''"

definition TFuelTokenBankContractAddressKey :: bytes where
  "TFuelTokenBankContractAddressKey = ascii ''ls/tbca/tfuel''"

definition TNT20TokenBankContractAddressKey :: bytes where
  "TNT20TokenBankContractAddressKey = ascii ''ls/tbca/tnt20''"

definition TNT721TokenBankContractAddressKey :: bytes where
  "TNT721TokenBankContractAddressKey = ascii ''ls/tbca/tnt721''"

definition TNT1155TokenBankContractAddressKey :: bytes where
  "TNT1155TokenBankContractAddressKey = ascii ''ls/tbca/tnt1155''"

section \<open>The view\<close>

text \<open>A slash intent of the library is kept as its encoding.\<close>

type_synonym slashintent = bytes

record 't storeview =
  svHeight :: uint64
  svStore :: 't
  svCoinbaseProcessed :: bool
  svValidatorSetProcessed :: bool
  svSlashIntents :: "slashintent list"
  svRefund :: uint64
  svLogs :: "evmlog list"
  svBalanceChanges :: "balancechange list"

definition freshView :: "uint64 \<Rightarrow> 't \<Rightarrow> 't storeview" where
  "freshView height store =
    \<lparr>svHeight = height, svStore = store, svCoinbaseProcessed = False, svValidatorSetProcessed = False,
     svSlashIntents = [], svRefund = 0, svLogs = [], svBalanceChanges = []\<rparr>"

definition NewStoreView :: "('t, 'd) state_ops \<Rightarrow> uint64 \<Rightarrow> hash \<Rightarrow> 'd \<Rightarrow> 't storeview option" where
  "NewStoreView S height root d = map_option (freshView height) (trNew S root d)"

definition StoreView_Copy :: "('t, 'd) state_ops \<Rightarrow> 't storeview \<Rightarrow> 't storeview option \<times> 't storeview" where
  "StoreView_Copy S sv =
    (let (copied, t1) = TreeStore_Copy S (svStore sv)
     in (map_option (freshView (svHeight sv)) copied, sv\<lparr>svStore := t1\<rparr>))"

definition StoreView_Hash :: "('t, 'd) state_ops \<Rightarrow> 't storeview \<Rightarrow> hash" where
  "StoreView_Hash S sv = trHash S (svStore sv)"

definition IncrementHeight :: "'t storeview \<Rightarrow> 't storeview" where
  "IncrementHeight sv = sv\<lparr>svHeight := svHeight sv + 1\<rparr>"

definition Save :: "('t, 'd) state_ops \<Rightarrow> 't storeview \<Rightarrow> 'd \<Rightarrow> (hash \<times> 't storeview \<times> 'd) option" where
  "Save S sv d = do { (h, t, d1) \<leftarrow> TreeStore_Commit S (svStore sv) d; Some (h, sv\<lparr>svStore := t\<rparr>, d1) }"

definition sv_Get :: "('t, 'd) state_ops \<Rightarrow> bytes \<Rightarrow> 't storeview \<Rightarrow> bytes" where
  "sv_Get S key sv = trGet S (svStore sv) key"

definition sv_Set :: "('t, 'd) state_ops \<Rightarrow> bytes \<Rightarrow> bytes \<Rightarrow> 't storeview \<Rightarrow> 't storeview" where
  "sv_Set S key v sv = sv\<lparr>svStore := trUpdate S key v (svStore sv)\<rparr>"

definition sv_Delete :: "('t, 'd) state_ops \<Rightarrow> bytes \<Rightarrow> 't storeview \<Rightarrow> 't storeview" where
  "sv_Delete S key sv = sv\<lparr>svStore := trDelete S key (svStore sv)\<rparr>"

definition AddSlashIntent :: "slashintent \<Rightarrow> 't storeview \<Rightarrow> 't storeview" where
  "AddSlashIntent i sv = sv\<lparr>svSlashIntents := svSlashIntents sv @ [i]\<rparr>"

definition ClearSlashIntents :: "'t storeview \<Rightarrow> 't storeview" where
  "ClearSlashIntents sv = sv\<lparr>svSlashIntents := []\<rparr>"

definition SetCoinbaseTransactionProcessed :: "bool \<Rightarrow> 't storeview \<Rightarrow> 't storeview" where
  "SetCoinbaseTransactionProcessed processed sv = sv\<lparr>svCoinbaseProcessed := processed\<rparr>"

definition SetSubchainValidatorSetTransactionProcessed :: "bool \<Rightarrow> 't storeview \<Rightarrow> 't storeview" where
  "SetSubchainValidatorSetTransactionProcessed processed sv = sv\<lparr>svValidatorSetProcessed := processed\<rparr>"

text \<open>A value read under a key: absent where it is empty, a panic where it does not decode.\<close>

definition readKey :: "('t, 'd) state_ops \<Rightarrow> (bytes \<Rightarrow> 'a option) \<Rightarrow> bytes \<Rightarrow> 't storeview \<Rightarrow> 'a option option" where
  "readKey S decode key sv =
    (let data = sv_Get S key sv in if data = [] then Some None else map_option Some (decode data))"

definition GetAccount :: "('t, 'd) state_ops \<Rightarrow> address \<Rightarrow> 't storeview \<Rightarrow> account option option" where
  "GetAccount S addr sv = readKey S (decAccount S) (AccountKey addr) sv"

definition getAccountStorage :: "('t, 'd) state_ops \<Rightarrow> account \<Rightarrow> 'd \<Rightarrow> 't option" where
  "getAccountStorage S acc d = trNew S (acRoot acc) d"

definition setAccount ::
  "('t, 'd) state_ops \<Rightarrow> bool \<Rightarrow> address \<Rightarrow> account \<Rightarrow> 't storeview \<times> 'd \<Rightarrow> ('t storeview \<times> 'd) option" where
  "setAccount S updateRefCount addr acc s =
    (let sv = sv_Set S (AccountKey addr) (encAccount S acc) (fst s) in
     if \<not> updateRefCount \<or> acRoot acc = 0 \<or> acRoot acc = emptyRoot S then Some (sv, snd s)
     else do {
       tree \<leftarrow> getAccountStorage S acc (snd s);
       (_, _, d) \<leftarrow> TreeStore_Commit S tree (snd s);
       Some (sv, d)
     })"

definition SetAccount :: "('t, 'd) state_ops \<Rightarrow> address \<Rightarrow> account \<Rightarrow> 't storeview \<times> 'd \<Rightarrow> ('t storeview \<times> 'd) option" where
  "SetAccount S addr acc s = setAccount S True addr acc s"

definition DeleteAccount :: "('t, 'd) state_ops \<Rightarrow> address \<Rightarrow> 't storeview \<Rightarrow> 't storeview" where
  "DeleteAccount S addr sv = sv_Delete S (AccountKey addr) sv"

definition GetDynasty :: "('t, 'd) state_ops \<Rightarrow> 't storeview \<Rightarrow> int option option" where
  "GetDynasty S sv = do { r \<leftarrow> readKey S (decValidatorSet S) CurrentValidatorSetKey sv; Some (map_option dynasty r) }"

definition sv_GetValidatorSet :: "('t, 'd) state_ops \<Rightarrow> 't storeview \<Rightarrow> validatorset option option" where
  "sv_GetValidatorSet S sv = readKey S (decValidatorSet S) CurrentValidatorSetKey sv"

definition UpdateValidatorSet :: "('t, 'd) state_ops \<Rightarrow> int \<Rightarrow> validatorset \<Rightarrow> 't storeview \<Rightarrow> 't storeview" where
  "UpdateValidatorSet S chainID vs sv =
    (let vsBytes = encValidatorSet S vs
     in sv_Set S (ValidatorSetForChainDuringDynastyKey chainID (dynasty vs)) vsBytes
          (sv_Set S CurrentValidatorSetKey vsBytes sv))"

definition GetValidatorSetForChainDuringDynasty ::
  "('t, 'd) state_ops \<Rightarrow> int \<Rightarrow> int \<Rightarrow> 't storeview \<Rightarrow> validatorset option option" where
  "GetValidatorSetForChainDuringDynasty S chainID dyn sv =
    readKey S (decValidatorSet S) (ValidatorSetForChainDuringDynastyKey chainID dyn) sv"

definition GetChainRegistrarContractAddress :: "('t, 'd) state_ops \<Rightarrow> 't storeview \<Rightarrow> address option option" where
  "GetChainRegistrarContractAddress S sv = readKey S (decAddress S) ChainRegistrarContractAddressKey sv"

definition GetTFuelTokenBankContractAddress :: "('t, 'd) state_ops \<Rightarrow> 't storeview \<Rightarrow> address option option" where
  "GetTFuelTokenBankContractAddress S sv = readKey S (decAddress S) TFuelTokenBankContractAddressKey sv"

definition GetTNT20TokenBankContractAddress :: "('t, 'd) state_ops \<Rightarrow> 't storeview \<Rightarrow> address option option" where
  "GetTNT20TokenBankContractAddress S sv = readKey S (decAddress S) TNT20TokenBankContractAddressKey sv"

definition GetTNT721TokenBankContractAddress :: "('t, 'd) state_ops \<Rightarrow> 't storeview \<Rightarrow> address option option" where
  "GetTNT721TokenBankContractAddress S sv = readKey S (decAddress S) TNT721TokenBankContractAddressKey sv"

definition GetTNT1155TokenBankContractAddress :: "('t, 'd) state_ops \<Rightarrow> 't storeview \<Rightarrow> address option option" where
  "GetTNT1155TokenBankContractAddress S sv = readKey S (decAddress S) TNT1155TokenBankContractAddressKey sv"

definition GetValidatorSetUpdateTxHeightList :: "('t, 'd) state_ops \<Rightarrow> 't storeview \<Rightarrow> uint64 list option option" where
  "GetValidatorSetUpdateTxHeightList S sv = readKey S (decHeightList S) ValidatorSetUpdateTxHeightListKey sv"

definition UpdateValidatorSetUpdateTxHeightList :: "('t, 'd) state_ops \<Rightarrow> uint64 list \<Rightarrow> 't storeview \<Rightarrow> 't storeview" where
  "UpdateValidatorSetUpdateTxHeightList S hl sv = sv_Set S ValidatorSetUpdateTxHeightListKey (encHeightList S hl) sv"

definition ResetLogs :: "'t storeview \<Rightarrow> 't storeview" where
  "ResetLogs sv = sv\<lparr>svLogs := []\<rparr>"

definition PopLogs :: "'t storeview \<Rightarrow> evmlog list \<times> 't storeview" where
  "PopLogs sv = (svLogs sv, ResetLogs sv)"

definition ResetBalanceChanges :: "'t storeview \<Rightarrow> 't storeview" where
  "ResetBalanceChanges sv = sv\<lparr>svBalanceChanges := []\<rparr>"

definition PopBalanceChanges :: "'t storeview \<Rightarrow> balancechange list \<times> 't storeview" where
  "PopBalanceChanges sv = (svBalanceChanges sv, ResetBalanceChanges sv)"

section \<open>The state database of the virtual machine\<close>

definition CreateAccount :: "('t, 'd) state_ops \<Rightarrow> address \<Rightarrow> 't storeview \<times> 'd \<Rightarrow> ('t storeview \<times> 'd) option" where
  "CreateAccount S addr s = SetAccount S addr (NewAccount S addr) s"

definition GetOrCreateAccount :: "('t, 'd) state_ops \<Rightarrow> address \<Rightarrow> 't storeview \<Rightarrow> account option" where
  "GetOrCreateAccount S addr sv = do {
    r \<leftarrow> GetAccount S addr sv;
    Some (case r of Some acc \<Rightarrow> acc | None \<Rightarrow> NewAccount S addr)
  }"

definition CreateAccountWithPreviousBalance ::
  "('t, 'd) state_ops \<Rightarrow> address \<Rightarrow> 't storeview \<times> 'd \<Rightarrow> ('t storeview \<times> 'd) option" where
  "CreateAccountWithPreviousBalance S addr s = do {
    existing \<leftarrow> GetAccount S addr (fst s);
    SetAccount S addr
      (case existing of
         None \<Rightarrow> NewAccount S addr
       | Some acc \<Rightarrow> (NewAccount S addr)\<lparr>acBalance := acBalance acc\<rparr>) s
  }"

definition addBalanceChange :: "balancechange \<Rightarrow> 't storeview \<Rightarrow> 't storeview" where
  "addBalanceChange bc sv = sv\<lparr>svBalanceChanges := svBalanceChanges sv @ [bc]\<rparr>"

definition SubBalance :: "('t, 'd) state_ops \<Rightarrow> address \<Rightarrow> int \<Rightarrow> 't storeview \<times> 'd \<Rightarrow> ('t storeview \<times> 'd) option" where
  "SubBalance S addr amount s =
    (if amount = 0 then Some s
     else do {
       r \<leftarrow> GetAccount S addr (fst s);
       acc \<leftarrow> r;
       s1 \<leftarrow> SetAccount S addr
         (acc\<lparr>acBalance := (acBalance acc)\<lparr>coTFuel := coTFuel (acBalance acc) - amount\<rparr>\<rparr>) s;
       Some (addBalanceChange \<lparr>bcAddress = addr, bcTokenType = 1, bcIsNegative = True, bcDelta = amount\<rparr> (fst s1), snd s1)
     })"

definition AddBalance :: "('t, 'd) state_ops \<Rightarrow> address \<Rightarrow> int \<Rightarrow> 't storeview \<times> 'd \<Rightarrow> ('t storeview \<times> 'd) option" where
  "AddBalance S addr amount s =
    (if amount = 0 then Some s
     else do {
       acc \<leftarrow> GetOrCreateAccount S addr (fst s);
       s1 \<leftarrow> SetAccount S addr
         (acc\<lparr>acBalance := (acBalance acc)\<lparr>coTFuel := coTFuel (acBalance acc) + amount\<rparr>\<rparr>) s;
       Some (addBalanceChange \<lparr>bcAddress = addr, bcTokenType = 1, bcIsNegative = False, bcDelta = amount\<rparr> (fst s1), snd s1)
     })"

definition GetBalance :: "('t, 'd) state_ops \<Rightarrow> address \<Rightarrow> 't storeview \<Rightarrow> int option" where
  "GetBalance S addr sv = do { acc \<leftarrow> GetOrCreateAccount S addr sv; Some (coTFuel (acBalance acc)) }"

definition SubThetaBalance :: "('t, 'd) state_ops \<Rightarrow> address \<Rightarrow> int \<Rightarrow> 't storeview \<times> 'd \<Rightarrow> ('t storeview \<times> 'd) option" where
  "SubThetaBalance S addr amount s =
    (if amount = 0 then Some s
     else do {
       r \<leftarrow> GetAccount S addr (fst s);
       acc \<leftarrow> r;
       s1 \<leftarrow> SetAccount S addr
         (acc\<lparr>acBalance := (acBalance acc)\<lparr>coTheta := coTheta (acBalance acc) - amount\<rparr>\<rparr>) s;
       Some (addBalanceChange \<lparr>bcAddress = addr, bcTokenType = 0, bcIsNegative = True, bcDelta = amount\<rparr> (fst s1), snd s1)
     })"

definition AddThetaBalance :: "('t, 'd) state_ops \<Rightarrow> address \<Rightarrow> int \<Rightarrow> 't storeview \<times> 'd \<Rightarrow> ('t storeview \<times> 'd) option" where
  "AddThetaBalance S addr amount s =
    (if amount = 0 then Some s
     else do {
       acc \<leftarrow> GetOrCreateAccount S addr (fst s);
       s1 \<leftarrow> SetAccount S addr
         (acc\<lparr>acBalance := (acBalance acc)\<lparr>coTheta := coTheta (acBalance acc) + amount\<rparr>\<rparr>) s;
       Some (addBalanceChange \<lparr>bcAddress = addr, bcTokenType = 0, bcIsNegative = False, bcDelta = amount\<rparr> (fst s1), snd s1)
     })"

definition GetThetaBalance :: "('t, 'd) state_ops \<Rightarrow> address \<Rightarrow> 't storeview \<Rightarrow> int option" where
  "GetThetaBalance S addr sv = do { acc \<leftarrow> GetOrCreateAccount S addr sv; Some (coTheta (acBalance acc)) }"

definition GetThetaStake :: "address \<Rightarrow> int" where
  "GetThetaStake addr = 0"

definition GetNonce :: "('t, 'd) state_ops \<Rightarrow> address \<Rightarrow> 't storeview \<Rightarrow> uint64 option" where
  "GetNonce S addr sv = do { acc \<leftarrow> GetOrCreateAccount S addr sv; Some (acSequence acc) }"

definition SetNonce :: "('t, 'd) state_ops \<Rightarrow> address \<Rightarrow> uint64 \<Rightarrow> 't storeview \<times> 'd \<Rightarrow> ('t storeview \<times> 'd) option" where
  "SetNonce S addr nonce s = do {
    acc \<leftarrow> GetOrCreateAccount S addr (fst s);
    SetAccount S addr (acc\<lparr>acSequence := nonce\<rparr>) s
  }"

definition SuicidedCodeHash :: hash where
  "SuicidedCodeHash = 0xdeaddeaddeaddeaddeaddeaddeaddeaddeaddeaddeaddeaddeaddeaddeaddead"

definition GetCodeHash :: "('t, 'd) state_ops \<Rightarrow> address \<Rightarrow> 't storeview \<Rightarrow> hash option" where
  "GetCodeHash S addr sv = do {
    r \<leftarrow> GetAccount S addr sv;
    Some (case r of None \<Rightarrow> 0 | Some acc \<Rightarrow> acCodeHash acc)
  }"

definition GetCodeByHash :: "('t, 'd) state_ops \<Rightarrow> hash \<Rightarrow> 't storeview \<Rightarrow> bytes" where
  "GetCodeByHash S codeHash sv =
    (if codeHash = SuicidedCodeHash then [] else sv_Get S (CodeKey (hash_bytes codeHash)) sv)"

definition GetCode :: "('t, 'd) state_ops \<Rightarrow> address \<Rightarrow> 't storeview \<Rightarrow> bytes option" where
  "GetCode S addr sv = do {
    r \<leftarrow> GetAccount S addr sv;
    Some (case r of
        None \<Rightarrow> []
      | Some acc \<Rightarrow>
          if acCodeHash acc = EmptyCodeHash S \<or> acCodeHash acc = SuicidedCodeHash then []
          else GetCodeByHash S (acCodeHash acc) sv)
  }"

definition SetCode :: "('t, 'd) state_ops \<Rightarrow> address \<Rightarrow> bytes \<Rightarrow> 't storeview \<times> 'd \<Rightarrow> ('t storeview \<times> 'd) option" where
  "SetCode S addr code s = do {
    acc \<leftarrow> GetOrCreateAccount S addr (fst s);
    let codeHash = codeHashOf S code;
    SetAccount S addr (acc\<lparr>acCodeHash := codeHash\<rparr>)
      (sv_Set S (CodeKey (hash_bytes codeHash)) code (fst s), snd s)
  }"

definition GetCodeSize :: "('t, 'd) state_ops \<Rightarrow> address \<Rightarrow> 't storeview \<Rightarrow> nat option" where
  "GetCodeSize S addr sv = map_option length (GetCode S addr sv)"

definition AddRefund :: "uint64 \<Rightarrow> 't storeview \<Rightarrow> 't storeview" where
  "AddRefund gas sv = sv\<lparr>svRefund := svRefund sv + gas\<rparr>"

definition SubRefund :: "uint64 \<Rightarrow> 't storeview \<Rightarrow> 't storeview option" where
  "SubRefund gas sv = (if gas > svRefund sv then None else Some (sv\<lparr>svRefund := svRefund sv - gas\<rparr>))"

definition ResetRefund :: "'t storeview \<Rightarrow> 't storeview" where
  "ResetRefund sv = sv\<lparr>svRefund := 0\<rparr>"

definition GetBlockHeight :: "'t storeview \<Rightarrow> uint64" where
  "GetBlockHeight sv = svHeight sv + 1"

text \<open>\<open>common.BytesToHash\<close> keeps the last 32 bytes; \<open>bytes.TrimLeft\<close> drops leading zeros.\<close>

definition BytesToHash :: "bytes \<Rightarrow> hash" where
  "BytesToHash b = word_of_int (foldl (\<lambda>n x. 256 * n + uint x) 0 b)"

definition trimZeros :: "bytes \<Rightarrow> bytes" where
  "trimZeros b = dropWhile (\<lambda>x. x = 0) b"

definition GetState :: "('t, 'd) state_ops \<Rightarrow> address \<Rightarrow> hash \<Rightarrow> 't storeview \<times> 'd \<Rightarrow> hash option" where
  "GetState S addr key s = do {
    r \<leftarrow> GetAccount S addr (fst s);
    (case r of
       None \<Rightarrow> Some 0
     | Some acc \<Rightarrow> do {
         tree \<leftarrow> getAccountStorage S acc (snd s);
         let enc = trGet S tree (hash_bytes key);
         if length enc > 0 then do { content \<leftarrow> decSlot S enc; Some (BytesToHash content) } else Some 0
       })
  }"

definition GetCommittedState :: "('t, 'd) state_ops \<Rightarrow> address \<Rightarrow> hash \<Rightarrow> 't storeview \<times> 'd \<Rightarrow> hash option" where
  "GetCommittedState S addr key s = GetState S addr key s"

definition SetState :: "('t, 'd) state_ops \<Rightarrow> address \<Rightarrow> hash \<Rightarrow> hash \<Rightarrow> 't storeview \<times> 'd \<Rightarrow> ('t storeview \<times> 'd) option" where
  "SetState S addr key val s = do {
    acc \<leftarrow> GetOrCreateAccount S addr (fst s);
    tree \<leftarrow> getAccountStorage S acc (snd s);
    let tree1 = (if val = 0 then trDelete S (hash_bytes key) tree
                 else trUpdate S (hash_bytes key) (encSlot S (trimZeros (hash_bytes val))) tree);
    (root, _, d) \<leftarrow> TreeStore_Commit S tree1 (snd s);
    setAccount S False addr (acc\<lparr>acRoot := root\<rparr>) (fst s, d)
  }"

definition Suicide :: "('t, 'd) state_ops \<Rightarrow> address \<Rightarrow> 't storeview \<times> 'd \<Rightarrow> (bool \<times> 't storeview \<times> 'd) option" where
  "Suicide S addr s = do {
    r \<leftarrow> GetAccount S addr (fst s);
    (case r of
       None \<Rightarrow> Some (False, s)
     | Some acc \<Rightarrow> do {
         let sv = addBalanceChange
           \<lparr>bcAddress = addr, bcTokenType = 1, bcIsNegative = True, bcDelta = coTFuel (acBalance acc)\<rparr> (fst s);
         s1 \<leftarrow> SetAccount S addr
           (acc\<lparr>acCodeHash := SuicidedCodeHash, acBalance := (acBalance acc)\<lparr>coTFuel := 0\<rparr>\<rparr>) (sv, snd s);
         Some (True, s1)
       })
  }"

definition HasSuicided :: "('t, 'd) state_ops \<Rightarrow> address \<Rightarrow> 't storeview \<Rightarrow> bool option" where
  "HasSuicided S addr sv = do {
    r \<leftarrow> GetAccount S addr sv;
    Some (case r of None \<Rightarrow> True | Some acc \<Rightarrow> acCodeHash acc = SuicidedCodeHash)
  }"

definition Exist :: "('t, 'd) state_ops \<Rightarrow> address \<Rightarrow> 't storeview \<Rightarrow> bool option" where
  "Exist S addr sv = do { r \<leftarrow> GetAccount S addr sv; Some (r \<noteq> None) }"

definition Empty :: "('t, 'd) state_ops \<Rightarrow> address \<Rightarrow> 't storeview \<Rightarrow> bool option" where
  "Empty S addr sv = do {
    r \<leftarrow> GetAccount S addr sv;
    Some (case r of
        None \<Rightarrow> True
      | Some acc \<Rightarrow> acSequence acc = 0 \<and> acCodeHash acc = EmptyCodeHash S \<and> coIsZero S (acBalance acc))
  }"

definition RevertToSnapshot :: "('t, 'd) state_ops \<Rightarrow> hash \<Rightarrow> 't storeview \<Rightarrow> 't storeview option" where
  "RevertToSnapshot S root sv = do { t \<leftarrow> TreeStore_Revert S root (svStore sv); Some (sv\<lparr>svStore := t\<rparr>) }"

definition Snapshot :: "('t, 'd) state_ops \<Rightarrow> 't storeview \<Rightarrow> hash \<times> 't storeview" where
  "Snapshot S sv =
    (let t = (case trCommit S (svStore sv) of Some (_, t) \<Rightarrow> t | None \<Rightarrow> svStore sv)
     in (trHash S t, sv\<lparr>svStore := t\<rparr>))"

definition AddLog :: "evmlog \<Rightarrow> 't storeview \<Rightarrow> 't storeview" where
  "AddLog l sv = sv\<lparr>svLogs := svLogs sv @ [l]\<rparr>"

end
