(* ===== verification/LedgerState.thy ===== *)
theory LedgerState
  imports StoreView
begin

text \<open>
  The ledger state (\<open>ledger/state/state.go\<close>): four views over one database, for the finalized state, for
  executing the transactions of a block (delivered), for assembling a block (checked) and for the
  transaction pool (screened). \<open>Tag\<close> of the database is a parameter.
\<close>

record ('t, 'd) ledgerstate =
  lsChainID :: string
  lsDB :: 'd
  lsParentBlock :: "block option"
  lsFinalized :: "'t storeview option"
  lsDelivered :: "'t storeview option"
  lsChecked :: "'t storeview option"
  lsScreened :: "'t storeview option"

text \<open>\<open>checked\<close> and \<open>screened\<close> become copies of \<open>delivered\<close>; the flag tells that both copies succeeded.\<close>

definition copyViews :: "('t, 'd) state_ops \<Rightarrow> 't storeview \<Rightarrow> ('t, 'd) ledgerstate \<Rightarrow> bool \<times> ('t, 'd) ledgerstate" where
  "copyViews S sv ls =
    (let (checked, sv1) = StoreView_Copy S sv;
         ls1 = ls\<lparr>lsDelivered := Some sv1, lsChecked := checked\<rparr>
     in if checked = None then (False, ls1)
        else
          let (screened, sv2) = StoreView_Copy S sv1
          in (screened \<noteq> None, ls1\<lparr>lsDelivered := Some sv2, lsScreened := screened\<rparr>))"

definition LedgerState_ResetState ::
  "('t, 'd) state_ops \<Rightarrow> block \<Rightarrow> ('t, 'd) ledgerstate \<Rightarrow> result \<times> ('t, 'd) ledgerstate" where
  "LedgerState_ResetState S blk ls =
    (let ls1 = ls\<lparr>lsParentBlock := Some blk\<rparr>
     in case NewStoreView S (hHeight blk) (hStateHash blk) (lsDB ls) of
          None \<Rightarrow> (Error ''Failed to set ledger state with state root hash'', ls1)
        | Some sv \<Rightarrow>
            let (ok, ls2) = copyViews S sv ls1
            in (if ok then OK else Error ''Failed to copy the view'', ls2))"

definition LedgerState_Finalize ::
  "('t, 'd) state_ops \<Rightarrow> uint64 \<Rightarrow> hash \<Rightarrow> ('t, 'd) ledgerstate \<Rightarrow> result \<times> ('t, 'd) ledgerstate" where
  "LedgerState_Finalize S height root ls =
    (case NewStoreView S height root (lsDB ls) of
       None \<Rightarrow> (Error ''Failed to finalize ledger state with state root hash'', ls)
     | Some sv \<Rightarrow> (OK, ls\<lparr>lsFinalized := Some sv\<rparr>))"

definition NewLedgerState :: "('t, 'd) state_ops \<Rightarrow> block \<Rightarrow> string \<Rightarrow> 'd \<Rightarrow> ('t, 'd) ledgerstate" where
  "NewLedgerState S empty_block chainID d =
    (let ls = \<lparr>lsChainID = chainID, lsDB = d, lsParentBlock = None, lsFinalized = None, lsDelivered = None,
               lsChecked = None, lsScreened = None\<rparr>;
         ls1 = snd (LedgerState_ResetState S (empty_block\<lparr>hHeight := 0, hStateHash := 0\<rparr>) ls)
     in snd (LedgerState_Finalize S 0 0 ls1))"

definition GetChainID :: "('t, 'd) state_ops \<Rightarrow> ('t, 'd) ledgerstate \<Rightarrow> (string \<times> ('t, 'd) ledgerstate) option" where
  "GetChainID S ls =
    (if lsChainID ls \<noteq> [] then Some (lsChainID ls, ls)
     else do {
       sv \<leftarrow> lsDelivered ls;
       let chainID = map (\<lambda>b. char_of (unat b)) (sv_Get S ChainIDKey sv);
       Some (chainID, ls\<lparr>lsChainID := chainID\<rparr>)
     })"

definition LedgerState_Height :: "('t, 'd) ledgerstate \<Rightarrow> uint64 option" where
  "LedgerState_Height ls = map_option svHeight (lsDelivered ls)"

definition LedgerState_Commit ::
  "('t, 'd) state_ops \<Rightarrow> (uint64 \<Rightarrow> hash \<Rightarrow> 'd \<Rightarrow> 'd) \<Rightarrow> ('t, 'd) ledgerstate \<Rightarrow> (hash \<times> ('t, 'd) ledgerstate) option" where
  "LedgerState_Commit S tag ls = do {
    sv \<leftarrow> lsDelivered ls;
    (h, sv1, d) \<leftarrow> Save S sv (lsDB ls);
    let sv2 = IncrementHeight sv1;
    let (ok, ls1) = copyViews S sv2 (ls\<lparr>lsDB := tag (svHeight sv2) h d\<rparr>);
    if ok then Some (h, ls1) else None
  }"

end
