(* ===== verification/ConsensusState.thy ===== *)
theory ConsensusState
  imports ChainProps
begin

text \<open>
  The persistent state of the consensus engine (\<open>consensus/state.go\<close>).

  The two keys the state uses of its store are cells of the record: \<open>stStub\<close> under \<open>cs/ss\<close> and
  \<open>stEpochVotes\<close> under \<open>cs/ev\<close>, \<open>None\<close> while nothing is stored. The field \<open>LastInterChainMessageEvent\<close> is
  neither saved nor loaded by the code and is left out. A call of \<open>log.Fatal\<close> is \<open>None\<close>.
\<close>

record statestub =
  ssRoot :: hash
  ssHighestCCBlock :: hash
  ssLastFinalizedBlock :: hash
  ssLastProposal :: "block proposal"
  ssLastVote :: vote
  ssEpoch :: uint64

record cstate =
  stHighestCCBlock :: hash
  stLastFinalizedBlock :: hash
  stLastProposal :: "block proposal"
  stLastVote :: vote
  stEpoch :: uint64
  stStub :: "statestub option"
  stEpochVotes :: "voteset option"

definition emptyVote :: vote where
  "emptyVote = \<lparr>vBlock = 0, vHeight = 0, vMainchainHeight = 0, vEpoch = 0, vID = 0, vSignature = None\<rparr>"

definition emptyProposal :: "block proposal" where
  "emptyProposal = \<lparr>pBlock = None, pProposerID = 0, pVotes = None\<rparr>"

definition emptyStub :: statestub where
  "emptyStub = \<lparr>ssRoot = 0, ssHighestCCBlock = 0, ssLastFinalizedBlock = 0, ssLastProposal = emptyProposal,
     ssLastVote = emptyVote, ssEpoch = 0\<rparr>"

definition getSummary :: "'s chain \<Rightarrow> cstate \<Rightarrow> statestub" where
  "getSummary ch s =
    \<lparr>ssRoot = chRoot ch, ssHighestCCBlock = stHighestCCBlock s, ssLastFinalizedBlock = stLastFinalizedBlock s,
     ssLastProposal = stLastProposal s, ssLastVote = stLastVote s, ssEpoch = stEpoch s\<rparr>"

definition commit :: "'s chain \<Rightarrow> cstate \<Rightarrow> cstate" where
  "commit ch s = s\<lparr>stStub := Some (getSummary ch s)\<rparr>"

definition State_Load :: "'s chain \<Rightarrow> cstate \<Rightarrow> cstate" where
  "State_Load ch s =
    (let stub = (case stStub s of Some x \<Rightarrow> x | None \<Rightarrow> emptyStub) in
     if ssRoot stub \<noteq> chRoot ch then s
     else s\<lparr>stLastProposal := ssLastProposal stub, stLastVote := ssLastVote stub, stEpoch := ssEpoch stub,
            stLastFinalizedBlock := ssLastFinalizedBlock stub, stHighestCCBlock := ssHighestCCBlock stub\<rparr>)"

text \<open>\<open>NewState\<close> on a store with the given cells; it panics without a root block.\<close>

definition NewState :: "'s chain_ops \<Rightarrow> 's chain \<Rightarrow> statestub option \<Rightarrow> voteset option \<Rightarrow> cstate option" where
  "NewState X ch stub votes =
    (case findBlock X (chRoot ch) ch of
       Got root \<Rightarrow> Some (State_Load ch
         \<lparr>stHighestCCBlock = chRoot ch, stLastFinalizedBlock = chRoot ch, stLastProposal = emptyProposal,
          stLastVote = emptyVote, stEpoch = hEpoch root, stStub = stub, stEpochVotes = votes\<rparr>)
     | _ \<Rightarrow> None)"

definition SetEpoch :: "'s chain \<Rightarrow> uint64 \<Rightarrow> cstate \<Rightarrow> cstate" where
  "SetEpoch ch epoch s = commit ch (s\<lparr>stEpoch := epoch\<rparr>)"

definition SetLastProposal :: "'s chain \<Rightarrow> block proposal \<Rightarrow> cstate \<Rightarrow> cstate" where
  "SetLastProposal ch p s = commit ch (s\<lparr>stLastProposal := p\<rparr>)"

definition SetLastVote :: "'s chain \<Rightarrow> vote \<Rightarrow> cstate \<Rightarrow> cstate" where
  "SetLastVote ch v s = commit ch (s\<lparr>stLastVote := v\<rparr>)"

definition GetHighestCCBlock :: "'s chain_ops \<Rightarrow> 's chain \<Rightarrow> cstate \<Rightarrow> extblock option" where
  "GetHighestCCBlock X ch s = (case findBlock X (stHighestCCBlock s) ch of Got b \<Rightarrow> Some b | _ \<Rightarrow> None)"

definition SetHighestCCBlock :: "'s chain_ops \<Rightarrow> 's chain \<Rightarrow> extblock \<Rightarrow> cstate \<Rightarrow> cstate" where
  "SetHighestCCBlock X ch b s = commit ch (s\<lparr>stHighestCCBlock := Header_Hash (cB X) b\<rparr>)"

definition GetLastFinalizedBlock :: "'s chain_ops \<Rightarrow> 's chain \<Rightarrow> cstate \<Rightarrow> extblock option" where
  "GetLastFinalizedBlock X ch s = (case findBlock X (stLastFinalizedBlock s) ch of Got b \<Rightarrow> Some b | _ \<Rightarrow> None)"

definition SetLastFinalizedBlock :: "'s chain_ops \<Rightarrow> 's chain \<Rightarrow> extblock \<Rightarrow> cstate \<Rightarrow> cstate" where
  "SetLastFinalizedBlock X ch b s = commit ch (s\<lparr>stLastFinalizedBlock := Header_Hash (cB X) b\<rparr>)"

definition AddEpochVote :: "vote \<Rightarrow> cstate \<Rightarrow> cstate" where
  "AddEpochVote v s =
    (let voteset = (case stEpochVotes s of Some vs \<Rightarrow> vs | None \<Rightarrow> NewVoteSet)
     in s\<lparr>stEpochVotes := Some (UniqueVoter (AddVote v voteset))\<rparr>)"

definition State_AddVote :: "'s chain_ops \<Rightarrow> vote \<Rightarrow> 's chain \<times> cstate \<Rightarrow> 's chain \<times> cstate" where
  "State_AddVote X v = (\<lambda>(ch, s). (AddVoteToIndex X v ch, AddEpochVote v s))"

lemmas state_ops = SetEpoch_def SetLastProposal_def SetLastVote_def SetHighestCCBlock_def SetLastFinalizedBlock_def commit_def

section \<open>Properties\<close>



end
