(* ===== verification/ProposerSelection.thy ===== *)
theory ProposerSelection
  imports ValidatorSet "HOL-Library.Monad_Syntax"
begin

text \<open>
  The validator managers (\<open>consensus/validator.go\<close>): the validators of a block and the proposer of an
  epoch, drawn with a weight proportional to the stake.

  A panic is \<open>None\<close>. The generator of \<open>math/rand\<close> and the constant \<open>common.BigMaxUint32\<close> are the parameter
  \<open>rand_ops\<close>: \<open>Int63n s n\<close> is the first number below \<open>n\<close> that a generator seeded with \<open>s\<close> draws, and
  \<open>Uint64s s\<close> its sequence of 64-bit numbers. What the code uses of the ledger is the function
  \<open>GetFinalizedValidatorSet\<close>, an argument of the definitions. Addresses are not printed and parsed
  again as \<open>Hex\<close> and \<open>NewValidator\<close> do.
\<close>

section \<open>Random choice\<close>

record rand_ops =
  BigMaxUint32 :: int
  Int63n :: "int \<Rightarrow> int \<Rightarrow> int"
  Uint64s :: "int \<Rightarrow> nat \<Rightarrow> uint64"

definition scaleDown :: "int \<Rightarrow> int \<Rightarrow> uint64 option" where
  "scaleDown x scalingFactor =
    (if scalingFactor = 0 then None else Some (word_of_int (x div scalingFactor)))"

definition maxInt64 :: uint64 where
  "maxInt64 = 2 ^ 63 - 1"

partial_function (option) firstBelow :: "(nat \<Rightarrow> uint64) \<Rightarrow> uint64 \<Rightarrow> nat \<Rightarrow> uint64 option" where
  "firstBelow s bound i = (if s i < bound then Some (s i) else firstBelow s bound (i + 1))"

text \<open>\<open>Int63n\<close> panics unless its argument is positive.\<close>

definition randUint64 :: "rand_ops \<Rightarrow> int \<Rightarrow> uint64 \<Rightarrow> uint64 option" where
  "randUint64 R seed bound =
    (if bound \<le> maxInt64
     then (if sint bound \<le> 0 then None else Some (word_of_int (Int63n R seed (sint bound))))
     else firstBelow (Uint64s R seed) bound 0)"

fun pickProposer :: "int \<Rightarrow> uint64 \<Rightarrow> uint64 \<Rightarrow> validator list \<Rightarrow> validator option" where
  "pickProposer scalingFactor r current [] = None"
| "pickProposer scalingFactor r current (v # vs) = do {
    s \<leftarrow> scaleDown (valStake v) scalingFactor;
    if r < current + s then Some v else pickProposer scalingFactor r (current + s) vs
  }"

definition getProposerFromValidators :: "rand_ops \<Rightarrow> validatorset \<Rightarrow> uint64 \<Rightarrow> validator option" where
  "getProposerFromValidators R valSet epoch =
    (if ValidatorSet_Size valSet = 0 then None
     else
       let totalStake = TotalStake valSet;
           scalingFactor = totalStake div BigMaxUint32 R + 1
       in do {
         scaledTotalStake \<leftarrow> scaleDown totalStake scalingFactor;
         r \<leftarrow> randUint64 R (sint epoch) scaledTotalStake;
         pickProposer scalingFactor r 0 (validators valSet)
       })"

section \<open>Validators of a block\<close>

definition FilterValidators :: "validatorset \<Rightarrow> validatorset" where
  "FilterValidators vs =
    fold (\<lambda>v valSet. if valStake v = 0 then valSet else AddValidator v valSet) (validators vs) (NewValidatorSet (dynasty vs))"

type_synonym finalized_vs = "hash \<Rightarrow> bool \<Rightarrow> validatorset option"

definition selectValidatorsForBlock :: "finalized_vs \<Rightarrow> hash \<Rightarrow> bool \<Rightarrow> validatorset option" where
  "selectValidatorsForBlock GetFinalizedValidatorSet blockHash isNext =
    map_option FilterValidators (GetFinalizedValidatorSet blockHash isNext)"

definition GetValidatorSet :: "finalized_vs \<Rightarrow> hash \<Rightarrow> validatorset option" where
  "GetValidatorSet F blockHash = selectValidatorsForBlock F blockHash False"

definition GetNextValidatorSet :: "finalized_vs \<Rightarrow> hash \<Rightarrow> validatorset option" where
  "GetNextValidatorSet F blockHash = selectValidatorsForBlock F blockHash True"

definition GetProposer :: "rand_ops \<Rightarrow> finalized_vs \<Rightarrow> hash \<Rightarrow> uint64 \<Rightarrow> validator option" where
  "GetProposer R F blockHash epoch =
    do { vs \<leftarrow> GetValidatorSet F blockHash; getProposerFromValidators R vs epoch }"

definition GetNextProposer :: "rand_ops \<Rightarrow> finalized_vs \<Rightarrow> hash \<Rightarrow> uint64 \<Rightarrow> validator option" where
  "GetNextProposer R F blockHash epoch =
    do { vs \<leftarrow> GetNextValidatorSet F blockHash; getProposerFromValidators R vs epoch }"

text \<open>The manager with a fixed proposer.\<close>

definition fixed_getProposerFromValidators :: "validatorset \<Rightarrow> validator option" where
  "fixed_getProposerFromValidators valSet =
    (if ValidatorSet_Size valSet = 0 then None else Some (hd (validators valSet)))"

definition fixed_GetProposer :: "finalized_vs \<Rightarrow> hash \<Rightarrow> uint64 \<Rightarrow> validator option" where
  "fixed_GetProposer F blockHash epoch =
    do { vs \<leftarrow> GetValidatorSet F blockHash; fixed_getProposerFromValidators vs }"

definition fixed_GetNextProposer :: "finalized_vs \<Rightarrow> hash \<Rightarrow> uint64 \<Rightarrow> validator option" where
  "fixed_GetNextProposer F blockHash epoch =
    do { vs \<leftarrow> GetNextValidatorSet F blockHash; fixed_getProposerFromValidators vs }"

section \<open>Filtering\<close>

lemma FilterValidators_fold:
  assumes "validatorset_wf s" "keyed valAddress vs" "\<forall>v \<in> set vs. 0 \<le> valStake v" "valAddress ` set vs \<inter> members s = {}"
  shows "let t = fold (\<lambda>v s. if valStake v = 0 then s else AddValidator v s) vs s in
    validatorset_wf t \<and> mset (validators t) = mset (validators s) + mset (filter (\<lambda>v. valStake v \<noteq> 0) vs) \<and>
    dynasty t = dynasty s"
  using assms
proof (induction vs arbitrary: s)
  case (Cons v vs)
  have fresh: "valAddress v \<notin> members s" "valAddress ` set vs \<inter> members s = {}"
    using Cons.prems(4) by auto
  show ?case
  proof (cases "valStake v = 0")
    case True
    with Cons.IH[of s] Cons.prems fresh show ?thesis
      by (simp add: Let_def)
  next
    case False
    have "validatorset_wf (AddValidator v s)"
      by (rule AddValidator_wf) (use Cons.prems fresh in auto)
    moreover have "members (AddValidator v s) = insert (valAddress v) (members s)"
      by (simp add: members_def AddValidator_def)
    ultimately show ?thesis
      using Cons.IH[of "AddValidator v s"] Cons.prems fresh False
      by (auto simp: Let_def AddValidator_mset AddValidator_def)
  qed
qed simp

lemma FilterValidators_correct:
  assumes "validatorset_wf vs"
  shows "validatorset_wf (FilterValidators vs)"
    and "mset (validators (FilterValidators vs)) = mset (filter (\<lambda>v. valStake v \<noteq> 0) (validators vs))"
    and "dynasty (FilterValidators vs) = dynasty vs"
proof -
  have "validatorset_wf (NewValidatorSet (dynasty vs))" "members (NewValidatorSet (dynasty vs)) = {}"
    by (simp_all add: NewValidatorSet_def validatorset_wf_def members_def)
  with FilterValidators_fold[of "NewValidatorSet (dynasty vs)" "validators vs"] assms
  have "validatorset_wf (FilterValidators vs) \<and>
      mset (validators (FilterValidators vs)) = mset (filter (\<lambda>v. valStake v \<noteq> 0) (validators vs)) \<and>
      dynasty (FilterValidators vs) = dynasty vs"
    by (simp add: FilterValidators_def Let_def validatorset_wf_def NewValidatorSet_def)
  then show "validatorset_wf (FilterValidators vs)"
    and "mset (validators (FilterValidators vs)) = mset (filter (\<lambda>v. valStake v \<noteq> 0) (validators vs))"
    and "dynasty (FilterValidators vs) = dynasty vs"
    by simp_all
qed

lemma FilterValidators_stake:
  assumes "validatorset_wf vs"
  shows "TotalStake (FilterValidators vs) = TotalStake vs"
proof -
  have "mset (map valStake (validators (FilterValidators vs))) = mset (map valStake (filter (\<lambda>v. valStake v \<noteq> 0) (validators vs)))"
    using FilterValidators_correct(2)[OF assms] by simp
  then have "TotalStake (FilterValidators vs) = (\<Sum>v\<leftarrow>filter (\<lambda>v. valStake v \<noteq> 0) (validators vs). valStake v)"
    unfolding TotalStake_sum_list by (metis sum_mset_sum_list)
  also have "\<dots> = TotalStake vs"
    unfolding TotalStake_sum_list by (rule sum_list_map_filter) simp
  finally show ?thesis .
qed

section \<open>Scaling\<close>

lemma div_less_int:
  fixes f :: int
  assumes "0 < f" "x < k * f"
  shows "x div f < k"
proof (rule ccontr)
  assume "\<not> x div f < k"
  then have "k * f \<le> x div f * f"
    using assms(1) by (simp add: mult_right_mono)
  also have "\<dots> \<le> x"
    using assms(1) by (simp add: minus_mod_eq_div_mult[symmetric])
  finally show False
    using assms(2) by simp
qed

lemma scaled_total_less:
  assumes "0 \<le> T" "0 < M"
  shows "T div (T div M + 1) < (M :: int)"
proof -
  have f: "0 < T div M + 1"
    using assms by (simp add: pos_imp_zdiv_nonneg_iff add_nonneg_pos)
  have "T < (T div M + 1) * M"
    unfolding distrib_right mult_1 mult.commute[of "T div M"]
    using mult_div_mod_eq[of M T] pos_mod_bound[OF assms(2), of T] by linarith
  then show ?thesis
    using f by (intro div_less_int) (simp_all add: mult.commute)
qed

lemma sum_div_le:
  fixes f :: int
  assumes "0 < f"
  shows "(\<Sum>x\<leftarrow>xs. x div f) \<le> sum_list xs div f" and "sum_list xs div f < (\<Sum>x\<leftarrow>xs. x div f) + int (length xs) + (if xs = [] then 1 else 0)"
proof -
  have eq: "sum_list xs = f * (\<Sum>x\<leftarrow>xs. x div f) + (\<Sum>x\<leftarrow>xs. x mod f)"
    by (induction xs) (simp_all add: algebra_simps mult_div_mod_eq[symmetric, of _ f])
  have "0 \<le> (\<Sum>x\<leftarrow>xs. x mod f)"
    using assms by (induction xs) simp_all
  moreover have "(\<Sum>x\<leftarrow>xs. x mod f) \<le> int (length xs) * (f - 1)"
  proof (induction xs)
    case (Cons a xs)
    moreover have "a mod f \<le> f - 1"
      using assms pos_mod_bound[of f a] by linarith
    ultimately show ?case
      by (simp add: algebra_simps)
  qed simp
  moreover have "int (length xs) * (f - 1) < (int (length xs) + (if xs = [] then 1 else 0)) * f"
    using assms by (cases xs) (simp_all add: algebra_simps)
  ultimately have "0 \<le> (\<Sum>x\<leftarrow>xs. x mod f) div f" "(\<Sum>x\<leftarrow>xs. x mod f) div f < int (length xs) + (if xs = [] then 1 else 0)"
    using assms by (simp_all add: pos_imp_zdiv_nonneg_iff div_less_int)
  then show "(\<Sum>x\<leftarrow>xs. x div f) \<le> sum_list xs div f"
    "sum_list xs div f < (\<Sum>x\<leftarrow>xs. x div f) + int (length xs) + (if xs = [] then 1 else 0)"
    unfolding eq using assms by simp_all
qed

section \<open>The draw\<close>

text \<open>The weight of a validator, and the range the draw is taken from.\<close>

definition scalingOf :: "rand_ops \<Rightarrow> validatorset \<Rightarrow> int" where
  "scalingOf R vs = TotalStake vs div BigMaxUint32 R + 1"

definition weight :: "int \<Rightarrow> validator \<Rightarrow> int" where
  "weight f v = valStake v div f"

definition drawRange :: "rand_ops \<Rightarrow> validatorset \<Rightarrow> int" where
  "drawRange R vs = TotalStake vs div scalingOf R vs"

lemma of_int_uint64_less:
  assumes "0 \<le> x" "x < 2 ^ 64"
  shows "uint (word_of_int x :: uint64) = x"
  using assms by (simp add: uint_word_of_int_eq take_bit_int_eq_self)

lemma weight_nonneg: "0 < f \<Longrightarrow> 0 \<le> valStake v \<Longrightarrow> 0 \<le> weight f v"
  by (simp add: weight_def pos_imp_zdiv_nonneg_iff)

text \<open>One round of the loop, without overflow.\<close>

lemma pickProposer_step:
  assumes f: "0 < f" and vs: "\<forall>v \<in> set (a # vs). 0 \<le> valStake v"
    and bound: "uint c + (\<Sum>v\<leftarrow>a # vs. weight f v) < 2 ^ 64"
  shows "\<exists>c'. uint c' = uint c + weight f a \<and>
    pickProposer f r c (a # vs) = (if uint r < uint c + weight f a then Some a else pickProposer f r c' vs)"
proof -
  have "0 \<le> (\<Sum>v\<leftarrow>vs. weight f v)" "0 \<le> weight f a"
    using f vs by (auto intro!: sum_list_nonneg_int weight_nonneg)
  then have less: "uint c + weight f a < 2 ^ 64" "0 \<le> weight f a"
    using bound by simp_all
  then have "weight f a < 2 ^ 64"
    using uint_ge_0[of c] by linarith
  have a: "uint (word_of_int (weight f a) :: uint64) = weight f a"
    by (rule of_int_uint64_less[OF less(2)]) fact
  have ca: "uint (c + word_of_int (weight f a)) = uint c + weight f a"
    using less(1,2) uint_ge_0[of c] by (simp add: uint_word_ariths a)
  show ?thesis
    by (rule exI[of _ "c + word_of_int (weight f a)"]) (use f in \<open>simp add: ca word_less_def scaleDown_def weight_def[symmetric]\<close>)
qed

lemma pickProposer_None_iff:
  assumes "0 < f" "\<forall>v \<in> set vs. 0 \<le> valStake v" "uint c + (\<Sum>v\<leftarrow>vs. weight f v) < 2 ^ 64" "uint c \<le> uint r"
  shows "pickProposer f r c vs = None \<longleftrightarrow> uint c + (\<Sum>v\<leftarrow>vs. weight f v) \<le> uint r"
  using assms
proof (induction vs arbitrary: c)
  case (Cons a vs)
  obtain c' where c': "uint c' = uint c + weight f a"
    "pickProposer f r c (a # vs) = (if uint r < uint c + weight f a then Some a else pickProposer f r c' vs)"
    using pickProposer_step[OF Cons.prems(1-3)] by blast
  have "0 \<le> (\<Sum>v\<leftarrow>vs. weight f v)"
    using Cons.prems(1,2) by (auto intro!: sum_list_nonneg_int weight_nonneg)
  with Cons.IH[of c'] Cons.prems c' show ?case
    by auto
qed simp

lemma pickProposer_Some:
  assumes "0 < f" "\<forall>v \<in> set vs. 0 \<le> valStake v" "uint c + (\<Sum>v\<leftarrow>vs. weight f v) < 2 ^ 64" "uint c \<le> uint r"
    and "pickProposer f r c vs = Some v"
  shows "\<exists>xs ys. vs = xs @ v # ys \<and> uint c + (\<Sum>v\<leftarrow>xs. weight f v) \<le> uint r \<and>
    uint r < uint c + (\<Sum>v\<leftarrow>xs. weight f v) + weight f v"
  using assms
proof (induction vs arbitrary: c)
  case (Cons a vs)
  obtain c' where c': "uint c' = uint c + weight f a"
    "pickProposer f r c (a # vs) = (if uint r < uint c + weight f a then Some a else pickProposer f r c' vs)"
    using pickProposer_step[OF Cons.prems(1-3)] by blast
  show ?case
  proof (cases "uint r < uint c + weight f a")
    case True
    with Cons.prems(4,5) c'(2) show ?thesis
      by (intro exI[of _ "[]"] exI[of _ vs]) auto
  next
    case False
    then obtain xs ys where "vs = xs @ v # ys" "uint c' + (\<Sum>v\<leftarrow>xs. weight f v) \<le> uint r"
        "uint r < uint c' + (\<Sum>v\<leftarrow>xs. weight f v) + weight f v"
      using Cons.IH[of c'] Cons.prems c' by auto
    then show ?thesis
      using c'(1) by (intro exI[of _ "a # xs"] exI[of _ ys]) auto
  qed
qed simp

text \<open>What the selection relies on: the value of the constant, and the documented range of \<open>Int63n\<close>.\<close>

definition rand_ok :: "rand_ops \<Rightarrow> bool" where
  "rand_ok R \<longleftrightarrow> BigMaxUint32 R = 2 ^ 32 - 1 \<and> (\<forall>s n. 0 < n \<longrightarrow> 0 \<le> Int63n R s n \<and> Int63n R s n < n)"

lemma scalingOf_pos: "rand_ok R \<Longrightarrow> 0 \<le> TotalStake vs \<Longrightarrow> 0 < scalingOf R vs"
  by (simp add: scalingOf_def rand_ok_def pos_imp_zdiv_nonneg_iff add_nonneg_pos)

lemma drawRange_bounds:
  assumes R: "rand_ok R" and pos: "0 < TotalStake vs"
  shows "0 < drawRange R vs" "drawRange R vs < 2 ^ 32"
proof -
  have M: "BigMaxUint32 R = 4294967295"
    using R by (simp add: rand_ok_def)
  have f: "0 < scalingOf R vs"
    using scalingOf_pos[OF R] pos by simp
  have "TotalStake vs div 4294967295 < TotalStake vs"
    using pos by (simp add: int_div_less_self)
  then have "scalingOf R vs \<le> TotalStake vs"
    by (simp add: scalingOf_def M)
  then show "0 < drawRange R vs"
    using f by (simp add: drawRange_def pos_imp_zdiv_pos_iff)
  show "drawRange R vs < 2 ^ 32"
    using scaled_total_less[of "TotalStake vs" "4294967295"] pos by (simp add: drawRange_def scalingOf_def M)
qed

lemma weights_sum:
  assumes "rand_ok R" "0 \<le> TotalStake vs"
  shows "(\<Sum>v\<leftarrow>validators vs. weight (scalingOf R vs) v) \<le> drawRange R vs"
    and "validators vs \<noteq> [] \<Longrightarrow>
      drawRange R vs < (\<Sum>v\<leftarrow>validators vs. weight (scalingOf R vs) v) + int (length (validators vs))"
  using sum_div_le[OF scalingOf_pos[OF assms], of "map valStake (validators vs)"]
  by (simp_all add: drawRange_def TotalStake_sum_list weight_def[abs_def] comp_def)

lemma getProposer_eq:
  assumes R: "rand_ok R" and pos: "0 < TotalStake vs"
  shows "getProposerFromValidators R vs epoch =
    pickProposer (scalingOf R vs) (word_of_int (Int63n R (sint epoch) (drawRange R vs))) 0 (validators vs)"
proof -
  note D = drawRange_bounds[OF R pos]
  have "validators vs \<noteq> []"
    using pos by (auto simp: TotalStake_def)
  moreover have "scalingOf R vs \<noteq> 0"
    using scalingOf_pos[OF R, of vs] pos by simp
  moreover have "sint (word_of_int (drawRange R vs) :: uint64) = drawRange R vs"
    using D by (simp add: sint_sbintrunc' signed_take_bit_int_eq_self)
  moreover have "(word_of_int (drawRange R vs) :: uint64) \<le> maxInt64"
    using D of_int_uint64_less[of "drawRange R vs"] by (simp add: word_le_def maxInt64_def)
  ultimately show ?thesis
    using D by (simp add: getProposerFromValidators_def ValidatorSet_Size_def scalingOf_def[symmetric] scaleDown_def
        drawRange_def[symmetric] randUint64_def Let_def)
qed

lemma draw_bounds:
  assumes R: "rand_ok R" and wf: "validatorset_wf vs" and pos: "0 < TotalStake vs"
  shows "uint (word_of_int (Int63n R s (drawRange R vs)) :: uint64) = Int63n R s (drawRange R vs)"
    and "(\<Sum>v\<leftarrow>validators vs. weight (scalingOf R vs) v) < 2 ^ 64"
    and "0 \<le> Int63n R s (drawRange R vs)"
proof -
  have r: "0 \<le> Int63n R s (drawRange R vs)" "Int63n R s (drawRange R vs) < drawRange R vs"
    using R drawRange_bounds(1)[OF R pos] by (auto simp: rand_ok_def)
  then show "0 \<le> Int63n R s (drawRange R vs)"
    by simp
  from r drawRange_bounds[OF R pos]
  show "uint (word_of_int (Int63n R s (drawRange R vs)) :: uint64) = Int63n R s (drawRange R vs)"
    by (intro of_int_uint64_less) auto
  show "(\<Sum>v\<leftarrow>validators vs. weight (scalingOf R vs) v) < 2 ^ 64"
    using weights_sum(1)[OF R, of vs] drawRange_bounds(2)[OF R pos] pos by simp
qed

lemma getProposer_None_iff:
  assumes R: "rand_ok R" and wf: "validatorset_wf vs" and pos: "0 < TotalStake vs"
  shows "getProposerFromValidators R vs epoch = None \<longleftrightarrow>
    (\<Sum>v\<leftarrow>validators vs. weight (scalingOf R vs) v) \<le> Int63n R (sint epoch) (drawRange R vs)"
  using pickProposer_None_iff[of "scalingOf R vs" "validators vs" 0] draw_bounds[OF assms] scalingOf_pos[OF R, of vs] pos wf
  by (simp add: getProposer_eq[OF R pos] validatorset_wf_def)

section \<open>Properties\<close>

definition example_rand :: "rand_ops" where
  "example_rand = \<lparr>BigMaxUint32 = 2 ^ 32 - 1, Int63n = (\<lambda>s n. n - 1), Uint64s = (\<lambda>s i. 0)\<rparr>"

definition two_validators :: "int \<Rightarrow> validatorset" where
  "two_validators s = \<lparr>dynasty = 1, validators = [\<lparr>valAddress = 1, valStake = s\<rparr>, \<lparr>valAddress = 2, valStake = s\<rparr>]\<rparr>"

lemma example_rand_ok: "rand_ok example_rand"
  by (simp add: rand_ok_def example_rand_def)

lemma two_validators_simps:
  "TotalStake (two_validators s) = 2 * s" "0 \<le> s \<Longrightarrow> validatorset_wf (two_validators s)"
  "validators (two_validators s) = [\<lparr>valAddress = 1, valStake = s\<rparr>, \<lparr>valAddress = 2, valStake = s\<rparr>]"
  by (simp_all add: two_validators_def TotalStake_def validatorset_wf_def)

text \<open>C33: the proposer of an epoch is drawn in proportion to the scaled stakes. With positive total
  stake the draw is from a range between 1 and \<open>2^32\<close>, nothing overflows, and the chosen validator is the
  one whose interval of the running sum contains the drawn number. The sum of the scaled stakes falls
  short of the range by less than the number of validators. While the total stake is below \<open>2^32 - 1\<close>,
  so that stakes are not scaled, some validator is always chosen.\<close>

theorem proposer_selection:
  assumes R: "rand_ok R" and wf: "validatorset_wf vs" and pos: "0 < TotalStake vs"
  shows "0 < drawRange R vs \<and> drawRange R vs < 2 ^ 32 \<and>
    (let W = (\<lambda>xs. \<Sum>v\<leftarrow>xs. weight (scalingOf R vs) v); r = Int63n R (sint epoch) (drawRange R vs) in
      W (validators vs) \<le> drawRange R vs \<and> drawRange R vs < W (validators vs) + int (length (validators vs)) \<and>
      (\<forall>v. getProposerFromValidators R vs epoch = Some v \<longrightarrow>
        (\<exists>xs ys. validators vs = xs @ v # ys \<and> W xs \<le> r \<and> r < W xs + weight (scalingOf R vs) v))) \<and>
    (TotalStake vs < 2 ^ 32 - 1 \<longrightarrow> getProposerFromValidators R vs epoch \<noteq> None)"
proof -
  note D = drawRange_bounds[OF R pos]
  have ne: "validators vs \<noteq> []"
    using pos by (auto simp: TotalStake_def)
  have "getProposerFromValidators R vs epoch \<noteq> None" if small: "TotalStake vs < 2 ^ 32 - 1"
  proof -
    have "scalingOf R vs = 1"
      using R pos small by (simp add: scalingOf_def rand_ok_def div_pos_pos_trivial)
    then have "(\<Sum>v\<leftarrow>validators vs. weight (scalingOf R vs) v) = drawRange R vs"
      by (simp add: weight_def[abs_def] drawRange_def TotalStake_sum_list)
    then show ?thesis
      using getProposer_None_iff[OF assms] R D(1) by (auto simp: rand_ok_def not_le)
  qed
  moreover have "\<exists>xs ys. validators vs = xs @ v # ys \<and> (\<Sum>v\<leftarrow>xs. weight (scalingOf R vs) v) \<le> Int63n R (sint epoch) (drawRange R vs) \<and>
      Int63n R (sint epoch) (drawRange R vs) < (\<Sum>v\<leftarrow>xs. weight (scalingOf R vs) v) + weight (scalingOf R vs) v"
    if "getProposerFromValidators R vs epoch = Some v" for v
    using pickProposer_Some[of "scalingOf R vs" "validators vs" 0 "word_of_int (Int63n R (sint epoch) (drawRange R vs))" v] that draw_bounds[OF assms] scalingOf_pos[OF R, of vs] pos wf
    by (simp add: getProposer_eq[OF R pos] validatorset_wf_def)
  ultimately show ?thesis
    using D weights_sum[OF R, of vs] pos ne by (simp add: Let_def)
qed

theorem proposer_selection_witness:
  "0 < drawRange example_rand (two_validators 10) \<and> getProposerFromValidators example_rand (two_validators 10) 7 \<noteq> None"
  using proposer_selection[OF example_rand_ok, of "two_validators 10" 7] by (simp add: two_validators_simps)


end
