(* ===== verification/Engine.thy ===== *)
theory Engine
  imports ConsensusState ProposerSelection
begin

text \<open>
  The consensus engine (\<open>consensus/engine.go\<close>) and the part of the ledger that finds the validators of a
  block (\<open>GetFinalizedValidatorSet\<close> in \<open>ledger/ledger.go\<close>).

  A handler is a function from the engine's state to an option: \<open>None\<close> where the code panics, exits with
  \<open>log.Fatal\<close> or dereferences nil. The loop over the messages and timers of \<open>mainLoop\<close> is a step relation
  in \<open>EngineRun\<close>.

  Parameters (\<open>engine_ops\<close>): the block store, the ledger through its interface \<open>core.Ledger\<close>
  (\<open>ledger_ops\<close>, with an abstract state), the address and the signing function of the private key, the
  random generator, the hard-coded block hashes and the capacity of the channel of finalized blocks. What
  a handler reads of the world outside, the clock and the height of the main chain, is the argument
  \<open>env\<close>; a handler that asks twice gets the same answer. Logging, timers and peers are left out; messages
  the engine sends are kept in order, tagged with the place that sends them.
\<close>

section \<open>State\<close>

datatype applyresult = ApplyOK bool | ApplyError | ApplyUndecided

text \<open>
  What a handler sees of the world: the clock in seconds and in nanoseconds, and the main chain through the
  witness, its height and its validator set of a dynasty.
\<close>

record env =
  envNow :: int
  envNanos :: int
  envMainchainHeight :: "int option"
  envWitness :: "int \<Rightarrow> validatorset option"

record ('s, 'l) ledger_ops =
  lResetState :: "block \<Rightarrow> 'l \<Rightarrow> result \<times> 'l"
  lApplyBlockTxs :: "env \<Rightarrow> block \<Rightarrow> 's chain \<Rightarrow> 'l \<Rightarrow> (applyresult \<times> 's chain \<times> 'l) option"
  lFinalizeState :: "uint64 \<Rightarrow> hash \<Rightarrow> 'l \<Rightarrow> 'l"
  lProposeBlockTxs :: "env \<Rightarrow> block \<Rightarrow> bool \<Rightarrow> 's chain \<Rightarrow> 'l \<Rightarrow> ((hash \<times> bytes list \<times> applyresult) \<times> 'l) option"
  lValidatorSetAt :: "'l \<Rightarrow> uint64 \<Rightarrow> hash \<Rightarrow> validatorset option"

record ('s, 'l) engine_ops =
  oX :: "'s chain_ops"
  oL :: "('s, 'l) ledger_ops"
  oAddr :: address
  oSign :: "bytes \<Rightarrow> signature option"
  oRand :: rand_ops
  oHardcode :: "(uint64 \<times> hash) list"
  oQueue :: nat

datatype message = MsgVote vote | MsgBlock block

datatype sent = SentVote vote | SentEpochVote vote | SentProposal "block proposal"

record ('s, 'l) engine =
  enChain :: "'s chain"
  enState :: cstate
  enLedger :: 'l
  enHasSynced :: bool
  enStopped :: bool
  enVoteTimerReady :: bool
  enBlockProcessed :: bool
  enFinalizedBlocks :: "block list"
  enSent :: "sent list"
  enIncoming :: "message list"

text \<open>\<open>NewConsensusEngine\<close> with the ledger set, on a state store with the given cells.\<close>

definition NewConsensusEngine ::
  "('s, 'l) engine_ops \<Rightarrow> 's chain \<Rightarrow> statestub option \<Rightarrow> voteset option \<Rightarrow> 'l \<Rightarrow> ('s, 'l) engine option" where
  "NewConsensusEngine N ch stub votes l = do {
    s \<leftarrow> NewState (oX N) ch stub votes;
    Some \<lparr>enChain = ch, enState = s, enLedger = l, enHasSynced = False, enStopped = False, enVoteTimerReady = False,
          enBlockProcessed = False, enFinalizedBlocks = [], enSent = [], enIncoming = []\<rparr>
  }"

text \<open>The hard-coded hashes of \<open>core/hardcode_block_hashes.go\<close>: none.\<close>

definition HardcodeBlockHashes :: "(uint64 \<times> hash) list" where
  "HardcodeBlockHashes = []"

abbreviation hashOf :: "('s, 'l) engine_ops \<Rightarrow> 'a header_scheme \<Rightarrow> hash" where
  "hashOf N b \<equiv> Header_Hash (cB (oX N)) b"

abbreviation FindBlock :: "('s, 'l) engine_ops \<Rightarrow> hash \<Rightarrow> ('s, 'l) engine \<Rightarrow> extblock option" where
  "FindBlock N h e \<equiv> (case findBlock (oX N) h (enChain e) of Got b \<Rightarrow> Some b | _ \<Rightarrow> None)"

abbreviation highestCC :: "('s, 'l) engine_ops \<Rightarrow> ('s, 'l) engine \<Rightarrow> extblock option" where
  "highestCC N e \<equiv> GetHighestCCBlock (oX N) (enChain e) (enState e)"

abbreviation lastFinalized :: "('s, 'l) engine_ops \<Rightarrow> ('s, 'l) engine \<Rightarrow> extblock option" where
  "lastFinalized N e \<equiv> GetLastFinalizedBlock (oX N) (enChain e) (enState e)"

section \<open>Validators\<close>

text \<open>At most two steps along the committed blocks of the headers, to the root or a trusted block.\<close>

fun hccAncestor :: "'s chain_ops \<Rightarrow> 's chain \<Rightarrow> nat \<Rightarrow> hash \<Rightarrow> extblock option" where
  "hccAncestor X ch i blockHash =
    (case findBlock X blockHash ch of
       Got b \<Rightarrow>
         (case i of
            0 \<Rightarrow> Some b
          | Suc j \<Rightarrow> if ccBlockHash (hHCC b) = 0 \<or> IsTrusted (eStatus b) then Some b
                     else hccAncestor X ch j (ccBlockHash (hHCC b)))
     | _ \<Rightarrow> None)"

definition GetFinalizedValidatorSet :: "('s, 'l) engine_ops \<Rightarrow> ('s, 'l) engine \<Rightarrow> finalized_vs" where
  "GetFinalizedValidatorSet N e blockHash isNext = do {
    b \<leftarrow> hccAncestor (oX N) (enChain e) (if isNext then 1 else 2) blockHash;
    lValidatorSetAt (oL N) (enLedger e) (hHeight b) (hStateHash b)
  }"

abbreviation validatorSet :: "('s, 'l) engine_ops \<Rightarrow> ('s, 'l) engine \<Rightarrow> hash \<Rightarrow> validatorset option" where
  "validatorSet N e h \<equiv> GetValidatorSet (GetFinalizedValidatorSet N e) h"

abbreviation nextValidatorSet :: "('s, 'l) engine_ops \<Rightarrow> ('s, 'l) engine \<Rightarrow> hash \<Rightarrow> validatorset option" where
  "nextValidatorSet N e h \<equiv> GetNextValidatorSet (GetFinalizedValidatorSet N e) h"

section \<open>The tip\<close>

fun loadChildren :: "'s chain_ops \<Rightarrow> 's chain \<Rightarrow> hash list \<Rightarrow> extblock list option" where
  "loadChildren X ch [] = Some []"
| "loadChildren X ch (h # hs) =
    (case findBlock X h ch of
       Got b \<Rightarrow> map_option (Cons b) (loadChildren X ch hs)
     | _ \<Rightarrow> None)"

text \<open>The depth-first search of \<open>GetTip\<close>; the top of the stack is the head of the list.\<close>

partial_function (option) tip_loop ::
  "'s chain_ops \<Rightarrow> 's chain \<Rightarrow> bool \<Rightarrow> extblock \<Rightarrow> extblock list \<Rightarrow> extblock option" where
  "tip_loop X ch includePendingBlockingLeaf candidate stack =
    (case stack of
       [] \<Rightarrow> Some candidate
     | c # rest \<Rightarrow>
         if \<not> IsValid (eStatus c) then tip_loop X ch includePendingBlockingLeaf candidate rest
         else if \<not> includePendingBlockingLeaf \<and> eHasValidatorUpdate c
         then tip_loop X ch includePendingBlockingLeaf candidate rest
         else (case loadChildren X ch (eChildren c) of
             None \<Rightarrow> None
           | Some children \<Rightarrow>
               tip_loop X ch includePendingBlockingLeaf (if hHeight candidate < hHeight c then c else candidate)
                 (rev children @ rest)))"

definition GetTip :: "('s, 'l) engine_ops \<Rightarrow> bool \<Rightarrow> ('s, 'l) engine \<Rightarrow> extblock option" where
  "GetTip N includePendingBlockingLeaf e = do {
    hcc \<leftarrow> highestCC N e;
    tip_loop (oX N) (enChain e) includePendingBlockingLeaf hcc [hcc]
  }"

definition GetTipToVote :: "('s, 'l) engine_ops \<Rightarrow> ('s, 'l) engine \<Rightarrow> extblock option" where
  "GetTipToVote N e = GetTip N True e"

definition GetTipToExtend :: "('s, 'l) engine_ops \<Rightarrow> ('s, 'l) engine \<Rightarrow> extblock option" where
  "GetTipToExtend N e = GetTip N False e"

section \<open>Synchronization status\<close>

definition isSyncing :: "int \<Rightarrow> extblock \<Rightarrow> uint64 \<Rightarrow> bool option" where
  "isSyncing now lastestFinalizedBlock currentHeight = do {
    t \<leftarrow> hTimestamp lastestFinalizedBlock;
    Some (if t < now - 30 then currentHeight - hHeight lastestFinalizedBlock > 5 else False)
  }"

definition checkSyncStatus :: "('s, 'l) engine_ops \<Rightarrow> env \<Rightarrow> ('s, 'l) engine \<Rightarrow> ('s, 'l) engine option" where
  "checkSyncStatus N env e =
    (case stEpochVotes (enState e) of
       None \<Rightarrow> Some e
     | Some epochVotes \<Rightarrow> do {
         let maxVoteHeight = fold (\<lambda>v m. if vHeight v > m then vHeight v else m) (Votes epochVotes) 0;
         lfb \<leftarrow> lastFinalized N e;
         syncing \<leftarrow> isSyncing (envNow env) lfb (maxVoteHeight - 1);
         Some (e\<lparr>enHasSynced := \<not> syncing\<rparr>)
       })"

section \<open>Commit and finalization\<close>

text \<open>The flag is false where \<open>finalizeBlock\<close> returns an error.\<close>

definition finalizeBlock :: "('s, 'l) engine_ops \<Rightarrow> env \<Rightarrow> extblock \<Rightarrow> ('s, 'l) engine \<Rightarrow> (bool \<times> ('s, 'l) engine) option" where
  "finalizeBlock N env b e =
    (if enStopped e then Some (True, e)
     else do {
       lfb \<leftarrow> lastFinalized N e;
       if hashOf N b = hashOf N lfb then Some (True, e)
       else do {
         let e1 = e\<lparr>enState := SetLastFinalizedBlock (oX N) (enChain e) b (enState e),
                    enLedger := lFinalizeState (oL N) (hHeight b) (hStateHash b) (enLedger e)\<rparr>;
         e2 \<leftarrow> checkSyncStatus N env e1;
         (ok, ch) \<leftarrow> FinalizePreviousBlocks (oX N) (hashOf N b) (enChain e2);
         let e3 = e2\<lparr>enChain := ch\<rparr>;
         if \<not> ok then Some (False, e3)
         else
           let e4 = e3\<lparr>enChain := AddTxsToIndex (oX N) b True ch\<rparr>;
               blk = block.truncate b
           in Some (True, if length (enFinalizedBlocks e4) < oQueue N
                          then e4\<lparr>enFinalizedBlocks := enFinalizedBlocks e4 @ [blk]\<rparr> else e4)
       }
     })"

definition processCCBlock :: "('s, 'l) engine_ops \<Rightarrow> env \<Rightarrow> extblock \<Rightarrow> ('s, 'l) engine \<Rightarrow> ('s, 'l) engine option" where
  "processCCBlock N env ccBlock e = do {
    hcc \<leftarrow> highestCC N e;
    if hHeight ccBlock \<le> hHeight hcc then Some e
    else do {
      (continue, e1) \<leftarrow>
        (if hParent ccBlock = ccBlockHash (hHCC ccBlock) then
           (case FindBlock N (hParent ccBlock) e of
              None \<Rightarrow> Some (False, e)
            | Some parent \<Rightarrow> finalizeBlock N env parent e)
         else Some (True, e));
      if \<not> continue then Some e1
      else do {
        let e2 = e1\<lparr>enState := SetHighestCCBlock (oX N) (enChain e1) ccBlock (enState e1)\<rparr>;
        ch \<leftarrow> CommitBlock (oX N) (hashOf N ccBlock) (enChain e2);
        Some (e2\<lparr>enChain := ch\<rparr>)
      }
    }
  }"

definition checkCC :: "('s, 'l) engine_ops \<Rightarrow> env \<Rightarrow> hash \<Rightarrow> ('s, 'l) engine \<Rightarrow> ('s, 'l) engine option" where
  "checkCC N env h e =
    (if h = 0 then Some e
     else case FindBlock N h e of
       None \<Rightarrow> Some e
     | Some b \<Rightarrow>
         if IsInvalid (eStatus b) then Some e
         else if IsPending (eStatus b) then Some e
         else if IsCommitted (eStatus b) \<or> IsDirectlyFinalized (eStatus b) \<or> IsIndirectlyFinalized (eStatus b) then Some e
         else if IsTrusted (eStatus b) then processCCBlock N env b e
         else do {
           hcc \<leftarrow> highestCC N e;
           if hHeight b < hHeight hcc then Some e
           else do {
             let votes = UniqueVoter (FindVotesByHash (oX N) h (enChain e));
             vs \<leftarrow> validatorSet N e h;
             if HasMajority vs votes then processCCBlock N env b e else Some e
           }
         })"

section \<open>Votes\<close>

definition broadcastVote :: "vote \<Rightarrow> ('s, 'l) engine \<Rightarrow> ('s, 'l) engine" where
  "broadcastVote v e = e\<lparr>enSent := enSent e @ [SentVote v]\<rparr>"

definition createVote :: "('s, 'l) engine_ops \<Rightarrow> env \<Rightarrow> 'a header_scheme \<Rightarrow> ('s, 'l) engine \<Rightarrow> vote option" where
  "createVote N env b e =
    Sign (bCrypto (cB (oX N))) (oSign N)
      \<lparr>vBlock = hashOf N b, vHeight = hHeight b,
       vMainchainHeight = (case envMainchainHeight env of None \<Rightarrow> 0 | Some n \<Rightarrow> word_of_int n),
       vEpoch = stEpoch (enState e), vID = oAddr N, vSignature = None\<rparr>"

definition shouldVote :: "('s, 'l) engine_ops \<Rightarrow> hash \<Rightarrow> ('s, 'l) engine \<Rightarrow> bool option" where
  "shouldVote N h e = do { vs \<leftarrow> validatorSet N e h; Some (GetValidator vs (oAddr N) \<noteq> None) }"

definition shouldRepeatVote :: "('s, 'l) engine_ops \<Rightarrow> extblock \<Rightarrow> ('s, 'l) engine \<Rightarrow> bool option" where
  "shouldRepeatVote N tip e =
    (let lastVote = stLastVote (enState e) in
     if vHeight lastVote \<noteq> 0 \<and> vHeight lastVote \<ge> hHeight tip then Some True
     else do {
       hcc \<leftarrow> highestCC N e;
       Some (vHeight lastVote \<noteq> 0 \<and> ccBlockHash (hHCC tip) \<noteq> hashOf N hcc)
     })"

definition castVote :: "('s, 'l) engine_ops \<Rightarrow> env \<Rightarrow> ('s, 'l) engine \<Rightarrow> ('s, 'l) engine option" where
  "castVote N env e = do {
    tip \<leftarrow> GetTipToVote N e;
    should \<leftarrow> shouldVote N (hashOf N tip) e;
    if \<not> should then Some e
    else do {
      again \<leftarrow> shouldRepeatVote N tip e;
      (v, e1) \<leftarrow>
        (if again then do {
           b \<leftarrow> FindBlock N (vBlock (stLastVote (enState e))) e;
           v \<leftarrow> createVote N env b e;
           Some (v, e)
         } else do {
           v \<leftarrow> createVote N env tip e;
           Some (v, e\<lparr>enState := SetLastVote (enChain e) v (enState e)\<rparr>)
         });
      let e2 = broadcastVote v e1;
      Some (e2\<lparr>enIncoming := enIncoming e2 @ [MsgVote v]\<rparr>)
    }
  }"

definition handleVote :: "('s, 'l) engine_ops \<Rightarrow> env \<Rightarrow> vote \<Rightarrow> ('s, 'l) engine \<Rightarrow> (bool \<times> ('s, 'l) engine) option" where
  "handleVote N env v e =
    (if Vote_Validate (bCrypto (cB (oX N))) v \<noteq> OK then Some (False, e)
     else do {
       let (ch, st) = State_AddVote (oX N) v (enChain e, enState e);
       let e1 = e\<lparr>enChain := ch, enState := st\<rparr>;
       lfb \<leftarrow> lastFinalized N e1;
       nextValidators \<leftarrow> nextValidatorSet N e1 (hashOf N lfb);
       if vEpoch v \<ge> stEpoch (enState e1) then do {
         allEpochVotes \<leftarrow> stEpochVotes (enState e1);
         let currentEpochVotes = AddVotes (filter (\<lambda>w. vEpoch w \<ge> vEpoch v) (Votes allEpochVotes)) NewVoteSet;
         if HasMajority nextValidators currentEpochVotes then do {
           let nextEpoch = vEpoch v + 1;
           let e2 = (if nextEpoch > stEpoch (enState e1) + 1
                     then e1\<lparr>enSent := enSent e1 @ map SentEpochVote (Votes currentEpochVotes)\<rparr> else e1);
           tip \<leftarrow> GetTipToExtend N e2;
           expectedProposer \<leftarrow> GetNextProposer (oRand N) (GetFinalizedValidatorSet N e2) (hashOf N tip) nextEpoch;
           let e3 = e2\<lparr>enState := SetEpoch (enChain e2) nextEpoch (enState e2)\<rparr>;
           e4 \<leftarrow> checkSyncStatus N env e3;
           Some (True, e4)
         } else Some (False, e1)
       } else Some (False, e1)
     })"

fun handleVotes :: "('s, 'l) engine_ops \<Rightarrow> env \<Rightarrow> vote list \<Rightarrow> ('s, 'l) engine \<Rightarrow> ('s, 'l) engine option" where
  "handleVotes N env [] e = Some e"
| "handleVotes N env (v # vs) e = do { (_, e1) \<leftarrow> handleVote N env v e; handleVotes N env vs e1 }"

section \<open>Blocks\<close>

definition shouldProposeByID :: "('s, 'l) engine_ops \<Rightarrow> hash \<Rightarrow> uint64 \<Rightarrow> address \<Rightarrow> ('s, 'l) engine \<Rightarrow> bool option" where
  "shouldProposeByID N previousBlock epoch voter e =
    (if epoch = 0 then Some False
     else do {
       proposer \<leftarrow> GetNextProposer (oRand N) (GetFinalizedValidatorSet N e) previousBlock epoch;
       Some (valAddress proposer = voter)
     })"

definition validateBlock :: "('s, 'l) engine_ops \<Rightarrow> block \<Rightarrow> extblock \<Rightarrow> ('s, 'l) engine \<Rightarrow> result option" where
  "validateBlock N blk parent e = do {
    lfb \<leftarrow> lastFinalized N e;
    if hHeight blk \<le> hHeight lfb then Some (Error ''Block is older than last finalized block'')
    else if hHeight parent + 1 \<noteq> hHeight blk then Some (Error ''Block height is incorrect'')
    else do {
      parentTime \<leftarrow> hTimestamp parent;
      blockTime \<leftarrow> hTimestamp blk;
      if blockTime < parentTime + 1 then Some (Error ''Block timestamp needs to increase monotonically'')
      else if hEpoch parent \<ge> hEpoch blk then Some (Error ''Block epoch must be greater than parent epoch'')
      else if \<not> IsValid (eStatus parent) then
        (if IsPending (eStatus parent) then None else Some (Error ''Parent block is invalid''))
      else if \<not> IsDescendant (oX N) (ccBlockHash (hHCC blk)) (hashOf N blk) (enChain e) then Some (Error ''HCC is not ancestor'')
      else case FindBlock N (ccBlockHash (hHCC blk)) e of
        None \<Rightarrow> Some (Error ''HCC block not found'')
      | Some hccBlock \<Rightarrow> do {
          hccOK \<leftarrow> (if IsFinalized (eStatus hccBlock) then Some True
                   else do { vs \<leftarrow> validatorSet N e (ccBlockHash (hHCC blk));
                             Some (CC_IsValid (bCrypto (cB (oX N))) (hHCC blk) vs) });
          if \<not> hccOK then Some (Error ''Invalid HCC'')
          else if eHasValidatorUpdate parent \<and> ccBlockHash (hHCC blk) \<noteq> hParent blk
          then Some (Error ''HCC incorrect: parent has validator changes'')
          else case (if hParent parent = 0 then Some False else map_option eHasValidatorUpdate (FindBlock N (hParent parent) e)) of
            None \<Rightarrow> Some (Error ''Grandparent not found'')
          | Some shouldSynchronize \<Rightarrow>
              if shouldSynchronize \<and> ccBlockHash (hHCC blk) \<noteq> hParent blk
              then Some (Error ''HCC incorrect: grandparent has validator changes'')
              else do {
                ok \<leftarrow> shouldProposeByID N (hParent blk) (hEpoch blk) (hProposer blk) e;
                Some (if ok then OK else Error ''Invalid proposer'')
              }
        }
    }
  }"

definition markBlock ::
  "('s chain_ops \<Rightarrow> hash \<Rightarrow> 's chain \<Rightarrow> (extblock \<times> 's chain) option) \<Rightarrow> ('s, 'l) engine_ops \<Rightarrow> hash \<Rightarrow>
    ('s, 'l) engine \<Rightarrow> ('s, 'l) engine option" where
  "markBlock mark N h e = do { (_, ch) \<leftarrow> mark (oX N) h (enChain e); Some (e\<lparr>enChain := ch\<rparr>) }"

text \<open>From the application of the transactions on.\<close>

definition applyAndVote :: "('s, 'l) engine_ops \<Rightarrow> env \<Rightarrow> extblock \<Rightarrow> ('s, 'l) engine \<Rightarrow> ('s, 'l) engine option" where
  "applyAndVote N env eb e =
    do {
      (res, ch, l) \<leftarrow> lApplyBlockTxs (oL N) env (block.truncate eb) (enChain e) (enLedger e);
      let e1 = e\<lparr>enChain := ch, enLedger := l\<rparr>;
      (case res of
       ApplyError \<Rightarrow> markBlock MarkBlockInvalid N (hashOf N eb) e1
     | ApplyUndecided \<Rightarrow> Some e1
     | ApplyOK hasValidatorUpdate \<Rightarrow> do {
         e2 \<leftarrow> (if hasValidatorUpdate then markBlock MarkBlockHasValidatorUpdate N (hashOf N eb) e1 else Some e1);
         e3 \<leftarrow> markBlock MarkBlockValid N (hashOf N eb) e2;
         e4 \<leftarrow> (if hEpoch eb = stEpoch (enState e3) - 1 \<or> hEpoch eb = stEpoch (enState e3) then
                  let e3' = e3\<lparr>enBlockProcessed := True\<rparr>
                  in if enVoteTimerReady e3' then castVote N env e3' else Some e3'
                else Some e3);
         checkCC N env (hashOf N eb) e4
       })
    }"

definition handleNormalBlock :: "('s, 'l) engine_ops \<Rightarrow> env \<Rightarrow> extblock \<Rightarrow> ('s, 'l) engine \<Rightarrow> ('s, 'l) engine option" where
  "handleNormalBlock N env eb e =
    (if \<not> IsPending (eStatus eb) then Some e
     else do {
       parent \<leftarrow> FindBlock N (hParent eb) e;
       res \<leftarrow> validateBlock N (block.truncate eb) parent e;
       if IsError res then markBlock MarkBlockInvalid N (hashOf N eb) e
       else do {
         votes \<leftarrow> ccVotes (hHCC eb);
         e1 \<leftarrow> handleVotes N env (Votes votes) e;
         hcc \<leftarrow> highestCC N e1;
         e2 \<leftarrow> (if hashOf N hcc \<noteq> ccBlockHash (hHCC eb) then checkCC N env (ccBlockHash (hHCC eb)) e1 else Some e1);
         let (reset, l) = lResetState (oL N) (block.truncate parent) (enLedger e2);
         let e3 = e2\<lparr>enLedger := l\<rparr>;
         if IsError reset then markBlock MarkBlockInvalid N (hashOf N eb) e3
         else applyAndVote N env eb e3
       }
     })"

definition handleHardcodeBlock :: "('s, 'l) engine_ops \<Rightarrow> env \<Rightarrow> hash \<Rightarrow> ('s, 'l) engine \<Rightarrow> ('s, 'l) engine option" where
  "handleHardcodeBlock N env h e =
    (case FindBlock N h e of
       None \<Rightarrow> Some e
     | Some eb \<Rightarrow> do {
         let e1 = e\<lparr>enChain := saveBlock (oX N) (eb\<lparr>eStatus := BlockStatusTrusted\<rparr>) (enChain e)\<rparr>;
         parent \<leftarrow> FindBlock N (hParent eb) e1;
         let (reset, l) = lResetState (oL N) (block.truncate parent) (enLedger e1);
         let e2 = e1\<lparr>enLedger := l\<rparr>;
         if IsError reset then Some e2
         else do {
           (res, ch, l) \<leftarrow> lApplyBlockTxs (oL N) env (block.truncate eb) (enChain e2) (enLedger e2);
           let e3 = e2\<lparr>enChain := ch, enLedger := l\<rparr>;
           (case res of
              ApplyOK _ \<Rightarrow> Some (e3\<lparr>enState := SetHighestCCBlock (oX N) (enChain e3) eb (enState e3)\<rparr>)
            | _ \<Rightarrow> Some e3)
         }
       })"

definition handleBlock :: "('s, 'l) engine_ops \<Rightarrow> env \<Rightarrow> block \<Rightarrow> ('s, 'l) engine \<Rightarrow> ('s, 'l) engine option" where
  "handleBlock N env blk e = do {
    eb \<leftarrow> FindBlock N (hashOf N blk) e;
    (case map_of (oHardcode N) (hHeight eb) of
       Some h \<Rightarrow> handleHardcodeBlock N env h e
     | None \<Rightarrow> handleNormalBlock N env eb e)
  }"

definition processMessage :: "('s, 'l) engine_ops \<Rightarrow> env \<Rightarrow> message \<Rightarrow> ('s, 'l) engine \<Rightarrow> (bool \<times> ('s, 'l) engine) option" where
  "processMessage N env m e =
    (case m of
       MsgVote v \<Rightarrow> do {
         (endEpoch, e1) \<leftarrow> handleVote N env v e;
         e2 \<leftarrow> checkCC N env (vBlock v) e1;
         Some (endEpoch, e2)
       }
     | MsgBlock b \<Rightarrow> do { e1 \<leftarrow> handleBlock N env b e; Some (False, e1) })"

section \<open>Proposals\<close>

definition shouldPropose :: "('s, 'l) engine_ops \<Rightarrow> extblock \<Rightarrow> uint64 \<Rightarrow> ('s, 'l) engine \<Rightarrow> bool option" where
  "shouldPropose N tip epoch e =
    (if epoch \<le> hEpoch tip then Some False else shouldProposeByID N (hashOf N tip) epoch (oAddr N) e)"

definition NumMainchainBlocksPerDynasty :: int where
  "NumMainchainBlocksPerDynasty = 10000"

definition CalculateDynasty :: "int \<Rightarrow> int" where
  "CalculateDynasty mainchainHeight = mainchainHeight div NumMainchainBlocksPerDynasty"

definition validatorMajorityInTheSameDynasty :: "('s, 'l) engine_ops \<Rightarrow> env \<Rightarrow> extblock \<Rightarrow> ('s, 'l) engine \<Rightarrow> bool option" where
  "validatorMajorityInTheSameDynasty N env tip e =
    (case stEpochVotes (enState e) of
       None \<Rightarrow> Some True
     | Some epochVotes \<Rightarrow> do {
         vs \<leftarrow> nextValidatorSet N e (hashOf N tip);
         let votes = AddVotes (filter (\<lambda>v. vHeight v \<ge> hHeight tip + 1) (Votes epochVotes)) NewVoteSet;
         if HasMajority vs votes then Some False
         else case envMainchainHeight env of
           None \<Rightarrow> Some False
         | Some mainchainHeight \<Rightarrow>
             let witnessedDynasty = CalculateDynasty mainchainHeight;
                 dynastyVotes = AddVotes (filter (\<lambda>v. CalculateDynasty (sint (vMainchainHeight v)) \<ge> witnessedDynasty)
                   (Votes epochVotes)) NewVoteSet
             in Some (HasMajority vs dynastyVotes)
       })"

definition newBlock :: block where
  "newBlock = \<lparr>hChainID = [], hEpoch = 0, hHeight = 0, hParent = 0, hHCC = \<lparr>ccVotes = None, ccBlockHash = 0\<rparr>,
     hTxHash = 0, hReceiptHash = 0, hBloom = EmptyBloom, hStateHash = 0, hTimestamp = None, hProposer = 0,
     hSignature = None, hHash = 0, bTxs = []\<rparr>"

text \<open>The block of a proposal before its transactions.\<close>

definition assembleBlock :: "('s, 'l) engine_ops \<Rightarrow> env \<Rightarrow> extblock \<Rightarrow> ('s, 'l) engine \<Rightarrow> block option" where
  "assembleBlock N env tip e = do {
    parentBlock \<leftarrow> FindBlock N (hashOf N tip) e;
    parentTime \<leftarrow> hTimestamp parentBlock;
    hcc \<leftarrow> highestCC N e;
    hccValidators \<leftarrow> validatorSet N e (hashOf N hcc);
    Some (newBlock\<lparr>hChainID := chChainID (enChain e), hEpoch := stEpoch (enState e), hParent := hashOf N tip,
      hHeight := hHeight tip + 1, hProposer := oAddr N,
      hTimestamp := Some (if envNow env < parentTime + 1 then parentTime + 1 else envNow env),
      hHCC := \<lparr>ccVotes = Some (FilterByValidators hccValidators
                 (UniqueVoter (FindVotesByHash (oX N) (hashOf N hcc) (enChain e)))),
               ccBlockHash = hashOf N hcc\<rparr>\<rparr>)
  }"

text \<open>The votes that go with a proposal: a missing epoch vote set is the empty one.\<close>

definition proposalVotes :: "('s, 'l) engine_ops \<Rightarrow> ('s, 'l) engine \<Rightarrow> voteset option" where
  "proposalVotes N e = do {
    lastCC \<leftarrow> highestCC N e;
    lastCCValidators \<leftarrow> validatorSet N e (hashOf N lastCC);
    let lastCCVotes = FindVotesByHash (oX N) (hashOf N lastCC) (enChain e);
    let epochVotes = (case stEpochVotes (enState e) of Some vs \<Rightarrow> vs | None \<Rightarrow> NewVoteSet);
    Some (FilterByValidators lastCCValidators (UniqueVoterAndBlock (Merge lastCCVotes epochVotes)))
  }"

text \<open>An error of \<open>createProposal\<close> is \<open>Some (None, e)\<close>.\<close>

definition createProposal ::
  "('s, 'l) engine_ops \<Rightarrow> env \<Rightarrow> bool \<Rightarrow> ('s, 'l) engine \<Rightarrow> (block proposal option \<times> ('s, 'l) engine) option" where
  "createProposal N env majority e = do {
    tip \<leftarrow> GetTipToExtend N e;
    let (reset, l) = lResetState (oL N) (block.truncate tip) (enLedger e);
    let e1 = e\<lparr>enLedger := l\<rparr>;
    if IsError reset then None
    else do {
      blk \<leftarrow> assembleBlock N env tip e1;
      ((newRoot, txs, res), l) \<leftarrow> lProposeBlockTxs (oL N) env blk majority (enChain e1) (enLedger e1);
      let e2 = e1\<lparr>enLedger := l\<rparr>;
      (case res of
         ApplyOK _ \<Rightarrow> do {
           let blk1 = (AddTxs (cB (oX N)) txs blk)\<lparr>hStateHash := newRoot\<rparr>;
           sig \<leftarrow> oSign N (Header_SignBytes (cB (oX N)) blk1);
           votes \<leftarrow> proposalVotes N e2;
           Some (Some \<lparr>pBlock = Some (Header_SetSignature sig blk1), pProposerID = oAddr N, pVotes = Some votes\<rparr>, e2)
         }
       | _ \<Rightarrow> Some (None, e2))
    }
  }"

definition sendProposal :: "block proposal \<Rightarrow> ('s, 'l) engine \<Rightarrow> ('s, 'l) engine" where
  "sendProposal p e =
    e\<lparr>enSent := enSent e @ [SentProposal p],
      enIncoming := enIncoming e @ (case pBlock p of Some b \<Rightarrow> [MsgBlock b] | None \<Rightarrow> [])\<rparr>"

definition proposeNew :: "('s, 'l) engine_ops \<Rightarrow> env \<Rightarrow> bool \<Rightarrow> ('s, 'l) engine \<Rightarrow> ('s, 'l) engine option" where
  "proposeNew N env majority e = do {
    (proposal, e1) \<leftarrow> createProposal N env majority e;
    (case proposal of
       None \<Rightarrow> Some e1
     | Some p \<Rightarrow> do {
         let e2 = e1\<lparr>enState := (enState e1)\<lparr>stLastProposal := p\<rparr>\<rparr>;
         blk \<leftarrow> pBlock p;
         (case AddBlock (oX N) blk (enChain e2) of
            (Added _, ch) \<Rightarrow> Some (sendProposal p (e2\<lparr>enChain := ch\<rparr>))
          | _ \<Rightarrow> None)
       })
  }"

definition propose :: "('s, 'l) engine_ops \<Rightarrow> env \<Rightarrow> ('s, 'l) engine \<Rightarrow> ('s, 'l) engine option" where
  "propose N env e = do {
    tip \<leftarrow> GetTipToExtend N e;
    should \<leftarrow> shouldPropose N tip (stEpoch (enState e)) e;
    if \<not> should then Some e
    else do {
      majority \<leftarrow> validatorMajorityInTheSameDynasty N env tip e;
      (case pBlock (stLastProposal (enState e)) of
         Some b \<Rightarrow>
           if stEpoch (enState e) = hEpoch b then Some (sendProposal (stLastProposal (enState e)) e)
           else proposeNew N env majority e
       | None \<Rightarrow> proposeNew N env majority e)
    }
  }"

section \<open>Start and epochs\<close>

definition enterEpoch :: "('s, 'l) engine \<Rightarrow> ('s, 'l) engine" where
  "enterEpoch e = e\<lparr>enVoteTimerReady := False, enBlockProcessed := False\<rparr>"

text \<open>
  \<open>autoRewind\<close>. The first loop looks, from the highest hard-coded height below the given block downwards,
  for one whose finalized block has the hard-coded hash; its result is one more than the index it ends
  with. The second loop disposes of blocks down to the height given.
\<close>

fun rewindSearch :: "('s, 'l) engine_ops \<Rightarrow> ('s, 'l) engine \<Rightarrow> uint64 list \<Rightarrow> nat \<Rightarrow> nat option" where
  "rewindSearch N e heights 0 = Some 0"
| "rewindSearch N e heights (Suc i) = do {
    fb \<leftarrow> find (\<lambda>b. IsFinalized (eStatus b)) (findBlocksByHeight (oX N) (heights ! i) (enChain e));
    if map_of (oHardcode N) (heights ! i) = Some (hashOf N fb) then Some (Suc i) else rewindSearch N e heights i
  }"

partial_function (option) rewindLoop ::
  "('s, 'l) engine_ops \<Rightarrow> uint64 \<Rightarrow> extblock \<Rightarrow> ('s, 'l) engine \<Rightarrow> (extblock \<times> ('s, 'l) engine) option" where
  "rewindLoop N target lastCC e =
    (if hHeight lastCC < target then Some (lastCC, e)
     else
       let ch = RemoveVotesByHash (oX N) (hashOf N lastCC)
                  (saveBlock (oX N) (lastCC\<lparr>eStatus := BlockStatusDisposed\<rparr>) (enChain e));
           e1 = e\<lparr>enChain := ch\<rparr>
       in (case FindBlock N (hParent lastCC) e1 of
             None \<Rightarrow> None
           | Some parent \<Rightarrow> rewindLoop N target parent e1))"

definition autoRewind ::
  "('s, 'l) engine_ops \<Rightarrow> extblock \<Rightarrow> ('s, 'l) engine \<Rightarrow> (extblock \<times> ('s, 'l) engine) option" where
  "autoRewind N lastCC e =
    (let heights = sort (map fst (oHardcode N));
         count = length (takeWhile (\<lambda>h. h \<le> hHeight lastCC) heights)
     in if count \<le> 1 then Some (lastCC, e)
        else do {
          i \<leftarrow> rewindSearch N e heights count;
          (lastCC', e1) \<leftarrow> (if i < count then rewindLoop N (heights ! i) lastCC e else Some (lastCC, e));
          let ch = enChain e1;
          Some (lastCC', e1\<lparr>enState := SetLastProposal ch emptyProposal (SetLastVote ch emptyVote
            (SetHighestCCBlock (oX N) ch lastCC' (SetLastFinalizedBlock (oX N) ch lastCC' (enState e1))))\<rparr>)
        })"

definition Start :: "('s, 'l) engine_ops \<Rightarrow> env \<Rightarrow> ('s, 'l) engine \<Rightarrow> ('s, 'l) engine option" where
  "Start N env e = do {
    hcc \<leftarrow> highestCC N e;
    (lastCC, e1) \<leftarrow> autoRewind N hcc e;
    let (_, l) = lResetState (oL N) (block.truncate lastCC) (enLedger e1);
    checkSyncStatus N env (e1\<lparr>enLedger := l\<rparr>)
  }"

end
