(* ===== verification/Execution.thy ===== *)
theory Execution
  imports LedgerState Engine
begin

text \<open>
  The transactions of the ledger (\<open>ledger/types/tx.go\<close>) and their execution: the helpers of
  \<open>ledger/execution/executils.go\<close>, the executors of the four kinds of transactions (\<open>tx_coinbase.go\<close>,
  \<open>tx_send.go\<close>, \<open>tx_smart_contract.go\<close>, \<open>tx_validator_set_update.go\<close>) and the dispatch of \<open>executor.go\<close>.

  Parameters (\<open>exec_ops\<close>): what the code calls of the library \<open>theta\<close> (validation of inputs and outputs,
  signatures, encodings, fees, heights of forks), the virtual machine, and the witness of the main chain.
  A panic is \<open>None\<close>; a function that may return early with a result is a computation of type
  \<open>(txresult + 'a) option\<close>, composed with \<open>andThen\<close>.
\<close>

section \<open>Results\<close>

datatype errcode =
    CodeGenericError
  | CodeInvalidSignature
  | CodeInvalidSequence
  | CodeInsufficientFund
  | CodeInvalidFee
  | CodeInvalidGasPrice
  | CodeInvalidGasLimit
  | CodeFeeLimitTooHigh
  | CodeInvalidValueToTransfer
  | CodeDoNotSupportNativeThetaInSubchain
  | CodeUnauthorizedTx

datatype txresult = TxOK | TxError errcode string | TxUndecided

fun TxIsError :: "txresult \<Rightarrow> bool" where
  "TxIsError (TxError _ _) = True"
| "TxIsError _ = False"

abbreviation err :: "string \<Rightarrow> txresult" where
  "err \<equiv> TxError CodeGenericError"

type_synonym 'a exec = "(txresult + 'a) option"

definition andThen :: "'a exec \<Rightarrow> ('a \<Rightarrow> 'b exec) \<Rightarrow> 'b exec" where
  "andThen m f = do { r \<leftarrow> m; (case r of Inl e \<Rightarrow> Some (Inl e) | Inr x \<Rightarrow> f x) }"

definition require :: "bool \<Rightarrow> txresult \<Rightarrow> unit exec" where
  "require b e = Some (if b then Inr () else Inl e)"

definition lift :: "'a option \<Rightarrow> 'a exec" where
  "lift m = map_option Inr m"

text \<open>The guard \<open>if res.IsError() { return res }\<close>.\<close>

definition noError :: "txresult \<Rightarrow> unit exec" where
  "noError r = require (\<not> TxIsError r) r"

definition outcome :: "'a exec \<Rightarrow> txresult option" where
  "outcome m = map_option (\<lambda>r. case r of Inl e \<Rightarrow> e | Inr _ \<Rightarrow> TxOK) m"

section \<open>Transactions\<close>

record txinput =
  inAddress :: address
  inCoins :: coins
  inSequence :: uint64
  inSignature :: "signature option"

record txoutput =
  outAddress :: address
  outCoins :: coins

record coinbasetx =
  cbProposer :: txinput
  cbOutputs :: "txoutput list"
  cbBlockHeight :: uint64

record sendtx =
  sendFee :: coins
  sendInputs :: "txinput list"
  sendOutputs :: "txoutput list"

record smarttx =
  smFrom :: txinput
  smTo :: txoutput
  smGasLimit :: uint64
  smGasPrice :: "int option"
  smData :: bytes

record vsupdatetx =
  vuProposer :: txinput
  vuDynasty :: int
  vuValidators :: "validator list"

datatype tx =
    CoinbaseTx coinbasetx
  | SendTx sendtx
  | SmartContractTx smarttx
  | SubchainValidatorSetUpdateTx vsupdatetx
  | DepositStakeTx nat
  | WithdrawStakeTx nat
  | StakeRewardDistributionTx
  | SlashTx
  | OtherTx

record blockinfo =
  biHeight :: uint64
  biTimestamp :: "int option"
  biChainID :: string

record evmresult =
  evRet :: bytes
  evContractAddr :: address
  evGasUsed :: uint64
  evErr :: "string option"

record ('t, 'd, 's) exec_ops =
  xS :: "('t, 'd) state_ops"
  xX :: "'s chain_ops"
  xInputValidateBasic :: "txinput \<Rightarrow> txresult"
  xOutputValidateBasic :: "txoutput \<Rightarrow> txresult"
  xVerify :: "signature option \<Rightarrow> bytes \<Rightarrow> address \<Rightarrow> bool"
  xSignBytes :: "string \<Rightarrow> tx \<Rightarrow> bytes"
  xChangeWrapper :: "bytes \<Rightarrow> nat \<Rightarrow> bytes"
  xRlpString :: "string \<Rightarrow> bytes"
  xRlpType :: "nat \<Rightarrow> bytes"
  xRlpTx :: "tx \<Rightarrow> bytes"
  xRlpWrapper :: "bytes \<Rightarrow> bytes"
  xDecodeType :: "bytes \<Rightarrow> (nat \<times> bytes) option"
  xDecodeTx :: "nat \<Rightarrow> bytes \<Rightarrow> tx option"
  xTxID :: "string \<Rightarrow> tx \<Rightarrow> hash"
  xEthSignatureOK :: "smarttx \<Rightarrow> string \<Rightarrow> uint64 \<Rightarrow> bool"
  xIsASmartContract :: "account \<Rightarrow> bool"
  xUpdateToHeight :: "uint64 \<Rightarrow> account \<Rightarrow> account"
  xMaxAccountsAffectedPerTx :: uint64
  xMinimumFee :: "uint64 \<Rightarrow> int"
  xSendTxMinimumFee :: "uint64 \<Rightarrow> uint64 \<Rightarrow> int"
  xMaxGasLimit :: "uint64 \<Rightarrow> int"
  xHeightEnableSmartContract :: uint64
  xHeightEnableTheta3 :: uint64
  xHeightTxWrapperExtension :: uint64
  xHeightRPCCompatibility :: uint64
  xHeightJune2021FeeAdjustment :: uint64
  xGasRegularTx :: uint64
  xGasRegularTxJune2021 :: uint64
  xMapChainID :: "string \<Rightarrow> uint64 \<Rightarrow> int"
  xKeccak :: "bytes \<Rightarrow> bytes"
  xTxCoinbase :: nat
  xTxSend :: nat
  xTxSmartContract :: nat
  xIntrinsicGas :: "bytes \<Rightarrow> bool \<Rightarrow> uint64 option"
  xExecute :: "blockinfo \<Rightarrow> smarttx \<Rightarrow> 't storeview \<times> 'd \<Rightarrow> (evmresult \<times> 't storeview \<times> 'd) option"
  xWitnessedValidatorSet :: "int \<Rightarrow> validatorset option"
  xMainchainHeight :: "int option"
  xSkipSanityCheck :: bool

text \<open>The state the executors work on: the ledger state, the block store and the block being processed.\<close>

record ('t, 'd, 's) xstate =
  xsState :: "('t, 'd) ledgerstate"
  xsChain :: "'s chain"
  xsCurrent :: "block option"

section \<open>Encoding\<close>

definition TxSubchainValidatorSetUpdate :: nat where
  "TxSubchainValidatorSetUpdate = 201"

fun txTypeOf :: "('t, 'd, 's) exec_ops \<Rightarrow> tx \<Rightarrow> nat option" where
  "txTypeOf K (CoinbaseTx _) = Some (xTxCoinbase K)"
| "txTypeOf K (SendTx _) = Some (xTxSend K)"
| "txTypeOf K (SmartContractTx _) = Some (xTxSmartContract K)"
| "txTypeOf K (SubchainValidatorSetUpdateTx _) = Some TxSubchainValidatorSetUpdate"
| "txTypeOf K _ = None"

definition TxToBytes :: "('t, 'd, 's) exec_ops \<Rightarrow> tx \<Rightarrow> bytes option" where
  "TxToBytes K t = do { ty \<leftarrow> txTypeOf K t; Some (xRlpType K ty @ xRlpTx K t) }"

definition TxFromBytes :: "('t, 'd, 's) exec_ops \<Rightarrow> bytes \<Rightarrow> tx option" where
  "TxFromBytes K raw = do {
    (txType, rest) \<leftarrow> xDecodeType K raw;
    if txType = xTxCoinbase K \<or> txType = xTxSend K \<or> txType = xTxSmartContract K \<or>
       txType = TxSubchainValidatorSetUpdate
    then xDecodeTx K txType rest else None
  }"

definition addPrefixForSignBytes :: "('t, 'd, 's) exec_ops \<Rightarrow> bytes \<Rightarrow> bytes" where
  "addPrefixForSignBytes K signBytes = xRlpWrapper K signBytes"

definition ValidatorSetUpdate_SignBytes :: "('t, 'd, 's) exec_ops \<Rightarrow> string \<Rightarrow> vsupdatetx \<Rightarrow> bytes" where
  "ValidatorSetUpdate_SignBytes K chainID t =
    addPrefixForSignBytes K
      (xRlpString K chainID @
       xRlpType K TxSubchainValidatorSetUpdate @
       xRlpTx K (SubchainValidatorSetUpdateTx (t\<lparr>vuProposer := (vuProposer t)\<lparr>inSignature := None\<rparr>\<rparr>)))"

fun Tx_SignBytes :: "('t, 'd, 's) exec_ops \<Rightarrow> string \<Rightarrow> tx \<Rightarrow> bytes" where
  "Tx_SignBytes K chainID (SubchainValidatorSetUpdateTx t) = ValidatorSetUpdate_SignBytes K chainID t"
| "Tx_SignBytes K chainID t = xSignBytes K chainID t"

definition ValidatorSetUpdate_SetSignature :: "address \<Rightarrow> signature \<Rightarrow> vsupdatetx \<Rightarrow> vsupdatetx" where
  "ValidatorSetUpdate_SetSignature addr sig t =
    (if inAddress (vuProposer t) = addr then t\<lparr>vuProposer := (vuProposer t)\<lparr>inSignature := Some sig\<rparr>\<rparr> else t)"

section \<open>Validators and contracts\<close>

text \<open>The validator set in the state of a block, and the validator set for a block hash.\<close>

definition validatorSetAt :: "('t, 'd) state_ops \<Rightarrow> 'd \<Rightarrow> uint64 \<Rightarrow> hash \<Rightarrow> validatorset option" where
  "validatorSetAt S d height root = do {
    sv \<leftarrow> NewStoreView S height root d;
    r \<leftarrow> sv_GetValidatorSet S sv;
    r
  }"

definition finalizedValidatorSet :: "('t, 'd, 's) exec_ops \<Rightarrow> ('t, 'd, 's) xstate \<Rightarrow> finalized_vs" where
  "finalizedValidatorSet K s blockHash isNext = do {
    b \<leftarrow> hccAncestor (xX K) (xsChain s) (if isNext then 1 else 2) blockHash;
    validatorSetAt (xS K) (lsDB (xsState s)) (hHeight b) (hStateHash b)
  }"

definition getValidatorSet :: "('t, 'd, 's) exec_ops \<Rightarrow> ('t, 'd, 's) xstate \<Rightarrow> validatorset option" where
  "getValidatorSet K s = do {
    currentBlock \<leftarrow> xsCurrent s;
    GetNextValidatorSet (finalizedValidatorSet K s) (hParent currentBlock)
  }"

definition getValidatorAddresses :: "validatorset \<Rightarrow> address list" where
  "getValidatorAddresses vs = map valAddress (validators vs)"

definition isAValidator :: "address \<Rightarrow> address list \<Rightarrow> txresult" where
  "isAValidator addr validatorAddresses =
    (if addr \<in> set validatorAddresses then TxOK else err ''The coinbaseTx proposer is not a validator'')"

datatype tokentype = CrossChainTokenTypeTFuel | CrossChainTokenTypeTNT20 | CrossChainTokenTypeTNT721 | CrossChainTokenTypeTNT1155

fun tokenBankInView :: "('t, 'd) state_ops \<Rightarrow> tokentype \<Rightarrow> 't storeview \<Rightarrow> address option option" where
  "tokenBankInView S CrossChainTokenTypeTFuel sv = GetTFuelTokenBankContractAddress S sv"
| "tokenBankInView S CrossChainTokenTypeTNT20 sv = GetTNT20TokenBankContractAddress S sv"
| "tokenBankInView S CrossChainTokenTypeTNT721 sv = GetTNT721TokenBankContractAddress S sv"
| "tokenBankInView S CrossChainTokenTypeTNT1155 sv = GetTNT1155TokenBankContractAddress S sv"

definition GetTokenBankContractAddress ::
  "('t, 'd, 's) exec_ops \<Rightarrow> tokentype \<Rightarrow> ('t, 'd, 's) xstate \<Rightarrow> address option option" where
  "GetTokenBankContractAddress K tokenType s =
    (case findBlock (xX K) (chRoot (xsChain s)) (xsChain s) of
       Got root \<Rightarrow> do {
         sv \<leftarrow> NewStoreView (xS K) (hHeight root) (hStateHash root) (lsDB (xsState s));
         tokenBankInView (xS K) tokenType sv
       }
     | _ \<Rightarrow> None)"

section \<open>Accounts of a transaction\<close>

definition getOrMakeAccountImpl ::
  "('t, 'd, 's) exec_ops \<Rightarrow> 't storeview \<Rightarrow> address \<Rightarrow> bool \<Rightarrow> account exec" where
  "getOrMakeAccountImpl K view addr makeNewAccount = do {
    r \<leftarrow> GetAccount (xS K) addr view;
    (case r of
       Some acc \<Rightarrow> Some (Inr (xUpdateToHeight K (svHeight view) acc))
     | None \<Rightarrow>
         if \<not> makeNewAccount then Some (Inl (err ''getOrMakeAccountImpl - Unknown address''))
         else Some (Inr (xUpdateToHeight K (svHeight view)
                ((NewAccount (xS K) addr)\<lparr>acLastUpdated := svHeight view\<rparr>))))
  }"

definition getInput :: "('t, 'd, 's) exec_ops \<Rightarrow> 't storeview \<Rightarrow> txinput \<Rightarrow> bool \<Rightarrow> account exec" where
  "getInput K view inp makeNewAccount = do {
    r \<leftarrow> getOrMakeAccountImpl K view (inAddress inp) makeNewAccount;
    Some (case r of Inl _ \<Rightarrow> Inl (err ''getOrMakeInputImpl - Unknown address'') | Inr acc \<Rightarrow> Inr acc)
  }"

text \<open>The accounts of a transaction by address; a later entry is in front.\<close>

type_synonym accounts = "(address \<times> account) list"

fun getInputs :: "('t, 'd, 's) exec_ops \<Rightarrow> 't storeview \<Rightarrow> txinput list \<Rightarrow> accounts \<Rightarrow> accounts exec" where
  "getInputs K view [] accs = Some (Inr accs)"
| "getInputs K view (inp # ins) accs =
    (if map_of accs (inAddress inp) \<noteq> None then Some (Inl (err ''getInputs - Duplicated address''))
     else do {
       r \<leftarrow> getOrMakeAccountImpl K view (inAddress inp) False;
       (case r of
          Inl _ \<Rightarrow> Some (Inl (err ''getInputs - Unknown address''))
        | Inr acc \<Rightarrow> getInputs K view ins ((inAddress inp, acc) # accs))
     })"

fun getOrMakeOutputs :: "('t, 'd, 's) exec_ops \<Rightarrow> 't storeview \<Rightarrow> txoutput list \<Rightarrow> accounts \<Rightarrow> accounts exec" where
  "getOrMakeOutputs K view [] accs = Some (Inr accs)"
| "getOrMakeOutputs K view (out # outs) accs =
    (if map_of accs (outAddress out) \<noteq> None then Some (Inl (err ''getOrMakeOutputs - Duplicated address''))
     else andThen (getOrMakeAccountImpl K view (outAddress out) True)
            (\<lambda>acc. getOrMakeOutputs K view outs ((outAddress out, acc) # accs)))"

fun validateInputsBasic :: "('t, 'd, 's) exec_ops \<Rightarrow> txinput list \<Rightarrow> txresult" where
  "validateInputsBasic K [] = TxOK"
| "validateInputsBasic K (inp # ins) =
    (if TxIsError (xInputValidateBasic K inp) then xInputValidateBasic K inp
     else if coTheta (inCoins inp) \<noteq> 0 then err ''Subchain should not transfer native Theta coin''
     else validateInputsBasic K ins)"

fun validateOutputsBasic :: "('t, 'd, 's) exec_ops \<Rightarrow> txoutput list \<Rightarrow> txresult" where
  "validateOutputsBasic K [] = TxOK"
| "validateOutputsBasic K (out # outs) =
    (if TxIsError (xOutputValidateBasic K out) then xOutputValidateBasic K out else validateOutputsBasic K outs)"

definition validateInputAdvanced ::
  "('t, 'd, 's) exec_ops \<Rightarrow> account \<Rightarrow> bytes \<Rightarrow> txinput \<Rightarrow> uint64 \<Rightarrow> txresult" where
  "validateInputAdvanced K acc signBytes inp blockHeight =
    (if acSequence acc + 1 \<noteq> inSequence inp then TxError CodeInvalidSequence ''ValidateInputAdvanced''
     else if \<not> coIsGTE (xS K) (acBalance acc) (inCoins inp) then TxError CodeInsufficientFund ''Insufficient fund''
     else if \<not> (xVerify K (inSignature inp) signBytes (acAddress acc) \<or>
                 blockHeight \<ge> xHeightTxWrapperExtension K \<and>
                 xVerify K (inSignature inp) (xChangeWrapper K signBytes 2) (acAddress acc))
     then TxError CodeInvalidSignature ''Signature verification failed''
     else TxOK)"

fun validateInputsAdvanced ::
  "('t, 'd, 's) exec_ops \<Rightarrow> accounts \<Rightarrow> bytes \<Rightarrow> txinput list \<Rightarrow> uint64 \<Rightarrow> coins \<Rightarrow> coins exec" where
  "validateInputsAdvanced K accs signBytes [] blockHeight acc_total = Some (Inr acc_total)"
| "validateInputsAdvanced K accs signBytes (inp # ins) blockHeight acc_total = do {
    acc \<leftarrow> map_of accs (inAddress inp);
    andThen (noError (validateInputAdvanced K acc signBytes inp blockHeight))
      (\<lambda>_. validateInputsAdvanced K accs signBytes ins blockHeight (coPlus (xS K) acc_total (inCoins inp)))
  }"

definition noCoins :: coins where
  "noCoins = \<lparr>coTheta = 0, coTFuel = 0\<rparr>"

definition sumOutputs :: "('t, 'd, 's) exec_ops \<Rightarrow> txoutput list \<Rightarrow> coins" where
  "sumOutputs K outs = foldl (\<lambda>acc_total out. coPlus (xS K) acc_total (outCoins out)) noCoins outs"

fun adjustByInputs ::
  "('t, 'd, 's) exec_ops \<Rightarrow> txinput list \<Rightarrow> accounts \<Rightarrow> 't storeview \<times> 'd \<Rightarrow> (accounts \<times> 't storeview \<times> 'd) option" where
  "adjustByInputs K [] accs v = Some (accs, v)"
| "adjustByInputs K (inp # ins) accs v = do {
    acc \<leftarrow> map_of accs (inAddress inp);
    if \<not> coIsGTE (xS K) (acBalance acc) (inCoins inp) then None
    else do {
      let acc1 = acc\<lparr>acBalance := coMinus (xS K) (acBalance acc) (inCoins inp), acSequence := acSequence acc + 1\<rparr>;
      v1 \<leftarrow> SetAccount (xS K) (inAddress inp) acc1 v;
      adjustByInputs K ins ((inAddress inp, acc1) # accs) v1
    }
  }"

fun adjustByOutputs ::
  "('t, 'd, 's) exec_ops \<Rightarrow> txoutput list \<Rightarrow> accounts \<Rightarrow> 't storeview \<times> 'd \<Rightarrow> (accounts \<times> 't storeview \<times> 'd) option" where
  "adjustByOutputs K [] accs v = Some (accs, v)"
| "adjustByOutputs K (out # outs) accs v = do {
    acc \<leftarrow> map_of accs (outAddress out);
    let acc1 = acc\<lparr>acBalance := coPlus (xS K) (acBalance acc) (outCoins out)\<rparr>;
    v1 \<leftarrow> SetAccount (xS K) (outAddress out) acc1 v;
    adjustByOutputs K outs ((outAddress out, acc1) # accs) v1
  }"

section \<open>Fees and gas\<close>

definition MinimumGasPrice :: int where
  "MinimumGasPrice = 100000000"

definition isVotingForInterchainEvents ::
  "('t, 'd, 's) exec_ops \<Rightarrow> address \<Rightarrow> bytes \<Rightarrow> ('t, 'd, 's) xstate \<Rightarrow> bool option" where
  "isVotingForInterchainEvents K contractAddr calldata s =
    (if length calldata < 4 then Some False
     else do {
       r \<leftarrow> GetTokenBankContractAddress K CrossChainTokenTypeTFuel s;
       tfuel \<leftarrow> r;
       signatures \<leftarrow>
         (if contractAddr = tfuel then Some [''mintVouchers(string,address,uint256,uint256,uint256)'']
          else do {
            r \<leftarrow> GetTokenBankContractAddress K CrossChainTokenTypeTNT20 s;
            tnt20 \<leftarrow> r;
            if contractAddr = tnt20
            then Some [''mintVouchers(string,string,string,uint8,address,uint256,uint256,uint256)'',
                       ''unlockTokens(uint256,string,address,uint256,uint256,uint256)'']
            else do {
              r \<leftarrow> GetTokenBankContractAddress K CrossChainTokenTypeTNT721 s;
              tnt721 \<leftarrow> r;
              if contractAddr = tnt721
              then Some [''mintVouchers(string,string,string,address,uint256,string,uint256,uint256)'',
                         ''unlockTokens(uint256,string,address,uint256,uint256,uint256)'']
              else do {
                r \<leftarrow> GetTokenBankContractAddress K CrossChainTokenTypeTNT1155 s;
                tnt1155 \<leftarrow> r;
                Some (if contractAddr = tnt1155
                      then [''mintVouchers(string,address,uint256,uint256,string,uint256,uint256)'',
                            ''unlockTokens(uint256,string,address,uint256,uint256,uint256,uint256)'']
                      else [])
              }
            }
          });
       Some (\<exists>wms \<in> set signatures. take 4 (xKeccak K (ascii wms)) = take 4 calldata)
     })"

definition isWhitelistedOperation ::
  "('t, 'd, 's) exec_ops \<Rightarrow> 't storeview \<Rightarrow> address \<Rightarrow> address \<Rightarrow> bytes \<Rightarrow> ('t, 'd, 's) xstate \<Rightarrow> bool option" where
  "isWhitelistedOperation K view fromAddr contractAddr calldata s = do {
    r \<leftarrow> sv_GetValidatorSet (xS K) view;
    vs \<leftarrow> r;
    if TxIsError (isAValidator fromAddr (getValidatorAddresses vs)) then Some False
    else isVotingForInterchainEvents K contractAddr calldata s
  }"

definition sanityCheckForGasPrice ::
  "('t, 'd, 's) exec_ops \<Rightarrow> 't storeview \<Rightarrow> address \<Rightarrow> address \<Rightarrow> bytes \<Rightarrow> int option \<Rightarrow> ('t, 'd, 's) xstate \<Rightarrow> bool option" where
  "sanityCheckForGasPrice K view fromAddr contractAddr calldata gasPrice s =
    (case gasPrice of
       None \<Rightarrow> Some False
     | Some p \<Rightarrow> do {
         whitelisted \<leftarrow> isWhitelistedOperation K view fromAddr contractAddr calldata s;
         Some (whitelisted \<and> p = 0 \<or> p \<ge> MinimumGasPrice)
       })"

definition sanityCheckForFee :: "('t, 'd, 's) exec_ops \<Rightarrow> coins \<Rightarrow> uint64 \<Rightarrow> bool" where
  "sanityCheckForFee K fee blockHeight \<longleftrightarrow> coTheta fee = 0 \<and> coTFuel fee \<ge> xMinimumFee K blockHeight"

definition sanityCheckForSendTxFee :: "('t, 'd, 's) exec_ops \<Rightarrow> coins \<Rightarrow> uint64 \<Rightarrow> uint64 \<Rightarrow> bool" where
  "sanityCheckForSendTxFee K fee numAccountsAffected blockHeight \<longleftrightarrow>
    coTheta fee = 0 \<and> coTFuel fee \<ge> xSendTxMinimumFee K numAccountsAffected blockHeight"

definition chargeFee :: "('t, 'd, 's) exec_ops \<Rightarrow> account \<Rightarrow> coins \<Rightarrow> account option" where
  "chargeFee K acc fee =
    (if \<not> coIsGTE (xS K) (acBalance acc) fee then None
     else Some (acc\<lparr>acBalance := coMinus (xS K) (acBalance acc) fee\<rparr>))"

definition getBlockHeight :: "('t, 'd) ledgerstate \<Rightarrow> uint64 option" where
  "getBlockHeight ls = map_option (\<lambda>h. h + 1) (LedgerState_Height ls)"

definition getRegularTxGas :: "('t, 'd, 's) exec_ops \<Rightarrow> ('t, 'd) ledgerstate \<Rightarrow> uint64 option" where
  "getRegularTxGas K ls = do {
    blockHeight \<leftarrow> getBlockHeight ls;
    Some (if blockHeight < xHeightJune2021FeeAdjustment K then xGasRegularTx K else xGasRegularTxJune2021 K)
  }"

section \<open>Coinbase transactions\<close>

text \<open>The proposer of a special transaction: one of the validators, with a valid signature.\<close>

definition Coinbase_sanityCheck ::
  "('t, 'd, 's) exec_ops \<Rightarrow> string \<Rightarrow> 't storeview \<Rightarrow> coinbasetx \<Rightarrow> ('t, 'd, 's) xstate \<Rightarrow> txresult option" where
  "Coinbase_sanityCheck K chainID view t s = outcome
    (andThen (lift (getValidatorSet K s)) (\<lambda>vs.
     andThen (noError (xInputValidateBasic K (cbProposer t))) (\<lambda>_.
     andThen (require (\<not> svCoinbaseProcessed view)
       (err ''Another coinbase transaction has been processed for the current block'')) (\<lambda>_.
     andThen (noError (isAValidator (inAddress (cbProposer t)) (getValidatorAddresses vs))) (\<lambda>_.
     andThen (getInput K view (cbProposer t) True) (\<lambda>proposerAccount.
     andThen (require (xVerify K (inSignature (cbProposer t)) (xSignBytes K chainID (CoinbaseTx t)) (acAddress proposerAccount))
       (err ''SignBytes'')) (\<lambda>_.
     andThen (lift (LedgerState_Height (xsState s))) (\<lambda>height.
     require (cbBlockHeight t = height) (err ''invalid block height for the coinbase transaction'')))))))))"

definition Coinbase_process ::
  "('t, 'd, 's) exec_ops \<Rightarrow> string \<Rightarrow> 't storeview \<Rightarrow> coinbasetx \<Rightarrow> (hash \<times> txresult) \<times> 't storeview" where
  "Coinbase_process K chainID view t =
    (if svCoinbaseProcessed view
     then ((0, err ''Another coinbase transaction has been processed for the current block''), view)
     else ((xTxID K chainID (CoinbaseTx t), TxOK), SetCoinbaseTransactionProcessed True view))"

section \<open>Send transactions\<close>

definition Send_sanityCheck ::
  "('t, 'd, 's) exec_ops \<Rightarrow> string \<Rightarrow> 't storeview \<Rightarrow> sendtx \<Rightarrow> txresult option" where
  "Send_sanityCheck K chainID view t =
    (let numAccountsAffected = word_of_nat (length (sendInputs t) + length (sendOutputs t));
         blockHeight = svHeight view + 1
     in outcome
       (andThen (noError (validateInputsBasic K (sendInputs t))) (\<lambda>_.
        andThen (noError (validateOutputsBasic K (sendOutputs t))) (\<lambda>_.
        andThen (require (sendInputs t \<noteq> [] \<and> sendOutputs t \<noteq> []) (err ''Invalid sendTx, Inputs and/or Outputs are empty'')) (\<lambda>_.
        andThen (require (numAccountsAffected \<le> xMaxAccountsAffectedPerTx K) (err ''Trasaction modifying too many accounts'')) (\<lambda>_.
        andThen (getInputs K view (sendInputs t) []) (\<lambda>accs.
        andThen (require (\<forall>inp \<in> set (sendInputs t). coTheta (inCoins inp) = 0)
          (TxError CodeDoNotSupportNativeThetaInSubchain ''Subchain does not support native THETA'')) (\<lambda>_.
        andThen (getOrMakeOutputs K view (sendOutputs t) accs) (\<lambda>accs.
        andThen (require (blockHeight < xHeightEnableSmartContract K \<or> (\<forall>(_, acc) \<in> set accs. \<not> xIsASmartContract K acc))
          (err ''Sending Theta/TFuel to a smart contract through a SendTx transaction is not allowed'')) (\<lambda>_.
        andThen (validateInputsAdvanced K accs (xSignBytes K chainID (SendTx t)) (sendInputs t) blockHeight noCoins) (\<lambda>inTotal.
        andThen (require (sanityCheckForSendTxFee K (sendFee t) numAccountsAffected blockHeight)
          (TxError CodeInvalidFee ''Insufficient fee'')) (\<lambda>_.
        require (coIsEqual (xS K) inTotal (coPlus (xS K) (sumOutputs K (sendOutputs t)) (sendFee t)))
          (err ''Input total != output total + fees'')))))))))))))"

definition Send_process ::
  "('t, 'd, 's) exec_ops \<Rightarrow> string \<Rightarrow> sendtx \<Rightarrow> 't storeview \<times> 'd \<Rightarrow> ((hash \<times> txresult) \<times> 't storeview \<times> 'd) option" where
  "Send_process K chainID t v = do {
    r \<leftarrow> andThen (getInputs K (fst v) (sendInputs t) []) (\<lambda>accs. getOrMakeOutputs K (fst v) (sendOutputs t) accs);
    (case r of
       Inl res \<Rightarrow> Some ((0, res), v)
     | Inr accs \<Rightarrow> do {
         (accs1, v1) \<leftarrow> adjustByInputs K (sendInputs t) accs v;
         (_, v2) \<leftarrow> adjustByOutputs K (sendOutputs t) accs1 v1;
         Some ((xTxID K chainID (SendTx t), TxOK), v2)
       })
  }"

section \<open>Smart contract transactions\<close>

definition checkIntrinsicGas :: "('t, 'd, 's) exec_ops \<Rightarrow> smarttx \<Rightarrow> bool" where
  "checkIntrinsicGas K t \<longleftrightarrow>
    (case xIntrinsicGas K (smData t) (outAddress (smTo t) = 0) of
       None \<Rightarrow> False
     | Some intrinsicGas \<Rightarrow> intrinsicGas \<le> smGasLimit t)"

text \<open>The signature, native or of Ethereum.\<close>

definition smartSignature :: "('t, 'd, 's) exec_ops \<Rightarrow> string \<Rightarrow> uint64 \<Rightarrow> smarttx \<Rightarrow> txresult" where
  "smartSignature K chainID blockHeight t =
    (let from = smFrom t;
         signBytes = xSignBytes K chainID (SmartContractTx t);
         nativeSignatureValid =
           xVerify K (inSignature from) signBytes (inAddress from) \<or>
           blockHeight \<ge> xHeightTxWrapperExtension K \<and>
           xVerify K (inSignature from) (xChangeWrapper K signBytes 2) (inAddress from)
     in if nativeSignatureValid then TxOK
        else if blockHeight < xHeightRPCCompatibility K then TxError CodeInvalidSignature ''Signature verification failed''
        else if coTheta (inCoins from) \<noteq> 0 then err ''Sending Theta with ETH transaction is not allowed''
        else if \<not> xEthSignatureOK K t chainID blockHeight then TxError CodeInvalidSignature ''ETH Signature verification failed''
        else TxOK)"

text \<open>The checks that follow, on the account of the sender.\<close>

definition smartFunds :: "('t, 'd, 's) exec_ops \<Rightarrow> uint64 \<Rightarrow> smarttx \<Rightarrow> account \<Rightarrow> int \<Rightarrow> txresult" where
  "smartFunds K blockHeight t fromAccount gasPrice =
    (let from = smFrom t;
         feeLimit = gasPrice * uint (smGasLimit t)
     in if int (unat (smGasLimit t)) > xMaxGasLimit K blockHeight then TxError CodeInvalidGasLimit ''Invalid gas limit''
        else if \<not> checkIntrinsicGas K t then TxError CodeInvalidGasLimit ''Intrinsic gas check failed''
        else if feeLimit \<ge> 2 ^ 255 \<or> feeLimit < 0 then TxError CodeFeeLimitTooHigh ''Fee limit too high''
        else if coTheta (inCoins from) \<noteq> 0
        then TxError CodeDoNotSupportNativeThetaInSubchain ''Subchain does not support native THETA''
        else if \<not> coIsGTE (xS K) (acBalance fromAccount) \<lparr>coTheta = 0, coTFuel = feeLimit + coTFuel (inCoins from)\<rparr>
        then TxError CodeInsufficientFund ''Source balance too low''
        else TxOK)"

definition Smart_sanityCheck ::
  "('t, 'd, 's) exec_ops \<Rightarrow> string \<Rightarrow> 't storeview \<Rightarrow> smarttx \<Rightarrow> ('t, 'd, 's) xstate \<Rightarrow> txresult option" where
  "Smart_sanityCheck K chainID view t s = outcome
    (let from = smFrom t in
     andThen (lift (getBlockHeight (xsState s))) (\<lambda>blockHeight.
     andThen (noError (xInputValidateBasic K from)) (\<lambda>_.
     andThen (noError (smartSignature K chainID blockHeight t)) (\<lambda>_.
     andThen (do { r \<leftarrow> getInput K view from False;
               Some (case r of Inl _ \<Rightarrow> Inl (err ''Failed to get the account'') | Inr acc \<Rightarrow> Inr acc) }) (\<lambda>fromAccount.
     andThen (require (acSequence fromAccount + 1 = inSequence from) (TxError CodeInvalidSequence ''ValidateInputAdvanced'')) (\<lambda>_.
     andThen (require (coIsGTE (xS K) (acBalance fromAccount) (inCoins from))
       (TxError CodeInsufficientFund ''Insufficient fund'')) (\<lambda>_.
     andThen (require (coIsNonnegative (xS K) (inCoins from))
       (TxError CodeInvalidValueToTransfer ''Invalid value to transfer'')) (\<lambda>_.
     andThen (lift (sanityCheckForGasPrice K view (inAddress from) (outAddress (smTo t)) (smData t) (smGasPrice t) s)) (\<lambda>ok.
     andThen (require ok (TxError CodeInvalidGasPrice ''Insufficient gas price'')) (\<lambda>_.
     andThen (lift (smGasPrice t)) (\<lambda>gasPrice.
     noError (smartFunds K blockHeight t fromAccount gasPrice))))))))))))"

text \<open>The fee and the sequence number of the sender, after the execution; an early return keeps the view.\<close>

definition chargeSender ::
  "('t, 'd, 's) exec_ops \<Rightarrow> smarttx \<Rightarrow> uint64 \<Rightarrow> 't storeview \<times> 'd \<Rightarrow> ('t storeview \<times> 'd) exec" where
  "chargeSender K t gasUsed v = do {
    r \<leftarrow> getInput K (fst v) (smFrom t) False;
    (case r of
       Inl _ \<Rightarrow> Some (Inl (err ''Failed to get the from account''))
     | Inr fromAccount \<Rightarrow> do {
         gasPrice \<leftarrow> smGasPrice t;
         (case chargeFee K fromAccount \<lparr>coTheta = 0, coTFuel = gasPrice * uint gasUsed\<rparr> of
            None \<Rightarrow> Some (Inl (err ''failed to charge transaction fee''))
          | Some acc1 \<Rightarrow>
              let acc2 = (if outAddress (smTo t) = 0 then acc1 else acc1\<lparr>acSequence := acSequence acc1 + 1\<rparr>)
              in lift (SetAccount (xS K) (inAddress (smFrom t)) acc2 v))
       })
  }"

text \<open>The receipt, only for the delivered view; events of a failed execution are dropped.\<close>

definition addReceipt ::
  "('t, 'd, 's) exec_ops \<Rightarrow> bool \<Rightarrow> block option \<Rightarrow> smarttx \<Rightarrow> evmresult \<Rightarrow> evmlog list \<Rightarrow> balancechange list \<Rightarrow> 's chain \<Rightarrow> 's chain option" where
  "addReceipt K delivered currentBlock t ev logs balanceChanges ch =
    (if delivered then do {
       blk \<leftarrow> currentBlock;
       raw \<leftarrow> TxToBytes K (SmartContractTx t);
       Some (AddTxReceipt (xX K) blk raw (if evErr ev = None then logs else [])
         (if evErr ev = None then balanceChanges else []) (evRet ev) (evContractAddr ev) (evGasUsed ev) (evErr ev) ch)
     } else Some ch)"

definition Smart_process ::
  "('t, 'd, 's) exec_ops \<Rightarrow> string \<Rightarrow> bool \<Rightarrow> block option \<Rightarrow> block option \<Rightarrow> smarttx \<Rightarrow> 't storeview \<times> 'd \<Rightarrow> 's chain \<Rightarrow>
    ((hash \<times> txresult) \<times> ('t storeview \<times> 'd) \<times> 's chain) option" where
  "Smart_process K chainID delivered parentBlock currentBlock t v ch = do {
    pb \<leftarrow> parentBlock;
    let bi = \<lparr>biHeight = hHeight pb, biTimestamp = hTimestamp pb, biChainID = hChainID pb\<rparr>;
    (ev, v1) \<leftarrow> xExecute K bi t (ResetBalanceChanges (ResetLogs (fst v)), snd v);
    r \<leftarrow> chargeSender K t (evGasUsed ev) v1;
    (case r of
       Inl res \<Rightarrow> Some ((0, res), v1, ch)
     | Inr v2 \<Rightarrow> do {
         let (logs, sv3) = PopLogs (fst v2);
         let (balanceChanges, sv4) = PopBalanceChanges sv3;
         ch1 \<leftarrow> addReceipt K delivered currentBlock t ev logs balanceChanges ch;
         Some ((xTxID K chainID (SmartContractTx t), TxOK), (sv4, snd v2), ch1)
       })
  }"

section \<open>Validator set updates\<close>

definition ValSet_sanityCheck ::
  "('t, 'd, 's) exec_ops \<Rightarrow> string \<Rightarrow> 't storeview \<Rightarrow> vsupdatetx \<Rightarrow> ('t, 'd, 's) xstate \<Rightarrow> txresult option" where
  "ValSet_sanityCheck K chainID view t s = outcome
    (andThen (lift (getValidatorSet K s)) (\<lambda>vs.
     andThen (noError (xInputValidateBasic K (vuProposer t))) (\<lambda>_.
     andThen (require (\<not> svValidatorSetProcessed view)
       (err ''Another subchain validator set update transaction has been processed for the current block'')) (\<lambda>_.
     andThen (noError (isAValidator (inAddress (vuProposer t)) (getValidatorAddresses vs))) (\<lambda>_.
     andThen (getInput K view (vuProposer t) True) (\<lambda>proposerAccount.
     require (xVerify K (inSignature (vuProposer t)) (ValidatorSetUpdate_SignBytes K chainID t) (acAddress proposerAccount))
       (err ''SignBytes'')))))))"

text \<open>The loop over the validators: the new set, and an account for each that has none.\<close>

fun installValidators ::
  "('t, 'd, 's) exec_ops \<Rightarrow> validator list \<Rightarrow> validatorset \<Rightarrow> 't storeview \<times> 'd \<Rightarrow> (validatorset \<times> 't storeview \<times> 'd) option" where
  "installValidators K [] vs v = Some (vs, v)"
| "installValidators K (val # vals) vs v = do {
    r \<leftarrow> GetAccount (xS K) (valAddress val) (fst v);
    v1 \<leftarrow> (case r of
        Some _ \<Rightarrow> Some v
      | None \<Rightarrow> SetAccount (xS K) (valAddress val)
          ((NewAccount (xS K) (valAddress val))\<lparr>acLastUpdated := svHeight (fst v)\<rparr>) v);
    installValidators K vals (AddValidator val vs) v1
  }"

definition scom_MapChainID :: "('t, 'd, 's) exec_ops \<Rightarrow> string \<Rightarrow> int" where
  "scom_MapChainID K chainID = xMapChainID K chainID 1000000000"

definition ValSet_process ::
  "('t, 'd, 's) exec_ops \<Rightarrow> string \<Rightarrow> vsupdatetx \<Rightarrow> 't storeview \<times> 'd \<Rightarrow> ((hash \<times> txresult) \<times> 't storeview \<times> 'd) option" where
  "ValSet_process K chainID t v =
    (if svValidatorSetProcessed (fst v)
     then Some ((0, err ''Another subchain validator set update transaction has been processed for the current block''), v)
     else do {
       (newValidatorSet, v1) \<leftarrow> installValidators K (vuValidators t) (NewValidatorSet (vuDynasty t)) v;
       r \<leftarrow> GetDynasty (xS K) (fst v1);
       currentDynasty \<leftarrow> r;
       if vuDynasty t \<le> currentDynasty
       then Some ((0, err ''new dynasty needs to be strictly larger than the current dynasty''), v1)
       else (case xWitnessedValidatorSet K (vuDynasty t) of
           None \<Rightarrow> Some ((0, TxUndecided), v1)
         | Some witnessed \<Rightarrow>
             if \<not> ValidatorSet_Equals newValidatorSet witnessed
             then Some ((0, err ''validator set mismatch''), v1)
             else
               let sv = UpdateValidatorSet (xS K) (scom_MapChainID K chainID) newValidatorSet (fst v1)
               in Some ((xTxID K chainID (SubchainValidatorSetUpdateTx t), TxOK),
                        SetSubchainValidatorSetTransactionProcessed True sv, snd v1))
     })"

section \<open>The executor\<close>

datatype viewselector = DeliveredView | CheckedView | ScreenedView

fun viewOf :: "viewselector \<Rightarrow> ('t, 'd) ledgerstate \<Rightarrow> 't storeview option" where
  "viewOf DeliveredView ls = lsDelivered ls"
| "viewOf CheckedView ls = lsChecked ls"
| "viewOf ScreenedView ls = lsScreened ls"

fun putView :: "viewselector \<Rightarrow> 't storeview \<Rightarrow> ('t, 'd) ledgerstate \<Rightarrow> ('t, 'd) ledgerstate" where
  "putView DeliveredView sv ls = ls\<lparr>lsDelivered := Some sv\<rparr>"
| "putView CheckedView sv ls = ls\<lparr>lsChecked := Some sv\<rparr>"
| "putView ScreenedView sv ls = ls\<lparr>lsScreened := Some sv\<rparr>"

fun isTxTypeSupported :: "('t, 'd, 's) exec_ops \<Rightarrow> 't storeview \<Rightarrow> tx \<Rightarrow> bool" where
  "isTxTypeSupported K view (SmartContractTx _) \<longleftrightarrow> \<not> svHeight view + 1 < xHeightEnableSmartContract K"
| "isTxTypeSupported K view StakeRewardDistributionTx \<longleftrightarrow> \<not> svHeight view + 1 < xHeightEnableTheta3 K"
| "isTxTypeSupported K view _ \<longleftrightarrow> True"

fun txSanityCheck ::
  "('t, 'd, 's) exec_ops \<Rightarrow> string \<Rightarrow> 't storeview \<Rightarrow> tx \<Rightarrow> ('t, 'd, 's) xstate \<Rightarrow> txresult option" where
  "txSanityCheck K chainID view (CoinbaseTx t) s = Coinbase_sanityCheck K chainID view t s"
| "txSanityCheck K chainID view (SubchainValidatorSetUpdateTx t) s = ValSet_sanityCheck K chainID view t s"
| "txSanityCheck K chainID view (SendTx t) s = Send_sanityCheck K chainID view t"
| "txSanityCheck K chainID view (SmartContractTx t) s = Smart_sanityCheck K chainID view t s"
| "txSanityCheck K chainID view _ s = Some (err ''Unknown tx type'')"

definition exec_sanityCheck ::
  "('t, 'd, 's) exec_ops \<Rightarrow> string \<Rightarrow> 't storeview \<Rightarrow> tx \<Rightarrow> ('t, 'd, 's) xstate \<Rightarrow> txresult option" where
  "exec_sanityCheck K chainID view t s =
    (if xSkipSanityCheck K then Some TxOK
     else if \<not> isTxTypeSupported K view t then Some (err ''tx type not supported yet'')
     else txSanityCheck K chainID view t s)"

fun txProcess ::
  "('t, 'd, 's) exec_ops \<Rightarrow> string \<Rightarrow> bool \<Rightarrow> block option \<Rightarrow> block option \<Rightarrow> tx \<Rightarrow> 't storeview \<times> 'd \<Rightarrow> 's chain \<Rightarrow>
    ((hash \<times> txresult) \<times> ('t storeview \<times> 'd) \<times> 's chain) option" where
  "txProcess K chainID delivered pb cb (CoinbaseTx t) v ch =
    (let (r, sv) = Coinbase_process K chainID (fst v) t in Some (r, (sv, snd v), ch))"
| "txProcess K chainID delivered pb cb (SubchainValidatorSetUpdateTx t) v ch =
    do { (r, v1) \<leftarrow> ValSet_process K chainID t v; Some (r, v1, ch) }"
| "txProcess K chainID delivered pb cb (SendTx t) v ch = do { (r, v1) \<leftarrow> Send_process K chainID t v; Some (r, v1, ch) }"
| "txProcess K chainID delivered pb cb (SmartContractTx t) v ch = Smart_process K chainID delivered pb cb t v ch"
| "txProcess K chainID delivered pb cb _ v ch = Some ((0, err ''Unknown tx type''), v, ch)"

definition exec_process ::
  "('t, 'd, 's) exec_ops \<Rightarrow> string \<Rightarrow> bool \<Rightarrow> block option \<Rightarrow> block option \<Rightarrow> tx \<Rightarrow> 't storeview \<times> 'd \<Rightarrow> 's chain \<Rightarrow>
    ((hash \<times> txresult) \<times> ('t storeview \<times> 'd) \<times> 's chain) option" where
  "exec_process K chainID delivered pb cb t v ch =
    (if \<not> isTxTypeSupported K (fst v) t then Some ((0, err ''tx type not supported yet''), v, ch)
     else txProcess K chainID delivered pb cb t v ch)"

definition processTx ::
  "('t, 'd, 's) exec_ops \<Rightarrow> viewselector \<Rightarrow> tx \<Rightarrow> ('t, 'd, 's) xstate \<Rightarrow> ((hash \<times> txresult) \<times> ('t, 'd, 's) xstate) option" where
  "processTx K viewSel t s = do {
    (chainID, ls) \<leftarrow> GetChainID (xS K) (xsState s);
    let s1 = s\<lparr>xsState := ls\<rparr>;
    view \<leftarrow> viewOf viewSel ls;
    res \<leftarrow> exec_sanityCheck K chainID view t s1;
    if res \<noteq> TxOK then Some ((0, res), s1)
    else do {
      (r, v, ch) \<leftarrow> exec_process K chainID (viewSel = DeliveredView) (lsParentBlock ls) (xsCurrent s) t
        (view, lsDB ls) (xsChain s);
      Some (r, s1\<lparr>xsState := (putView viewSel (fst v) ls)\<lparr>lsDB := snd v\<rparr>, xsChain := ch\<rparr>)
    }
  }"

definition ExecuteTx :: "('t, 'd, 's) exec_ops \<Rightarrow> tx \<Rightarrow> ('t, 'd, 's) xstate \<Rightarrow> ((hash \<times> txresult) \<times> ('t, 'd, 's) xstate) option" where
  "ExecuteTx K t s = processTx K DeliveredView t s"

definition CheckTx :: "('t, 'd, 's) exec_ops \<Rightarrow> tx \<Rightarrow> ('t, 'd, 's) xstate \<Rightarrow> ((hash \<times> txresult) \<times> ('t, 'd, 's) xstate) option" where
  "CheckTx K t s = processTx K CheckedView t s"

definition exec_ScreenTx :: "('t, 'd, 's) exec_ops \<Rightarrow> tx \<Rightarrow> ('t, 'd, 's) xstate \<Rightarrow> ((hash \<times> txresult) \<times> ('t, 'd, 's) xstate) option" where
  "exec_ScreenTx K t s = processTx K ScreenedView t s"

record txinfo =
  tiEffectiveGasPrice :: int
  tiAddress :: address
  tiSequence :: uint64

definition Send_effectiveGasPrice :: "('t, 'd, 's) exec_ops \<Rightarrow> sendtx \<Rightarrow> ('t, 'd) ledgerstate \<Rightarrow> int option" where
  "Send_effectiveGasPrice K t ls = do {
    regularGas \<leftarrow> getRegularTxGas K ls;
    let gasSendTxPerAccount = regularGas div 2;
    let gasUint64 = gasSendTxPerAccount * word_of_nat (length (sendInputs t) + length (sendOutputs t));
    let gas = (if gasUint64 < 2 * gasSendTxPerAccount then 2 * gasSendTxPerAccount else gasUint64);
    if gas = 0 then None else Some (coTFuel (sendFee t) div uint gas)
  }"

text \<open>\<open>Some None\<close> is the error for a transaction of an unknown type.\<close>

fun GetTxInfo :: "('t, 'd, 's) exec_ops \<Rightarrow> tx \<Rightarrow> ('t, 'd) ledgerstate \<Rightarrow> txinfo option option" where
  "GetTxInfo K (CoinbaseTx t) ls = Some (Some \<lparr>tiEffectiveGasPrice = 0, tiAddress = 0, tiSequence = 0\<rparr>)"
| "GetTxInfo K (SubchainValidatorSetUpdateTx t) ls = Some (Some \<lparr>tiEffectiveGasPrice = 0, tiAddress = 0, tiSequence = 0\<rparr>)"
| "GetTxInfo K (SendTx t) ls =
    (case sendInputs t of
       [] \<Rightarrow> None
     | inp # _ \<Rightarrow> do {
         price \<leftarrow> Send_effectiveGasPrice K t ls;
         Some (Some \<lparr>tiEffectiveGasPrice = price, tiAddress = inAddress inp, tiSequence = inSequence inp\<rparr>)
       })"
| "GetTxInfo K (SmartContractTx t) ls = do {
    price \<leftarrow> smGasPrice t;
    Some (Some \<lparr>tiEffectiveGasPrice = price, tiAddress = inAddress (smFrom t), tiSequence = inSequence (smFrom t)\<rparr>)
  }"
| "GetTxInfo K _ ls = Some None"

end
