(* ===== verification/Mempool.thy ===== *)
theory Mempool
  imports Execution
begin

text \<open>
  The pool of transactions waiting for a block (\<open>mempool/mempool.go\<close>) and the record of transactions
  seen lately (\<open>mempool/tx_bookkeeper.go\<close>).

  The candidate queue and the map from addresses to groups hold the same groups, one per address: they are
  one list of groups with distinct addresses. The order of a list is the order in which the priority queue
  happens to list its elements. Parameters (\<open>pool_ops\<close>): the hash of a transaction, and which element a
  priority queue of the library pops, given the priorities of its elements in list order (\<open>pq_laws\<close>: one
  of maximal priority). Time is in nanoseconds; each operation reads the clock once.
\<close>

section \<open>Bookkeeper\<close>

datatype txstatus = TxStatusPending | TxStatusAbandoned

text \<open>The records in the map by hash, and the list of hashes with their times, oldest first.\<close>

record bookkeeper =
  tbMap :: "hash \<Rightarrow> txstatus option"
  tbList :: "(hash \<times> int) list"
  tbMaxNumTxs :: nat

record pool_ops =
  plHash :: "bytes \<Rightarrow> hash"
  plTop :: "int list \<Rightarrow> nat"

definition pq_laws :: "pool_ops \<Rightarrow> bool" where
  "pq_laws P \<longleftrightarrow> (\<forall>xs. xs \<noteq> [] \<longrightarrow> plTop P xs < length xs \<and> (\<forall>x \<in> set xs. x \<le> xs ! plTop P xs))"

definition defaultMaxNumTxs :: nat where
  "defaultMaxNumTxs = 200000"

definition maxTxLife :: int where
  "maxTxLife = 60 * 1000000000"

definition createTransactionBookkeeper :: "nat \<Rightarrow> bookkeeper" where
  "createTransactionBookkeeper maxNumTxs = \<lparr>tbMap = (\<lambda>_. None), tbList = [], tbMaxNumTxs = maxNumTxs\<rparr>"

definition tb_reset :: "bookkeeper \<Rightarrow> bookkeeper" where
  "tb_reset tb = tb\<lparr>tbMap := (\<lambda>_. None), tbList := []\<rparr>"

definition IsOutdated :: "int \<Rightarrow> hash \<times> int \<Rightarrow> bool" where
  "IsOutdated now r \<longleftrightarrow> now - snd r > maxTxLife"

fun dropOutdated :: "int \<Rightarrow> (hash \<times> int) list \<Rightarrow> (hash \<Rightarrow> txstatus option) \<Rightarrow> (hash \<times> int) list \<times> (hash \<Rightarrow> txstatus option)" where
  "dropOutdated now [] m = ([], m)"
| "dropOutdated now (r # rs) m = (if \<not> IsOutdated now r then (r # rs, m) else dropOutdated now rs (m(fst r := None)))"

definition removeOutdatedTxsUnsafe :: "int \<Rightarrow> bookkeeper \<Rightarrow> bookkeeper" where
  "removeOutdatedTxsUnsafe now tb =
    (let (rs, m) = dropOutdated now (tbList tb) (tbMap tb) in tb\<lparr>tbList := rs, tbMap := m\<rparr>)"

definition hasSeen :: "pool_ops \<Rightarrow> int \<Rightarrow> bytes \<Rightarrow> bookkeeper \<Rightarrow> bool \<times> bookkeeper" where
  "hasSeen P now rawTx tb =
    (let tb1 = removeOutdatedTxsUnsafe now tb in (tbMap tb1 (plHash P rawTx) \<noteq> None, tb1))"

definition getStatus :: "int \<Rightarrow> hash \<Rightarrow> bookkeeper \<Rightarrow> (txstatus \<times> bool) \<times> bookkeeper" where
  "getStatus now txhash tb =
    (let tb1 = removeOutdatedTxsUnsafe now tb
     in (case tbMap tb1 txhash of None \<Rightarrow> (TxStatusAbandoned, False) | Some st \<Rightarrow> (st, True), tb1))"

definition tb_record :: "pool_ops \<Rightarrow> int \<Rightarrow> bytes \<Rightarrow> bookkeeper \<Rightarrow> bool \<times> bookkeeper" where
  "tb_record P now rawTx tb =
    (let txhash = plHash P rawTx;
         tb1 = removeOutdatedTxsUnsafe now tb
     in if tbMap tb1 txhash \<noteq> None then (False, tb1)
        else
          let tb2 = (if length (tbList tb1) \<ge> tbMaxNumTxs tb1
                     then (case tbList tb1 of
                             [] \<Rightarrow> tb1
                           | popped # rs \<Rightarrow> tb1\<lparr>tbMap := (tbMap tb1)(fst popped := None), tbList := rs\<rparr>)
                     else tb1)
          in (True, tb2\<lparr>tbMap := (tbMap tb2)(txhash := Some TxStatusPending), tbList := tbList tb2 @ [(txhash, now)]\<rparr>))"

definition markAbandoned :: "pool_ops \<Rightarrow> bytes \<Rightarrow> bookkeeper \<Rightarrow> bookkeeper" where
  "markAbandoned P rawTx tb =
    (if tbMap tb (plHash P rawTx) = None then tb
     else tb\<lparr>tbMap := (tbMap tb)(plHash P rawTx := Some TxStatusAbandoned)\<rparr>)"

definition tb_remove :: "pool_ops \<Rightarrow> bytes \<Rightarrow> bookkeeper \<Rightarrow> bookkeeper" where
  "tb_remove P rawTx tb = tb\<lparr>tbMap := (tbMap tb)(plHash P rawTx := None)\<rparr>"

section \<open>Groups of transactions\<close>

record mptx =
  mtRaw :: bytes
  mtInfo :: txinfo

record txgroup =
  tgAddress :: address
  tgTxs :: "mptx list"

definition mptx_Priority :: "mptx \<Rightarrow> int" where
  "mptx_Priority t = - uint (tiSequence (mtInfo t))"

text \<open>A priority queue pops the element its law names.\<close>

definition pqPop :: "pool_ops \<Rightarrow> ('a \<Rightarrow> int) \<Rightarrow> 'a list \<Rightarrow> 'a \<times> 'a list" where
  "pqPop P priority q =
    (let i = plTop P (map priority q) in (q ! i, take i q @ drop (Suc i) q))"

definition txgroup_Priority :: "pool_ops \<Rightarrow> txgroup \<Rightarrow> int" where
  "txgroup_Priority P g =
    (if tgTxs g = [] then -1 else tiEffectiveGasPrice (mtInfo (fst (pqPop P mptx_Priority (tgTxs g)))))"

definition AddTx :: "bytes \<Rightarrow> txinfo \<Rightarrow> txgroup \<Rightarrow> txgroup" where
  "AddTx rawTx info g = g\<lparr>tgTxs := tgTxs g @ [\<lparr>mtRaw = rawTx, mtInfo = info\<rparr>]\<rparr>"

definition PopTx :: "pool_ops \<Rightarrow> txgroup \<Rightarrow> mptx \<times> txgroup" where
  "PopTx P g = (let (t, ts) = pqPop P mptx_Priority (tgTxs g) in (t, g\<lparr>tgTxs := ts\<rparr>))"

definition RemoveTxs :: "bytes list \<Rightarrow> txgroup \<Rightarrow> nat \<times> txgroup" where
  "RemoveTxs committed g =
    (length (filter (\<lambda>t. mtRaw t \<in> set committed) (tgTxs g)),
     g\<lparr>tgTxs := filter (\<lambda>t. mtRaw t \<notin> set committed) (tgTxs g)\<rparr>)"

definition createMempoolTransactionGroup :: "bytes \<Rightarrow> txinfo \<Rightarrow> txgroup" where
  "createMempoolTransactionGroup rawTx info = AddTx rawTx info \<lparr>tgAddress = tiAddress info, tgTxs = []\<rparr>"

section \<open>The pool\<close>

record mempool =
  mpGroups :: "txgroup list"
  mpBookkeeper :: bookkeeper
  mpSize :: int

definition CreateMempool :: mempool where
  "CreateMempool = \<lparr>mpGroups = [], mpBookkeeper = createTransactionBookkeeper defaultMaxNumTxs, mpSize = 0\<rparr>"

datatype inserterror = DuplicateTxError | FastsyncSkipTxError | ScreeningFailed txresult

text \<open>
  \<open>screen\<close> is \<open>ScreenTx\<close> of the ledger, with the ledger's state: the result, and the information about
  the transaction if the result is OK.
\<close>

definition InsertTransaction ::
  "pool_ops \<Rightarrow> int \<Rightarrow> bool \<Rightarrow> (bytes \<Rightarrow> 'l \<Rightarrow> ((txinfo option \<times> txresult) \<times> 'l) option) \<Rightarrow> bytes \<Rightarrow>
    mempool \<times> 'l \<Rightarrow> (inserterror option \<times> mempool \<times> 'l) option" where
  "InsertTransaction P now hasSynced screen rawTx s =
    (let (seen, tb) = hasSeen P now rawTx (mpBookkeeper (fst s));
         mp = (fst s)\<lparr>mpBookkeeper := tb\<rparr>
     in if seen then Some (Some DuplicateTxError, mp, snd s)
        else if \<not> hasSynced then Some (Some FastsyncSkipTxError, mp, snd s)
        else do {
          ((info, res), l) \<leftarrow> screen rawTx (snd s);
          if res \<noteq> TxOK then Some (Some (ScreeningFailed res), mp, l)
          else do {
            txInfo \<leftarrow> info;
            let tb1 = snd (tb_record P now rawTx tb);
            let groups =
              (case find (\<lambda>g. tgAddress g = tiAddress txInfo) (mpGroups mp) of
                 Some g \<Rightarrow> filter (\<lambda>g. tgAddress g \<noteq> tiAddress txInfo) (mpGroups mp) @ [AddTx rawTx txInfo g]
               | None \<Rightarrow> mpGroups mp @ [createMempoolTransactionGroup rawTx txInfo]);
            Some (None, mp\<lparr>mpBookkeeper := tb1, mpGroups := groups, mpSize := mpSize mp + 1\<rparr>, l)
          }
        })"

fun reap_loop :: "pool_ops \<Rightarrow> int \<Rightarrow> nat \<Rightarrow> txgroup list \<Rightarrow> bookkeeper \<Rightarrow> bytes list \<times> txgroup list \<times> bookkeeper" where
  "reap_loop P now 0 groups tb = ([], groups, tb)"
| "reap_loop P now (Suc n) groups tb =
    (if groups = [] then ([], groups, tb)
     else
       let (g, rest) = pqPop P (txgroup_Priority P) groups;
           (t, g1) = PopTx P g;
           ((_, exists), tb1) = getStatus now (plHash P (mtRaw t)) tb;
           (txs, groups1, tb2) = reap_loop P now n (if tgTxs g1 = [] then rest else rest @ [g1]) tb1
       in (if exists then mtRaw t # txs else txs, groups1, tb2))"

definition ReapUnsafe :: "pool_ops \<Rightarrow> int \<Rightarrow> int \<Rightarrow> mempool \<Rightarrow> bytes list \<times> mempool" where
  "ReapUnsafe P now maxNumTxs mp =
    (if maxNumTxs = 0 then ([], mp)
     else
       let n = (if maxNumTxs < 0 then mpSize mp else min (mpSize mp) maxNumTxs);
           (txs, groups, tb) = reap_loop P now (nat n) (mpGroups mp) (mpBookkeeper mp)
       in (txs, mp\<lparr>mpGroups := groups, mpBookkeeper := tb, mpSize := mpSize mp - int (length txs)\<rparr>))"

definition removeTxs :: "bytes list \<Rightarrow> mempool \<Rightarrow> mempool" where
  "removeTxs committed mp =
    (let removed = map (RemoveTxs committed) (mpGroups mp)
     in mp\<lparr>mpGroups := filter (\<lambda>g. tgTxs g \<noteq> []) (map snd removed),
           mpSize := mpSize mp - int (sum_list (map fst removed))\<rparr>)"

text \<open>The scan for obsolete transactions: those the bookkeeper has dropped and those that fail the screening.\<close>

fun screen_loop ::
  "pool_ops \<Rightarrow> int \<Rightarrow> (bytes \<Rightarrow> 'l \<Rightarrow> (txresult \<times> 'l) option) \<Rightarrow> mptx list \<Rightarrow> bookkeeper \<Rightarrow> 'l \<Rightarrow>
    (bytes list \<times> bookkeeper \<times> 'l) option" where
  "screen_loop P now screen [] tb l = Some ([], tb, l)"
| "screen_loop P now screen (t # ts) tb l =
    (let ((_, exists), tb1) = getStatus now (plHash P (mtRaw t)) tb
     in if \<not> exists then do {
          (invalid, tb2, l1) \<leftarrow> screen_loop P now screen ts tb1 l;
          Some (mtRaw t # invalid, tb2, l1)
        } else do {
          (res, l1) \<leftarrow> screen (mtRaw t) l;
          if res \<noteq> TxOK then do {
            (invalid, tb2, l2) \<leftarrow> screen_loop P now screen ts (markAbandoned P (mtRaw t) tb1) l1;
            Some (mtRaw t # invalid, tb2, l2)
          } else screen_loop P now screen ts tb1 l1
        })"

definition UpdateUnsafe ::
  "pool_ops \<Rightarrow> int \<Rightarrow> (bytes \<Rightarrow> 'l \<Rightarrow> (txresult \<times> 'l) option) \<Rightarrow> bytes list \<Rightarrow> mempool \<times> 'l \<Rightarrow> (mempool \<times> 'l) option" where
  "UpdateUnsafe P now screen committed s = do {
    let mp = removeTxs committed (fst s);
    (invalid, tb, l) \<leftarrow> screen_loop P now screen (concat (map tgTxs (mpGroups mp))) (mpBookkeeper mp) (snd s);
    Some (removeTxs invalid (mp\<lparr>mpBookkeeper := tb\<rparr>), l)
  }"

definition GetTransactionStatus :: "int \<Rightarrow> hash \<Rightarrow> mempool \<Rightarrow> (txstatus \<times> bool) \<times> mempool" where
  "GetTransactionStatus now h mp =
    (let (r, tb) = getStatus now h (mpBookkeeper mp) in (r, mp\<lparr>mpBookkeeper := tb\<rparr>))"

definition GetCandidateTransactionHashes :: "pool_ops \<Rightarrow> mempool \<Rightarrow> hash list" where
  "GetCandidateTransactionHashes P mp = map (\<lambda>t. plHash P (mtRaw t)) (concat (map tgTxs (mpGroups mp)))"

end
