(* ===== verification/EngineRun.thy ===== *)
theory EngineRun
  imports Engine
begin

text \<open>
  Runs of the consensus engine: the step relation of \<open>mainLoop\<close>, interleaved with the other users of the
  block store and with restarts of the node, and the invariant of all runs.

  The locale \<open>engine_env\<close> is the interface to the ledger: applying a block changes the block store only
  through the store's own methods.
\<close>

section \<open>Steps\<close>

text \<open>
  The loop is at the start of an epoch (\<open>Entering\<close>) or waits for events (\<open>Waiting\<close>). A message may come
  from a peer or from the engine itself. \<open>others\<close> is a call of the block store by another component, and
  \<open>restart\<close> reloads the state from its store.
\<close>

datatype phase = Entering | Waiting

inductive engine_step ::
  "('s, 'l) engine_ops \<Rightarrow> phase \<times> ('s, 'l) engine \<Rightarrow> phase \<times> ('s, 'l) engine \<Rightarrow> bool" for N where
  enter: "propose N env (enterEpoch e) = Some e' \<Longrightarrow> engine_step N (Entering, e) (Waiting, e')"
| message: "processMessage N env m e = Some (endEpoch, e') \<Longrightarrow>
    engine_step N (Waiting, e) (if endEpoch then Entering else Waiting, e')"
| vote_timer: "(if enBlockProcessed e then castVote N env (e\<lparr>enVoteTimerReady := True\<rparr>) else Some (e\<lparr>enVoteTimerReady := True\<rparr>)) = Some e' \<Longrightarrow>
    engine_step N (Waiting, e) (Waiting, e')"
| epoch_timer: "castVote N env e = Some e' \<Longrightarrow> engine_step N (Waiting, e) (Entering, e')"
| others: "chain_step (oX N) (enChain e) ch \<Longrightarrow> engine_step N (p, e) (p, e\<lparr>enChain := ch\<rparr>)"
| restart: "NewState (oX N) (enChain e) (stStub (enState e)) (stEpochVotes (enState e)) = Some s \<Longrightarrow>
    engine_step N (p, e) (Entering, e\<lparr>enState := s, enLedger := l, enIncoming := []\<rparr>)"

definition engine_run :: "('s, 'l) engine_ops \<Rightarrow> phase \<times> ('s, 'l) engine \<Rightarrow> phase \<times> ('s, 'l) engine \<Rightarrow> bool" where
  "engine_run N = (engine_step N)\<^sup>*\<^sup>*"

section \<open>Invariant\<close>

text \<open>The votes the engine cast, oldest first.\<close>

fun ownVote :: "sent \<Rightarrow> vote list" where
  "ownVote (SentVote v) = [v]"
| "ownVote _ = []"

definition ownVotes :: "('s, 'l) engine \<Rightarrow> vote list" where
  "ownVotes e = concat (map ownVote (enSent e))"

definition heightAt :: "'s chain_ops \<Rightarrow> 's chain \<Rightarrow> hash \<Rightarrow> uint64 option" where
  "heightAt X ch h = (case findBlock X h ch of Got b \<Rightarrow> Some (hHeight b) | _ \<Rightarrow> None)"

text \<open>
  Every vote is for a stored block and carries its height; votes have non-decreasing heights, up to that of
  the last vote; votes of one height are for one block. At height 0 that block is the highest committed one.
\<close>

definition vote_ok :: "'s chain_ops \<Rightarrow> 's chain \<Rightarrow> hash \<Rightarrow> vote \<Rightarrow> vote \<Rightarrow> bool" where
  "vote_ok X ch hcc lv v \<longleftrightarrow>
    heightAt X ch (vBlock v) = Some (vHeight v) \<and> vHeight v \<le> vHeight lv \<and>
    (vHeight v = vHeight lv \<and> vHeight lv \<noteq> 0 \<longrightarrow> vBlock v = vBlock lv) \<and>
    (vHeight v = 0 \<and> heightAt X ch hcc = Some 0 \<longrightarrow> vBlock v = hcc)"

definition votes_agree :: "vote list \<Rightarrow> bool" where
  "votes_agree own \<longleftrightarrow> (\<forall>v \<in> set own. \<forall>w \<in> set own. vHeight v = vHeight w \<longrightarrow> vBlock v = vBlock w)"

definition votes_ok :: "'s chain_ops \<Rightarrow> 's chain \<Rightarrow> hash \<Rightarrow> vote \<Rightarrow> vote list \<Rightarrow> bool" where
  "votes_ok X ch hcc lv own \<longleftrightarrow>
    (vHeight lv \<noteq> 0 \<longrightarrow> heightAt X ch (vBlock lv) = Some (vHeight lv)) \<and>
    (\<forall>v \<in> set own. vote_ok X ch hcc lv v) \<and> sorted (map vHeight own) \<and> votes_agree own"

text \<open>The store holds what the state has in memory, or nothing while the state is new.\<close>

definition stub_ok :: "'s chain \<Rightarrow> cstate \<Rightarrow> bool" where
  "stub_ok ch s \<longleftrightarrow> chRoot ch \<noteq> 0 \<and>
    (case stStub s of
       None \<Rightarrow> stHighestCCBlock s = chRoot ch \<and> stLastFinalizedBlock s = chRoot ch \<and> stLastVote s = emptyVote
     | Some stub \<Rightarrow> ssRoot stub = chRoot ch \<and> ssHighestCCBlock stub = stHighestCCBlock s \<and>
         ssLastFinalizedBlock stub = stLastFinalizedBlock s \<and> ssLastVote stub = stLastVote s)"

definition engine_inv :: "('s, 'l) engine_ops \<Rightarrow> ('s, 'l) engine \<Rightarrow> bool" where
  "engine_inv N e \<longleftrightarrow>
    chain_inv (oX N) (enChain e) \<and>
    heightAt (oX N) (enChain e) (stHighestCCBlock (enState e)) \<noteq> None \<and>
    heightAt (oX N) (enChain e) (stLastFinalizedBlock (enState e)) \<noteq> None \<and>
    stub_ok (enChain e) (enState e) \<and>
    votes_ok (oX N) (enChain e) (stHighestCCBlock (enState e)) (stLastVote (enState e)) (ownVotes e)"

lemma heightAt_not_None: "heightAt X ch h \<noteq> None \<longleftrightarrow> (\<exists>b. findBlock X h ch = Got b)"
  by (simp add: heightAt_def split: got.split)

lemma engine_invD:
  assumes "engine_inv N e"
  shows "chain_inv (oX N) (enChain e)"
    "\<exists>b. findBlock (oX N) (stHighestCCBlock (enState e)) (enChain e) = Got b"
    "\<exists>b. findBlock (oX N) (stLastFinalizedBlock (enState e)) (enChain e) = Got b"
    "stub_ok (enChain e) (enState e)"
    "votes_ok (oX N) (enChain e) (stHighestCCBlock (enState e)) (stLastVote (enState e)) (ownVotes e)"
  using assms by (simp_all only: engine_inv_def heightAt_not_None)

lemma concat_Nils: "concat (map (\<lambda>_. []) xs) = []"
  by (induction xs) simp_all

lemma engine_inv_frame [simp]:
  "engine_inv N (e\<lparr>enLedger := l\<rparr>) = engine_inv N e"
  "engine_inv N (e\<lparr>enHasSynced := b\<rparr>) = engine_inv N e"
  "engine_inv N (e\<lparr>enVoteTimerReady := b\<rparr>) = engine_inv N e"
  "engine_inv N (e\<lparr>enBlockProcessed := b\<rparr>) = engine_inv N e"
  "engine_inv N (e\<lparr>enFinalizedBlocks := bs\<rparr>) = engine_inv N e"
  "engine_inv N (e\<lparr>enIncoming := ms\<rparr>) = engine_inv N e"
  "engine_inv N (e\<lparr>enSent := enSent e @ map SentEpochVote vs\<rparr>) = engine_inv N e"
  "engine_inv N (e\<lparr>enSent := enSent e @ [SentProposal p]\<rparr>) = engine_inv N e"
  by (simp_all add: engine_inv_def ownVotes_def comp_def concat_Nils)

lemma engine_inv_cong:
  assumes "engine_inv N e" "enChain e' = enChain e" "enState e' = enState e" "enSent e' = enSent e"
  shows "engine_inv N e'"
  using assms by (simp add: engine_inv_def ownVotes_def)

lemma ownVotes_simps [simp]:
  "ownVotes (e\<lparr>enChain := ch\<rparr>) = ownVotes e" "ownVotes (e\<lparr>enState := s\<rparr>) = ownVotes e"
  "ownVotes (e\<lparr>enLedger := l\<rparr>) = ownVotes e" "ownVotes (e\<lparr>enIncoming := ms\<rparr>) = ownVotes e"
  "ownVotes (broadcastVote v e) = ownVotes e @ [v]"
  by (simp_all add: ownVotes_def broadcastVote_def)

text \<open>The chain of an engine after another call of the store.\<close>

context chain_store
begin

lemma chRoot_ops [simp]:
  "chRoot (writeVal X k v ch) = chRoot ch" "chRoot (saveBlock X b ch) = chRoot ch"
  "chRoot (AddBlockByHeightIndex X n h ch) = chRoot ch" "chRoot (linkParent X blk snap h ch) = chRoot ch"
  "chRoot (RemoveVotesByHash X h ch) = chRoot ch" "chRoot (AddVoteToIndex X w ch) = chRoot ch"
  "chRoot (AddTxReceipt X blk raw logs bcs ret addr gas err ch) = chRoot ch"
  by (simp_all add: writeVal_def saveBlock_def AddBlockByHeightIndex_def linkParent_def RemoveVotesByHash_def
      AddVoteToIndex_def AddTxReceipt_def Let_def split: got.split)

lemma chRoot_addTxs_loop [simp]: "chRoot (addTxs_loop X b force i txs ch) = chRoot ch"
proof (induction txs arbitrary: i ch)
  case (Cons tx txs)
  then show ?case
    by (cases force) (simp_all add: Let_def insertEthTxHash_def split: option.split)
qed simp

lemma chRoot_addBlock [simp]: "chRoot (snd (addBlock X blk snap ch)) = chRoot ch"
  by (simp add: addBlock_def Let_def AddTxsToIndex_def split: got.split)

lemma chRoot_updateBlock: "updateBlock f X h ch = Some (b, ch') \<Longrightarrow> chRoot ch' = chRoot ch"
  by (auto simp: updateBlock_def split: got.splits)

lemma chRoot_finalize_loop:
  assumes "chain_inv X ch" "FinalizePreviousBlocks X h ch = Some (ok, ch')"
  shows "chRoot ch' = chRoot ch"
proof -
  have "\<exists>ok ch'. finalize_loop X BlockStatusDirectlyFinalized h ch = Some (ok, ch') \<and> chRoot ch' = chRoot ch"
  proof (rule finalize_loop_induct[OF chain_invD(1)[OF assms(1)]])
  qed (simp_all add: IsFinalized_def finalize_one_def AddTxsToIndex_def)
  with assms(2) show ?thesis
    by (simp add: FinalizePreviousBlocks_def)
qed

lemma chRoot_step: "chain_step X ch ch' \<Longrightarrow> chain_inv X ch \<Longrightarrow> chRoot ch' = chRoot ch"
  by (induction rule: chain_step.induct)
    (auto simp: AddBlock_def AddSnapshotRoot_def MarkBlockValid_def MarkBlockInvalid_def MarkBlockHasValidatorUpdate_def
      CommitBlock_def AddTxsToIndex_def FixBlockIndex_def FixMissingChildren_def Let_def
      dest: chRoot_updateBlock chRoot_finalize_loop)

lemma chRoot_reach: "chain_reach X ch ch' \<Longrightarrow> chain_inv X ch \<Longrightarrow> chRoot ch' = chRoot ch"
  unfolding chain_reach_def
proof (induction rule: rtranclp_induct)
  case (step ch' ch'')
  then have "chain_inv X ch'"
    using chain_inv_reach by (simp add: chain_reach_def)
  with step chRoot_step show ?case
    by simp
qed simp

lemma heightAt_reach:
  assumes "chain_reach X ch ch'" "chain_inv X ch" "heightAt X ch h = Some n"
  shows "heightAt X ch' h = Some n"
proof -
  obtain b where b: "findBlock X h ch = Got b" "hHeight b = n"
    using assms(3) by (auto simp: heightAt_def split: got.splits)
  obtain b' where "findBlock X h ch' = Got b'" "block.truncate b' = block.truncate b"
    using blocks_kept_reach[OF assms(1,2)] b(1) unfolding blocks_kept_def by blast
  moreover have "hHeight b' = hHeight b"
    using arg_cong[OF calculation(2), of hHeight] by (simp add: block.defs)
  ultimately show ?thesis
    using b(2) by (simp add: heightAt_def)
qed

end

text \<open>The state after \<open>AddVote\<close>.\<close>

definition withVote :: "('s, 'l) engine_ops \<Rightarrow> vote \<Rightarrow> ('s, 'l) engine \<Rightarrow> ('s, 'l) engine" where
  "withVote N v e = e\<lparr>enChain := AddVoteToIndex (oX N) v (enChain e), enState := AddEpochVote v (enState e)\<rparr>"

text \<open>The votes are sent on when the epoch jumps.\<close>

definition sendEpochVotes :: "vote \<Rightarrow> vote list \<Rightarrow> ('s, 'l) engine \<Rightarrow> ('s, 'l) engine" where
  "sendEpochVotes v vs e =
    (if vEpoch v + 1 > stEpoch (enState e) + 1 then e\<lparr>enSent := enSent e @ map SentEpochVote vs\<rparr> else e)"

lemma sendEpochVotes_eq: "\<exists>sent. sendEpochVotes v vs e = e\<lparr>enSent := enSent e @ map SentEpochVote sent\<rparr>"
proof (cases "vEpoch v + 1 > stEpoch (enState e) + 1")
  case False
  then have "sendEpochVotes v vs e = e\<lparr>enSent := enSent e @ map SentEpochVote []\<rparr>"
    by (simp add: sendEpochVotes_def)
  then show ?thesis ..
qed (auto simp: sendEpochVotes_def)

locale engine_env = chain_store "oX N"
  for N :: "('s, 'l) engine_ops" +
  assumes apply_reach: "lApplyBlockTxs (oL N) env b ch l = Some (r, ch', l') \<Longrightarrow> chain_reach (oX N) ch ch'"

context engine_env
begin

lemma reach1: "chain_step (oX N) ch ch' \<Longrightarrow> chain_reach (oX N) ch ch'"
  by (simp add: chain_reach_def r_into_rtranclp)

lemma reach_trans: "chain_reach (oX N) ch ch' \<Longrightarrow> chain_reach (oX N) ch' ch'' \<Longrightarrow> chain_reach (oX N) ch ch''"
  unfolding chain_reach_def by (rule rtranclp_trans)

lemma vote_ok_kept:
  assumes "\<And>h n. heightAt X ch h = Some n \<Longrightarrow> heightAt X ch' h = Some n" "heightAt X ch' hcc = heightAt X ch hcc"
    and "vote_ok X ch hcc lv v"
  shows "vote_ok X ch' hcc lv v"
  using assms(1)[of "vBlock v" "vHeight v"] assms(2,3) by (simp add: vote_ok_def)

lemma votes_ok_reach:
  assumes reach: "chain_reach (oX N) ch ch'" and inv: "chain_inv (oX N) ch" and hcc: "heightAt (oX N) ch hcc \<noteq> None"
    and ok: "votes_ok (oX N) ch hcc lv own"
  shows "votes_ok (oX N) ch' hcc lv own"
proof -
  note kept = heightAt_reach[OF reach inv]
  have "heightAt (oX N) ch' hcc = heightAt (oX N) ch hcc"
    using hcc kept by fastforce
  then have "\<forall>v \<in> set own. vote_ok (oX N) ch' hcc lv v"
    using ok vote_ok_kept[OF kept] by (simp add: votes_ok_def)
  then show ?thesis
    using ok kept[of "vBlock lv" "vHeight lv"] by (simp add: votes_ok_def)
qed

lemma inv_chain:
  assumes inv: "engine_inv N e" and reach: "chain_reach (oX N) (enChain e) ch"
  shows "engine_inv N (e\<lparr>enChain := ch\<rparr>)"
proof -
  have ci: "chain_inv (oX N) (enChain e)"
    by (rule engine_invD(1)[OF inv])
  have "heightAt (oX N) ch h \<noteq> None" if "heightAt (oX N) (enChain e) h \<noteq> None" for h
    using heightAt_reach[OF reach ci] that by fastforce
  moreover have "stub_ok ch (enState e)"
    using engine_invD(4)[OF inv] chRoot_reach[OF reach ci] by (cases "stStub (enState e)") (simp_all add: stub_ok_def)
  ultimately show ?thesis
    using inv votes_ok_reach[OF reach ci] chain_inv_reach[OF reach ci]
    unfolding engine_inv_def by simp
qed

lemma inv_state:
  assumes "engine_inv N e" "stub_ok (enChain e) s"
    and "stHighestCCBlock s = stHighestCCBlock (enState e)" "stLastFinalizedBlock s = stLastFinalizedBlock (enState e)"
    and "stLastVote s = stLastVote (enState e)"
  shows "engine_inv N (e\<lparr>enState := s\<rparr>)"
  using assms by (simp add: engine_inv_def)

lemma stub_ok_commit: "chRoot ch \<noteq> 0 \<Longrightarrow> stub_ok ch (commit ch s)"
  by (simp add: stub_ok_def commit_def getSummary_def)

lemma stub_ok_same:
  assumes "stub_ok ch s" "stStub s' = stStub s" "stHighestCCBlock s' = stHighestCCBlock s"
    and "stLastFinalizedBlock s' = stLastFinalizedBlock s" "stLastVote s' = stLastVote s"
  shows "stub_ok ch s'"
  using assms by (cases "stStub s") (simp_all add: stub_ok_def)

lemma root_nonzero: "engine_inv N e \<Longrightarrow> chRoot (enChain e) \<noteq> 0"
  by (simp add: engine_inv_def stub_ok_def)

lemma inv_SetEpoch: "engine_inv N e \<Longrightarrow> engine_inv N (e\<lparr>enState := SetEpoch (enChain e) n (enState e)\<rparr>)"
  unfolding SetEpoch_def
  by (rule inv_state, assumption, rule stub_ok_commit, erule root_nonzero) (simp_all add: commit_def)

lemma inv_AddEpochVote:
  assumes "engine_inv N e"
  shows "engine_inv N (e\<lparr>enState := AddEpochVote v (enState e)\<rparr>)"
  by (rule inv_state[OF assms stub_ok_same[OF engine_invD(4)[OF assms]]]) (simp_all add: AddEpochVote_def Let_def)

lemma inv_LastProposal:
  assumes "engine_inv N e"
  shows "engine_inv N (e\<lparr>enState := (enState e)\<lparr>stLastProposal := p\<rparr>\<rparr>)"
  by (rule inv_state[OF assms stub_ok_same[OF engine_invD(4)[OF assms]]]) simp_all

lemma stored_hash:
  assumes "engine_inv N e" "findBlock (oX N) h (enChain e) = Got b"
  shows "hashOf N b = h" "heightAt (oX N) (enChain e) h = Some (hHeight b)"
  using hashes_okD(3)[OF chain_invD(1)[OF engine_invD(1)[OF assms(1)]] assms(2)] assms(2) by (simp_all add: heightAt_def)

lemma inv_SetLastFinalized:
  assumes inv: "engine_inv N e" and b: "findBlock (oX N) h (enChain e) = Got b"
  shows "engine_inv N (e\<lparr>enState := SetLastFinalizedBlock (oX N) (enChain e) b (enState e)\<rparr>)"
proof -
  have "stub_ok (enChain e) (SetLastFinalizedBlock (oX N) (enChain e) b (enState e))"
    unfolding SetLastFinalizedBlock_def by (rule stub_ok_commit[OF root_nonzero[OF inv]])
  with inv stored_hash[OF inv b] show ?thesis
    by (simp add: engine_inv_def SetLastFinalizedBlock_def commit_def)
qed

lemma inv_SetHighestCC:
  assumes inv: "engine_inv N e" and b: "findBlock (oX N) h (enChain e) = Got b"
    and hcc: "highestCC N e = Some hcc" "hHeight hcc < hHeight b"
  shows "engine_inv N (e\<lparr>enState := SetHighestCCBlock (oX N) (enChain e) b (enState e)\<rparr>)"
proof -
  have "stub_ok (enChain e) (SetHighestCCBlock (oX N) (enChain e) b (enState e))"
    unfolding SetHighestCCBlock_def by (rule stub_ok_commit[OF root_nonzero[OF inv]])
  moreover have "hHeight b \<noteq> 0"
    using hcc(2) by auto
  then have "votes_ok (oX N) (enChain e) h (stLastVote (enState e)) (ownVotes e)"
    using engine_invD(5)[OF inv] stored_hash(2)[OF inv b] by (simp add: votes_ok_def vote_ok_def)
  ultimately show ?thesis
    using inv stored_hash[OF inv b] by (simp add: engine_inv_def SetHighestCCBlock_def commit_def)
qed

lemma checkSyncStatus_frame:
  assumes "checkSyncStatus N env e = Some e'"
  shows "\<exists>b. e' = e\<lparr>enHasSynced := b\<rparr>"
proof (cases "stEpochVotes (enState e)")
  case None
  with assms have "e' = e\<lparr>enHasSynced := enHasSynced e\<rparr>"
    by (simp add: checkSyncStatus_def)
  then show ?thesis ..
next
  case (Some vs)
  with assms show ?thesis
    by (auto simp: checkSyncStatus_def Let_def bind_eq_Some_conv)
qed

lemma finalizeBlock_cases:
  assumes "finalizeBlock N env b e = Some (ok, e')"
  obtains "e' = e"
  | hs ch q where "FinalizePreviousBlocks (oX N) (hashOf N b) (enChain e) = Some (ok, ch)"
      "e' = (e\<lparr>enState := SetLastFinalizedBlock (oX N) (enChain e) b (enState e),
            enLedger := lFinalizeState (oL N) (hHeight b) (hStateHash b) (enLedger e),
            enHasSynced := hs, enChain := if ok then AddTxsToIndex (oX N) b True ch else ch,
            enFinalizedBlocks := q\<rparr>)"
proof (cases "enStopped e \<or> e' = e")
  case False
  then obtain lfb where lfb: "lastFinalized N e = Some lfb" "hashOf N b \<noteq> hashOf N lfb"
    using assms by (auto simp: finalizeBlock_def bind_eq_Some_conv split: if_splits)
  define e1 where "e1 = e\<lparr>enState := SetLastFinalizedBlock (oX N) (enChain e) b (enState e),
            enLedger := lFinalizeState (oL N) (hHeight b) (hStateHash b) (enLedger e)\<rparr>"
  obtain e2 where e2: "checkSyncStatus N env e1 = Some e2"
    using assms False lfb by (auto simp: finalizeBlock_def bind_eq_Some_conv e1_def Let_def)
  then obtain hs where hs: "e2 = e1\<lparr>enHasSynced := hs\<rparr>"
    using checkSyncStatus_frame by blast
  obtain ok' ch where fin: "FinalizePreviousBlocks (oX N) (hashOf N b) (enChain e) = Some (ok', ch)"
    using assms False lfb e2 by (auto simp: finalizeBlock_def bind_eq_Some_conv e1_def Let_def hs)
  define q where "q = (if ok' \<and> length (enFinalizedBlocks e) < oQueue N
    then enFinalizedBlocks e @ [block.truncate b] else enFinalizedBlocks e)"
  have "finalizeBlock N env b e = Some (ok', e1\<lparr>enHasSynced := hs,
      enChain := if ok' then AddTxsToIndex (oX N) b True ch else ch, enFinalizedBlocks := q\<rparr>)"
    using False lfb e2[unfolded e1_def hs] fin by (auto simp: finalizeBlock_def e1_def q_def Let_def)
  from this[unfolded assms option.inject prod.inject]
  have eq: "ok = ok'" "e' = e1\<lparr>enHasSynced := hs,
      enChain := if ok' then AddTxsToIndex (oX N) b True ch else ch, enFinalizedBlocks := q\<rparr>"
    by (rule conjunct1, rule conjunct2)
  show ?thesis
    by (rule that(2)[where ch = ch and hs = hs and q = q]) (simp_all only: eq fin e1_def)
next
  case True
  have "e' = e" if "enStopped e"
    using assms that by (simp add: finalizeBlock_def)
  with True show ?thesis
    by (intro that(1)) blast
qed

lemma finalizeBlock_inv:
  assumes inv: "engine_inv N e" and b: "findBlock (oX N) h (enChain e) = Got b" and run: "finalizeBlock N env b e = Some (ok, e')"
  shows "engine_inv N e'" "stHighestCCBlock (enState e') = stHighestCCBlock (enState e)"
    "chain_reach (oX N) (enChain e) (enChain e')" "enSent e' = enSent e"
proof -
  have "engine_inv N e' \<and> stHighestCCBlock (enState e') = stHighestCCBlock (enState e) \<and>
      chain_reach (oX N) (enChain e) (enChain e') \<and> enSent e' = enSent e"
  proof (cases rule: finalizeBlock_cases[OF run])
    case 1
    with inv show ?thesis
      by (simp add: chain_reach_def)
  next
    case (2 hs ch q)
    let ?ch = "if ok then AddTxsToIndex (oX N) b True ch else ch"
    have "chain_reach (oX N) (enChain e) ch"
      using 2(1) by (intro reach1 chain_step.finalize)
    then have reach: "chain_reach (oX N) (enChain e) ?ch"
      by (auto intro: reach_trans reach1 chain_step.add_txs)
    have "engine_inv N e'"
      by (rule engine_inv_cong[OF inv_chain[OF inv_SetLastFinalized[OF inv b], of ?ch]]) (use reach in \<open>simp_all add: 2(2)\<close>)
    with reach show ?thesis
      unfolding 2(2) by (simp add: state_ops)
  qed
  then show "engine_inv N e'" "stHighestCCBlock (enState e') = stHighestCCBlock (enState e)"
    "chain_reach (oX N) (enChain e) (enChain e')" "enSent e' = enSent e"
    by simp_all
qed

text \<open>A block that is stored keeps its header, so it is found with the same hash and height later.\<close>

lemma stored_later:
  assumes inv: "engine_inv N e" and b: "findBlock (oX N) h (enChain e) = Got b" and reach: "chain_reach (oX N) (enChain e) ch"
  shows "\<exists>b'. findBlock (oX N) h ch = Got b' \<and> block.truncate b' = block.truncate b"
  using blocks_kept_reach[OF reach engine_invD(1)[OF inv]] b unfolding blocks_kept_def by blast

lemma truncate_eqD:
  fixes b b' :: extblock
  assumes "block.truncate b' = block.truncate b"
  shows "hHeight b' = hHeight b" "Header_Hash B b' = Header_Hash B b"
proof -
  have eq: "hHeight (block.truncate b) = hHeight b" "Header_Hash B (block.truncate b) = Header_Hash B b" for b :: extblock
    by (simp_all add: block.defs Header_Hash_def calculateHash_def Header_EncodeRLP_def)
  show "hHeight b' = hHeight b" "Header_Hash B b' = Header_Hash B b"
    using assms eq[of b] eq[of b'] by simp_all
qed

lemma highestCC_eq: "highestCC N e = Some b \<longleftrightarrow> findBlock (oX N) (stHighestCCBlock (enState e)) (enChain e) = Got b"
  by (simp add: GetHighestCCBlock_def split: got.split)

lemma commit_inv:
  assumes inv: "engine_inv N e" and run: "CommitBlock (oX N) h (enChain e) = Some ch"
  shows "engine_inv N (e\<lparr>enChain := ch\<rparr>)"
  by (rule inv_chain[OF inv reach1[OF chain_step.commit[OF run]]])

lemma processCC_commit_inv:
  assumes inv: "engine_inv N e" and b: "findBlock (oX N) h (enChain e) = Got b'" "block.truncate b' = block.truncate b"
    and hcc: "highestCC N e = Some hcc" "hHeight hcc < hHeight b"
    and run: "CommitBlock (oX N) k (enChain e) = Some ch"
  shows "engine_inv N (e\<lparr>enState := SetHighestCCBlock (oX N) (enChain e) b (enState e), enChain := ch\<rparr>)"
proof -
  have eq: "SetHighestCCBlock (oX N) (enChain e) b (enState e) = SetHighestCCBlock (oX N) (enChain e) b' (enState e)"
    by (simp add: SetHighestCCBlock_def truncate_eqD(2)[OF b(2)])
  have "engine_inv N (e\<lparr>enState := SetHighestCCBlock (oX N) (enChain e) b (enState e)\<rparr>)"
    unfolding eq by (rule inv_SetHighestCC[OF inv b(1) hcc(1)]) (use hcc(2) truncate_eqD(1)[OF b(2)] in simp)
  from commit_inv[OF this] run show ?thesis
    by simp
qed

lemma processCCBlock_inv:
  assumes inv: "engine_inv N e" and b: "findBlock (oX N) h (enChain e) = Got b" and run: "processCCBlock N env b e = Some e'"
  shows "engine_inv N e'"
proof -
  obtain hcc where hcc: "highestCC N e = Some hcc"
    using run by (auto simp: processCCBlock_def bind_eq_Some_conv)
  show ?thesis
  proof (cases "hHeight b \<le> hHeight hcc")
    case True
    with run hcc inv show ?thesis
      by (simp add: processCCBlock_def)
  next
    case False
    define pre where "pre = (if hParent b = ccBlockHash (hHCC b) then
           (case FindBlock N (hParent b) e of None \<Rightarrow> Some (False, e) | Some parent \<Rightarrow> finalizeBlock N env parent e)
         else Some (True, e))"
    obtain cont e1 where e1: "pre = Some (cont, e1)"
      using run hcc False by (auto simp: processCCBlock_def pre_def[symmetric] bind_eq_Some_conv)
    have e1_inv: "engine_inv N e1 \<and> stHighestCCBlock (enState e1) = stHighestCCBlock (enState e) \<and>
        chain_reach (oX N) (enChain e) (enChain e1)"
      using e1 inv finalizeBlock_inv[OF inv]
      by (auto simp: pre_def chain_reach_def split: if_splits option.splits got.splits)
    show ?thesis
    proof (cases cont)
      case True
      obtain b' where b': "findBlock (oX N) h (enChain e1) = Got b'" "block.truncate b' = block.truncate b"
        using stored_later[OF inv b] e1_inv by blast
      obtain hcc1 where hcc1: "findBlock (oX N) (stHighestCCBlock (enState e)) (enChain e1) = Got hcc1"
          "block.truncate hcc1 = block.truncate hcc"
        using stored_later[OF inv hcc[unfolded highestCC_eq]] e1_inv by blast
      then have "highestCC N e1 = Some hcc1" "hHeight hcc1 < hHeight b"
        using e1_inv False truncate_eqD(1)[OF hcc1(2)] by (simp_all add: highestCC_eq not_le)
      from processCC_commit_inv[OF _ b' this] e1_inv show ?thesis
        using run hcc False e1 True
        by (auto simp: processCCBlock_def pre_def[symmetric] bind_eq_Some_conv Let_def)
    next
      case no: False
      with run hcc False e1 e1_inv show ?thesis
        by (simp add: processCCBlock_def pre_def[symmetric])
    qed
  qed
qed

lemma checkCC_inv:
  assumes inv: "engine_inv N e" and run: "checkCC N env h e = Some e'"
  shows "engine_inv N e'"
proof (cases "findBlock (oX N) h (enChain e)")
  case (Got b)
  with run inv processCCBlock_inv[OF inv Got] show ?thesis
    by (auto simp: checkCC_def bind_eq_Some_conv Let_def split: if_splits)
qed (use run inv in \<open>auto simp: checkCC_def split: if_splits\<close>)

section \<open>Votes\<close>

lemma votes_agree_snoc:
  assumes "votes_agree own" "\<And>w. w \<in> set own \<Longrightarrow> vHeight w = vHeight v \<Longrightarrow> vBlock w = vBlock v"
  shows "votes_agree (own @ [v])"
  unfolding votes_agree_def
proof (intro ballI impI)
  fix x y
  assume "x \<in> set (own @ [v])" "y \<in> set (own @ [v])" "vHeight x = vHeight y"
  then show "vBlock x = vBlock y"
    using assms(1)[unfolded votes_agree_def, rule_format, of x y] assms(2)[of x] assms(2)[of y] by auto
qed

lemma sorted_snoc:
  assumes "sorted (map f xs)" "\<And>x. x \<in> set xs \<Longrightarrow> f x \<le> f y"
  shows "sorted (map f (xs @ [y]))"
  using assms by (simp add: sorted_append)

lemma votes_ok_repeat:
  assumes ok: "votes_ok X ch hcc lv own" and v: "vBlock v = vBlock lv" "vHeight v = vHeight lv" "vHeight lv \<noteq> 0"
  shows "votes_ok X ch hcc lv (own @ [v])"
proof -
  have own: "vote_ok X ch hcc lv w" if "w \<in> set own" for w
    using ok that by (simp add: votes_ok_def)
  have "vote_ok X ch hcc lv v"
    using ok v by (simp add: votes_ok_def vote_ok_def)
  moreover have "votes_agree (own @ [v])"
    by (rule votes_agree_snoc) (use ok v own in \<open>simp_all add: votes_ok_def vote_ok_def\<close>)
  moreover have "sorted (map vHeight (own @ [v]))"
    by (rule sorted_snoc) (use ok v own in \<open>simp_all add: votes_ok_def vote_ok_def\<close>)
  ultimately show ?thesis
    using ok by (simp add: votes_ok_def)
qed

lemma votes_ok_new:
  assumes ok: "votes_ok X ch hcc lv own" and v: "heightAt X ch (vBlock v) = Some (vHeight v)"
    and up: "vHeight lv = 0 \<or> vHeight lv < vHeight v" and zero: "vHeight v = 0 \<Longrightarrow> vBlock v = hcc"
  shows "votes_ok X ch hcc v (own @ [v])"
proof -
  have old: "vHeight w < vHeight v \<or> vHeight w = 0 \<and> vHeight v = 0 \<and> vBlock w = vBlock v" if "w \<in> set own" for w
  proof (cases "vHeight v = 0")
    case True
    have "vHeight w \<le> vHeight lv" "vHeight w = 0 \<and> heightAt X ch hcc = Some 0 \<longrightarrow> vBlock w = hcc"
      using ok that by (simp_all add: votes_ok_def vote_ok_def)
    with True up zero v show ?thesis
      by auto
  next
    case False
    have "vHeight w \<le> vHeight lv"
      using ok that by (simp add: votes_ok_def vote_ok_def)
    with up False show ?thesis
      by (auto simp: word_neq_0_conv)
  qed
  have "vote_ok X ch hcc v w" if "w \<in> set own" for w
    using ok that old[OF that] by (auto simp: votes_ok_def vote_ok_def)
  moreover have "vote_ok X ch hcc v v"
    using v zero by (simp add: vote_ok_def)
  moreover have "votes_agree (own @ [v])"
    by (rule votes_agree_snoc) (use ok in \<open>simp add: votes_ok_def\<close>, use old in force)
  moreover have "sorted (map vHeight (own @ [v]))"
    by (rule sorted_snoc) (use ok in \<open>simp add: votes_ok_def\<close>, use old in force)
  ultimately show ?thesis
    using v by (simp add: votes_ok_def)
qed

text \<open>The search for the tip returns a stored block, its first candidate or a higher one.\<close>

lemma loadChildren_stored: "loadChildren X ch hs = Some bs \<Longrightarrow> \<forall>b \<in> set bs. \<exists>h. findBlock X h ch = Got b"
  by (induction hs arbitrary: bs) (auto split: got.splits)

lemma tip_loop_partial:
  assumes "tip_loop X ch incl c stack = Some t"
  shows "(t = c \<or> hHeight c < hHeight t) \<and>
    ((\<exists>h. findBlock X h ch = Got c) \<longrightarrow> (\<forall>b \<in> set stack. \<exists>h. findBlock X h ch = Got b) \<longrightarrow> (\<exists>h. findBlock X h ch = Got t))"
proof (rule tip_loop.raw_induct[OF _ assms], goal_cases)
  case (1 loop X ch incl c stack t)
  show ?case
  proof (cases stack)
    case Nil
    with 1(2) show ?thesis
      by simp
  next
    case (Cons a rest)
    note run = 1(2)[unfolded Cons list.case]
    show ?thesis
    proof (cases "IsValid (eStatus a) \<and> (incl \<or> \<not> eHasValidatorUpdate a)")
      case True
      then obtain cs where cs: "loadChildren X ch (eChildren a) = Some cs"
        and rec: "loop X ch incl (if hHeight c < hHeight a then a else c) (rev cs @ rest) = Some t"
        using run by (auto split: option.splits)
      have "\<forall>b \<in> set cs. \<exists>h. findBlock X h ch = Got b"
        by (rule loadChildren_stored[OF cs])
      with 1(1)[OF rec] show ?thesis
        unfolding Cons by (cases "hHeight c < hHeight a") auto
    next
      case False
      then have "loop X ch incl c rest = Some t"
        using run by (auto split: if_splits)
      from 1(1)[OF this] show ?thesis
        unfolding Cons by auto
    qed
  qed
qed

lemma GetTip_stored:
  assumes "engine_inv N e" "GetTip N incl e = Some tip"
  obtains h hcc where "findBlock (oX N) h (enChain e) = Got tip" "highestCC N e = Some hcc" "tip = hcc \<or> hHeight hcc < hHeight tip"
proof -
  obtain hcc where hcc: "highestCC N e = Some hcc" and run: "tip_loop (oX N) (enChain e) incl hcc [hcc] = Some tip"
    using assms(2) by (auto simp: GetTip_def bind_eq_Some_conv)
  have "\<exists>h. findBlock (oX N) h (enChain e) = Got hcc"
    using hcc by (auto simp: highestCC_eq)
  with tip_loop_partial[OF run] obtain h where "findBlock (oX N) h (enChain e) = Got tip"
    by auto
  with hcc tip_loop_partial[OF run] show ?thesis
    by (intro that) auto
qed

lemma createVote_fields:
  assumes "createVote N env b e = Some v"
  shows "vBlock v = hashOf N b" "vHeight v = hHeight b" "vID v = oAddr N" "vEpoch v = stEpoch (enState e)"
  using assms by (auto simp: createVote_def Sign_def SetSignature_def)

lemma broadcast_inv:
  assumes "engine_inv N e" "votes_ok (oX N) (enChain e) (stHighestCCBlock (enState e)) (stLastVote (enState e)) (ownVotes e @ [v])"
  shows "engine_inv N ((broadcastVote v e)\<lparr>enIncoming := ms\<rparr>)"
  using assms by (simp add: engine_inv_def) (simp add: broadcastVote_def)

lemma castVote_inv:
  assumes inv: "engine_inv N e" and run: "castVote N env e = Some e'"
  shows "engine_inv N e'"
proof -
  obtain tip should where tip: "GetTipToVote N e = Some tip" "shouldVote N (hashOf N tip) e = Some should"
    using run by (auto simp: castVote_def bind_eq_Some_conv)
  show ?thesis
  proof (cases should)
    case False
    with run tip inv show ?thesis
      by (simp add: castVote_def)
  next
    case True
    let ?lv = "stLastVote (enState e)"
    obtain again where again: "shouldRepeatVote N tip e = Some again"
      using run tip True by (auto simp: castVote_def bind_eq_Some_conv)
    note votes = engine_invD(5)[OF inv]
    show ?thesis
    proof (cases again)
      case yes: True
      obtain b v where b: "findBlock (oX N) (vBlock ?lv) (enChain e) = Got b" and v: "createVote N env b e = Some v"
        and e': "e' = (broadcastVote v e)\<lparr>enIncoming := enIncoming (broadcastVote v e) @ [MsgVote v]\<rparr>"
        using run tip True again yes
        by (auto simp: castVote_def bind_eq_Some_conv Let_def split: got.splits)
      have nz: "vHeight ?lv \<noteq> 0"
        using again yes by (auto simp: shouldRepeatVote_def Let_def bind_eq_Some_conv split: if_splits)
      then have "heightAt (oX N) (enChain e) (vBlock ?lv) = Some (vHeight ?lv)"
        using votes by (simp add: votes_ok_def)
      then have "vBlock v = vBlock ?lv" "vHeight v = vHeight ?lv"
        using createVote_fields[OF v] stored_hash[OF inv b] by simp_all
      from votes_ok_repeat[OF votes this nz] show ?thesis
        unfolding e' by (rule broadcast_inv[OF inv])
    next
      case no: False
      define e1 where "e1 v = e\<lparr>enState := SetLastVote (enChain e) v (enState e)\<rparr>" for v
      obtain v where v: "createVote N env tip e = Some v"
        and e': "e' = (broadcastVote v (e1 v))\<lparr>enIncoming := enIncoming (broadcastVote v (e1 v)) @ [MsgVote v]\<rparr>"
        using run tip True again no
        by (auto simp: castVote_def bind_eq_Some_conv Let_def e1_def)
      obtain h hcc where h: "findBlock (oX N) h (enChain e) = Got tip"
        and hcc: "highestCC N e = Some hcc" "tip = hcc \<or> hHeight hcc < hHeight tip"
        using GetTip_stored[OF inv tip(1)[unfolded GetTipToVote_def]] by blast
      have hv: "heightAt (oX N) (enChain e) (vBlock v) = Some (vHeight v)"
        using createVote_fields[OF v] stored_hash[OF inv h] by simp
      have up: "vHeight ?lv = 0 \<or> vHeight ?lv < vHeight v"
        using again no createVote_fields(2)[OF v] by (auto simp: shouldRepeatVote_def Let_def split: if_splits)
      have zero: "vBlock v = stHighestCCBlock (enState e)" if "vHeight v = 0"
        using that hcc createVote_fields[OF v] stored_hash(1)[OF inv hcc(1)[unfolded highestCC_eq]] by auto
      have ok: "votes_ok (oX N) (enChain e) (stHighestCCBlock (enState e)) v (ownVotes e @ [v])"
        by (rule votes_ok_new[OF votes hv up zero])
      have "stub_ok (enChain e) (SetLastVote (enChain e) v (enState e))"
        unfolding SetLastVote_def by (rule stub_ok_commit[OF root_nonzero[OF inv]])
      with inv ok show ?thesis
        unfolding e' e1_def by (simp add: engine_inv_def) (simp add: broadcastVote_def state_ops)
    qed
  qed
qed

section \<open>Handlers\<close>

lemma withVote_inv:
  assumes "engine_inv N e"
  shows "engine_inv N (withVote N v e)"
proof -
  have "engine_inv N (e\<lparr>enChain := AddVoteToIndex (oX N) v (enChain e)\<rparr>)"
    by (rule inv_chain[OF assms reach1[OF chain_step.add_vote]])
  from inv_AddEpochVote[OF this] show ?thesis
    by (simp add: withVote_def)
qed

lemma withVote_simps [simp]:
  "stEpoch (enState (withVote N v e)) = stEpoch (enState e)" "enSent (withVote N v e) = enSent e"
  by (simp_all add: withVote_def AddEpochVote_def Let_def)

lemma handleVote_eq:
  "handleVote N env v e =
    (if Vote_Validate (bCrypto (cB (oX N))) v \<noteq> OK then Some (False, e)
     else do {
       let e1 = withVote N v e;
       lfb \<leftarrow> lastFinalized N e1;
       nextValidators \<leftarrow> nextValidatorSet N e1 (hashOf N lfb);
       if vEpoch v \<ge> stEpoch (enState e) then do {
         allEpochVotes \<leftarrow> stEpochVotes (enState e1);
         let current = AddVotes (filter (\<lambda>w. vEpoch w \<ge> vEpoch v) (Votes allEpochVotes)) NewVoteSet;
         if HasMajority nextValidators current then do {
           let e2 = sendEpochVotes v (Votes current) e1;
           tip \<leftarrow> GetTipToExtend N e2;
           p \<leftarrow> GetNextProposer (oRand N) (GetFinalizedValidatorSet N e2) (hashOf N tip) (vEpoch v + 1);
           e4 \<leftarrow> checkSyncStatus N env (e2\<lparr>enState := SetEpoch (enChain e2) (vEpoch v + 1) (enState e2)\<rparr>);
           Some (True, e4)
         } else Some (False, e1)
       } else Some (False, e1)
     })"
  unfolding handleVote_def State_AddVote_def Let_def prod.case withVote_def[symmetric] sendEpochVotes_def withVote_simps
  by (rule refl)

lemma handleVote_cases:
  assumes run: "handleVote N env v e = Some (endEpoch, e')"
  obtains "e' = e" "\<not> endEpoch" | "e' = withVote N v e" "\<not> endEpoch"
  | hs sent where "endEpoch" "stEpoch (enState e) \<le> vEpoch v"
      "e' = (withVote N v e)\<lparr>enSent := enSent e @ map SentEpochVote sent,
              enState := SetEpoch (enChain (withVote N v e)) (vEpoch v + 1) (enState (withVote N v e)), enHasSynced := hs\<rparr>"
proof (cases "\<not> endEpoch")
  case True
  then show ?thesis
    using run that(1,2) unfolding handleVote_eq
    by (auto simp: Let_def bind_eq_Some_conv split: if_splits)
next
  case False
  define e1 where "e1 = withVote N v e"
  obtain vs e2 where le: "stEpoch (enState e) \<le> vEpoch v" and e2: "e2 = sendEpochVotes v vs e1"
    and sync: "checkSyncStatus N env (e2\<lparr>enState := SetEpoch (enChain e2) (vEpoch v + 1) (enState e2)\<rparr>) = Some e'"
    using run False unfolding handleVote_eq e1_def
    by (auto simp: Let_def bind_eq_Some_conv split: if_splits)
  obtain sent where "e2 = e1\<lparr>enSent := enSent e1 @ map SentEpochVote sent\<rparr>"
    using sendEpochVotes_eq e2 by metis
  with checkSyncStatus_frame[OF sync] obtain hs where
    "e' = e1\<lparr>enSent := enSent e @ map SentEpochVote sent, enState := SetEpoch (enChain e1) (vEpoch v + 1) (enState e1),
        enHasSynced := hs\<rparr>"
    by (auto simp: e1_def)
  with False le show ?thesis
    unfolding e1_def by (intro that(3)) auto
qed

lemma handleVote_inv:
  assumes inv: "engine_inv N e" and run: "handleVote N env v e = Some (endEpoch, e')"
  shows "engine_inv N e'"
proof (cases rule: handleVote_cases[OF run])
  case (3 hs sent)
  let ?e1 = "withVote N v e"
  have "engine_inv N (?e1\<lparr>enSent := enSent ?e1 @ map SentEpochVote sent\<rparr>)"
    unfolding engine_inv_frame by (rule withVote_inv[OF inv])
  from inv_SetEpoch[OF this] show ?thesis
    unfolding 3(3) by simp
qed (use inv withVote_inv[OF inv] in auto)

lemma handleVotes_inv: "engine_inv N e \<Longrightarrow> handleVotes N env vs e = Some e' \<Longrightarrow> engine_inv N e'"
  by (induction vs arbitrary: e) (auto simp: bind_eq_Some_conv intro: handleVote_inv)

lemma markBlock_inv:
  assumes "engine_inv N e" "markBlock f N h e = Some e'" "f \<in> {MarkBlockValid, MarkBlockInvalid, MarkBlockHasValidatorUpdate}"
  shows "engine_inv N e'"
  using assms
  by (auto simp: markBlock_def bind_eq_Some_conv intro!: inv_chain reach1
      intro: chain_step.mark_valid chain_step.mark_invalid chain_step.mark_update)

lemma applyAndVote_inv:
  assumes inv: "engine_inv N e" and run: "applyAndVote N env eb e = Some e'"
  shows "engine_inv N e'"
proof -
  obtain res ch l where app: "lApplyBlockTxs (oL N) env (block.truncate eb) (enChain e) (enLedger e) = Some (res, ch, l)"
    using run by (auto simp: applyAndVote_def bind_eq_Some_conv)
  have e1: "engine_inv N (e\<lparr>enChain := ch, enLedger := l\<rparr>)"
    using inv_chain[OF inv apply_reach[OF app]] by simp
  show ?thesis
  proof (cases res)
    case (ApplyOK upd)
    then obtain e2 e3 e4 where
      "(if upd then markBlock MarkBlockHasValidatorUpdate N (hashOf N eb) (e\<lparr>enChain := ch, enLedger := l\<rparr>)
        else Some (e\<lparr>enChain := ch, enLedger := l\<rparr>)) = Some e2"
      and e3: "markBlock MarkBlockValid N (hashOf N eb) e2 = Some e3"
      and e4: "e4 = e3 \<or> e4 = e3\<lparr>enBlockProcessed := True\<rparr> \<or> castVote N env (e3\<lparr>enBlockProcessed := True\<rparr>) = Some e4"
      and e': "checkCC N env (hashOf N eb) e4 = Some e'"
      using run by (auto simp: applyAndVote_def app bind_eq_Some_conv Let_def split: if_splits)
    then have "engine_inv N e2"
      using e1 markBlock_inv[OF e1] by (cases upd) auto
    from markBlock_inv[OF this e3] have "engine_inv N e3" "engine_inv N (e3\<lparr>enBlockProcessed := True\<rparr>)"
      by simp_all
    then have "engine_inv N e4"
      using e4 castVote_inv by blast
    from checkCC_inv[OF this e'] show ?thesis .
  next
    case ApplyError
    then have "markBlock MarkBlockInvalid N (hashOf N eb) (e\<lparr>enChain := ch, enLedger := l\<rparr>) = Some e'"
      using run by (simp add: applyAndVote_def app)
    from markBlock_inv[OF e1 this] show ?thesis
      by simp
  next
    case ApplyUndecided
    with run e1 show ?thesis
      by (simp add: applyAndVote_def app)
  qed
qed

lemma handleNormalBlock_inv:
  assumes inv: "engine_inv N e" and run: "handleNormalBlock N env eb e = Some e'"
  shows "engine_inv N e'"
proof (cases "IsPending (eStatus eb)")
  case True
  obtain parent res where parent: "FindBlock N (hParent eb) e = Some parent"
    and res: "validateBlock N (block.truncate eb) parent e = Some res"
    using run True by (auto simp: handleNormalBlock_def bind_eq_Some_conv)
  show ?thesis
  proof (cases "IsError res")
    case True
    then have "markBlock MarkBlockInvalid N (hashOf N eb) e = Some e'"
      using run \<open>IsPending (eStatus eb)\<close> parent res by (simp add: handleNormalBlock_def)
    from markBlock_inv[OF inv this] show ?thesis
      by simp
  next
    case False
    then obtain votes e1 hcc where votes: "ccVotes (hHCC eb) = Some votes" "handleVotes N env (Votes votes) e = Some e1"
        "highestCC N e1 = Some hcc"
      using run True parent res by (auto simp: handleNormalBlock_def bind_eq_Some_conv)
    then obtain e2 where
      e2: "(if hashOf N hcc \<noteq> ccBlockHash (hHCC eb) then checkCC N env (ccBlockHash (hHCC eb)) e1 else Some e1) = Some e2"
      using run True parent res False by (auto simp: handleNormalBlock_def bind_eq_Some_conv)
    obtain reset l where reset: "lResetState (oL N) (block.truncate parent) (enLedger e2) = (reset, l)"
      by fastforce
    have e': "(if IsError reset then markBlock MarkBlockInvalid N (hashOf N eb) (e2\<lparr>enLedger := l\<rparr>)
        else applyAndVote N env eb (e2\<lparr>enLedger := l\<rparr>)) = Some e'"
      using run True parent res False by (simp add: handleNormalBlock_def votes e2 reset Let_def)
    note e1 = votes(2)
    have "engine_inv N e2"
      using e2 handleVotes_inv[OF inv e1] checkCC_inv[OF handleVotes_inv[OF inv e1]]
      by (cases "hashOf N hcc = ccBlockHash (hHCC eb)") simp_all
    then have e3: "engine_inv N (e2\<lparr>enLedger := l\<rparr>)"
      by simp
    show ?thesis
      using e' markBlock_inv[OF e3] applyAndVote_inv[OF e3] by (cases "IsError reset") simp_all
  qed
qed (use run inv in \<open>simp add: handleNormalBlock_def\<close>)

lemma processMessage_inv:
  assumes inv: "engine_inv N e" and run: "processMessage N env m e = Some (endEpoch, e')" and hc: "oHardcode N = HardcodeBlockHashes"
  shows "engine_inv N e'"
proof (cases m)
  case (MsgVote v)
  with run inv show ?thesis
    by (auto simp: processMessage_def bind_eq_Some_conv intro: handleVote_inv checkCC_inv)
next
  case (MsgBlock b)
  with run inv hc show ?thesis
    by (auto simp: processMessage_def handleBlock_def bind_eq_Some_conv HardcodeBlockHashes_def intro: handleNormalBlock_inv)
qed

lemma createProposal_frame:
  assumes "createProposal N env majority e = Some (p, e')"
  shows "\<exists>l. e' = e\<lparr>enLedger := l\<rparr>" and "p = Some q \<Longrightarrow> pBlock q = Some b \<Longrightarrow> hHash b = 0"
proof -
  obtain tip where tip: "GetTipToExtend N e = Some tip"
    using assms by (auto simp: createProposal_def bind_eq_Some_conv)
  obtain reset l1 where reset: "lResetState (oL N) (block.truncate tip) (enLedger e) = (reset, l1)"
    by fastforce
  have "\<not> IsError reset"
    using assms by (auto simp: createProposal_def tip reset Let_def split: if_splits)
  then obtain blk where blk: "assembleBlock N env tip (e\<lparr>enLedger := l1\<rparr>) = Some blk"
    using assms by (auto simp: createProposal_def tip reset Let_def bind_eq_Some_conv)
  obtain newRoot txs res l2 where ptxs: "lProposeBlockTxs (oL N) env blk majority (enChain e) l1 = Some ((newRoot, txs, res), l2)"
    using assms \<open>\<not> IsError reset\<close> by (auto simp: createProposal_def tip reset blk Let_def bind_eq_Some_conv)
  have "hHash blk = 0"
    using blk by (auto simp: assembleBlock_def bind_eq_Some_conv newBlock_def)
  moreover have run: "(case res of
         ApplyOK _ \<Rightarrow> do {
           let blk1 = (AddTxs (cB (oX N)) txs blk)\<lparr>hStateHash := newRoot\<rparr>;
           sig \<leftarrow> oSign N (Header_SignBytes (cB (oX N)) blk1);
           votes \<leftarrow> proposalVotes N (e\<lparr>enLedger := l2\<rparr>);
           Some (Some \<lparr>pBlock = Some (Header_SetSignature sig blk1), pProposerID = oAddr N, pVotes = Some votes\<rparr>, e\<lparr>enLedger := l2\<rparr>)
         }
       | _ \<Rightarrow> Some (None, e\<lparr>enLedger := l2\<rparr>)) = Some (p, e')"
    using assms \<open>\<not> IsError reset\<close> by (simp add: createProposal_def tip reset blk ptxs Let_def)
  ultimately show "\<exists>l. e' = e\<lparr>enLedger := l\<rparr>" and "p = Some q \<Longrightarrow> pBlock q = Some b \<Longrightarrow> hHash b = 0"
    by (auto simp: bind_eq_Some_conv Let_def Header_SetSignature_def AddTxs_def updateTxHash_def split: applyresult.splits)
qed

lemma sendProposal_inv: "engine_inv N e \<Longrightarrow> engine_inv N (sendProposal p e)"
  by (auto simp: sendProposal_def engine_inv_def ownVotes_def)

lemma proposeNew_inv:
  assumes inv: "engine_inv N e" and run: "proposeNew N env majority e = Some e'"
  shows "engine_inv N e'"
proof -
  obtain p e1 where cr: "createProposal N env majority e = Some (p, e1)"
    using run by (auto simp: proposeNew_def bind_eq_Some_conv)
  obtain l where e1: "e1 = e\<lparr>enLedger := l\<rparr>"
    using createProposal_frame(1)[OF cr] by blast
  show ?thesis
  proof (cases p)
    case None
    with run cr have "e' = e1"
      by (simp add: proposeNew_def)
    with inv e1 show ?thesis
      by simp
  next
    case (Some q)
    let ?e2 = "e1\<lparr>enState := (enState e1)\<lparr>stLastProposal := q\<rparr>\<rparr>"
    obtain blk where blk: "pBlock q = Some blk"
      using run cr Some by (auto simp: proposeNew_def bind_eq_Some_conv Let_def)
    obtain r ch where add: "AddBlock (oX N) blk (enChain ?e2) = (r, ch)"
      by fastforce
    have e': "e' = sendProposal q (?e2\<lparr>enChain := ch\<rparr>)"
      using run cr Some blk add by (auto simp: proposeNew_def Let_def split: addresult.splits)
    have "cache_ok (cB (oX N)) blk"
      using createProposal_frame(2)[OF cr Some blk] by (simp add: cache_ok_def)
    from chain_step.add_block[OF this, of "enChain ?e2"] add have "chain_step (oX N) (enChain ?e2) ch"
      by simp
    moreover have "engine_inv N ?e2"
      by (rule inv_LastProposal) (simp add: e1 inv)
    ultimately show ?thesis
      unfolding e' by (intro sendProposal_inv inv_chain reach1)
  qed
qed

lemma propose_inv: "engine_inv N e \<Longrightarrow> propose N env e = Some e' \<Longrightarrow> engine_inv N e'"
  by (auto simp: propose_def bind_eq_Some_conv sendProposal_inv intro: proposeNew_inv split: if_splits option.splits)

lemma restart_inv:
  assumes inv: "engine_inv N e" and run: "NewState (oX N) (enChain e) (stStub (enState e)) vs = Some s"
  shows "engine_inv N (e\<lparr>enState := s\<rparr>)"
proof (rule inv_state[OF inv])
  have ok: "stub_ok (enChain e) (enState e)"
    by (rule engine_invD(4)[OF inv])
  obtain epoch where s: "s = State_Load (enChain e)
      \<lparr>stHighestCCBlock = chRoot (enChain e), stLastFinalizedBlock = chRoot (enChain e), stLastProposal = emptyProposal,
       stLastVote = emptyVote, stEpoch = epoch, stStub = stStub (enState e), stEpochVotes = vs\<rparr>"
    using run by (auto simp: NewState_def split: got.splits)
  show "stHighestCCBlock s = stHighestCCBlock (enState e)" "stLastFinalizedBlock s = stLastFinalizedBlock (enState e)"
    "stLastVote s = stLastVote (enState e)" "stub_ok (enChain e) s"
    using ok unfolding s by (cases "stStub (enState e)"; simp add: stub_ok_def State_Load_def Let_def emptyStub_def)+
qed

lemma engine_step_inv:
  assumes "engine_step N pe pe'" "oHardcode N = HardcodeBlockHashes" "engine_inv N (snd pe)"
  shows "engine_inv N (snd pe')"
  using assms
proof (induction rule: engine_step.induct)
  case (enter env e e')
  then show ?case
    using propose_inv[of "enterEpoch e" env e'] by (simp add: enterEpoch_def)
next
  case (vote_timer e env e')
  then show ?case
    using castVote_inv[of "e\<lparr>enVoteTimerReady := True\<rparr>" env e'] by (auto split: if_splits)
next
  case (others e ch p)
  then show ?case
    by (simp add: inv_chain reach1)
next
  case (restart e s l)
  then show ?case
    using restart_inv[of e _ s] by auto
next
  case (message env m e endEpoch e')
  then show ?case
    using processMessage_inv[of e env m endEpoch e'] by simp
next
  case (epoch_timer env e e')
  then show ?case
    using castVote_inv[of e env e'] by simp
qed

lemma engine_run_inv:
  assumes "engine_run N pe pe'" "oHardcode N = HardcodeBlockHashes" "engine_inv N (snd pe)"
  shows "engine_inv N (snd pe')"
  using assms(1,3) unfolding engine_run_def
proof (induction rule: rtranclp_induct)
  case (step y z)
  then show ?case
    using engine_step_inv[OF step(2) assms(2)] by simp
qed

end

end
