(* ===== verification/Ledger.thy ===== *)
theory Ledger
  imports Mempool EngineRun
begin

text \<open>
  The ledger (\<open>ledger/ledger.go\<close>): it proposes the transactions of a new block, applies those of a
  received one, screens the transactions of the pool, and resets or finalizes its state. It implements the
  interface \<open>ledger_ops\<close> of the consensus engine.

  Parameters (\<open>ledger_params\<close>): those of the executors and of the pool, the key that signs special
  transactions, the random generator of the proposer selection, and \<open>Tag\<close> of the database. The update of
  the pool after a block, which the code starts in a goroutine, is the operation \<open>updateMempool\<close>. Pruning
  is disabled in the code (\<open>PruneState\<close> returns at once) and left out. A panic or \<open>log.Fatal\<close> is \<open>None\<close>.
\<close>

section \<open>State\<close>

record ('t, 'd, 's) ledger_params =
  gK :: "('t, 'd, 's) exec_ops"
  gP :: pool_ops
  gSign :: "bytes \<Rightarrow> signature option"
  gCoinbaseSetSignature :: "address \<Rightarrow> signature \<Rightarrow> coinbasetx \<Rightarrow> coinbasetx"
  gRand :: rand_ops
  gTag :: "uint64 \<Rightarrow> hash \<Rightarrow> 'd \<Rightarrow> 'd"

record ('t, 'd) ledger =
  lgState :: "('t, 'd) ledgerstate"
  lgMempool :: mempool

text \<open>The parameters of the executors with what the witness knows now.\<close>

definition execEnv :: "('t, 'd, 's) ledger_params \<Rightarrow> env \<Rightarrow> ('t, 'd, 's) exec_ops" where
  "execEnv G env = (gK G)\<lparr>xWitnessedValidatorSet := envWitness env, xMainchainHeight := envMainchainHeight env\<rparr>"

definition xstateOf :: "('t, 'd) ledger \<Rightarrow> 's chain \<Rightarrow> block option \<Rightarrow> ('t, 'd, 's) xstate" where
  "xstateOf l ch cur = \<lparr>xsState = lgState l, xsChain = ch, xsCurrent = cur\<rparr>"

section \<open>Resetting and finalizing\<close>

definition resetState :: "('t, 'd, 's) ledger_params \<Rightarrow> block \<Rightarrow> ('t, 'd) ledger \<Rightarrow> result \<times> ('t, 'd) ledger" where
  "resetState G blk l =
    (let (res, ls) = LedgerState_ResetState (xS (gK G)) blk (lgState l)
     in (if IsError res then Error ''Failed to set state root'' else OK, l\<lparr>lgState := ls\<rparr>))"

definition FinalizeState :: "('t, 'd, 's) ledger_params \<Rightarrow> uint64 \<Rightarrow> hash \<Rightarrow> ('t, 'd) ledger \<Rightarrow> result \<times> ('t, 'd) ledger" where
  "FinalizeState G height rootHash l =
    (let (res, ls) = LedgerState_Finalize (xS (gK G)) height rootHash (lgState l)
     in (if IsError res then Error ''Failed to finalize state root'' else OK, l\<lparr>lgState := ls\<rparr>))"

definition ledger_GetDynasty :: "('t, 'd, 's) ledger_params \<Rightarrow> ('t, 'd) ledger \<Rightarrow> int option option" where
  "ledger_GetDynasty G l = do { sv \<leftarrow> lsFinalized (lgState l); GetDynasty (xS (gK G)) sv }"

section \<open>Screening\<close>

fun shouldSkipCheckTx :: "tx \<Rightarrow> bool" where
  "shouldSkipCheckTx (CoinbaseTx _) = True"
| "shouldSkipCheckTx SlashTx = True"
| "shouldSkipCheckTx _ = False"

definition ScreenTxUnsafe ::
  "('t, 'd, 's) ledger_params \<Rightarrow> env \<Rightarrow> 's chain \<Rightarrow> bytes \<Rightarrow> ('t, 'd) ledgerstate \<Rightarrow> (txresult \<times> ('t, 'd) ledgerstate) option" where
  "ScreenTxUnsafe G env ch rawTx ls =
    (case TxFromBytes (gK G) rawTx of
       None \<Rightarrow> Some (err ''Error decoding tx'', ls)
     | Some t \<Rightarrow> do {
         ((_, res), s) \<leftarrow> exec_ScreenTx (execEnv G env) t \<lparr>xsState = ls, xsChain = ch, xsCurrent = None\<rparr>;
         Some (res, xsState s)
       })"

definition ledger_ScreenTx ::
  "('t, 'd, 's) ledger_params \<Rightarrow> env \<Rightarrow> 's chain \<Rightarrow> bytes \<Rightarrow> ('t, 'd) ledgerstate \<Rightarrow>
    ((txinfo option \<times> txresult) \<times> ('t, 'd) ledgerstate) option" where
  "ledger_ScreenTx G env ch rawTx ls =
    (case TxFromBytes (gK G) rawTx of
       None \<Rightarrow> Some ((None, err ''Error decoding tx''), ls)
     | Some t \<Rightarrow>
         if shouldSkipCheckTx t
         then Some ((None, TxError CodeUnauthorizedTx ''Unauthorized transaction, should skip''), ls)
         else do {
           ((_, res), s) \<leftarrow> exec_ScreenTx (execEnv G env) t \<lparr>xsState = ls, xsChain = ch, xsCurrent = None\<rparr>;
           if TxIsError res then Some ((None, res), xsState s)
           else do {
             info \<leftarrow> GetTxInfo (execEnv G env) t (xsState s);
             (case info of
                None \<Rightarrow> Some ((None, err ''Unknown tx type''), xsState s)
              | Some i \<Rightarrow> Some ((Some i, TxOK), xsState s))
           }
         })"

definition insertTransaction ::
  "('t, 'd, 's) ledger_params \<Rightarrow> env \<Rightarrow> bool \<Rightarrow> 's chain \<Rightarrow> bytes \<Rightarrow> ('t, 'd) ledger \<Rightarrow>
    (inserterror option \<times> ('t, 'd) ledger) option" where
  "insertTransaction G env hasSynced ch rawTx l = do {
    (r, mp, ls) \<leftarrow> InsertTransaction (gP G) (envNanos env) hasSynced (ledger_ScreenTx G env ch) rawTx (lgMempool l, lgState l);
    Some (r, l\<lparr>lgMempool := mp, lgState := ls\<rparr>)
  }"

definition updateMempool ::
  "('t, 'd, 's) ledger_params \<Rightarrow> env \<Rightarrow> 's chain \<Rightarrow> bytes list \<Rightarrow> ('t, 'd) ledger \<Rightarrow> ('t, 'd) ledger option" where
  "updateMempool G env ch committed l = do {
    (mp, ls) \<leftarrow> UpdateUnsafe (gP G) (envNanos env) (ScreenTxUnsafe G env ch) committed (lgMempool l, lgState l);
    Some (l\<lparr>lgMempool := mp, lgState := ls\<rparr>)
  }"

section \<open>Special transactions\<close>

definition signTransaction ::
  "('t, 'd, 's) ledger_params \<Rightarrow> tx \<Rightarrow> ('t, 'd) ledgerstate \<Rightarrow> (signature option \<times> ('t, 'd) ledgerstate) option" where
  "signTransaction G t ls = do {
    (chainID, ls1) \<leftarrow> GetChainID (xS (gK G)) ls;
    Some (gSign G (Tx_SignBytes (gK G) chainID t), ls1)
  }"

definition addCoinbaseTx ::
  "('t, 'd, 's) ledger_params \<Rightarrow> validator \<Rightarrow> bytes list \<Rightarrow> ('t, 'd) ledgerstate \<Rightarrow> (bytes list \<times> ('t, 'd) ledgerstate) option" where
  "addCoinbaseTx G proposer rawTxs ls = do {
    height \<leftarrow> LedgerState_Height ls;
    let t = \<lparr>cbProposer = \<lparr>inAddress = valAddress proposer, inCoins = noCoins, inSequence = 0, inSignature = None\<rparr>,
             cbOutputs = [], cbBlockHeight = height\<rparr>;
    (sig, ls1) \<leftarrow> signTransaction G (CoinbaseTx t) ls;
    Some (case sig of
        None \<Rightarrow> (rawTxs, ls1)
      | Some sg \<Rightarrow>
          (case TxToBytes (gK G) (CoinbaseTx (gCoinbaseSetSignature G (valAddress proposer) sg t)) of
             None \<Rightarrow> (rawTxs, ls1)
           | Some raw \<Rightarrow> (rawTxs @ [raw], ls1)))
  }"

definition getNewDynastyAndValidatorSet ::
  "('t, 'd, 's) ledger_params \<Rightarrow> env \<Rightarrow> 't storeview \<Rightarrow> (int \<times> validatorset) option option" where
  "getNewDynastyAndValidatorSet G env view = do {
    currentDynasty \<leftarrow> GetDynasty (xS (gK G)) view;
    (case envMainchainHeight env of
       None \<Rightarrow> Some None
     | Some mainchainHeight \<Rightarrow>
         let witnessedDynasty = CalculateDynasty mainchainHeight
         in (case envWitness env witnessedDynasty of
               None \<Rightarrow> Some None
             | Some witnessedValidatorSet \<Rightarrow> do {
                 current \<leftarrow> currentDynasty;
                 Some (if witnessedDynasty \<le> current then None else Some (witnessedDynasty, witnessedValidatorSet))
               }))
  }"

text \<open>\<open>hasSubchainValidatorSetUpdate\<close>, which the code no longer calls.\<close>

definition hasSubchainValidatorSetUpdate ::
  "('t, 'd, 's) ledger_params \<Rightarrow> env \<Rightarrow> validatorset \<Rightarrow> 't storeview \<Rightarrow> (int \<times> validatorset) option option" where
  "hasSubchainValidatorSetUpdate G env currentValidatorSet view =
    (case envMainchainHeight env of
       None \<Rightarrow> Some None
     | Some mainchainHeight \<Rightarrow>
         let witnessedDynasty = CalculateDynasty mainchainHeight
         in if witnessedDynasty \<le> dynasty currentValidatorSet then Some None
            else (case envWitness env witnessedDynasty of
               None \<Rightarrow> Some None
             | Some witnessed \<Rightarrow>
                 if ValidatorSet_Equals currentValidatorSet witnessed then Some None
                 else do {
                   r \<leftarrow> sv_GetValidatorSet (xS (gK G)) view;
                   inView \<leftarrow> r;
                   Some (if ValidatorSet_Equals inView witnessed then None else Some (witnessedDynasty, witnessed))
                 }))"

definition addSubchainValidatorSetUpdateTx ::
  "('t, 'd, 's) ledger_params \<Rightarrow> 't storeview \<Rightarrow> validator \<Rightarrow> int \<Rightarrow> validatorset \<Rightarrow> bytes list \<Rightarrow> ('t, 'd) ledgerstate \<Rightarrow>
    (bytes list \<times> ('t, 'd) ledgerstate) option" where
  "addSubchainValidatorSetUpdateTx G view proposer newDynasty newValidatorSet rawTxs ls = do {
    r \<leftarrow> GetAccount (xS (gK G)) (valAddress proposer) view;
    proposerAccount \<leftarrow> r;
    let t = \<lparr>vuProposer = \<lparr>inAddress = valAddress proposer, inCoins = noCoins,
               inSequence = acSequence proposerAccount + 1, inSignature = None\<rparr>,
             vuDynasty = newDynasty, vuValidators = validators newValidatorSet\<rparr>;
    (sig, ls1) \<leftarrow> signTransaction G (SubchainValidatorSetUpdateTx t) ls;
    sg \<leftarrow> sig;
    raw \<leftarrow> TxToBytes (gK G) (SubchainValidatorSetUpdateTx (ValidatorSetUpdate_SetSignature (valAddress proposer) sg t));
    Some (rawTxs @ [raw], ls1)
  }"

definition addSpecialTransactions ::
  "('t, 'd, 's) ledger_params \<Rightarrow> env \<Rightarrow> block \<Rightarrow> 't storeview \<Rightarrow> bool \<Rightarrow> ('t, 'd, 's) xstate \<Rightarrow>
    (bytes list \<times> ('t, 'd, 's) xstate) option" where
  "addSpecialTransactions G env blk view sameDynasty s = do {
    let fvs = finalizedValidatorSet (execEnv G env) s;
    proposer \<leftarrow> GetNextProposer (gRand G) fvs (hParent blk) (hEpoch blk);
    currentValidatorSet \<leftarrow> GetNextValidatorSet fvs (hParent blk);
    (rawTxs, ls) \<leftarrow> addCoinbaseTx G proposer [] (xsState s);
    update \<leftarrow> getNewDynastyAndValidatorSet G env view;
    (rawTxs1, ls1) \<leftarrow>
      (case update of
         Some (newDynasty, newValidatorSet) \<Rightarrow>
           if sameDynasty
           then addSubchainValidatorSetUpdateTx G view proposer newDynasty newValidatorSet rawTxs ls
           else Some (rawTxs, ls)
       | None \<Rightarrow> Some (rawTxs, ls));
    Some (rawTxs1, s\<lparr>xsState := ls1\<rparr>)
  }"

section \<open>Proposing the transactions of a block\<close>

definition MaxNumRegularTxsPerBlock :: int where
  "MaxNumRegularTxsPerBlock = 1024"

fun checkTxs ::
  "('t, 'd, 's) exec_ops \<Rightarrow> bytes list \<Rightarrow> ('t, 'd, 's) xstate \<Rightarrow> (bytes list \<times> ('t, 'd, 's) xstate) option" where
  "checkTxs K [] s = Some ([], s)"
| "checkTxs K (raw # raws) s =
    (case TxFromBytes K raw of
       None \<Rightarrow> checkTxs K raws s
     | Some t \<Rightarrow> do {
         ((_, res), s1) \<leftarrow> CheckTx K t s;
         (txs, s2) \<leftarrow> checkTxs K raws s1;
         Some (if TxIsError res then txs else raw # txs, s2)
       })"

definition ProposeBlockTxs ::
  "('t, 'd, 's) ledger_params \<Rightarrow> env \<Rightarrow> block \<Rightarrow> bool \<Rightarrow> 's chain \<Rightarrow> ('t, 'd) ledger \<Rightarrow>
    ((hash \<times> bytes list \<times> applyresult) \<times> ('t, 'd) ledger) option" where
  "ProposeBlockTxs G env blk sameDynasty ch l = do {
    view \<leftarrow> lsChecked (lgState l);
    (special, s) \<leftarrow> addSpecialTransactions G env blk view sameDynasty (xstateOf l ch (Some blk));
    let (regular, mp) = ReapUnsafe (gP G) (envNanos env) MaxNumRegularTxsPerBlock (lgMempool l);
    (blockRawTxs, s1) \<leftarrow> checkTxs (execEnv G env) (special @ regular) s;
    view1 \<leftarrow> lsChecked (xsState s1);
    Some ((StoreView_Hash (xS (gK G)) view1, blockRawTxs, ApplyOK False), l\<lparr>lgState := xsState s1, lgMempool := mp\<rparr>)
  }"

section \<open>Applying the transactions of a block\<close>

fun isValidatorUpdate :: "tx \<Rightarrow> bool" where
  "isValidatorUpdate (DepositStakeTx purpose) = (purpose = 0)"
| "isValidatorUpdate (WithdrawStakeTx purpose) = (purpose = 0)"
| "isValidatorUpdate _ = False"

text \<open>The loop over the transactions: an early return, or whether some transaction updates the validators.\<close>

fun applyTxs ::
  "('t, 'd, 's) exec_ops \<Rightarrow> bytes list \<Rightarrow> bool \<Rightarrow> ('t, 'd, 's) xstate \<Rightarrow> ((applyresult + bool) \<times> ('t, 'd, 's) xstate) option" where
  "applyTxs K [] hasValidatorUpdate s = Some (Inr hasValidatorUpdate, s)"
| "applyTxs K (raw # raws) hasValidatorUpdate s =
    (case TxFromBytes K raw of
       None \<Rightarrow> Some (Inl ApplyError, s)
     | Some t \<Rightarrow> do {
         ((_, res), s1) \<leftarrow> ExecuteTx K t s;
         (case res of
            TxOK \<Rightarrow> applyTxs K raws (hasValidatorUpdate \<or> isValidatorUpdate t) s1
          | TxError _ _ \<Rightarrow> Some (Inl ApplyError, s1)
          | TxUndecided \<Rightarrow> Some (Inl ApplyUndecided, s1))
       })"

definition ApplyBlockTxs ::
  "('t, 'd, 's) ledger_params \<Rightarrow> env \<Rightarrow> block \<Rightarrow> 's chain \<Rightarrow> ('t, 'd) ledger \<Rightarrow>
    (applyresult \<times> 's chain \<times> ('t, 'd) ledger) option" where
  "ApplyBlockTxs G env blk ch l = do {
    parent \<leftarrow> (case findBlock (xX (gK G)) (hParent blk) ch of Got b \<Rightarrow> Some (block.truncate b) | _ \<Rightarrow> None);
    (r, s) \<leftarrow> applyTxs (execEnv G env) (bTxs blk) False (xstateOf l ch (Some blk));
    let l1 = l\<lparr>lgState := xsState s\<rparr>;
    (case r of
       Inl res \<Rightarrow> Some (res, xsChain s, snd (resetState G parent l1))
     | Inr hasValidatorUpdate \<Rightarrow> do {
         view \<leftarrow> lsDelivered (xsState s);
         if StoreView_Hash (xS (gK G)) view \<noteq> hStateHash blk
         then Some (ApplyError, xsChain s, snd (resetState G parent l1))
         else do {
           (_, ls) \<leftarrow> LedgerState_Commit (xS (gK G)) (gTag G) (xsState s);
           Some (ApplyOK hasValidatorUpdate, xsChain s, l\<lparr>lgState := ls\<rparr>)
         }
       })
  }"

definition ApplyBlockTxsForChainCorrection ::
  "('t, 'd, 's) ledger_params \<Rightarrow> env \<Rightarrow> block \<Rightarrow> 's chain \<Rightarrow> ('t, 'd) ledger \<Rightarrow>
    ((hash \<times> applyresult) \<times> 's chain \<times> ('t, 'd) ledger) option" where
  "ApplyBlockTxsForChainCorrection G env blk ch l = do {
    parent \<leftarrow> (case findBlock (xX (gK G)) (hParent blk) ch of Got b \<Rightarrow> Some (block.truncate b) | _ \<Rightarrow> None);
    (r, s) \<leftarrow> applyTxs (execEnv G env) (bTxs blk) False (xstateOf l ch (Some blk));
    let l1 = l\<lparr>lgState := xsState s\<rparr>;
    (case r of
       Inl res \<Rightarrow> Some ((0, res), xsChain s, snd (resetState G parent l1))
     | Inr hasValidatorUpdate \<Rightarrow> do {
         (_, ls) \<leftarrow> LedgerState_Commit (xS (gK G)) (gTag G) (xsState s);
         view \<leftarrow> lsDelivered ls;
         Some ((StoreView_Hash (xS (gK G)) view, ApplyOK hasValidatorUpdate), xsChain s, l\<lparr>lgState := ls\<rparr>)
       })
  }"

section \<open>The interface of the engine\<close>

definition ledgerImpl :: "('t, 'd, 's) ledger_params \<Rightarrow> ('s, ('t, 'd) ledger) ledger_ops" where
  "ledgerImpl G =
    \<lparr>lResetState = resetState G, lApplyBlockTxs = ApplyBlockTxs G,
     lFinalizeState = (\<lambda>height root l. snd (FinalizeState G height root l)),
     lProposeBlockTxs = ProposeBlockTxs G,
     lValidatorSetAt = (\<lambda>l. validatorSetAt (xS (gK G)) (lsDB (lgState l)))\<rparr>"

end
