(* ===== verification/Node.thy ===== *)
theory Node
  imports Ledger
begin

text \<open>
  The node: the consensus engine on the block store over the layered database and on the ledger of this
  development. The ledger meets the contract \<open>engine_env\<close> of the engine, so the invariant of its runs
  holds for the node.
\<close>

section \<open>The ledger changes the block store only by adding receipts\<close>

lemma andThen_Some: "andThen m f = Some r \<longleftrightarrow> (\<exists>x. m = Some x \<and> (case x of Inl e \<Rightarrow> Some (Inl e) | Inr y \<Rightarrow> f y) = Some r)"
  by (simp add: andThen_def bind_eq_Some_conv)

lemma chain_reach_refl [simp]: "chain_reach X ch ch"
  by (simp add: chain_reach_def)

lemma addReceipt_reach: "addReceipt K dl cb t ev logs bcs ch = Some ch' \<Longrightarrow> chain_reach (xX K) ch ch'"
  by (auto simp: addReceipt_def chain_reach_def bind_eq_Some_conv intro: chain_step.add_receipt split: if_splits)

lemma Smart_process_cases:
  assumes "Smart_process K chainID dl pb cb t v ch = Some (r, v', ch')"
  obtains b ev v1 res where "pb = Some b"
      "xExecute K \<lparr>biHeight = hHeight b, biTimestamp = hTimestamp b, biChainID = hChainID b\<rparr> t
        (ResetBalanceChanges (ResetLogs (fst v)), snd v) = Some (ev, v1)"
      "chargeSender K t (evGasUsed ev) v1 = Some (Inl res)" "r = (0, res)" "v' = v1" "ch' = ch"
  | b ev v1 v2 where "pb = Some b"
      "xExecute K \<lparr>biHeight = hHeight b, biTimestamp = hTimestamp b, biChainID = hChainID b\<rparr> t
        (ResetBalanceChanges (ResetLogs (fst v)), snd v) = Some (ev, v1)"
      "chargeSender K t (evGasUsed ev) v1 = Some (Inr v2)" "r = (xTxID K chainID (SmartContractTx t), TxOK)"
      "v' = (ResetBalanceChanges (ResetLogs (fst v2)), snd v2)"
      "addReceipt K dl cb t ev (svLogs (fst v2)) (svBalanceChanges (ResetLogs (fst v2))) ch = Some ch'"
proof -
  obtain b ev v1 x where *: "pb = Some b"
      "xExecute K \<lparr>biHeight = hHeight b, biTimestamp = hTimestamp b, biChainID = hChainID b\<rparr> t
        (ResetBalanceChanges (ResetLogs (fst v)), snd v) = Some (ev, v1)"
      "chargeSender K t (evGasUsed ev) v1 = Some x"
    using assms by (auto simp: Smart_process_def bind_eq_Some_conv Let_def)
  show thesis
  proof (cases x)
    case (Inl res)
    with assms * that(1) show ?thesis
      by (simp add: Smart_process_def)
  next
    case (Inr v2)
    with assms * that(2) show ?thesis
      by (auto simp: Smart_process_def bind_eq_Some_conv PopLogs_def PopBalanceChanges_def)
  qed
qed

lemma Smart_process_reach:
  assumes "Smart_process K chainID dl pb cb t v ch = Some (r, v', ch')"
  shows "chain_reach (xX K) ch ch'"
  using assms by (rule Smart_process_cases) (auto intro: addReceipt_reach)

lemma exec_process_reach:
  assumes "exec_process K chainID dl pb cb t v ch = Some (r, v', ch')"
  shows "chain_reach (xX K) ch ch'"
proof (cases t)
  case (SmartContractTx x)
  with assms show ?thesis
    by (auto simp: exec_process_def split: if_splits dest: Smart_process_reach)
qed (use assms in \<open>auto simp: exec_process_def bind_eq_Some_conv Let_def split: if_splits prod.splits\<close>)

lemma processTx_reach:
  assumes "processTx K sel t s = Some (r, s')"
  shows "chain_reach (xX K) (xsChain s) (xsChain s')"
  using assms exec_process_reach[of K]
  by (auto simp: processTx_def bind_eq_Some_conv Let_def split: if_splits)

lemma applyTxs_reach:
  "applyTxs K raws u s = Some (r, s') \<Longrightarrow> chain_reach (xX K) (xsChain s) (xsChain s')"
proof (induction raws arbitrary: u s)
  case (Cons raw raws)
  show ?case
  proof (cases "TxFromBytes K raw")
    case None
    with Cons.prems show ?thesis
      by (simp add: chain_reach_def)
  next
    case (Some t)
    then obtain h res s1 where ex: "ExecuteTx K t s = Some ((h, res), s1)"
      and rest: "(case res of
            TxOK \<Rightarrow> applyTxs K raws (u \<or> isValidatorUpdate t) s1
          | TxError _ _ \<Rightarrow> Some (Inl ApplyError, s1)
          | TxUndecided \<Rightarrow> Some (Inl ApplyUndecided, s1)) = Some (r, s')"
      using Cons.prems by (auto simp: bind_eq_Some_conv)
    have step: "chain_reach (xX K) (xsChain s) (xsChain s1)"
      using ex processTx_reach by (fastforce simp: ExecuteTx_def)
    have "chain_reach (xX K) (xsChain s1) (xsChain s')"
      using rest Cons.IH by (cases res) (auto simp: chain_reach_def)
    with step show ?thesis
      unfolding chain_reach_def by (rule rtranclp_trans)
  qed
qed (simp add: chain_reach_def)

lemma xX_execEnv [simp]: "xX (execEnv G env) = xX (gK G)" "xS (execEnv G env) = xS (gK G)"
  by (simp_all add: execEnv_def)

lemma ApplyBlockTxs_reach:
  assumes "ApplyBlockTxs G env blk ch l = Some (res, ch', l')"
  shows "chain_reach (xX (gK G)) ch ch'"
proof -
  obtain r s where run: "applyTxs (execEnv G env) (bTxs blk) False (xstateOf l ch (Some blk)) = Some (r, s)"
    using assms by (auto simp: ApplyBlockTxs_def bind_eq_Some_conv)
  have "ch' = xsChain s"
    using assms run by (cases r) (auto simp: ApplyBlockTxs_def bind_eq_Some_conv Let_def split: if_splits)
  with applyTxs_reach[OF run] show ?thesis
    by (simp add: xstateOf_def)
qed

section \<open>The node\<close>

type_synonym rdb = "(bytes, storeval) rollingdb"

definition ledgerOn :: "block_ops \<Rightarrow> eth_ops \<Rightarrow> ('t, 'd, rdb) ledger_params \<Rightarrow> ('t, 'd, rdb) ledger_params" where
  "ledgerOn B E G = G\<lparr>gK := (gK G)\<lparr>xX := rdb_chain_ops B E\<rparr>\<rparr>"

definition node_ops ::
  "block_ops \<Rightarrow> eth_ops \<Rightarrow> ('t, 'd, rdb) ledger_params \<Rightarrow> address \<Rightarrow> nat \<Rightarrow> (rdb, ('t, 'd) ledger) engine_ops" where
  "node_ops B E G a q =
    \<lparr>oX = rdb_chain_ops B E, oL = ledgerImpl (ledgerOn B E G), oAddr = a, oSign = gSign G, oRand = gRand G,
     oHardcode = HardcodeBlockHashes, oQueue = q\<rparr>"

lemma node_ops_simps [simp]:
  "oX (node_ops B E G a q) = rdb_chain_ops B E" "oHardcode (node_ops B E G a q) = HardcodeBlockHashes"
  "oAddr (node_ops B E G a q) = a" "oL (node_ops B E G a q) = ledgerImpl (ledgerOn B E G)"
  by (simp_all add: node_ops_def)

interpretation node: engine_env "node_ops B E G a q" for B E and G :: "('t, 'd, rdb) ledger_params" and a q
proof (intro engine_env.intro engine_env_axioms.intro)
  show "chain_store (oX (node_ops B E G a q))"
    using rc.chain_store_axioms by simp
next
  fix env b ch l r ch' and l' :: "('t, 'd) ledger"
  assume "lApplyBlockTxs (oL (node_ops B E G a q)) env b ch l = Some (r, ch', l')"
  then have "ApplyBlockTxs (ledgerOn B E G) env b ch l = Some (r, ch', l')"
    by (simp add: ledgerImpl_def)
  from ApplyBlockTxs_reach[OF this] show "chain_reach (oX (node_ops B E G a q)) ch ch'"
    by (simp add: ledgerOn_def)
qed

end
