(* ===== verification/StateExample.thy ===== *)
theory StateExample
  imports StoreView
begin

text \<open>
  A concrete trie, encoding and coin arithmetic that meet the hypotheses of \<open>StoreView\<close>; the examples that
  show the theorems of the ledger at work run on it.

  A tree is the list of its updates, latest first, with the roots committed so far. Its hash is computed
  from the values of two keys, so collisions exist; a commit fails where it would overwrite another tree
  under the same hash, as the laws allow.
\<close>

section \<open>Numbers as bytes\<close>

fun getUvarint :: "bytes \<Rightarrow> (nat \<times> bytes) option" where
  "getUvarint [] = None"
| "getUvarint (b # bs) =
    (if unat b < 128 then Some (unat b, bs)
     else map_option (\<lambda>(n, rest). (unat b - 128 + 128 * n, rest)) (getUvarint bs))"

lemma getUvarint_PutUvarint: "getUvarint (PutUvarint n @ rest) = Some (n, rest)"
proof (induction n rule: PutUvarint.induct)
  case (1 n)
  show ?case
  proof (cases "n < 128")
    case True
    then show ?thesis
      by (simp add: PutUvarint_small unat_of_nat)
  next
    case False
    define k where "k = n mod 128 + 128"
    have k: "128 \<le> k" "k < 256" "k - 128 + 128 * (n div 128) = n"
      using mod_less_divisor[of 128 n] by (simp_all add: k_def)
    have "unat (word_of_nat k :: byte) = k"
      using k(2) by (simp add: unat_of_nat)
    with k 1[OF False] show ?thesis
      unfolding PutUvarint_big[OF False] k_def[symmetric] by simp
  qed
qed

definition encNats :: "nat list \<Rightarrow> bytes" where
  "encNats ns = concat (map PutUvarint (length ns # ns))"

fun getNats :: "nat \<Rightarrow> bytes \<Rightarrow> (nat list \<times> bytes) option" where
  "getNats 0 bs = Some ([], bs)"
| "getNats (Suc k) bs =
    (case getUvarint bs of
       None \<Rightarrow> None
     | Some (n, rest) \<Rightarrow> map_option (\<lambda>(ns, r). (n # ns, r)) (getNats k rest))"

definition decNats :: "bytes \<Rightarrow> nat list option" where
  "decNats bs =
    (case getUvarint bs of
       None \<Rightarrow> None
     | Some (k, rest) \<Rightarrow> (case getNats k rest of Some (ns, []) \<Rightarrow> Some ns | _ \<Rightarrow> None))"

lemma getNats_concat: "getNats (length ns) (concat (map PutUvarint ns) @ rest) = Some (ns, rest)"
  by (induction ns) (simp_all add: getUvarint_PutUvarint)

lemma decNats_encNats [simp]: "decNats (encNats ns) = Some ns"
  using getNats_concat[of ns "[]"] by (simp add: decNats_def encNats_def getUvarint_PutUvarint)

lemma encNats_nonempty [simp]: "encNats ns \<noteq> []"
  using PutUvarint_Cons[of "length ns"] by (auto simp: encNats_def)

definition zn :: "int \<Rightarrow> nat" where
  "zn i = (if i < 0 then 2 * nat (- i) - 1 else 2 * nat i)"

definition nz :: "nat \<Rightarrow> int" where
  "nz n = (if even n then int (n div 2) else - int ((n + 1) div 2))"

lemma nz_zn [simp]: "nz (zn i) = i"
  by (auto simp: nz_def zn_def)

section \<open>Encodings\<close>

definition ex_encAccount :: "account \<Rightarrow> bytes" where
  "ex_encAccount a = encNats [unat (acAddress a), unat (acSequence a), zn (coTheta (acBalance a)), zn (coTFuel (acBalance a)),
     unat (acRoot a), unat (acCodeHash a), unat (acLastUpdated a)]"

definition ex_decAccount :: "bytes \<Rightarrow> account option" where
  "ex_decAccount b =
    (case decNats b of
       Some [addr, sq, th, tf, rt, cd, lu] \<Rightarrow>
         Some \<lparr>acAddress = word_of_nat addr, acSequence = word_of_nat sq,
               acBalance = \<lparr>coTheta = nz th, coTFuel = nz tf\<rparr>, acRoot = word_of_nat rt, acCodeHash = word_of_nat cd,
               acLastUpdated = word_of_nat lu\<rparr>
     | _ \<Rightarrow> None)"

definition ex_encValidatorSet :: "validatorset \<Rightarrow> bytes" where
  "ex_encValidatorSet vs =
    encNats (zn (dynasty vs) # concat (map (\<lambda>v. [unat (valAddress v), zn (valStake v)]) (validators vs)))"

fun pairUp :: "nat list \<Rightarrow> validator list" where
  "pairUp (a # st # ns) = \<lparr>valAddress = word_of_nat a, valStake = nz st\<rparr> # pairUp ns"
| "pairUp _ = []"

definition ex_decValidatorSet :: "bytes \<Rightarrow> validatorset option" where
  "ex_decValidatorSet b =
    (case decNats b of Some (d # ns) \<Rightarrow> Some \<lparr>dynasty = nz d, validators = pairUp ns\<rparr> | _ \<Rightarrow> None)"

lemma pairUp_concat: "pairUp (concat (map (\<lambda>v. [unat (valAddress v), zn (valStake v)]) vs)) = vs"
  by (induction vs) simp_all

section \<open>The tree\<close>

type_synonym ex_tree = "(bytes \<times> bytes) list \<times> (hash \<times> (bytes \<times> bytes) list) list"
type_synonym ex_db = "(hash \<times> (bytes \<times> bytes) list) list"

definition ex_get :: "(bytes \<times> bytes) list \<Rightarrow> bytes \<Rightarrow> bytes" where
  "ex_get u k = (case map_of u k of None \<Rightarrow> [] | Some v \<Rightarrow> v)"

definition ex_hash :: "(bytes \<Rightarrow> bytes) \<Rightarrow> hash" where
  "ex_hash f = BytesToHash (f (AccountKey 1) @ f CurrentValidatorSetKey @ f (hash_bytes 1))"

definition ex_commit :: "ex_tree \<Rightarrow> (hash \<times> ex_tree) option" where
  "ex_commit t =
    (let h = ex_hash (ex_get (fst t)) in
     if h = 0 then (if fst t = [] then Some (0, t) else None)
     else (case map_of (snd t) h of
             None \<Rightarrow> Some (h, (fst t, (h, fst t) # snd t))
           | Some u \<Rightarrow> if u = fst t then Some (h, t) else None))"

definition ex_flush :: "ex_tree \<Rightarrow> hash \<Rightarrow> ex_db \<Rightarrow> ex_db option" where
  "ex_flush t h d =
    (if h = 0 then Some d
     else (case map_of d h of None \<Rightarrow> Some ((h, fst t) # d) | Some u \<Rightarrow> if u = fst t then Some d else None))"

definition ex_open :: "ex_tree \<Rightarrow> hash \<Rightarrow> ex_tree option" where
  "ex_open t h = (if h = 0 then Some ([], snd t) else map_option (\<lambda>u. (u, snd t)) (map_of (snd t) h))"

definition ex_new :: "hash \<Rightarrow> ex_db \<Rightarrow> ex_tree option" where
  "ex_new h d = (if h = 0 then Some ([], []) else map_option (\<lambda>u. (u, [])) (map_of d h))"

definition example_state_ops :: "(ex_tree, ex_db) state_ops" where
  "example_state_ops =
    \<lparr>trNew = ex_new, trGet = (\<lambda>t. ex_get (fst t)), trUpdate = (\<lambda>k v t. ((k, v) # fst t, snd t)),
     trDelete = (\<lambda>k t. ((k, []) # fst t, snd t)), trHash = (\<lambda>t. ex_hash (ex_get (fst t))), trCommit = ex_commit,
     trFlush = ex_flush, trOpen = ex_open, trCopy = Some,
     encAccount = ex_encAccount, decAccount = ex_decAccount,
     encValidatorSet = ex_encValidatorSet, decValidatorSet = ex_decValidatorSet,
     encHeightList = (\<lambda>hs. encNats (map unat hs)), decHeightList = (\<lambda>b. map_option (map word_of_nat) (decNats b)),
     decAddress = (\<lambda>b. map_option (\<lambda>ns. word_of_nat (sum_list ns)) (decNats b)),
     encSlot = (\<lambda>b. 1 # b), decSlot = (\<lambda>b. case b of [] \<Rightarrow> None | _ # r \<Rightarrow> Some r),
     NewAccount = (\<lambda>a. \<lparr>acAddress = a, acSequence = 0, acBalance = \<lparr>coTheta = 0, coTFuel = 0\<rparr>, acRoot = 0, acCodeHash = 0,
                         acLastUpdated = 0\<rparr>),
     EmptyCodeHash = 0, emptyRoot = 0, codeHashOf = (\<lambda>b. word_of_nat (length b)),
     coPlus = (\<lambda>a b. \<lparr>coTheta = coTheta a + coTheta b, coTFuel = coTFuel a + coTFuel b\<rparr>),
     coMinus = (\<lambda>a b. \<lparr>coTheta = coTheta a - coTheta b, coTFuel = coTFuel a - coTFuel b\<rparr>),
     coIsGTE = (\<lambda>a b. coTheta b \<le> coTheta a \<and> coTFuel b \<le> coTFuel a), coIsEqual = (\<lambda>a b. a = b),
     coIsNonnegative = (\<lambda>a. 0 \<le> coTheta a \<and> 0 \<le> coTFuel a), coIsZero = (\<lambda>a. coTheta a = 0 \<and> coTFuel a = 0)\<rparr>"

section \<open>The laws\<close>

lemma example_coin_laws: "coin_laws example_state_ops"
  by (auto simp: coin_laws_def example_state_ops_def)

lemma example_codec_laws: "codec_laws example_state_ops"
  by (simp add: codec_laws_def example_state_ops_def ex_encAccount_def ex_decAccount_def ex_encValidatorSet_def
      ex_decValidatorSet_def pairUp_concat comp_def)

lemma ex_get_Cons: "ex_get ((k, v) # u) = (ex_get u)(k := v)"
  by (auto simp: ex_get_def)

lemma saved_kept:
  assumes "tree_later example_state_ops t u" "map_of (snd t) h = Some x"
  shows "map_of (snd u) h = Some x"
  using assms
proof (induction rule: tree_later.induct)
  case (commit t u h' u')
  then show ?case
    by (auto simp: example_state_ops_def ex_commit_def Let_def split: if_splits option.splits)
next
  case (reopen t u h' u')
  then show ?case
    by (auto simp: example_state_ops_def ex_open_def split: if_splits)
qed (simp_all add: example_state_ops_def)

lemma ex_commitD:
  assumes "ex_commit t = Some (h, t')"
  shows "h = ex_hash (ex_get (fst t))" "fst t' = fst t" "h = 0 \<Longrightarrow> fst t = []" "h \<noteq> 0 \<Longrightarrow> map_of (snd t') h = Some (fst t)"
  using assms by (auto simp: ex_commit_def Let_def split: if_splits option.splits)

lemma example_reopen:
  assumes "ex_commit t = Some (h, t')" "tree_later example_state_ops t' u"
  shows "\<exists>t''. ex_open u h = Some t'' \<and> ex_get (fst t'') = ex_get (fst t)"
  using ex_commitD[OF assms(1)] saved_kept[OF assms(2), of h "fst t"] by (cases "h = 0") (auto simp: ex_open_def)

lemma example_flush:
  assumes "ex_commit t = Some (h, t')" "ex_flush t' h d = Some d'"
  shows "\<exists>u. ex_new h d' = Some u \<and> ex_get (fst u) = ex_get (fst t)"
    and "ex_new r d = Some u \<Longrightarrow> \<exists>u'. ex_new r d' = Some u' \<and> ex_get (fst u') = ex_get (fst u)"
  using ex_commitD[OF assms(1)] assms(2) by (auto simp: ex_flush_def ex_new_def split: if_splits option.splits)

lemma example_tree_laws: "tree_laws example_state_ops"
  unfolding tree_laws_def
proof (intro conjI allI impI; (elim conjE)?)
  fix t h t' u
  assume "trCommit example_state_ops t = Some (h, t')" "tree_later example_state_ops t' u"
  then show "\<exists>t''. trOpen example_state_ops u h = Some t'' \<and> trGet example_state_ops t'' = trGet example_state_ops t"
    using example_reopen[of t h t' u] by (simp add: example_state_ops_def)
next
  fix t h t' d d'
  assume "trCommit example_state_ops t = Some (h, t')" "trFlush example_state_ops t' h d = Some d'"
  then show "\<exists>u. trNew example_state_ops h d' = Some u \<and> trGet example_state_ops u = trGet example_state_ops t"
    using example_flush(1)[of t h t' d d'] by (simp add: example_state_ops_def)
next
  fix t h t' d d' r u
  assume "trCommit example_state_ops t = Some (h, t')" "trFlush example_state_ops t' h d = Some d'"
    "trNew example_state_ops r d = Some u"
  then show "\<exists>u'. trNew example_state_ops r d' = Some u' \<and> trGet example_state_ops u' = trGet example_state_ops u"
    using example_flush(2)[of t h t' d d' r u] by (simp add: example_state_ops_def)
qed (auto simp: example_state_ops_def ex_get_Cons dest: ex_commitD)

lemmas example_laws = example_tree_laws example_codec_laws example_coin_laws

end
