(* ===== verification/NodeExample.thy ===== *)
theory NodeExample
  imports Node StateExample
begin

text \<open>
  A concrete node: the example store, trie and encodings, one validator, and parameters of the library
  chosen as simple functions that meet the hypotheses of the theorems. It shows that the theorems about
  the ledger and the engine apply to runs that do something.
\<close>

definition example_send :: sendtx where
  "example_send = \<lparr>sendFee = \<lparr>coTheta = 0, coTFuel = 1\<rparr>,
    sendInputs = [\<lparr>inAddress = 1, inCoins = \<lparr>coTheta = 0, coTFuel = 11\<rparr>, inSequence = 1, inSignature = Some [1]\<rparr>],
    sendOutputs = [\<lparr>outAddress = 2, outCoins = \<lparr>coTheta = 0, coTFuel = 10\<rparr>\<rparr>]\<rparr>"

definition example_exec_ops :: "(ex_tree, ex_db, rdb) exec_ops" where
  "example_exec_ops =
    \<lparr>xS = example_state_ops, xX = example_chain_ops,
     xInputValidateBasic = (\<lambda>_. TxOK), xOutputValidateBasic = (\<lambda>_. TxOK), xVerify = (\<lambda>sig _ _. sig \<noteq> None),
     xSignBytes = (\<lambda>_ _. []), xChangeWrapper = (\<lambda>b _. b), xRlpString = (\<lambda>_. []), xRlpType = (\<lambda>n. [word_of_nat n]),
     xRlpTx = (\<lambda>_. []), xRlpWrapper = (\<lambda>b. b),
     xDecodeType = (\<lambda>b. case b of [] \<Rightarrow> None | x # r \<Rightarrow> Some (unat x, r)), xDecodeTx = (\<lambda>ty _. if ty = 2 then Some (SendTx example_send) else None),
     xTxID = (\<lambda>_ _. 5), xEthSignatureOK = (\<lambda>_ _ _. False), xIsASmartContract = (\<lambda>acc. acCodeHash acc \<noteq> 0),
     xUpdateToHeight = (\<lambda>_ acc. acc), xMaxAccountsAffectedPerTx = 512, xMinimumFee = (\<lambda>_. 1),
     xSendTxMinimumFee = (\<lambda>_ _. 1), xMaxGasLimit = (\<lambda>_. 20000000), xHeightEnableSmartContract = 0, xHeightEnableTheta3 = 0,
     xHeightTxWrapperExtension = 0, xHeightRPCCompatibility = 0, xHeightJune2021FeeAdjustment = 0, xGasRegularTx = 10000,
     xGasRegularTxJune2021 = 100000, xMapChainID = (\<lambda>_ _. 360), xKeccak = (\<lambda>b. b), xTxCoinbase = 0, xTxSend = 2,
     xTxSmartContract = 7, xIntrinsicGas = (\<lambda>_ _. Some 21000),
     xExecute = (\<lambda>_ _ v. Some (\<lparr>evRet = [], evContractAddr = 0, evGasUsed = 21000, evErr = None\<rparr>, v)),
     xWitnessedValidatorSet = (\<lambda>_. None), xMainchainHeight = None, xSkipSanityCheck = False\<rparr>"

definition example_pool_ops :: pool_ops where
  "example_pool_ops = \<lparr>plHash = (\<lambda>b. word_of_nat (length b)), plTop = (\<lambda>xs. length (takeWhile (\<lambda>x. x < Max (set xs)) xs))\<rparr>"

definition example_rand_ops :: rand_ops where
  "example_rand_ops = example_rand"

definition example_params :: "(ex_tree, ex_db, rdb) ledger_params" where
  "example_params =
    \<lparr>gK = example_exec_ops, gP = example_pool_ops, gSign = (\<lambda>_. Some [1]),
     gCoinbaseSetSignature = (\<lambda>_ sig t. t\<lparr>cbProposer := (cbProposer t)\<lparr>inSignature := Some sig\<rparr>\<rparr>),
     gRand = example_rand_ops, gTag = (\<lambda>_ _ d. d)\<rparr>"

definition example_vset :: validatorset where
  "example_vset = \<lparr>dynasty = 0, validators = [\<lparr>valAddress = 1, valStake = 10\<rparr>]\<rparr>"

definition example_root :: block where
  "example_root = (example_block 0 0)\<lparr>hStateHash := 7\<rparr>"

definition example_db :: ex_db where
  "example_db = [(7, [(CurrentValidatorSetKey, encValidatorSet example_state_ops example_vset)])]"

definition example_ledger :: "(ex_tree, ex_db) ledger" where
  "example_ledger = \<lparr>lgState = NewLedgerState example_state_ops newBlock ''sub'' example_db, lgMempool = CreateMempool\<rparr>"

abbreviation example_node :: "(rdb, (ex_tree, ex_db) ledger) engine_ops" where
  "example_node \<equiv> node_ops example_block_ops example_eth_ops example_params 1 10"

definition example_env :: env where
  "example_env = \<lparr>envNow = 100, envNanos = 100000000000, envMainchainHeight = None, envWitness = (\<lambda>_. None)\<rparr>"

section \<open>The chain of the root block\<close>

lemma example_root_simps [simp]:
  "hParent example_root = 0" "hHeight example_root = 0" "hHash example_root = 0" "hChainID example_root = ''sub''"
  "hStateHash example_root = 7" "Header_Hash example_block_ops example_root = 1" "cache_ok example_block_ops example_root"
  by (simp_all add: example_root_def example_block_def Header_Hash_def calculateHash_def Header_EncodeRLP_def
      example_block_ops_def cache_ok_def)

context chain_store
begin

lemma chChainID_addTxs_loop: "chChainID (addTxs_loop X b force i txs ch) = chChainID ch"
  by (induction txs arbitrary: i ch) (auto simp: Let_def insertEthTxHash_def split: option.split)

lemma chChainID_index: "chChainID (AddBlockByHeightIndex X n h ch) = chChainID ch" "chChainID (linkParent X blk snap h ch) = chChainID ch"
  by (simp_all add: AddBlockByHeightIndex_def linkParent_def Let_def split: got.split)

lemma chChainID_addBlock: "chChainID (snd (addBlock X blk snap ch)) = chChainID ch"
  by (simp add: chChainID_index addBlock_def Let_def AddTxsToIndex_def chChainID_addTxs_loop split: got.split)

end

text \<open>The only stored block is final and has no children.\<close>

definition root_only :: "rdb chain \<Rightarrow> extblock \<Rightarrow> bool" where
  "root_only ch b \<longleftrightarrow> chRoot ch = 1 \<and> chChainID ch = ''sub'' \<and>
    findBlock example_chain_ops 1 ch = Got b \<and> Header_Hash example_block_ops b = 1 \<and>
    hEpoch b = 0 \<and> hTimestamp b = Some 0 \<and> hHeight b = 0 \<and> hStateHash b = 7 \<and> ccBlockHash (hHCC b) = 0 \<and> eChildren b = [] \<and> eStatus b = BlockStatusDirectlyFinalized \<and>
    (\<forall>k. k \<noteq> 1 \<longrightarrow> findBlock example_chain_ops k ch = NotFound)"

lemma example_new_chain:
  "\<exists>ch b. NewChain example_chain_ops ''sub'' example_store example_root = Some ch \<and> root_only ch b"
proof -
  define ch1 where "ch1 = snd (AddSnapshotRoot example_chain_ops example_root example_chain0)"
  define b1 where "b1 = clearCache (newExtendedBlock example_chain_ops example_root example_chain0)"
  have inv1: "chain_inv example_chain_ops ch1"
    unfolding ch1_def AddSnapshotRoot_def by (rule rc.chain_inv_addBlock[OF example_inv(1)]) simp_all
  have finds: "findBlock example_chain_ops k ch1 = (if k = 1 then Got b1 else NotFound)" for k
    using rc.findBlock_addBlock[of example_root example_chain0 example_block_ops example_eth_ops, OF _ _ HOL.refl, where snap = True and k = k]
    by (simp add: ch1_def b1_def AddSnapshotRoot_def linkParent_def)
  have find1: "findBlock example_chain_ops 1 ch1 = Got b1"
    by (simp add: finds)
  have added: "\<exists>b. AddSnapshotRoot example_chain_ops example_root example_chain0 = (Added b, ch1) \<and> Header_Hash example_block_ops b = 1"
    by (simp add: ch1_def AddSnapshotRoot_def addBlock_def Let_def)
  define b2 where "b2 = b1\<lparr>eStatus := BlockStatusDirectlyFinalized\<rparr>"
  define ch2 where "ch2 = finalize_one example_chain_ops BlockStatusDirectlyFinalized b1 ch1"
  have b1: "eStatus b1 = BlockStatusPending" "hParent b1 = 0" "eChildren b1 = []" "hHeight b1 = 0" "hStateHash b1 = 7"
      "hEpoch b1 = 0" "hTimestamp b1 = Some 0"
      "ccBlockHash (hHCC b1) = 0"
    by (simp_all add: b1_def clearCache_def newExtendedBlock_def block.defs extblock.defs example_root_def example_block_def
        findBlocksByHeight_def heightIndex_def readAs_def example_chain0_def)
  have "finalize_loop example_chain_ops BlockStatusDirectlyFinalized 1 ch1 = Some (True, ch2)"
    by (subst rc.finalize_loop_unfold, simp add: find1 b1 IsFinalized_def ch2_def) (subst rc.finalize_loop_unfold, simp)
  with added have new: "NewChain example_chain_ops ''sub'' example_store example_root = Some (ch2\<lparr>chRoot := 1\<rparr>)"
    by (auto simp: NewChain_def Let_def example_chain0_def[symmetric] FinalizePreviousBlocks_def)
  have find2: "findBlock example_chain_ops 1 ch2 = Got b2"
    unfolding ch2_def b2_def by (subst rc.findBlock_finalize_one[OF rc.chain_invD(1)[OF inv1] find1]) simp
  have "Header_Hash example_block_ops b2 = 1"
    using hashes_okD(3)[OF rc.hashes_ok_finalize_one[OF rc.chain_invD(1)[OF inv1] find1, where status = BlockStatusDirectlyFinalized, folded ch2_def] find2] by simp
  moreover have "\<forall>k. k \<noteq> 1 \<longrightarrow> findBlock example_chain_ops k ch2 = NotFound"
    unfolding ch2_def rc.findBlock_finalize_one[OF rc.chain_invD(1)[OF inv1] find1] by (simp add: finds)
  moreover have "chChainID ch2 = ''sub''"
    by (simp add: ch2_def finalize_one_def AddTxsToIndex_def rc.chChainID_addTxs_loop ch1_def AddSnapshotRoot_def rc.chChainID_addBlock)
  ultimately have "root_only (ch2\<lparr>chRoot := 1\<rparr>) b2"
    using b1 find2 by (simp add: root_only_def b2_def findBlock_def readAs_def)
  with new show ?thesis
    by blast
qed

section \<open>The first vote\<close>

lemma copyViews_DB: "copyViews S sv ls = (ok, ls') \<Longrightarrow> lsDB ls' = lsDB ls"
  by (auto simp: copyViews_def Let_def split: prod.splits if_splits)

lemma NewLedgerState_DB: "lsDB (NewLedgerState S blk chainID d) = d"
proof -
  have reset: "lsDB (snd (LedgerState_ResetState S b ls)) = lsDB ls" for b ls
    by (auto simp: LedgerState_ResetState_def Let_def dest: copyViews_DB split: option.split prod.split)
  have fin: "lsDB (snd (LedgerState_Finalize S n h ls)) = lsDB ls" for n h ls
    by (simp add: LedgerState_Finalize_def split: option.split)
  show ?thesis
    by (simp add: NewLedgerState_def Let_def reset fin)
qed

lemma example_filter: "FilterValidators example_vset = example_vset"
  by (simp add: FilterValidators_def example_vset_def AddValidator_def NewValidatorSet_def)

lemma example_validatorSetAt: "validatorSetAt example_state_ops example_db n 7 = Some example_vset"
proof -
  let ?enc = "encValidatorSet example_state_ops example_vset"
  have new: "trNew example_state_ops 7 example_db = Some ([(CurrentValidatorSetKey, ?enc)], [])"
    by (simp add: example_state_ops_def ex_new_def example_db_def)
  have get: "trGet example_state_ops ([(CurrentValidatorSetKey, ?enc)], []) CurrentValidatorSetKey = ?enc"
    by (simp add: example_state_ops_def ex_get_def)
  have "decValidatorSet example_state_ops ?enc = Some example_vset" "?enc \<noteq> []"
    using example_codec_laws[unfolded codec_laws_def] by blast+
  then show ?thesis
    by (simp add: validatorSetAt_def NewStoreView_def new sv_GetValidatorSet_def readKey_def sv_Get_def freshView_def get)
qed

lemma example_finalized:
  assumes "findBlock example_chain_ops 1 (enChain e) = Got b" "ccBlockHash (hHCC b) = 0" "hStateHash b = 7"
    and "enLedger e = example_ledger"
  shows "GetFinalizedValidatorSet example_node e 1 isNext = Some example_vset"
proof -
  have "hccAncestor example_chain_ops (enChain e) (if isNext then 1 else 2) 1 = Some b"
    using assms(1,2) by (cases isNext) (simp_all add: numeral_2_eq_2)
  then have "GetFinalizedValidatorSet example_node e 1 isNext = lValidatorSetAt (oL example_node) example_ledger (hHeight b) 7"
    using assms(3,4) by (simp add: GetFinalizedValidatorSet_def del: hccAncestor.simps)
  also have "\<dots> = Some example_vset"
    by (simp add: ledgerImpl_def ledgerOn_def example_params_def example_exec_ops_def example_ledger_def NewLedgerState_DB
        example_validatorSetAt)
  finally show ?thesis .
qed

lemma example_validators:
  assumes "root_only ch b" "enChain e = ch" "enLedger e = example_ledger"
  shows "validatorSet example_node e 1 = Some example_vset"
  using assms example_finalized[of e b False]
  by (simp add: root_only_def GetValidatorSet_def selectValidatorsForBlock_def example_filter)

text \<open>The new engine votes for the root block when its first epoch times out.\<close>

definition first_engine :: "rdb chain \<Rightarrow> extblock \<Rightarrow> (rdb, (ex_tree, ex_db) ledger) engine" where
  "first_engine ch b =
    \<lparr>enChain = ch, enState = \<lparr>stHighestCCBlock = 1, stLastFinalizedBlock = 1, stLastProposal = emptyProposal,
        stLastVote = emptyVote, stEpoch = hEpoch b, stStub = None, stEpochVotes = None\<rparr>,
     enLedger = example_ledger, enHasSynced = False, enStopped = False, enVoteTimerReady = False,
     enBlockProcessed = False, enFinalizedBlocks = [], enSent = [], enIncoming = []\<rparr>"

lemma first_engine_new:
  assumes "root_only ch b"
  shows "NewConsensusEngine example_node ch None None example_ledger = Some (first_engine ch b)"
  using assms by (simp add: NewConsensusEngine_def NewState_def root_only_def State_Load_def emptyStub_def first_engine_def)

lemma first_vote:
  assumes root: "root_only ch b"
  shows "\<exists>e v. castVote example_node example_env (first_engine ch b) = Some e \<and> ownVotes e = [v] \<and> vBlock v = 1"
proof -
  let ?e = "first_engine ch b"
  have hcc: "highestCC example_node ?e = Some b"
    using root by (simp add: GetHighestCCBlock_def first_engine_def root_only_def)
  have stop: "tip_loop example_chain_ops ch True b [] = Some b"
    by (subst tip_loop.simps) simp
  have "tip_loop example_chain_ops ch True b [b] = Some b"
    using root by (subst tip_loop.simps) (simp add: root_only_def stop)
  then have tip: "GetTipToVote example_node ?e = Some b"
    using hcc by (simp add: GetTipToVote_def GetTip_def) (simp add: first_engine_def)
  have should: "shouldVote example_node 1 ?e = Some True"
    using example_validators[OF root, of ?e]
    by (simp add: shouldVote_def first_engine_def) (simp add: example_vset_def GetValidator_def)
  have again: "shouldRepeatVote example_node b ?e = Some False"
    using hcc by (simp add: shouldRepeatVote_def) (simp add: first_engine_def emptyVote_def)
  obtain v where v: "createVote example_node example_env b ?e = Some v"
    by (simp add: createVote_def Sign_def node_ops_def example_params_def)
  have h: "Header_Hash example_block_ops b = 1"
    using root by (simp add: root_only_def)
  have "vBlock v = 1"
    using node.createVote_fields(1)[OF v] h by simp
  then show ?thesis
    using tip should again v h by (simp add: castVote_def ownVotes_def broadcastVote_def) (simp add: first_engine_def)
qed

lemma first_propose:
  assumes root: "root_only ch b"
  shows "propose example_node env (enterEpoch (first_engine ch b)) = Some (enterEpoch (first_engine ch b))"
proof -
  let ?e = "enterEpoch (first_engine ch b)"
  have stop: "tip_loop example_chain_ops ch False b [] = Some b"
    by (subst tip_loop.simps) simp
  have "tip_loop example_chain_ops ch False b [b] = Some b"
    using root by (subst tip_loop.simps) (simp add: root_only_def stop)
  moreover have "highestCC example_node ?e = Some b"
    using root by (simp add: GetHighestCCBlock_def first_engine_def enterEpoch_def root_only_def)
  ultimately have "GetTipToExtend example_node ?e = Some b"
    by (simp add: GetTipToExtend_def GetTip_def) (simp add: first_engine_def enterEpoch_def)
  then show ?thesis
    by (simp add: propose_def shouldPropose_def) (simp add: first_engine_def enterEpoch_def)
qed

end
