(* ===== verification/StateFacts.thy ===== *)
theory StateFacts
  imports StateExample
begin

text \<open>
  Facts about the store view: the keys of different kinds never meet, so the view is a table of accounts
  beside the other entries; the interface \<open>account_table\<close> is what the execution of transactions uses of
  it. Storage slots and snapshots.
\<close>

section \<open>Keys\<close>

lemma length_addr_bytes [simp]: "length (addr_bytes a) = 20"
  by (simp add: addr_bytes_def)

lemma bit_addr_bytes:
  assumes "n < 160"
  shows "bit a n \<longleftrightarrow> bit (addr_bytes a ! (19 - n div 8)) (n mod 8)"
proof -
  have "8 * (19 - (19 - n div 8)) + n mod 8 = n" "19 - n div 8 < 20"
    using assms by simp_all
  then show ?thesis
    using assms by (simp add: addr_bytes_def bit_ucast_iff bit_drop_bit_eq)
qed

lemma addr_bytes_inj [simp]: "addr_bytes a = addr_bytes b \<longleftrightarrow> a = b"
proof
  assume "addr_bytes a = addr_bytes b"
  then show "a = b"
    by (intro bit_word_eqI) (simp add: bit_addr_bytes)
qed simp

lemma AccountKey_inj [simp]: "AccountKey a = AccountKey b \<longleftrightarrow> a = b"
  by (simp add: AccountKey_def)

lemma CodeKey_inj [simp]: "CodeKey a = CodeKey b \<longleftrightarrow> a = b"
  by (simp add: CodeKey_def)

lemmas state_key_defs = ChainIDKey_def SplitRuleKeyPrefix_def SplitRuleKey_def CodeKey_def CurrentValidatorSetKey_def
  ValidatorSetForChainDuringDynastyKey_def ValidatorSetUpdateTxHeightListKey_def StatePruningProgressKey_def
  ChainRegistrarContractAddressKey_def TFuelTokenBankContractAddressKey_def TNT20TokenBankContractAddressKey_def
  TNT721TokenBankContractAddressKey_def TNT1155TokenBankContractAddressKey_def

lemma AccountKey_other [simp]:
  "AccountKey a \<noteq> ChainIDKey" "AccountKey a \<noteq> SplitRuleKey r" "AccountKey a \<noteq> CodeKey c" "AccountKey a \<noteq> CurrentValidatorSetKey"
  "AccountKey a \<noteq> ValidatorSetForChainDuringDynastyKey i d" "AccountKey a \<noteq> ValidatorSetUpdateTxHeightListKey"
  "AccountKey a \<noteq> StatePruningProgressKey" "AccountKey a \<noteq> ChainRegistrarContractAddressKey"
  "AccountKey a \<noteq> TFuelTokenBankContractAddressKey" "AccountKey a \<noteq> TNT20TokenBankContractAddressKey"
  "AccountKey a \<noteq> TNT721TokenBankContractAddressKey" "AccountKey a \<noteq> TNT1155TokenBankContractAddressKey"
  by (simp_all add: AccountKey_def state_key_defs ascii_simps)

lemma CodeKey_other [simp]:
  "CodeKey c \<noteq> AccountKey a" "CodeKey c \<noteq> CurrentValidatorSetKey" "CodeKey c \<noteq> ValidatorSetForChainDuringDynastyKey i d"
  by (simp_all add: AccountKey_def state_key_defs ascii_simps)

lemma ValidatorSetKey_other [simp]:
  "CurrentValidatorSetKey \<noteq> AccountKey a" "ValidatorSetForChainDuringDynastyKey i d \<noteq> AccountKey a"
  "ValidatorSetForChainDuringDynastyKey i d \<noteq> CurrentValidatorSetKey" "CurrentValidatorSetKey \<noteq> ValidatorSetForChainDuringDynastyKey i d"
  by (simp_all add: AccountKey_def state_key_defs ascii_simps)

section \<open>The laws\<close>

definition state_laws :: "('t, 'd) state_ops \<Rightarrow> bool" where
  "state_laws S \<longleftrightarrow> tree_laws S \<and> codec_laws S"

lemma example_state_laws: "state_laws example_state_ops"
  by (simp add: state_laws_def example_laws)

lemma tree_lawsD:
  assumes "state_laws S"
  shows "trGet S (trUpdate S k v t) = (trGet S t)(k := v)"
    and "trGet S (trDelete S k t) = (trGet S t)(k := [])"
    and "trGet S t = trGet S u \<Longrightarrow> trHash S t = trHash S u"
    and "trCommit S t = Some (h, t') \<Longrightarrow> h = trHash S t \<and> trGet S t' = trGet S t"
    and "trCopy S t = Some u \<Longrightarrow> trGet S u = trGet S t"
    and "trCommit S t = Some (h, t') \<Longrightarrow> tree_later S t' u \<Longrightarrow> \<exists>t''. trOpen S u h = Some t'' \<and> trGet S t'' = trGet S t"
    and "trCommit S t = Some (h, t') \<Longrightarrow> trFlush S t' h d = Some d' \<Longrightarrow>
      (\<exists>u. trNew S h d' = Some u \<and> trGet S u = trGet S t) \<and>
      (\<forall>r u. trNew S r d = Some u \<longrightarrow> (\<exists>u'. trNew S r d' = Some u' \<and> trGet S u' = trGet S u))"
proof -
  note laws = conjunct1[OF assms[unfolded state_laws_def], unfolded tree_laws_def]
  show "trGet S (trUpdate S k v t) = (trGet S t)(k := v)"
    using laws by (elim conjE) (erule allE, erule allE, erule allE, assumption)
  show "trGet S (trDelete S k t) = (trGet S t)(k := [])"
    using laws by (elim conjE) (rule spec[where x = k], rule spec[where x = t], assumption)
  show "trGet S t = trGet S u \<Longrightarrow> trHash S t = trHash S u"
    using laws by (elim conjE) blast
  show "trCommit S t = Some (h, t') \<Longrightarrow> h = trHash S t \<and> trGet S t' = trGet S t"
    using laws by (elim conjE) blast
  show "trCopy S t = Some u \<Longrightarrow> trGet S u = trGet S t"
    using laws by (elim conjE) blast
  show "trCommit S t = Some (h, t') \<Longrightarrow> tree_later S t' u \<Longrightarrow> \<exists>t''. trOpen S u h = Some t'' \<and> trGet S t'' = trGet S t"
    using laws by (elim conjE) blast
  show "trCommit S t = Some (h, t') \<Longrightarrow> trFlush S t' h d = Some d' \<Longrightarrow>
      (\<exists>u. trNew S h d' = Some u \<and> trGet S u = trGet S t) \<and>
      (\<forall>r u. trNew S r d = Some u \<longrightarrow> (\<exists>u'. trNew S r d' = Some u' \<and> trGet S u' = trGet S u))"
    using laws[THEN conjunct2, THEN conjunct2, THEN conjunct2, THEN conjunct2, THEN conjunct2, THEN conjunct2] by blast
qed

lemma codec_lawsD:
  assumes "state_laws S"
  shows "decAccount S (encAccount S a) = Some a" "encAccount S a \<noteq> []"
    and "decValidatorSet S (encValidatorSet S vs) = Some vs" "encValidatorSet S vs \<noteq> []"
    and "decSlot S (encSlot S b) = Some b" "encSlot S b \<noteq> []"
    and "acAddress (NewAccount S addr) = addr" "acSequence (NewAccount S addr) = 0" "acRoot (NewAccount S addr) = 0"
    and "acBalance (NewAccount S addr) = \<lparr>coTheta = 0, coTFuel = 0\<rparr>" "acCodeHash (NewAccount S addr) = EmptyCodeHash S"
  using assms by (simp_all add: state_laws_def codec_laws_def)

lemma sv_Get_Set: "state_laws S \<Longrightarrow> sv_Get S k (sv_Set S k' v sv) = (if k = k' then v else sv_Get S k sv)"
  by (simp add: sv_Get_def sv_Set_def tree_lawsD(1))

lemma sv_frame [simp]:
  "sv_Get S k (addBalanceChange bc sv) = sv_Get S k sv" "sv_Get S k (AddLog l sv) = sv_Get S k sv"
  "sv_Get S k (AddRefund g sv) = sv_Get S k sv" "sv_Get S k (ResetLogs sv) = sv_Get S k sv"
  "sv_Get S k (ResetBalanceChanges sv) = sv_Get S k sv"
  "sv_Get S k (SetCoinbaseTransactionProcessed b sv) = sv_Get S k sv"
  "sv_Get S k (SetSubchainValidatorSetTransactionProcessed b sv) = sv_Get S k sv"
  by (simp_all add: sv_Get_def addBalanceChange_def AddLog_def AddRefund_def ResetLogs_def ResetBalanceChanges_def
      SetCoinbaseTransactionProcessed_def SetSubchainValidatorSetTransactionProcessed_def)

lemma GetAccount_cong: "sv_Get S (AccountKey a) sv' = sv_Get S (AccountKey a) sv \<Longrightarrow> GetAccount S a sv' = GetAccount S a sv"
  by (simp add: GetAccount_def readKey_def)

lemma setAccount_Get:
  assumes "state_laws S" "setAccount S u a acc s = Some s'"
  shows "sv_Get S k (fst s') = (if k = AccountKey a then encAccount S acc else sv_Get S k (fst s))"
proof -
  have "fst s' = sv_Set S (AccountKey a) (encAccount S acc) (fst s)"
    using assms(2) by (auto simp: setAccount_def Let_def bind_eq_Some_conv split: if_splits)
  then show ?thesis
    by (simp add: sv_Get_Set[OF assms(1)])
qed

lemma setAccount_GetAccount:
  assumes "state_laws S" "setAccount S u a acc s = Some s'"
  shows "GetAccount S b (fst s') = (if b = a then Some (Some acc) else GetAccount S b (fst s))"
  using setAccount_Get[OF assms] codec_lawsD(1,2)[OF assms(1), of acc]
  by (auto simp: GetAccount_def readKey_def Let_def)

section \<open>A table of accounts\<close>

text \<open>
  What the executors rely on: writing an account changes that account only. \<open>lawful\<close> are the operations
  for which the provider promises it.
\<close>

fun setAll :: "(address \<Rightarrow> account \<Rightarrow> 's \<Rightarrow> 's option) \<Rightarrow> (address \<times> account) list \<Rightarrow> 's \<Rightarrow> 's option" where
  "setAll set_acc [] s = Some s"
| "setAll set_acc ((a, acc) # xs) s = Option.bind (set_acc a acc s) (setAll set_acc xs)"

locale account_table =
  fixes lawful :: "'o \<Rightarrow> bool"
    and get_acc :: "'o \<Rightarrow> address \<Rightarrow> 's \<Rightarrow> account option option"
    and set_acc :: "'o \<Rightarrow> address \<Rightarrow> account \<Rightarrow> 's \<Rightarrow> 's option"
  assumes get_put: "lawful p \<Longrightarrow> set_acc p a acc s = Some s' \<Longrightarrow> get_acc p b s' = (if b = a then Some (Some acc) else get_acc p b s)"
begin

lemma get_setAll:
  assumes "lawful p" "setAll (set_acc p) xs s = Some s'" "distinct (map fst xs)"
  shows "get_acc p b s' = (case map_of xs b of Some acc \<Rightarrow> Some (Some acc) | None \<Rightarrow> get_acc p b s)"
  using assms(2,3)
proof (induction xs arbitrary: s)
  case (Cons x xs)
  obtain a acc where x: "x = (a, acc)"
    by fastforce
  then obtain s1 where s1: "set_acc p a acc s = Some s1" "setAll (set_acc p) xs s1 = Some s'"
    using Cons.prems(1) by (auto simp: bind_eq_Some_conv)
  have "a \<notin> fst ` set xs"
    using Cons.prems(2) by (simp add: x)
  then have "map_of xs a = None"
    by (simp add: map_of_eq_None_iff)
  then show ?case
    using Cons.IH[OF s1(2)] Cons.prems(2) get_put[OF assms(1) s1(1)] by (auto simp: x split: option.split)
qed simp

lemma get_setAll_other:
  assumes "lawful p" "setAll (set_acc p) xs s = Some s'" "b \<notin> fst ` set xs"
  shows "get_acc p b s' = get_acc p b s"
  using assms(2,3)
proof (induction xs arbitrary: s)
  case (Cons x xs)
  then show ?case
    using get_put[OF assms(1)] by (cases x) (auto simp: bind_eq_Some_conv)
qed simp

end

interpretation sv: account_table state_laws "\<lambda>S a s. GetAccount S a (fst s)" SetAccount
  by unfold_locales (simp add: SetAccount_def setAccount_GetAccount)

lemma setAll_append: "setAll set_acc (xs @ ys) s = Option.bind (setAll set_acc xs s) (setAll set_acc ys)"
  by (induction xs arbitrary: s) (auto split: bind_splits)

text \<open>Accounts without storage can always be written.\<close>

lemma SetAccount_no_storage:
  assumes "acRoot acc = 0 \<or> acRoot acc = emptyRoot S"
  shows "SetAccount S a acc s = Some (sv_Set S (AccountKey a) (encAccount S acc) (fst s), snd s)"
  using assms by (auto simp: SetAccount_def setAccount_def)

end
