(* ===== verification/NodeProps.thy ===== *)
theory NodeProps
  imports NodeExample StateFacts
begin

text \<open>
  Properties of a whole node: the consensus engine on the block store over the layered database and on the
  ledger with its state store, executors and mempool.
\<close>

section \<open>The new engine\<close>

lemma new_engine_inv:
  assumes empty: "\<And>k. rdb_Get store k = None" and root: "cache_ok B root" "hChainID root = chainID" "Header_Hash B root \<noteq> 0"
    and ch: "NewChain (rdb_chain_ops B E) chainID store root = Some ch"
    and e: "NewConsensusEngine (node_ops B E G a q) ch None None l = Some e"
  shows "engine_inv (node_ops B E G a q) e"
proof -
  have inv: "chain_inv (rdb_chain_ops B E) ch" "chRoot ch = Header_Hash B root"
    using rc.NewChain_empty[of B E store root chainID] empty root ch by auto
  obtain rb where rb: "findBlock (rdb_chain_ops B E) (chRoot ch) ch = Got rb"
    using e by (auto simp: NewConsensusEngine_def NewState_def bind_eq_Some_conv split: got.splits)
  have load: "State_Load ch s = s" if "stStub s = None" for s
    using that root(3) inv(2) by (simp add: State_Load_def emptyStub_def)
  have "e = \<lparr>enChain = ch, enState = \<lparr>stHighestCCBlock = chRoot ch, stLastFinalizedBlock = chRoot ch, stLastProposal = emptyProposal,
          stLastVote = emptyVote, stEpoch = hEpoch rb, stStub = None, stEpochVotes = None\<rparr>,
      enLedger = l, enHasSynced = False, enStopped = False, enVoteTimerReady = False,
      enBlockProcessed = False, enFinalizedBlocks = [], enSent = [], enIncoming = []\<rparr>"
    using e rb by (simp add: NewConsensusEngine_def NewState_def load)
  then have e_simps: "enChain e = ch" "stHighestCCBlock (enState e) = chRoot ch" "stLastFinalizedBlock (enState e) = chRoot ch"
      "stLastVote (enState e) = emptyVote" "stStub (enState e) = None" "ownVotes e = []"
    by (simp_all add: ownVotes_def)
  have h: "heightAt (rdb_chain_ops B E) ch (chRoot ch) = Some (hHeight rb)"
    unfolding heightAt_def rb by (simp only: got.case)
  have r: "chRoot ch \<noteq> 0"
    unfolding inv(2) by (rule root(3))
  have "votes_ok (rdb_chain_ops B E) ch (chRoot ch) emptyVote []"
    by (simp add: votes_ok_def votes_agree_def emptyVote_def)
  moreover have "stub_ok ch (enState e)"
    by (simp add: stub_ok_def e_simps r)
  ultimately show ?thesis
    unfolding engine_inv_def e_simps node_ops_simps h using inv(1) by blast
qed

lemma heightAt_Some: "heightAt X ch h = Some n \<longleftrightarrow> (\<exists>b. findBlock X h ch = Got b \<and> hHeight b = n)"
  by (simp add: heightAt_def split: got.split)

section \<open>Votes of a node\<close>

text \<open>C2: a validator never votes for two different blocks of the same height. For every run of a node from a
  new chain, with any messages, timeouts, concurrent writers of the block store and restarts from
  the persisted state in any order, the votes it casts come with non-decreasing heights, each for a stored
  block of the height it carries, and two votes of the same height are for the same block.\<close>

theorem no_double_vote:
  assumes "\<And>k. rdb_Get store k = None" and "cache_ok B root" and "hChainID root = chainID" and "Header_Hash B root \<noteq> 0"
    and "NewChain (rdb_chain_ops B E) chainID store root = Some ch"
    and "NewConsensusEngine (node_ops B E G a q) ch None None l = Some e0"
    and run: "engine_run (node_ops B E G a q) (Entering, e0) (p, e)"
  shows "sorted (map vHeight (ownVotes e)) \<and>
    (\<forall>v \<in> set (ownVotes e). \<exists>b. findBlock (rdb_chain_ops B E) (vBlock v) (enChain e) = Got b \<and> hHeight b = vHeight v) \<and>
    (\<forall>v \<in> set (ownVotes e). \<forall>w \<in> set (ownVotes e). vHeight v = vHeight w \<longrightarrow> vBlock v = vBlock w)"
proof -
  note inv0 = new_engine_inv[OF assms(1-6)]
  have "engine_inv (node_ops B E G a q) (snd (p, e))"
    by (rule node.engine_run_inv[OF run node_ops_simps(2)]) (simp only: snd_conv inv0)
  then have "engine_inv (node_ops B E G a q) e"
    by (simp only: snd_conv)
  note ok = engine_invD(5)[OF this, unfolded votes_ok_def node_ops_simps]
  have "\<exists>b. findBlock (rdb_chain_ops B E) (vBlock v) (enChain e) = Got b \<and> hHeight b = vHeight v" if "v \<in> set (ownVotes e)" for v
    using bspec[OF ok[THEN conjunct2, THEN conjunct1] that] by (simp only: vote_ok_def heightAt_Some)
  then show ?thesis
    using ok[THEN conjunct2, THEN conjunct2] unfolding votes_agree_def by (intro conjI ballI) blast+
qed

theorem no_double_vote_witness:
  "\<exists>ch b e v. NewChain example_chain_ops ''sub'' example_store example_root = Some ch \<and>
    castVote example_node example_env (first_engine ch b) = Some e \<and> ownVotes e = [v] \<and>
    isGot (findBlock example_chain_ops (vBlock v) (enChain e))"
proof -
  obtain ch b where ch: "NewChain example_chain_ops ''sub'' example_store example_root = Some ch" and root: "root_only ch b"
    using example_new_chain by blast
  obtain e v where e: "castVote example_node example_env (first_engine ch b) = Some e" and v: "ownVotes e = [v]" "vBlock v = 1"
    using first_vote[OF root] by blast
  have idle: "propose example_node example_env (enterEpoch (first_engine ch b)) = Some (enterEpoch (first_engine ch b))"
    by (rule first_propose[OF root])
  have "engine_step example_node (Entering, first_engine ch b) (Waiting, first_engine ch b)"
    using engine_step.enter[of example_node example_env "first_engine ch b", OF idle] by (simp add: enterEpoch_def first_engine_def)
  moreover have "engine_step example_node (Waiting, first_engine ch b) (Entering, e)"
    by (rule engine_step.epoch_timer[OF e])
  ultimately have "engine_run example_node (Entering, first_engine ch b) (Entering, e)"
    unfolding engine_run_def by (meson rtranclp.rtrancl_refl rtranclp.rtrancl_into_rtrancl)
  from no_double_vote[OF example_store_empty example_root_simps(7) example_root_simps(4) _ ch first_engine_new[OF root] this] v
  have "isGot (findBlock example_chain_ops (vBlock v) (enChain e))"
    by auto
  with ch e v(1) show ?thesis
    by blast
qed

end
