(* ===== verification/EngineProps.thy ===== *)
theory EngineProps
  imports NodeProps
begin

text \<open>
  Properties of the engine's handlers on the node's own block store: the search for the tip ends and finds
  the highest block, an epoch ends only with two thirds of the stake, a block becomes final only by the
  two-block rule, and nothing the engine reached is lost later.
\<close>

section \<open>The search for the tip\<close>

text \<open>A block the search enters, and the blocks it can reach from one.\<close>

definition tip_ok :: "bool \<Rightarrow> extblock \<Rightarrow> bool" where
  "tip_ok incl b \<longleftrightarrow> IsValid (eStatus b) \<and> (incl \<or> \<not> eHasValidatorUpdate b)"

inductive tip_reach :: "'s chain_ops \<Rightarrow> 's chain \<Rightarrow> bool \<Rightarrow> extblock \<Rightarrow> extblock \<Rightarrow> bool" for X ch incl where
  here: "tip_ok incl b \<Longrightarrow> tip_reach X ch incl b b"
| child: "tip_ok incl b \<Longrightarrow> h \<in> set (eChildren b) \<Longrightarrow> findBlock X h ch = Got c \<Longrightarrow> tip_reach X ch incl c d \<Longrightarrow>
    tip_reach X ch incl b d"

inductive_cases tip_reachE: "tip_reach X ch incl b d"

text \<open>Valid blocks are higher than their parents, as \<open>validateBlock\<close> demands.\<close>

definition heights_grow :: "'s chain_ops \<Rightarrow> 's chain \<Rightarrow> bool" where
  "heights_grow X ch \<longleftrightarrow>
    (\<forall>h b k c. findBlock X h ch = Got b \<and> k \<in> set (eChildren b) \<and> findBlock X k ch = Got c \<and> IsValid (eStatus c) \<longrightarrow>
      hHeight b < hHeight c)"

definition tip_rank :: "extblock \<Rightarrow> nat" where
  "tip_rank b = (if IsValid (eStatus b) then Suc (2 ^ 64 - unat (hHeight b)) else 0)"

lemma loadChildren_eq:
  assumes "\<forall>h \<in> set hs. \<exists>b. findBlock X h ch = Got b"
  obtains bs where "loadChildren X ch hs = Some bs" "\<And>b. b \<in> set bs \<longleftrightarrow> (\<exists>h \<in> set hs. findBlock X h ch = Got b)"
proof -
  have "\<exists>bs. loadChildren X ch hs = Some bs \<and> (\<forall>b. b \<in> set bs \<longleftrightarrow> (\<exists>h \<in> set hs. findBlock X h ch = Got b))"
    using assms by (induction hs) (auto split: got.split)
  with that show ?thesis
    by blast
qed

lemma tip_reach_not_ok: "\<not> tip_ok incl b \<Longrightarrow> \<not> tip_reach X ch incl b d"
  by (auto elim: tip_reachE)

lemma tip_rank_child:
  assumes "heights_grow X ch" "findBlock X h ch = Got b" "k \<in> set (eChildren b)" "findBlock X k ch = Got c" "tip_ok incl b"
  shows "tip_rank c < tip_rank b"
proof (cases "IsValid (eStatus c)")
  case True
  then have "hHeight b < hHeight c"
    using assms unfolding heights_grow_def by blast
  then have "unat (hHeight b) < unat (hHeight c)"
    by (simp add: word_less_nat_alt)
  moreover have "unat (hHeight c) < 2 ^ 64"
    using unsigned_less[of "hHeight c"] by simp
  ultimately show ?thesis
    using True assms(5) by (simp add: tip_rank_def tip_ok_def)
qed (use assms(5) in \<open>simp add: tip_rank_def tip_ok_def\<close>)

definition tip_stack :: "extblock list \<Rightarrow> nat multiset" where
  "tip_stack bs = mset (map tip_rank bs)"

definition tip_result :: "'s chain_ops \<Rightarrow> 's chain \<Rightarrow> bool \<Rightarrow> extblock \<Rightarrow> extblock list \<Rightarrow> extblock \<Rightarrow> bool" where
  "tip_result X ch incl c stack t \<longleftrightarrow>
    (t = c \<or> (\<exists>b \<in> set stack. tip_reach X ch incl b t)) \<and> hHeight c \<le> hHeight t \<and>
    (\<forall>b \<in> set stack. \<forall>d. tip_reach X ch incl b d \<longrightarrow> hHeight d \<le> hHeight t)"

lemma tip_stack_children:
  assumes "\<And>c. c \<in> set cs \<Longrightarrow> tip_rank c < tip_rank b"
  shows "(tip_stack (rev cs @ rest), tip_stack (b # rest)) \<in> mult less_than"
proof -
  have eq: "tip_stack (rev cs @ rest) = tip_stack rest + mset (map tip_rank cs)" "tip_stack (b # rest) = tip_stack rest + {#tip_rank b#}"
    by (simp_all add: tip_stack_def)
  show ?thesis
    unfolding eq by (rule one_step_implies_mult) (use assms in auto)
qed

lemma tip_stack_drop: "(tip_stack rest, tip_stack (b # rest)) \<in> mult less_than"
  using tip_stack_children[of "[]" b rest] by simp

lemma tip_result_step:
  assumes ok: "tip_ok incl b" and cs: "\<And>d. d \<in> set cs \<longleftrightarrow> (\<exists>k \<in> set (eChildren b). findBlock X k ch = Got d)"
    and t: "tip_result X ch incl (if hHeight c < hHeight b then b else c) (rev cs @ rest) t"
  shows "tip_result X ch incl c (b # rest) t"
proof -
  let ?c = "if hHeight c < hHeight b then b else c"
  have le: "hHeight c \<le> hHeight t" "hHeight b \<le> hHeight t"
    using t by (auto simp: tip_result_def split: if_splits)
  have "t = c \<or> (\<exists>d \<in> set (b # rest). tip_reach X ch incl d t)"
    using t tip_reach.here[OF ok] tip_reach.child[OF ok] cs
    by (auto simp: tip_result_def split: if_splits)
  moreover have "hHeight d \<le> hHeight t" if "b' \<in> set (b # rest)" "tip_reach X ch incl b' d" for b' d
    using that(2)
  proof (cases rule: tip_reach.cases)
    case here
    then show ?thesis
      using that le t tip_reach.here[OF here(2)] by (auto simp: tip_result_def)
  next
    case (child h c')
    then show ?thesis
      using that t cs by (auto simp: tip_result_def)
  qed
  ultimately show ?thesis
    using le by (auto simp: tip_result_def)
qed

lemma tip_loop_total:
  assumes kids: "\<And>h b k. findBlock X h ch = Got b \<Longrightarrow> k \<in> set (eChildren b) \<Longrightarrow> \<exists>c. findBlock X k ch = Got c"
    and grow: "heights_grow X ch"
    and stored: "\<forall>b \<in> set stack. \<exists>h. findBlock X h ch = Got b"
  shows "\<exists>t. tip_loop X ch incl c stack = Some t \<and> tip_result X ch incl c stack t"
  using stored
proof (induction "tip_stack stack" arbitrary: stack c rule: wf_induct_rule[OF wf_mult[OF wf_less_than]])
  case (1 stack)
  show ?case
  proof (cases stack)
    case Nil
    then show ?thesis
      by (subst tip_loop.simps) (simp add: tip_result_def)
  next
    case (Cons b rest)
    obtain h where h: "findBlock X h ch = Got b" and rest: "\<forall>b \<in> set rest. \<exists>h. findBlock X h ch = Got b"
      using 1(2) Cons by auto
    show ?thesis
    proof (cases "tip_ok incl b")
      case False
      obtain t where t: "tip_loop X ch incl c rest = Some t" "tip_result X ch incl c rest t"
        using 1(1)[OF _ rest, of c] tip_stack_drop[of rest b] Cons by blast
      have "tip_loop X ch incl c stack = Some t"
        using False t(1) by (subst tip_loop.simps) (auto simp: Cons tip_ok_def)
      with t(2) tip_reach_not_ok[OF False] show ?thesis
        by (auto simp: Cons tip_result_def)
    next
      case True
      obtain cs where cs: "loadChildren X ch (eChildren b) = Some cs"
          "\<And>d. d \<in> set cs \<longleftrightarrow> (\<exists>k \<in> set (eChildren b). findBlock X k ch = Got d)"
        using loadChildren_eq[of "eChildren b" X ch] kids[OF h] by metis
      let ?c = "if hHeight c < hHeight b then b else c"
      have "\<forall>b \<in> set (rev cs @ rest). \<exists>h. findBlock X h ch = Got b"
        using rest cs(2) by auto
      moreover have "(tip_stack (rev cs @ rest), tip_stack stack) \<in> mult less_than"
        unfolding Cons using cs(2) tip_rank_child[OF grow h _ _ True] by (intro tip_stack_children) blast
      ultimately obtain t where t: "tip_loop X ch incl ?c (rev cs @ rest) = Some t" "tip_result X ch incl ?c (rev cs @ rest) t"
        using 1(1)[of "rev cs @ rest" ?c] by blast
      have "tip_loop X ch incl c stack = Some t"
        using True t(1) cs(1) by (subst tip_loop.simps) (auto simp: Cons tip_ok_def)
      with tip_result_step[OF True cs(2) t(2)] show ?thesis
        unfolding Cons by blast
    qed
  qed
qed

text \<open>C6: \<open>GetTip\<close> always returns, and returns the highest block it may: the highest committed block itself
  or a block reached from it through valid blocks (and, for proposing, through blocks without a validator
  update), such that no other block reached that way is higher. The store is consistent and its valid
  blocks are higher than their parents.\<close>

theorem GetTip_highest:
  assumes inv: "chain_inv (rdb_chain_ops B E) (enChain e)" and grow: "heights_grow (rdb_chain_ops B E) (enChain e)"
    and hcc: "highestCC (node_ops B E G a q) e = Some hcc"
  shows "\<exists>tip. GetTip (node_ops B E G a q) incl e = Some tip \<and>
    (tip = hcc \<or> tip_reach (rdb_chain_ops B E) (enChain e) incl hcc tip) \<and> hHeight hcc \<le> hHeight tip \<and>
    (\<forall>d. tip_reach (rdb_chain_ops B E) (enChain e) incl hcc d \<longrightarrow> hHeight d \<le> hHeight tip)"
proof -
  have "\<exists>h. findBlock (rdb_chain_ops B E) h (enChain e) = Got hcc"
    using hcc by (auto simp: GetHighestCCBlock_def split: got.splits)
  then have "\<exists>t. tip_loop (rdb_chain_ops B E) (enChain e) incl hcc [hcc] = Some t \<and>
      tip_result (rdb_chain_ops B E) (enChain e) incl hcc [hcc] t"
    using rc.stored_children(2)[OF inv] by (intro tip_loop_total[OF _ grow]) (blast, simp)
  then show ?thesis
    using hcc by (simp add: GetTip_def tip_result_def)
qed

theorem GetTip_highest_witness:
  "\<exists>ch b tip. NewChain example_chain_ops ''sub'' example_store example_root = Some ch \<and>
    GetTip example_node True (first_engine ch b) = Some tip \<and> hHeight b \<le> hHeight tip"
proof -
  obtain ch b where ch: "NewChain example_chain_ops ''sub'' example_store example_root = Some ch" and root: "root_only ch b"
    using example_new_chain by blast
  have inv: "chain_inv example_chain_ops (enChain (first_engine ch b))"
    using rc.NewChain_empty[of example_block_ops example_eth_ops example_store example_root "''sub''"] ch
    by (simp add: first_engine_def)
  have grow: "heights_grow example_chain_ops (enChain (first_engine ch b))"
    using root by (auto simp: first_engine_def root_only_def heights_grow_def) (metis got.distinct(3) got.inject empty_iff list.set(1))
  have hcc: "highestCC example_node (first_engine ch b) = Some b"
    using root by (simp add: GetHighestCCBlock_def first_engine_def root_only_def)
  from GetTip_highest[OF inv grow hcc, where incl = True] ch show ?thesis
    by blast
qed

section \<open>Epochs\<close>

lemma AddVotes_distinct: "keyed vID vs \<Longrightarrow> AddVotes vs NewVoteSet = vs"
  by (simp add: AddVotes_put_all NewVoteSet_def put_all_empty vote_key_vID)

lemma epoch_votes_majority:
  assumes wf: "validatorset_wf vs" and "keyed vID votes"
    and maj: "HasMajority vs (AddVotes (filter (\<lambda>w. n \<le> vEpoch w) (Votes votes)) NewVoteSet)"
  shows "2 * TotalStake vs < 3 * (\<Sum>i \<in> {i \<in> members vs. \<exists>w \<in> set votes. vID w = i \<and> n \<le> vEpoch w}. stakeOf vs i)"
proof -
  let ?ws = "filter (\<lambda>w. n \<le> vEpoch w) (Votes votes)"
  have keyed: "keyed vID ?ws"
    using assms(2) by (intro distinct_map_filter) simp
  have "HasMajorityVotes vs ?ws"
    using maj unfolding AddVotes_distinct[OF keyed] HasMajority_iff .
  moreover have "vID ` set ?ws \<inter> members vs = {i \<in> members vs. \<exists>w \<in> set votes. vID w = i \<and> n \<le> vEpoch w}"
    by auto
  ultimately show ?thesis
    using vq.majority_iff[OF wf keyed] TotalStake_sum[OF wf] by simp
qed

lemma GetFinalizedValidatorSet_cong:
  "enChain e' = enChain e \<Longrightarrow> enLedger e' = enLedger e \<Longrightarrow> GetFinalizedValidatorSet N e' = GetFinalizedValidatorSet N e"
  by (simp add: GetFinalizedValidatorSet_def[abs_def] del: hccAncestor.simps)

context engine_env
begin

lemma handleVote_majority:
  assumes run: "handleVote N env v e = Some (True, e')"
  shows "Vote_Validate (bCrypto (cB (oX N))) v = OK"
    and "\<exists>lfb vs votes. lastFinalized N (withVote N v e) = Some lfb \<and> nextValidatorSet N (withVote N v e) (hashOf N lfb) = Some vs \<and>
      stEpochVotes (enState (withVote N v e)) = Some votes \<and> keyed vID votes \<and>
      HasMajority vs (AddVotes (filter (\<lambda>w. vEpoch v \<le> vEpoch w) (Votes votes)) NewVoteSet)"
proof -
  show "Vote_Validate (bCrypto (cB (oX N))) v = OK"
    using run unfolding handleVote_eq by (auto split: if_splits)
  have "\<exists>votes. stEpochVotes (enState (withVote N v e)) = Some votes \<and> keyed vID votes"
    by (simp add: withVote_def AddEpochVote_def Let_def keyed_UniqueVoter)
  then show "\<exists>lfb vs votes. lastFinalized N (withVote N v e) = Some lfb \<and> nextValidatorSet N (withVote N v e) (hashOf N lfb) = Some vs \<and>
      stEpochVotes (enState (withVote N v e)) = Some votes \<and> keyed vID votes \<and>
      HasMajority vs (AddVotes (filter (\<lambda>w. vEpoch v \<le> vEpoch w) (Votes votes)) NewVoteSet)"
    using run unfolding handleVote_eq by (auto simp: Let_def bind_eq_Some_conv split: if_splits)
qed

end

text \<open>C3: a vote ends the epoch only if it is valid, is not for an earlier epoch, and validators with more
  than two thirds of the stake have sent a vote of its epoch or a later one, each counted once; the new
  epoch is the one after the vote's. The validators are those that follow the last finalized block. Any
  other vote leaves the epoch as it is.\<close>

theorem epoch_ends_with_majority:
  fixes B E a q and G :: "('t, 'd, rdb) ledger_params"
  defines "N \<equiv> node_ops B E G a q"
  assumes run: "handleVote N env v e = Some (endEpoch, e')"
  shows "(endEpoch \<longrightarrow> Vote_Validate (bCrypto B) v = OK \<and> stEpoch (enState e) \<le> vEpoch v \<and>
      stEpoch (enState e') = vEpoch v + 1 \<and>
      (\<exists>lfb vs votes. lastFinalized N e' = Some lfb \<and> nextValidatorSet N e' (hashOf N lfb) = Some vs \<and>
        stEpochVotes (enState e') = Some votes \<and>
        (validatorset_wf vs \<longrightarrow>
          2 * TotalStake vs < 3 * (\<Sum>i \<in> {i \<in> members vs. \<exists>w \<in> set votes. vID w = i \<and> vEpoch v \<le> vEpoch w}. stakeOf vs i)))) \<and>
    (\<not> endEpoch \<longrightarrow> stEpoch (enState e') = stEpoch (enState e))"
proof (cases rule: node.handleVote_cases[OF run[unfolded N_def]])
  case (3 hs sent)
  note maj = node.handleVote_majority[OF run[unfolded N_def 3(1)[THEN eqTrueI]], folded N_def]
  have "GetFinalizedValidatorSet N e' = GetFinalizedValidatorSet N (withVote N v e)"
    unfolding 3(3) N_def by (rule GetFinalizedValidatorSet_cong) simp_all
  moreover have "lastFinalized N e' = lastFinalized N (withVote N v e)"
      "stEpochVotes (enState e') = stEpochVotes (enState (withVote N v e))" "stEpoch (enState e') = vEpoch v + 1"
    unfolding 3(3) N_def by (simp_all add: GetLastFinalizedBlock_def state_ops getSummary_def)
  moreover have "Vote_Validate (bCrypto B) v = OK"
    using maj(1) by (simp add: N_def)
  ultimately show ?thesis
    using maj(2) 3(1,2) epoch_votes_majority by auto
qed simp_all

text \<open>The only validator of the example ends the first epoch with its vote.\<close>

definition first_epoch_vote :: vote where
  "first_epoch_vote = \<lparr>vBlock = 1, vHeight = 0, vMainchainHeight = 0, vEpoch = 0, vID = 1, vSignature = Some [1]\<rparr>"

lemma example_proposer: "\<exists>p. getProposerFromValidators example_rand example_vset n = Some p"
proof -
  have "getProposerFromValidators example_rand example_vset n \<noteq> None"
    by (subst getProposer_None_iff[OF example_rand_ok])
      (simp_all add: example_vset_def validatorset_wf_def TotalStake_def weight_def scalingOf_def drawRange_def example_rand_def)
  then show ?thesis
    by blast
qed

lemma first_epoch:
  assumes root: "root_only ch b"
  shows "\<exists>e. handleVote example_node example_env first_epoch_vote (first_engine ch b) = Some (True, e)"
proof -
  let ?N = "example_node" and ?v = first_epoch_vote
  define e1 where "e1 = withVote ?N ?v (first_engine ch b)"
  have find: "findBlock example_chain_ops k (enChain e1) = findBlock example_chain_ops k ch" for k
    by (simp add: e1_def withVote_def first_engine_def rc.index_frames)
  have find1: "findBlock example_chain_ops 1 (enChain e1) = Got b" and hash: "Header_Hash example_block_ops b = 1"
    using root by (simp_all add: find root_only_def)
  have st: "enLedger e1 = example_ledger" "stLastFinalizedBlock (enState e1) = 1" "stHighestCCBlock (enState e1) = 1"
      "stEpochVotes (enState e1) = Some [?v]" "stEpoch (enState e1) = 0"
    using root by (simp_all add: e1_def withVote_def first_engine_def AddEpochVote_def Let_def root_only_def UniqueVoter_latest
        latestVotes_def latest_step_def AddVote_def NewVoteSet_def)
  have vs: "GetFinalizedValidatorSet ?N e1 1 True = Some example_vset"
    using root by (intro example_finalized[OF find1]) (simp_all add: root_only_def st)
  have maj: "HasMajority example_vset (AddVotes (filter (\<lambda>w. vEpoch ?v \<le> vEpoch w) (Votes [?v])) NewVoteSet)"
    by (simp add: HasMajority_iff AddVotes_distinct Votes_def first_epoch_vote_def example_vset_def HasMajorityVotes_def
        votedStake_def TotalStake_def GetValidator_def)
  have stop: "tip_loop example_chain_ops (enChain e1) False b [] = Some b"
    by (subst tip_loop.simps) simp
  have tip: "GetTipToExtend ?N e1 = Some b"
    using root by (simp add: GetTipToExtend_def GetTip_def GetHighestCCBlock_def st find1)
      (subst tip_loop.simps, simp add: root_only_def stop)
  have next_vs: "nextValidatorSet ?N e1 1 = Some example_vset"
    using vs by (simp add: GetNextValidatorSet_def selectValidatorsForBlock_def example_filter)
  obtain p where p: "GetNextProposer (oRand ?N) (GetFinalizedValidatorSet ?N e1) 1 1 = Some p"
    using example_proposer[of 1] next_vs
    by (auto simp: GetNextProposer_def node_ops_def example_params_def example_rand_ops_def)
  obtain e4 where "checkSyncStatus ?N example_env (e1\<lparr>enState := SetEpoch (enChain e1) 1 (enState e1)\<rparr>) = Some e4"
    using root by (simp add: checkSyncStatus_def state_ops st GetLastFinalizedBlock_def find1 isSyncing_def Let_def root_only_def)
  moreover have "lastFinalized ?N e1 = Some b"
    by (simp add: GetLastFinalizedBlock_def st find1)
  moreover have "Vote_Validate (bCrypto example_block_ops) ?v = OK"
    by (simp add: Vote_Validate_def first_epoch_vote_def example_block_ops_def example_crypto_def)
  moreover have "sendEpochVotes ?v ws e1 = e1" for ws
    by (simp add: sendEpochVotes_def st first_epoch_vote_def)
  moreover have "stEpoch (enState (first_engine ch b)) = 0" "vEpoch ?v = 0"
    using root by (simp_all add: first_engine_def root_only_def first_epoch_vote_def)
  ultimately show ?thesis
    unfolding node.handleVote_eq e1_def[symmetric]
    using maj tip next_vs p hash by (simp add: st Let_def)
qed

theorem epoch_ends_with_majority_witness:
  "\<exists>ch b e. NewChain example_chain_ops ''sub'' example_store example_root = Some ch \<and>
    handleVote example_node example_env first_epoch_vote (first_engine ch b) = Some (True, e) \<and> stEpoch (enState e) = 1"
proof -
  obtain ch b where ch: "NewChain example_chain_ops ''sub'' example_store example_root = Some ch" and root: "root_only ch b"
    using example_new_chain by blast
  obtain e where e: "handleVote example_node example_env first_epoch_vote (first_engine ch b) = Some (True, e)"
    using first_epoch[OF root] by blast
  from epoch_ends_with_majority[OF e] ch e show ?thesis
    by (auto simp: first_epoch_vote_def)
qed

section \<open>Commit and finalization\<close>

context engine_env
begin

lemma finalizeBlock_final:
  assumes "finalizeBlock N env b e = Some (ok, e')"
  shows "stLastFinalizedBlock (enState e') = stLastFinalizedBlock (enState e) \<or> stLastFinalizedBlock (enState e') = hashOf N b"
    and "stHighestCCBlock (enState e') = stHighestCCBlock (enState e)"
  by (cases rule: finalizeBlock_cases[OF assms]; simp add: state_ops)+

lemma processCCBlock_rule:
  assumes inv: "engine_inv N e" and run: "processCCBlock N env b e = Some e'"
  shows "(stHighestCCBlock (enState e') = stHighestCCBlock (enState e) \<and> stLastFinalizedBlock (enState e') = stLastFinalizedBlock (enState e)) \<or>
    (\<exists>hcc. highestCC N e = Some hcc \<and> hHeight hcc < hHeight b \<and>
      stHighestCCBlock (enState e') \<in> {stHighestCCBlock (enState e), hashOf N b} \<and>
      (stLastFinalizedBlock (enState e') = stLastFinalizedBlock (enState e) \<or>
       hParent b = ccBlockHash (hHCC b) \<and> stLastFinalizedBlock (enState e') = hParent b))"
proof -
  obtain hcc where hcc: "highestCC N e = Some hcc"
    using run by (auto simp: processCCBlock_def bind_eq_Some_conv)
  show ?thesis
  proof (cases "hHeight b \<le> hHeight hcc")
    case True
    with run hcc show ?thesis
      by (simp add: processCCBlock_def)
  next
    case False
    define pre where "pre = (if hParent b = ccBlockHash (hHCC b) then
           (case FindBlock N (hParent b) e of None \<Rightarrow> Some (False, e) | Some parent \<Rightarrow> finalizeBlock N env parent e)
         else Some (True, e))"
    obtain cont e1 where e1: "pre = Some (cont, e1)"
      using run hcc False by (auto simp: processCCBlock_def pre_def[symmetric] bind_eq_Some_conv)
    have pre1: "stHighestCCBlock (enState e1) = stHighestCCBlock (enState e) \<and>
        (stLastFinalizedBlock (enState e1) = stLastFinalizedBlock (enState e) \<or>
         hParent b = ccBlockHash (hHCC b) \<and> stLastFinalizedBlock (enState e1) = hParent b)"
    proof (cases "hParent b = ccBlockHash (hHCC b) \<and> isGot (findBlock (oX N) (hParent b) (enChain e))")
      case True
      then obtain parent where parent: "findBlock (oX N) (hParent b) (enChain e) = Got parent"
        by (cases "findBlock (oX N) (hParent b) (enChain e)") auto
      with True e1 have "finalizeBlock N env parent e = Some (cont, e1)"
        by (simp add: pre_def)
      from finalizeBlock_final[OF this] stored_hash(1)[OF inv parent] True show ?thesis
        by auto
    next
      case no: False
      then have "e1 = e"
        using e1 by (cases "findBlock (oX N) (hParent b) (enChain e)") (auto simp: pre_def split: if_splits)
      then show ?thesis
        by simp
    qed
    have "e' = e1 \<or> (\<exists>ch. e' = e1\<lparr>enState := SetHighestCCBlock (oX N) (enChain e1) b (enState e1), enChain := ch\<rparr>)"
      using run hcc False e1
      by (cases cont) (auto simp: processCCBlock_def pre_def[symmetric] bind_eq_Some_conv Let_def)
    with pre1 hcc False show ?thesis
      by (auto simp: state_ops not_le)
  qed
qed

end

text \<open>C1: the two-block rule. Whenever the node looks for a commit certificate of a block, its highest committed
  block and its last finalized block stay as they are, unless the block is stored, higher than the highest
  committed block, and hard-coded or voted for by more than two thirds of the stake of its validators, each
  counted once. Then the highest committed block may become this block, and the last finalized
  block may become its parent, only if the block names that same parent as its highest committed block.\<close>

theorem commit_and_finalize_rule:
  fixes B E a q and G :: "('t, 'd, rdb) ledger_params"
  defines "N \<equiv> node_ops B E G a q"
  assumes inv: "engine_inv N e" and run: "checkCC N env h e = Some e'"
  shows "(stHighestCCBlock (enState e') = stHighestCCBlock (enState e) \<and> stLastFinalizedBlock (enState e') = stLastFinalizedBlock (enState e)) \<or>
    (\<exists>b hcc. findBlock (rdb_chain_ops B E) h (enChain e) = Got b \<and> highestCC N e = Some hcc \<and> hHeight hcc < hHeight b \<and>
      (IsTrusted (eStatus b) \<or>
       (\<exists>vs. validatorSet N e h = Some vs \<and> (validatorset_wf vs \<longrightarrow>
         2 * TotalStake vs < 3 * (\<Sum>i \<in> vID ` set (FindVotesByHash (rdb_chain_ops B E) h (enChain e)) \<inter> members vs. stakeOf vs i)))) \<and>
      stHighestCCBlock (enState e') \<in> {stHighestCCBlock (enState e), h} \<and>
      (stLastFinalizedBlock (enState e') = stLastFinalizedBlock (enState e) \<or>
       hParent b = ccBlockHash (hHCC b) \<and> stLastFinalizedBlock (enState e') = hParent b))"
proof (cases "findBlock (rdb_chain_ops B E) h (enChain e)")
  case (Got b)
  have hash: "hashOf N b = h"
    using node.stored_hash(1)[OF inv[unfolded N_def], of h b] Got by (simp add: N_def)
  have maj: "2 * TotalStake vs < 3 * (\<Sum>i \<in> vID ` set ws \<inter> members vs. stakeOf vs i)"
    if "HasMajority vs (UniqueVoter ws)" "validatorset_wf vs" for vs ws
    using that vq.majority_iff[OF that(2) keyed_UniqueVoter[of ws]] TotalStake_sum[OF that(2)] UniqueVoter_voters[of ws]
    by (simp add: HasMajority_iff)
  consider "e' = e" | "IsTrusted (eStatus b)" "processCCBlock N env b e = Some e'"
    | vs where "validatorSet N e h = Some vs" "HasMajority vs (UniqueVoter (FindVotesByHash (rdb_chain_ops B E) h (enChain e)))"
        "processCCBlock N env b e = Some e'"
    using run Got by (auto simp: checkCC_def N_def Let_def bind_eq_Some_conv split: if_splits)
  then show ?thesis
  proof cases
    case 1
    then show ?thesis by simp
  next
    case 2
    with node.processCCBlock_rule[OF inv[unfolded N_def] 2(2)[unfolded N_def]] Got hash show ?thesis
      unfolding N_def by metis
  next
    case (3 vs)
    with node.processCCBlock_rule[OF inv[unfolded N_def] 3(3)[unfolded N_def]] Got hash maj[OF 3(2)] show ?thesis
      unfolding N_def by metis
  qed
qed (use run in \<open>auto simp: checkCC_def N_def split: if_splits\<close>)

lemma step_reach: "chain_step X ch ch' \<Longrightarrow> chain_reach X ch ch'"
  by (simp add: chain_reach_def r_into_rtranclp)

lemma in_put: "v \<in> set (put f v xs)"
  by (induction xs) auto

text \<open>A second block on top of the example's root, applied and voted for by the only validator.\<close>

definition second_vote :: vote where
  "second_vote = \<lparr>vBlock = 2, vHeight = 1, vMainchainHeight = 0, vEpoch = 0, vID = 1, vSignature = Some [1]\<rparr>"

lemma second_block:
  assumes inv: "chain_inv example_chain_ops ch" and root: "root_only ch b"
  obtains ch' b' b1 where "chain_reach example_chain_ops ch ch'" "findBlock example_chain_ops 2 ch' = Got b'"
    "hHeight b' = 1" "hParent b' = 1" "ccBlockHash (hHCC b') = 1" "eStatus b' = BlockStatusValid"
    "findBlock example_chain_ops 1 ch' = Got b1" "block.truncate b1 = block.truncate b"
    "second_vote \<in> set (FindVotesByHash example_chain_ops 2 ch')"
proof -
  let ?X = example_chain_ops and ?b = "example_block 1 1"
  define ch1 where "ch1 = snd (AddBlock ?X ?b ch)"
  have hash: "Header_Hash example_block_ops ?b = 2"
    by simp
  have fresh: "\<not> isGot (findBlock ?X 2 ch)"
    using root by (simp add: root_only_def)
  define b2 where "b2 = clearCache (newExtendedBlock ?X ?b (linkParent ?X ?b False 2 ch))"
  have find1: "findBlock ?X 2 ch1 = Got b2"
    using rc.findBlock_addBlock[of ?b ch example_block_ops example_eth_ops, OF _ _ HOL.refl, where snap = False and k = 2] fresh root
    by (simp add: root_only_def ch1_def b2_def AddBlock_def)
  have b2: "hHeight b2 = 1" "hParent b2 = 1" "ccBlockHash (hHCC b2) = 1"
    by (simp_all add: b2_def clearCache_def newExtendedBlock_def block.defs extblock.defs example_block_def)
  define b' where "b' = b2\<lparr>eStatus := BlockStatusValid\<rparr>"
  define ch2 where "ch2 = saveBlock ?X b' ch1"
  have reach1: "chain_reach ?X ch ch1"
    unfolding ch1_def by (intro step_reach chain_step.add_block) simp
  have inv1: "chain_inv ?X ch1"
    by (rule rc.chain_inv_reach[OF reach1 inv])
  have find2: "findBlock ?X 2 ch2 = Got b'"
    unfolding ch2_def b'_def by (subst rc.findBlock_mark[OF rc.keeps_links_marks(1) rc.chain_invD(1)[OF inv1] find1]) simp
  have "chain_reach ?X ch1 ch2"
    unfolding ch2_def b'_def by (intro step_reach chain_step.save_status[OF find1])
  moreover have "chain_reach ?X ch2 (AddVoteToIndex ?X second_vote ch2)"
    by (intro step_reach chain_step.add_vote)
  ultimately have reach: "chain_reach ?X ch (AddVoteToIndex ?X second_vote ch2)"
    using reach1 unfolding chain_reach_def by (metis rtranclp_trans)
  obtain b1 where b1: "findBlock ?X 1 (AddVoteToIndex ?X second_vote ch2) = Got b1" "block.truncate b1 = block.truncate b"
    using rc.blocks_kept_reach[OF reach inv] root unfolding blocks_kept_def root_only_def by blast
  have votes: "second_vote \<in> set (FindVotesByHash ?X 2 (AddVoteToIndex ?X second_vote ch2))"
    by (simp add: rc.FindVotes_added AddVote_def in_put second_vote_def)
  show ?thesis
    by (rule that[OF reach _ _ _ _ _ b1 votes, of b']) (simp_all add: rc.index_frames find2 b2 b'_def)
qed

lemma example_majority:
  assumes "1 \<in> vID ` set ws"
  shows "HasMajority example_vset (UniqueVoter ws)"
proof -
  have wf: "validatorset_wf example_vset"
    by (simp add: validatorset_wf_def example_vset_def)
  have "members example_vset = {1}" "stakeOf example_vset 1 = 10"
    by (simp_all add: example_vset_def members_def stakeOf_def GetValidator_def)
  moreover from this have "vID ` set (UniqueVoter ws) \<inter> members example_vset = {1}"
    using assms UniqueVoter_voters[of ws] by auto
  ultimately show ?thesis
    using vq.majority_iff[OF wf keyed_UniqueVoter[of ws]] by (simp add: HasMajority_iff)
qed

lemma second_commit:
  assumes inv: "engine_inv example_node (first_engine ch b)" and root: "root_only ch b"
  shows "\<exists>e e'. engine_inv example_node e \<and> checkCC example_node example_env 2 e = Some e' \<and> stHighestCCBlock (enState e) = 1 \<and>
    stHighestCCBlock (enState e') = 2"
proof -
  let ?X = example_chain_ops
  have "chain_inv ?X ch"
    using engine_invD(1)[OF inv] by (simp add: first_engine_def)
  from second_block[OF this root] obtain ch' b' b1 where
    reach: "chain_reach ?X ch ch'" and b': "findBlock ?X 2 ch' = Got b'"
    "hHeight b' = 1" "hParent b' = 1" "ccBlockHash (hHCC b') = 1" "eStatus b' = BlockStatusValid"
    and b1: "findBlock ?X 1 ch' = Got b1" "block.truncate b1 = block.truncate b"
    and vote: "second_vote \<in> set (FindVotesByHash ?X 2 ch')"
    by blast
  define e where "e = (first_engine ch b)\<lparr>enChain := ch'\<rparr>"
  have inv': "engine_inv example_node e"
    unfolding e_def using reach by (intro node.inv_chain[OF inv]) (simp add: first_engine_def)
  have st: "enChain e = ch'" "enLedger e = example_ledger" "stHighestCCBlock (enState e) = 1" "stLastFinalizedBlock (enState e) = 1"
      "enStopped e = False"
    by (simp_all add: e_def first_engine_def)
  have b1': "hHeight b1 = 0" "hStateHash b1 = 7" "ccBlockHash (hHCC b1) = 0"
    using root arg_cong[OF b1(2), of hHeight] arg_cong[OF b1(2), of hStateHash] arg_cong[OF b1(2), of hHCC]
    by (simp_all add: root_only_def block.defs)
  have hash: "Header_Hash example_block_ops b' = 2" "Header_Hash example_block_ops b1 = 1"
    using node.stored_hash(1)[OF inv', of 2 b'] node.stored_hash(1)[OF inv', of 1 b1] b'(1) b1(1) by (simp_all add: st)
  have nt: "\<not> IsTrusted (eStatus b')"
    by (simp add: IsTrusted_def b')
  have "hccAncestor ?X ch' (Suc (Suc 0)) 2 = Some b1"
    using nt b'(1,4) b1 b1' by simp
  then have "hccAncestor ?X ch' 2 2 = Some b1"
    unfolding numeral_2_eq_2[symmetric] .
  then have vs: "validatorSet example_node e 2 = Some example_vset"
    using b1' by (simp add: GetValidatorSet_def selectValidatorsForBlock_def GetFinalizedValidatorSet_def st example_filter
        ledgerImpl_def ledgerOn_def example_params_def example_exec_ops_def example_ledger_def NewLedgerState_DB
        example_validatorSetAt del: hccAncestor.simps)
  have maj: "HasMajority example_vset (UniqueVoter (FindVotesByHash ?X 2 ch'))"
    by (rule example_majority) (use vote in \<open>force simp: second_vote_def\<close>)
  have "processCCBlock example_node example_env b' e =
      map_option (\<lambda>c. e\<lparr>enState := SetHighestCCBlock ?X ch' b' (enState e), enChain := c\<rparr>) (CommitBlock ?X 2 ch')"
    using b' b1 b1' hash by (simp add: processCCBlock_def GetHighestCCBlock_def GetLastFinalizedBlock_def st finalizeBlock_def)
      (simp add: map_option_case split: option.split)
  moreover obtain c where "CommitBlock ?X 2 ch' = Some c"
    using b'(1) by (simp add: CommitBlock_def updateBlock_def)
  moreover have "checkCC example_node example_env 2 e = processCCBlock example_node example_env b' e"
    using b' b1 b1' vs maj by (simp add: checkCC_def IsInvalid_def IsPending_def IsCommitted_def IsDirectlyFinalized_def
        IsIndirectlyFinalized_def IsTrusted_def GetHighestCCBlock_def st Let_def)
  ultimately have "\<exists>e'. checkCC example_node example_env 2 e = Some e' \<and> stHighestCCBlock (enState e') = 2"
    using hash by (simp add: state_ops)
  with inv' st(3) show ?thesis
    by blast
qed

theorem commit_and_finalize_rule_witness:
  "\<exists>e e'. engine_inv example_node e \<and> checkCC example_node example_env 2 e = Some e' \<and>
    (\<exists>b hcc. findBlock example_chain_ops 2 (enChain e) = Got b \<and> highestCC example_node e = Some hcc \<and> hHeight hcc < hHeight b)"
proof -
  obtain ch b where ch: "NewChain example_chain_ops ''sub'' example_store example_root = Some ch" and root: "root_only ch b"
    using example_new_chain by blast
  have "engine_inv example_node (first_engine ch b)"
    by (rule new_engine_inv[OF example_store_empty _ _ _ ch first_engine_new[OF root]]) simp_all
  then obtain e e' where e: "engine_inv example_node e" "checkCC example_node example_env 2 e = Some e'"
      "stHighestCCBlock (enState e) = 1" "stHighestCCBlock (enState e') = 2"
    using second_commit[OF _ root] by blast
  from commit_and_finalize_rule[OF e(1,2)] e show ?thesis
    by auto
qed

end
