(* ===== verification/TransferProps.thy ===== *)
theory TransferProps
  imports NodeExample StateFacts
begin

text \<open>
  Transfers: what a send transaction that passes its check does to the accounts. The accounts it writes are
  a list of debits and credits on distinct addresses; the interface \<open>account_table\<close> gives the rest.
\<close>

section \<open>Early returns\<close>

text \<open>A computation returns early with errors only.\<close>

definition proper :: "'a exec \<Rightarrow> bool" where
  "proper m \<longleftrightarrow> (\<forall>e. m = Some (Inl e) \<longrightarrow> TxIsError e)"

lemma exec_cases: obtains "m = None" | e where "m = Some (Inl e)" | x where "m = Some (Inr x)"
  by (metis option.exhaust sum.exhaust)

lemma andThen_simps [simp]:
  "andThen None f = None" "andThen (Some (Inl e)) f = Some (Inl e)" "andThen (Some (Inr x)) f = f x"
  by (simp_all add: andThen_def)

lemma andThen_Inr: "andThen m f = Some (Inr y) \<longleftrightarrow> (\<exists>x. m = Some (Inr x) \<and> f x = Some (Inr y))"
  by (cases m rule: exec_cases) auto

lemma require_Inr [simp]: "require b e = Some (Inr x) \<longleftrightarrow> b"
  by (simp add: require_def)

lemma noError_Inr [simp]: "noError r = Some (Inr x) \<longleftrightarrow> \<not> TxIsError r"
  by (simp add: noError_def)

lemma lift_Inr [simp]: "lift m = Some (Inr x) \<longleftrightarrow> m = Some x"
  by (auto simp: lift_def)

lemma proper_simps [simp]:
  "proper (lift m)" "proper (require b (TxError c msg))" "proper (noError r)" "proper (Some (Inr x))" "proper (Some (Inl (TxError c msg)))" "proper None"
  by (auto simp: proper_def lift_def require_def noError_def split: if_splits)

lemma proper_andThen [simp]: "proper m \<Longrightarrow> (\<And>x. proper (f x)) \<Longrightarrow> proper (andThen m f)"
  by (cases m rule: exec_cases) (auto simp: proper_def)

lemma outcome_OK: "proper m \<Longrightarrow> outcome m = Some TxOK \<longleftrightarrow> (\<exists>x. m = Some (Inr x))"
  by (cases m rule: exec_cases) (auto simp: outcome_def proper_def)

lemma proper_accounts [simp]:
  "proper (getOrMakeAccountImpl K view a mk)" "proper (getInput K view inp mk)"
  "proper (getInputs K view ins accs)" "proper (getOrMakeOutputs K view outs accs)"
proof -
  show "proper (getOrMakeAccountImpl K view a mk)" for a mk
    by (auto simp: proper_def getOrMakeAccountImpl_def bind_eq_Some_conv split: option.splits if_splits)
  then show "proper (getOrMakeOutputs K view outs accs)"
    by (induction outs arbitrary: accs) simp_all
  show "proper (getInput K view inp mk)"
    by (cases "getOrMakeAccountImpl K view (inAddress inp) mk" rule: exec_cases) (simp_all add: getInput_def)
  show "proper (getInputs K view ins accs)"
  proof (induction ins arbitrary: accs)
    case (Cons inp ins)
    then show ?case
      by (cases "getOrMakeAccountImpl K view (inAddress inp) False" rule: exec_cases) simp_all
  qed simp
qed

lemma proper_validate [simp]: "proper (validateInputsAdvanced K accs sb ins h c)"
proof (induction ins arbitrary: c)
  case (Cons inp ins)
  then show ?case
    by (cases "map_of accs (inAddress inp)") simp_all
qed simp

section \<open>The accounts of a transfer\<close>

lemma getInputs_accounts:
  assumes "getInputs K view ins accs0 = Some (Inr accs)"
  shows "distinct (map inAddress ins) \<and> (\<forall>inp \<in> set ins. map_of accs0 (inAddress inp) = None) \<and>
    (\<forall>inp \<in> set ins. \<exists>acc. GetAccount (xS K) (inAddress inp) view = Some (Some acc) \<and>
      map_of accs (inAddress inp) = Some (xUpdateToHeight K (svHeight view) acc)) \<and>
    (\<forall>b. b \<notin> inAddress ` set ins \<longrightarrow> map_of accs b = map_of accs0 b)"
  using assms
proof (induction ins arbitrary: accs0)
  case (Cons inp ins)
  let ?a = "inAddress inp"
  obtain acc where acc: "GetAccount (xS K) ?a view = Some (Some acc)" and fresh: "map_of accs0 ?a = None"
    and rec: "getInputs K view ins ((?a, xUpdateToHeight K (svHeight view) acc) # accs0) = Some (Inr accs)"
    using Cons.prems
    by (cases "GetAccount (xS K) ?a view") (auto simp: getOrMakeAccountImpl_def split: if_splits option.splits)
  note IH = Cons.IH[OF rec]
  have new: "?a \<notin> inAddress ` set ins"
    using IH by auto
  then have "map_of accs ?a = Some (xUpdateToHeight K (svHeight view) acc)"
    using IH by auto
  with IH new acc fresh show ?case
    by (auto split: if_splits)
qed simp

text \<open>The account a credit goes to: the stored one, or a new one.\<close>

definition payee :: "('t, 'd, 's) exec_ops \<Rightarrow> 't storeview \<Rightarrow> address \<Rightarrow> account option \<Rightarrow> account" where
  "payee K view a r = xUpdateToHeight K (svHeight view)
    (case r of Some acc \<Rightarrow> acc | None \<Rightarrow> (NewAccount (xS K) a)\<lparr>acLastUpdated := svHeight view\<rparr>)"

lemma getOrMakeOutputs_accounts:
  assumes "getOrMakeOutputs K view outs accs0 = Some (Inr accs)"
  shows "distinct (map outAddress outs) \<and> (\<forall>out \<in> set outs. map_of accs0 (outAddress out) = None) \<and>
    (\<forall>out \<in> set outs. \<exists>r. GetAccount (xS K) (outAddress out) view = Some r \<and>
      map_of accs (outAddress out) = Some (payee K view (outAddress out) r)) \<and>
    (\<forall>b. b \<notin> outAddress ` set outs \<longrightarrow> map_of accs b = map_of accs0 b)"
  using assms
proof (induction outs arbitrary: accs0)
  case (Cons out outs)
  let ?a = "outAddress out"
  obtain r where r: "GetAccount (xS K) ?a view = Some r" and fresh: "map_of accs0 ?a = None"
    and rec: "getOrMakeOutputs K view outs ((?a, payee K view ?a r) # accs0) = Some (Inr accs)"
    using Cons.prems
    by (cases "GetAccount (xS K) ?a view") (auto simp: getOrMakeAccountImpl_def payee_def split: if_splits option.splits)
  note IH = Cons.IH[OF rec]
  have new: "?a \<notin> outAddress ` set outs"
    using IH by auto
  then have "map_of accs ?a = Some (payee K view ?a r)"
    using IH by auto
  with IH new r fresh show ?case
    by (auto split: if_splits)
qed simp

section \<open>Debits and credits\<close>

definition debit :: "('t, 'd, 's) exec_ops \<Rightarrow> accounts \<Rightarrow> txinput \<Rightarrow> address \<times> account" where
  "debit K accs inp =
    (let acc = the (map_of accs (inAddress inp))
     in (inAddress inp, acc\<lparr>acBalance := coMinus (xS K) (acBalance acc) (inCoins inp), acSequence := acSequence acc + 1\<rparr>))"

definition credit :: "('t, 'd, 's) exec_ops \<Rightarrow> accounts \<Rightarrow> txoutput \<Rightarrow> address \<times> account" where
  "credit K accs out =
    (let acc = the (map_of accs (outAddress out))
     in (outAddress out, acc\<lparr>acBalance := coPlus (xS K) (acBalance acc) (outCoins out)\<rparr>))"

lemma fst_moves [simp]: "fst (debit K accs inp) = inAddress inp" "fst (credit K accs out) = outAddress out"
  by (simp_all add: debit_def credit_def Let_def)

lemma adjustByInputs_setAll:
  assumes "distinct (map inAddress ins)"
    and "\<forall>inp \<in> set ins. \<exists>acc. map_of accs (inAddress inp) = Some acc \<and> coIsGTE (xS K) (acBalance acc) (inCoins inp)"
  shows "adjustByInputs K ins accs v =
    map_option (Pair (rev (map (debit K accs) ins) @ accs)) (setAll (SetAccount (xS K)) (map (debit K accs) ins) v)"
  using assms
proof (induction ins arbitrary: accs v)
  case (Cons inp ins)
  obtain acc where acc: "map_of accs (inAddress inp) = Some acc" "coIsGTE (xS K) (acBalance acc) (inCoins inp)"
    using Cons.prems(2) by auto
  define accs1 where "accs1 = debit K accs inp # accs"
  have same: "map_of accs1 (inAddress x) = map_of accs (inAddress x)" if "x \<in> set ins" for x
  proof -
    have "inAddress x \<noteq> inAddress inp"
      using that Cons.prems(1) by (metis distinct.simps(2) image_eqI list.set_map list.simps(9))
    then show ?thesis
      by (simp add: accs1_def debit_def Let_def)
  qed
  then have eq: "map (debit K accs1) ins = map (debit K accs) ins"
    by (simp add: debit_def)
  have "adjustByInputs K ins accs1 v1 =
      map_option (Pair (rev (map (debit K accs) ins) @ accs1)) (setAll (SetAccount (xS K)) (map (debit K accs) ins) v1)" for v1
    using Cons.IH[of accs1 v1] Cons.prems same eq by auto
  note rec = this
  define acc1 where "acc1 = acc\<lparr>acBalance := coMinus (xS K) (acBalance acc) (inCoins inp), acSequence := acSequence acc + 1\<rparr>"
  have d: "debit K accs inp = (inAddress inp, acc1)"
    using acc by (simp add: debit_def acc1_def)
  have "adjustByInputs K (inp # ins) accs v = Option.bind (SetAccount (xS K) (inAddress inp) acc1 v) (adjustByInputs K ins accs1)"
    using acc by (simp add: acc1_def accs1_def d Let_def)
  also have "\<dots> = map_option (Pair (rev (map (debit K accs) (inp # ins)) @ accs))
      (Option.bind (SetAccount (xS K) (inAddress inp) acc1 v) (setAll (SetAccount (xS K)) (map (debit K accs) ins)))"
    by (cases "SetAccount (xS K) (inAddress inp) acc1 v") (simp_all only: rec[unfolded accs1_def] accs1_def Option.bind.simps option.map rev.simps list.map append.simps append_assoc)
  finally show ?case
    by (simp only: list.map d setAll.simps)
qed simp

lemma adjustByOutputs_setAll:
  assumes "distinct (map outAddress outs)" "\<forall>out \<in> set outs. \<exists>acc. map_of accs (outAddress out) = Some acc"
  shows "adjustByOutputs K outs accs v =
    map_option (Pair (rev (map (credit K accs) outs) @ accs)) (setAll (SetAccount (xS K)) (map (credit K accs) outs) v)"
  using assms
proof (induction outs arbitrary: accs v)
  case (Cons out outs)
  obtain acc where acc: "map_of accs (outAddress out) = Some acc"
    using Cons.prems(2) by auto
  define accs1 where "accs1 = credit K accs out # accs"
  have same: "map_of accs1 (outAddress x) = map_of accs (outAddress x)" if "x \<in> set outs" for x
  proof -
    have "outAddress x \<noteq> outAddress out"
      using that Cons.prems(1) by (metis distinct.simps(2) image_eqI list.set_map list.simps(9))
    then show ?thesis
      by (simp add: accs1_def credit_def Let_def)
  qed
  then have eq: "map (credit K accs1) outs = map (credit K accs) outs"
    by (simp add: credit_def)
  have "adjustByOutputs K outs accs1 v1 =
      map_option (Pair (rev (map (credit K accs) outs) @ accs1)) (setAll (SetAccount (xS K)) (map (credit K accs) outs) v1)" for v1
    using Cons.IH[of accs1 v1] Cons.prems same eq by auto
  note rec = this
  define acc1 where "acc1 = acc\<lparr>acBalance := coPlus (xS K) (acBalance acc) (outCoins out)\<rparr>"
  have d: "credit K accs out = (outAddress out, acc1)"
    using acc by (simp add: credit_def acc1_def)
  have "adjustByOutputs K (out # outs) accs v = Option.bind (SetAccount (xS K) (outAddress out) acc1 v) (adjustByOutputs K outs accs1)"
    using acc by (simp add: acc1_def accs1_def d Let_def)
  also have "\<dots> = map_option (Pair (rev (map (credit K accs) (out # outs)) @ accs))
      (Option.bind (SetAccount (xS K) (outAddress out) acc1 v) (setAll (SetAccount (xS K)) (map (credit K accs) outs)))"
    by (cases "SetAccount (xS K) (outAddress out) acc1 v") (simp_all only: rec[unfolded accs1_def] accs1_def Option.bind.simps option.map rev.simps list.map append.simps append_assoc)
  finally show ?case
    by (simp only: list.map d setAll.simps)
qed simp

lemma validateInputsAdvanced_OK:
  assumes "validateInputsAdvanced K accs sb ins h c = Some (Inr tot)"
  shows "(\<forall>inp \<in> set ins. \<exists>acc. map_of accs (inAddress inp) = Some acc \<and> acSequence acc + 1 = inSequence inp \<and>
      coIsGTE (xS K) (acBalance acc) (inCoins inp)) \<and>
    tot = foldl (\<lambda>c inp. coPlus (xS K) c (inCoins inp)) c ins"
  using assms
proof (induction ins arbitrary: c)
  case (Cons inp ins)
  obtain acc where acc: "map_of accs (inAddress inp) = Some acc"
    using Cons.prems by (auto simp: bind_eq_Some_conv)
  with Cons show ?case
    by (auto simp: andThen_Inr validateInputAdvanced_def split: if_splits)
qed simp

lemma foldl_coins:
  assumes "coin_laws S"
  shows "foldl (\<lambda>c x. coPlus S c (f x)) c xs =
    \<lparr>coTheta = coTheta c + (\<Sum>x\<leftarrow>xs. coTheta (f x)), coTFuel = coTFuel c + (\<Sum>x\<leftarrow>xs. coTFuel (f x))\<rparr>"
  by (induction xs arbitrary: c) (simp_all add: assms[unfolded coin_laws_def, rule_format, THEN conjunct1])

text \<open>The transfer as a list of writes to distinct accounts.\<close>

lemma Send_process_writes:
  assumes check: "Send_sanityCheck K chainID (fst v) t = Some TxOK"
  obtains accs where
    "Send_process K chainID t v = map_option (Pair (xTxID K chainID (SendTx t), TxOK))
      (setAll (SetAccount (xS K)) (map (debit K accs) (sendInputs t) @ map (credit K accs) (sendOutputs t)) v)"
    "distinct (map inAddress (sendInputs t) @ map outAddress (sendOutputs t))"
    "\<forall>inp \<in> set (sendInputs t). \<exists>acc. GetAccount (xS K) (inAddress inp) (fst v) = Some (Some acc) \<and>
      map_of accs (inAddress inp) = Some (xUpdateToHeight K (svHeight (fst v)) acc) \<and>
      acSequence (xUpdateToHeight K (svHeight (fst v)) acc) + 1 = inSequence inp \<and>
      coIsGTE (xS K) (acBalance (xUpdateToHeight K (svHeight (fst v)) acc)) (inCoins inp)"
    "\<forall>out \<in> set (sendOutputs t). \<exists>r. GetAccount (xS K) (outAddress out) (fst v) = Some r \<and>
      map_of accs (outAddress out) = Some (payee K (fst v) (outAddress out) r)"
    "coIsEqual (xS K) (foldl (\<lambda>c inp. coPlus (xS K) c (inCoins inp)) noCoins (sendInputs t))
      (coPlus (xS K) (sumOutputs K (sendOutputs t)) (sendFee t))"
proof -
  let ?ins = "sendInputs t" and ?outs = "sendOutputs t"
  obtain accs0 accs tot where accs0: "getInputs K (fst v) ?ins [] = Some (Inr accs0)"
    and accs: "getOrMakeOutputs K (fst v) ?outs accs0 = Some (Inr accs)"
    and tot: "validateInputsAdvanced K accs (xSignBytes K chainID (SendTx t)) ?ins (svHeight (fst v) + 1) noCoins = Some (Inr tot)"
    and eq: "coIsEqual (xS K) tot (coPlus (xS K) (sumOutputs K ?outs) (sendFee t))"
    using check unfolding Send_sanityCheck_def Let_def by (subst (asm) outcome_OK) (auto simp: andThen_Inr)
  note I = getInputs_accounts[OF accs0] and O' = getOrMakeOutputs_accounts[OF accs]
  note V = validateInputsAdvanced_OK[OF tot]
  have disjoint: "inAddress inp \<notin> outAddress ` set ?outs" if "inp \<in> set ?ins" for inp
    using I O' that by force
  then have kept: "map_of accs (inAddress inp) = map_of accs0 (inAddress inp)" if "inp \<in> set ?ins" for inp
    using O' that by blast
  have ins: "\<exists>acc. GetAccount (xS K) (inAddress inp) (fst v) = Some (Some acc) \<and>
      map_of accs (inAddress inp) = Some (xUpdateToHeight K (svHeight (fst v)) acc) \<and>
      acSequence (xUpdateToHeight K (svHeight (fst v)) acc) + 1 = inSequence inp \<and>
      coIsGTE (xS K) (acBalance (xUpdateToHeight K (svHeight (fst v)) acc)) (inCoins inp)" if "inp \<in> set ?ins" for inp
    using I V kept[OF that] that by fastforce
  define accs1 where "accs1 = rev (map (debit K accs) ?ins) @ accs"
  have "map_of (rev (map (debit K accs) ?ins)) (outAddress out) = None" if "out \<in> set ?outs" for out
    using disjoint that by (force simp: map_of_eq_None_iff)
  then have same: "map_of accs1 (outAddress out) = map_of accs (outAddress out)" if "out \<in> set ?outs" for out
    using that by (simp add: accs1_def map_add_def)
  then have credits: "map (credit K accs1) ?outs = map (credit K accs) ?outs" "\<forall>out \<in> set ?outs. \<exists>acc. map_of accs1 (outAddress out) = Some acc"
    using O' by (auto simp: credit_def)
  have by_ins: "adjustByInputs K ?ins accs v = map_option (Pair accs1) (setAll (SetAccount (xS K)) (map (debit K accs) ?ins) v)"
    unfolding accs1_def using I ins by (intro adjustByInputs_setAll) blast+
  have by_outs: "adjustByOutputs K ?outs accs1 v1 =
      map_option (Pair (rev (map (credit K accs1) ?outs) @ accs1)) (setAll (SetAccount (xS K)) (map (credit K accs) ?outs) v1)" for v1
    using adjustByOutputs_setAll[of ?outs accs1 K v1, unfolded credits(1)] O' credits(2) unfolding credits(1) by blast
  have "Send_process K chainID t v = map_option (Pair (xTxID K chainID (SendTx t), TxOK))
      (setAll (SetAccount (xS K)) (map (debit K accs) ?ins @ map (credit K accs) ?outs) v)"
    by (cases "setAll (SetAccount (xS K)) (map (debit K accs) ?ins) v")
      (simp_all add: Send_process_def accs0 accs by_ins by_outs setAll_append map_option_case split: option.split)
  moreover have "distinct (map inAddress ?ins @ map outAddress ?outs)"
    using I O' disjoint by auto
  ultimately show ?thesis
    using that[of accs] ins O' eq V by simp
qed

section \<open>Sums over accounts\<close>

definition flow :: "('x \<Rightarrow> address) \<Rightarrow> ('x \<Rightarrow> coins) \<Rightarrow> 'x list \<Rightarrow> address \<Rightarrow> int" where
  "flow f c xs a = (\<Sum>x\<leftarrow>xs. if f x = a then coTFuel (c x) else 0)"

lemma flow_other: "a \<notin> f ` set xs \<Longrightarrow> flow f c xs a = 0"
  by (induction xs) (auto simp: flow_def)

lemma flow_in: "distinct (map f xs) \<Longrightarrow> x \<in> set xs \<Longrightarrow> flow f c xs (f x) = coTFuel (c x)"
proof (induction xs)
  case (Cons y ys)
  then show ?case
    using flow_other[of "f y" f ys c] by (cases "x = y") (auto simp: flow_def image_iff)
qed simp

lemma sum_flow:
  assumes "finite A" "f ` set xs \<subseteq> A"
  shows "(\<Sum>a \<in> A. flow f c xs a) = (\<Sum>x\<leftarrow>xs. coTFuel (c x))"
  using assms(2)
proof (induction xs)
  case (Cons x xs)
  have "(\<Sum>a \<in> A. flow f c (x # xs) a) = (\<Sum>a \<in> A. if f x = a then coTFuel (c x) else 0) + (\<Sum>a \<in> A. flow f c xs a)"
    by (simp add: flow_def sum.distrib)
  with Cons assms(1) show ?case
    by simp
qed (simp add: flow_def)

section \<open>The effect of a transfer\<close>

definition tfuelOf :: "('t, 'd) state_ops \<Rightarrow> address \<Rightarrow> 't storeview \<Rightarrow> int" where
  "tfuelOf S a sv = (case GetAccount S a sv of Some (Some acc) \<Rightarrow> coTFuel (acBalance acc) | _ \<Rightarrow> 0)"

text \<open>\<open>UpdateToHeight\<close> of the library records the height and nothing else.\<close>

definition update_laws :: "('t, 'd, 's) exec_ops \<Rightarrow> bool" where
  "update_laws K \<longleftrightarrow> (\<forall>h acc. acAddress (xUpdateToHeight K h acc) = acAddress acc \<and> acSequence (xUpdateToHeight K h acc) = acSequence acc \<and>
    acBalance (xUpdateToHeight K h acc) = acBalance acc \<and> acRoot (xUpdateToHeight K h acc) = acRoot acc)"

definition participants :: "sendtx \<Rightarrow> address set" where
  "participants t = inAddress ` set (sendInputs t) \<union> outAddress ` set (sendOutputs t)"

definition plain_accounts :: "('t, 'd) state_ops \<Rightarrow> address set \<Rightarrow> 't storeview \<Rightarrow> bool" where
  "plain_accounts S A sv \<longleftrightarrow>
    (\<forall>a \<in> A. \<forall>acc. GetAccount S a sv = Some (Some acc) \<longrightarrow> acRoot acc = 0 \<or> acRoot acc = emptyRoot S)"

lemma setAll_plain:
  assumes "\<forall>(a, acc) \<in> set xs. acRoot acc = 0 \<or> acRoot acc = emptyRoot S"
  shows "\<exists>s'. setAll (SetAccount S) xs s = Some s'"
  using assms
proof (induction xs arbitrary: s)
  case (Cons x xs)
  then show ?case
    by (cases x) (simp add: SetAccount_no_storage)
qed simp

lemma debit_acc:
  assumes "coin_laws (xS K)" "update_laws K"
    and "map_of accs (inAddress inp) = Some (xUpdateToHeight K h acc)" "acSequence (xUpdateToHeight K h acc) + 1 = inSequence inp"
    and "coIsGTE (xS K) (acBalance (xUpdateToHeight K h acc)) (inCoins inp)"
  shows "acRoot (snd (debit K accs inp)) = acRoot acc" "acSequence (snd (debit K accs inp)) = inSequence inp"
    "coTFuel (acBalance (snd (debit K accs inp))) = coTFuel (acBalance acc) - coTFuel (inCoins inp)"
    "coTFuel (inCoins inp) \<le> coTFuel (acBalance acc)"
  using assms by (auto simp: debit_def coin_laws_def update_laws_def)

lemma credit_acc:
  assumes "state_laws (xS K)" "coin_laws (xS K)" "update_laws K"
    and "GetAccount (xS K) (outAddress out) sv = Some r" "map_of accs (outAddress out) = Some (payee K sv (outAddress out) r)"
  shows "acRoot (snd (credit K accs out)) = (case r of Some acc \<Rightarrow> acRoot acc | None \<Rightarrow> 0)"
    "coTFuel (acBalance (snd (credit K accs out))) = tfuelOf (xS K) (outAddress out) sv + coTFuel (outCoins out)"
  using assms(2-5) codec_lawsD[OF assms(1)]
  by (auto simp: credit_def payee_def coin_laws_def update_laws_def tfuelOf_def split: option.split)

lemma moves_plain:
  assumes plain: "plain_accounts (xS K) (participants t) sv"
    and ins: "\<And>inp. inp \<in> set (sendInputs t) \<Longrightarrow> \<exists>acc. GetAccount (xS K) (inAddress inp) sv = Some (Some acc) \<and>
      acRoot (snd (debit K accs inp)) = acRoot acc"
    and outs: "\<And>out. out \<in> set (sendOutputs t) \<Longrightarrow> \<exists>r. GetAccount (xS K) (outAddress out) sv = Some r \<and>
      acRoot (snd (credit K accs out)) = (case r of Some acc \<Rightarrow> acRoot acc | None \<Rightarrow> 0)"
    and mem: "x \<in> set (map (debit K accs) (sendInputs t) @ map (credit K accs) (sendOutputs t))"
  shows "acRoot (snd x) = 0 \<or> acRoot (snd x) = emptyRoot (xS K)"
proof -
  consider inp where "inp \<in> set (sendInputs t)" "x = debit K accs inp" | out where "out \<in> set (sendOutputs t)" "x = credit K accs out"
    using mem by auto
  then show ?thesis
  proof cases
    case 1
    with ins[OF 1(1)] plain show ?thesis
      unfolding plain_accounts_def participants_def by (metis UnI1 imageI)
  next
    case 2
    then have "outAddress out \<in> participants t"
      by (simp add: participants_def)
    with outs[OF 2(1)] plain 2(2) show ?thesis
      unfolding plain_accounts_def by (metis option.case_eq_if option.collapse)
  qed
qed

lemma Send_effect:
  assumes laws: "state_laws (xS K)" "coin_laws (xS K)" "update_laws K"
    and check: "Send_sanityCheck K chainID (fst v) t = Some TxOK"
    and plain: "plain_accounts (xS K) (participants t) (fst v)"
  obtains v' where "Send_process K chainID t v = Some ((xTxID K chainID (SendTx t), TxOK), v')"
    "distinct (map inAddress (sendInputs t) @ map outAddress (sendOutputs t))"
    "\<forall>inp \<in> set (sendInputs t). \<exists>acc acc'. GetAccount (xS K) (inAddress inp) (fst v) = Some (Some acc) \<and>
      GetAccount (xS K) (inAddress inp) (fst v') = Some (Some acc') \<and> acSequence acc' = inSequence inp \<and>
      coTFuel (acBalance acc') = coTFuel (acBalance acc) - coTFuel (inCoins inp) \<and> 0 \<le> coTFuel (acBalance acc')"
    "\<forall>out \<in> set (sendOutputs t). tfuelOf (xS K) (outAddress out) (fst v') = tfuelOf (xS K) (outAddress out) (fst v) + coTFuel (outCoins out)"
    "\<forall>a. a \<notin> participants t \<longrightarrow> GetAccount (xS K) a (fst v') = GetAccount (xS K) a (fst v)"
    "(\<Sum>inp\<leftarrow>sendInputs t. coTFuel (inCoins inp)) = (\<Sum>out\<leftarrow>sendOutputs t. coTFuel (outCoins out)) + coTFuel (sendFee t)"
proof -
  let ?S = "xS K" and ?ins = "sendInputs t" and ?outs = "sendOutputs t" and ?sv = "fst v"
  let ?up = "xUpdateToHeight K (svHeight ?sv)"
  obtain accs where
    run: "Send_process K chainID t v = map_option (Pair (xTxID K chainID (SendTx t), TxOK))
      (setAll (SetAccount ?S) (map (debit K accs) ?ins @ map (credit K accs) ?outs) v)"
    and dist: "distinct (map inAddress ?ins @ map outAddress ?outs)"
    and ins: "\<forall>inp \<in> set ?ins. \<exists>acc. GetAccount ?S (inAddress inp) ?sv = Some (Some acc) \<and>
      map_of accs (inAddress inp) = Some (?up acc) \<and> acSequence (?up acc) + 1 = inSequence inp \<and>
      coIsGTE ?S (acBalance (?up acc)) (inCoins inp)"
    and outs: "\<forall>out \<in> set ?outs. \<exists>r. GetAccount ?S (outAddress out) ?sv = Some r \<and>
      map_of accs (outAddress out) = Some (payee K ?sv (outAddress out) r)"
    and eq: "coIsEqual ?S (foldl (\<lambda>c inp. coPlus ?S c (inCoins inp)) noCoins ?ins) (coPlus ?S (sumOutputs K ?outs) (sendFee t))"
    by (rule Send_process_writes[OF check])
  have C: "coPlus ?S a b = \<lparr>coTheta = coTheta a + coTheta b, coTFuel = coTFuel a + coTFuel b\<rparr>" "coIsEqual ?S a b \<longleftrightarrow> a = b" for a b
    using laws(2) by (simp_all add: coin_laws_def)
  define ws where "ws = map (debit K accs) ?ins @ map (credit K accs) ?outs"
  have dist_ws: "distinct (map fst ws)"
    using dist by (simp add: ws_def comp_def)
  have in_acc: "\<exists>acc. GetAccount ?S (inAddress inp) ?sv = Some (Some acc) \<and> acRoot (snd (debit K accs inp)) = acRoot acc \<and>
      acSequence (snd (debit K accs inp)) = inSequence inp \<and>
      coTFuel (acBalance (snd (debit K accs inp))) = coTFuel (acBalance acc) - coTFuel (inCoins inp) \<and>
      coTFuel (inCoins inp) \<le> coTFuel (acBalance acc)" if "inp \<in> set ?ins" for inp
    using bspec[OF ins that] debit_acc[OF laws(2,3)] by metis
  have out_acc: "\<exists>r. GetAccount ?S (outAddress out) ?sv = Some r \<and>
      acRoot (snd (credit K accs out)) = (case r of Some acc \<Rightarrow> acRoot acc | None \<Rightarrow> 0) \<and>
      coTFuel (acBalance (snd (credit K accs out))) = tfuelOf ?S (outAddress out) ?sv + coTFuel (outCoins out)"
    if "out \<in> set ?outs" for out
    using bspec[OF outs that] credit_acc[OF laws] by metis
  have "\<forall>(a, acc) \<in> set ws. acRoot acc = 0 \<or> acRoot acc = emptyRoot ?S"
    using moves_plain[OF plain, of accs] in_acc out_acc unfolding ws_def by fastforce
  then obtain v' where v': "setAll (SetAccount ?S) ws v = Some v'"
    using setAll_plain by blast
  note get = sv.get_setAll[OF laws(1) v' dist_ws]
  have got: "GetAccount ?S a (fst v') = Some (Some acc)" if "(a, acc) \<in> set ws" for a acc
    using get[of a] map_of_is_SomeI[OF dist_ws that] by simp
  have got_in: "GetAccount ?S (inAddress inp) (fst v') = Some (Some (snd (debit K accs inp)))" if "inp \<in> set ?ins" for inp
    by (rule got) (use that in \<open>auto simp: ws_def image_iff debit_def Let_def intro: bexI[of _ inp]\<close>)
  have got_out: "GetAccount ?S (outAddress out) (fst v') = Some (Some (snd (credit K accs out)))" if "out \<in> set ?outs" for out
    by (rule got) (use that in \<open>auto simp: ws_def image_iff credit_def Let_def intro: bexI[of _ out]\<close>)
  show ?thesis
  proof (rule that[OF _ dist])
    show "Send_process K chainID t v = Some ((xTxID K chainID (SendTx t), TxOK), v')"
      by (simp add: run v'[unfolded ws_def])
    show "\<forall>inp \<in> set ?ins. \<exists>acc acc'. GetAccount ?S (inAddress inp) ?sv = Some (Some acc) \<and>
      GetAccount ?S (inAddress inp) (fst v') = Some (Some acc') \<and> acSequence acc' = inSequence inp \<and>
      coTFuel (acBalance acc') = coTFuel (acBalance acc) - coTFuel (inCoins inp) \<and> 0 \<le> coTFuel (acBalance acc')"
      using in_acc got_in by fastforce
    show "\<forall>out \<in> set ?outs. tfuelOf ?S (outAddress out) (fst v') = tfuelOf ?S (outAddress out) ?sv + coTFuel (outCoins out)"
      using out_acc got_out unfolding tfuelOf_def[of ?S _ "fst v'"] by fastforce
    show "\<forall>a. a \<notin> participants t \<longrightarrow> GetAccount ?S a (fst v') = GetAccount ?S a ?sv"
      using sv.get_setAll_other[OF laws(1) v'] by (simp add: participants_def ws_def image_Un image_image)
    show "(\<Sum>inp\<leftarrow>?ins. coTFuel (inCoins inp)) = (\<Sum>out\<leftarrow>?outs. coTFuel (outCoins out)) + coTFuel (sendFee t)"
      using eq[unfolded sumOutputs_def, unfolded foldl_coins[OF laws(2)], unfolded C] by (simp add: noCoins_def)
  qed
qed

text \<open>C4: a send transaction that passes its check is executed without a panic, and the balances change by exactly
  what it says: the inputs pay, the outputs receive, nobody else is touched, no payer is overdrawn, and
  the sum over any set of accounts that contains the participants falls by the fee. The participants are
  pairwise different, so no account pays itself. The participants hold no contract storage.\<close>

theorem transfer_conserves:
  assumes laws: "state_laws (xS K)" "coin_laws (xS K)" "update_laws K"
    and check: "Send_sanityCheck K chainID (fst v) t = Some TxOK"
    and plain: "plain_accounts (xS K) (participants t) (fst v)"
  shows "\<exists>h v'. Send_process K chainID t v = Some ((h, TxOK), v') \<and>
    distinct (map inAddress (sendInputs t) @ map outAddress (sendOutputs t)) \<and>
    (\<forall>a. tfuelOf (xS K) a (fst v') =
      tfuelOf (xS K) a (fst v) - flow inAddress inCoins (sendInputs t) a + flow outAddress outCoins (sendOutputs t) a) \<and>
    (\<forall>a \<in> inAddress ` set (sendInputs t). 0 \<le> tfuelOf (xS K) a (fst v')) \<and>
    (\<forall>a. a \<notin> participants t \<longrightarrow> GetAccount (xS K) a (fst v') = GetAccount (xS K) a (fst v)) \<and>
    (\<forall>A. finite A \<and> participants t \<subseteq> A \<longrightarrow>
      (\<Sum>a \<in> A. tfuelOf (xS K) a (fst v')) = (\<Sum>a \<in> A. tfuelOf (xS K) a (fst v)) - coTFuel (sendFee t))"
proof -
  let ?in = "flow inAddress inCoins (sendInputs t)" and ?out = "flow outAddress outCoins (sendOutputs t)"
  obtain v' where run: "Send_process K chainID t v = Some ((xTxID K chainID (SendTx t), TxOK), v')"
    and dist: "distinct (map inAddress (sendInputs t) @ map outAddress (sendOutputs t))"
    and ins: "\<forall>inp \<in> set (sendInputs t). \<exists>acc acc'. GetAccount (xS K) (inAddress inp) (fst v) = Some (Some acc) \<and>
      GetAccount (xS K) (inAddress inp) (fst v') = Some (Some acc') \<and> acSequence acc' = inSequence inp \<and>
      coTFuel (acBalance acc') = coTFuel (acBalance acc) - coTFuel (inCoins inp) \<and> 0 \<le> coTFuel (acBalance acc')"
    and outs: "\<forall>out \<in> set (sendOutputs t). tfuelOf (xS K) (outAddress out) (fst v') = tfuelOf (xS K) (outAddress out) (fst v) + coTFuel (outCoins out)"
    and rest: "\<forall>a. a \<notin> participants t \<longrightarrow> GetAccount (xS K) a (fst v') = GetAccount (xS K) a (fst v)"
    and total: "(\<Sum>inp\<leftarrow>sendInputs t. coTFuel (inCoins inp)) = (\<Sum>out\<leftarrow>sendOutputs t. coTFuel (outCoins out)) + coTFuel (sendFee t)"
    by (rule Send_effect[OF assms])
  have pays: "tfuelOf (xS K) (inAddress inp) (fst v') = tfuelOf (xS K) (inAddress inp) (fst v) - coTFuel (inCoins inp)"
      "0 \<le> tfuelOf (xS K) (inAddress inp) (fst v')" if "inp \<in> set (sendInputs t)" for inp
    using bspec[OF ins that] by (auto simp: tfuelOf_def)
  have eff: "tfuelOf (xS K) a (fst v') = tfuelOf (xS K) a (fst v) - ?in a + ?out a" for a
  proof -
    consider inp where "inp \<in> set (sendInputs t)" "a = inAddress inp" "a \<notin> outAddress ` set (sendOutputs t)"
      | out where "out \<in> set (sendOutputs t)" "a = outAddress out" "a \<notin> inAddress ` set (sendInputs t)" | "a \<notin> participants t"
      using dist by (auto simp: participants_def)
    then show ?thesis
    proof cases
      case 1
      then show ?thesis
        using pays(1)[OF 1(1)] flow_in[of inAddress "sendInputs t" inp inCoins] dist flow_other[OF 1(3), of outCoins] by simp
    next
      case 2
      then show ?thesis
        using outs flow_in[of outAddress "sendOutputs t" out outCoins] dist flow_other[OF 2(3), of inCoins] by simp
    next
      case 3
      then show ?thesis
        using rest by (simp add: participants_def flow_other tfuelOf_def)
    qed
  qed
  have "(\<Sum>a \<in> A. tfuelOf (xS K) a (fst v')) = (\<Sum>a \<in> A. tfuelOf (xS K) a (fst v)) - coTFuel (sendFee t)"
    if "finite A" "participants t \<subseteq> A" for A
    using that total sum_flow[of A inAddress "sendInputs t" inCoins] sum_flow[of A outAddress "sendOutputs t" outCoins]
    by (simp add: eff sum.distrib sum_subtractf participants_def)
  with run dist eff pays(2) rest show ?thesis
    by blast
qed

text \<open>A payer with 100 units sends 10 to a new account, for a fee of 1.\<close>

definition example_payer :: account where
  "example_payer = \<lparr>acAddress = 1, acSequence = 0, acBalance = \<lparr>coTheta = 0, coTFuel = 100\<rparr>, acRoot = 0, acCodeHash = 0, acLastUpdated = 0\<rparr>"

definition example_view :: "ex_tree storeview \<times> ex_db" where
  "example_view = (sv_Set example_state_ops (AccountKey 1) (encAccount example_state_ops example_payer) (freshView 5 ([], [])), [])"

lemma example_view_accounts:
  "GetAccount example_state_ops a (fst example_view) = (if a = 1 then Some (Some example_payer) else Some None)"
proof -
  have "SetAccount example_state_ops 1 example_payer (freshView 5 ([], []), []) = Some example_view"
    by (subst SetAccount_no_storage) (simp_all add: example_payer_def example_view_def)
  from sv.get_put[OF example_state_laws this, of a] show ?thesis
    by (auto simp: GetAccount_def readKey_def sv_Get_def freshView_def example_state_ops_def ex_get_def)
qed

lemma example_send_simps:
  "participants example_send = {1, 2}" "plain_accounts example_state_ops {1, 2} (fst example_view)"
  "update_laws example_exec_ops" "xS example_exec_ops = example_state_ops"
  "tfuelOf example_state_ops 1 (fst example_view) = 100" "tfuelOf example_state_ops 2 (fst example_view) = 0"
  by (simp_all add: participants_def example_send_def plain_accounts_def example_view_accounts example_payer_def
      update_laws_def example_exec_ops_def tfuelOf_def insert_commute)

lemma example_send_check: "Send_sanityCheck example_exec_ops ''sub'' (fst example_view) example_send = Some TxOK"
proof -
  have acc: "getInputs example_exec_ops (fst example_view) (sendInputs example_send) [] = Some (Inr [(1, example_payer)])"
      "getOrMakeOutputs example_exec_ops (fst example_view) (sendOutputs example_send) [(1, example_payer)] =
        Some (Inr [(2, (NewAccount example_state_ops 2)\<lparr>acLastUpdated := svHeight (fst example_view)\<rparr>), (1, example_payer)])"
    by (simp_all add: example_send_def getOrMakeAccountImpl_def example_view_accounts example_send_simps(4) andThen_def)
      (simp_all add: example_exec_ops_def)
  show ?thesis
    unfolding Send_sanityCheck_def Let_def
    by (subst outcome_OK) (simp_all add: andThen_Inr acc,
      simp add: example_send_def example_exec_ops_def example_payer_def validateInputAdvanced_def sanityCheckForSendTxFee_def
        sumOutputs_def noCoins_def example_state_ops_def andThen_def noError_def require_def)
qed

theorem transfer_conserves_witness:
  "\<exists>h v'. Send_process example_exec_ops ''sub'' example_send example_view = Some ((h, TxOK), v') \<and>
    tfuelOf example_state_ops 1 (fst v') = 89 \<and> tfuelOf example_state_ops 2 (fst v') = 10"
proof -
  have "flow inAddress inCoins (sendInputs example_send) 1 = 11" "flow outAddress outCoins (sendOutputs example_send) 1 = 0"
    "flow inAddress inCoins (sendInputs example_send) 2 = 0" "flow outAddress outCoins (sendOutputs example_send) 2 = 10"
    by (simp_all add: flow_def example_send_def)
  with transfer_conserves[of example_exec_ops "''sub''" example_view example_send] show ?thesis
    using example_state_laws example_coin_laws example_send_simps example_send_check by auto
qed

text \<open>C5: a send transaction cannot be replayed: once it has been executed, the same transaction no longer passes its
  check, because every payer's sequence number has moved on.\<close>

theorem transfer_not_replayable:
  assumes laws: "state_laws (xS K)" "coin_laws (xS K)" "update_laws K"
    and check: "Send_sanityCheck K chainID (fst v) t = Some TxOK"
    and plain: "plain_accounts (xS K) (participants t) (fst v)"
    and run: "Send_process K chainID t v = Some (r, v')"
  shows "Send_sanityCheck K chainID (fst v') t \<noteq> Some TxOK"
proof
  assume again: "Send_sanityCheck K chainID (fst v') t = Some TxOK"
  have "sendInputs t \<noteq> []"
    using check unfolding Send_sanityCheck_def Let_def by (subst (asm) outcome_OK) (auto simp: andThen_Inr)
  then obtain inp where inp: "inp \<in> set (sendInputs t)"
    by (meson hd_in_set)
  obtain acc' where acc': "GetAccount (xS K) (inAddress inp) (fst v') = Some (Some acc')" "acSequence acc' = inSequence inp"
    using Send_effect[OF laws check plain] run inp by (metis option.inject prod.inject)
  have "acSequence acc' + 1 = inSequence inp"
    using Send_process_writes[OF again] inp acc'(1) laws(3) unfolding update_laws_def by (metis option.inject)
  with acc'(2) show False
    by simp
qed

theorem transfer_not_replayable_witness:
  "\<exists>r v'. Send_process example_exec_ops ''sub'' example_send example_view = Some (r, v') \<and>
    Send_sanityCheck example_exec_ops ''sub'' (fst v') example_send \<noteq> Some TxOK"
proof -
  have hyps: "state_laws (xS example_exec_ops)" "coin_laws (xS example_exec_ops)" "update_laws example_exec_ops"
    "plain_accounts (xS example_exec_ops) (participants example_send) (fst example_view)"
    using example_state_laws example_coin_laws example_send_simps by simp_all
  obtain v' where run: "Send_process example_exec_ops ''sub'' example_send example_view =
      Some ((xTxID example_exec_ops ''sub'' (SendTx example_send), TxOK), v')"
    by (rule Send_effect[OF hyps(1-3) example_send_check hyps(4)])
  from transfer_not_replayable[OF hyps(1-3) example_send_check hyps(4) run] run show ?thesis
    by blast
qed

end
