(* ===== verification/LedgerProps.thy ===== *)
theory LedgerProps
  imports TransferProps
begin

text \<open>
  Properties of the ledger: what a validator set update changes, the screening of transactions, and the
  application of the transactions of a block.
\<close>

section \<open>Validator set updates\<close>

lemma readKey_cong: "sv_Get S k sv = sv_Get S k sv' \<Longrightarrow> readKey S f k sv = readKey S f k sv'"
  by (simp add: readKey_def)

lemma setAccount_flags:
  "setAccount S u a acc s = Some s' \<Longrightarrow>
    svValidatorSetProcessed (fst s') = svValidatorSetProcessed (fst s) \<and> svHeight (fst s') = svHeight (fst s)"
  by (auto simp: setAccount_def Let_def bind_eq_Some_conv sv_Set_def split: if_splits)

text \<open>Installing the validators adds accounts and touches nothing else.\<close>

lemma installValidators_effect:
  assumes laws: "state_laws (xS K)" and "installValidators K vals vs v = Some (vs', v')"
  shows "vs' = foldl (\<lambda>vs val. AddValidator val vs) vs vals \<and>
    (\<forall>k. (\<forall>a. k \<noteq> AccountKey a) \<longrightarrow> sv_Get (xS K) k (fst v') = sv_Get (xS K) k (fst v)) \<and>
    svValidatorSetProcessed (fst v') = svValidatorSetProcessed (fst v) \<and>
    (\<forall>a acc. GetAccount (xS K) a (fst v) = Some (Some acc) \<longrightarrow> GetAccount (xS K) a (fst v') = Some (Some acc)) \<and>
    (\<forall>val \<in> set vals. \<exists>acc. GetAccount (xS K) (valAddress val) (fst v') = Some (Some acc))"
  using assms(2)
proof (induction vals arbitrary: vs v)
  case (Cons val vals)
  obtain r v1 where r: "GetAccount (xS K) (valAddress val) (fst v) = Some r"
    and v1: "(case r of Some _ \<Rightarrow> Some v | None \<Rightarrow> SetAccount (xS K) (valAddress val)
        ((NewAccount (xS K) (valAddress val))\<lparr>acLastUpdated := svHeight (fst v)\<rparr>) v) = Some v1"
    and rest: "installValidators K vals (AddValidator val vs) v1 = Some (vs', v')"
    using Cons.prems by (auto simp: bind_eq_Some_conv)
  show ?case
  proof (cases r)
    case None
    then have set1: "setAccount (xS K) True (valAddress val)
        ((NewAccount (xS K) (valAddress val))\<lparr>acLastUpdated := svHeight (fst v)\<rparr>) v = Some v1"
      using v1 by (simp add: SetAccount_def)
    have kept: "GetAccount (xS K) a (fst v1) = Some (Some acc)" if "GetAccount (xS K) a (fst v) = Some (Some acc)" for a acc
      using setAccount_GetAccount[OF laws set1, of a] that r None by (auto split: if_splits)
    have new: "\<exists>acc. GetAccount (xS K) (valAddress val) (fst v1) = Some (Some acc)"
      using setAccount_GetAccount[OF laws set1, of "valAddress val"] by simp
    have "sv_Get (xS K) k (fst v1) = sv_Get (xS K) k (fst v)" if "\<forall>a. k \<noteq> AccountKey a" for k
      using setAccount_Get[OF laws set1, of k] that by simp
    with Cons.IH[OF rest] setAccount_flags[OF set1] kept new show ?thesis
      by simp blast
  next
    case (Some acc)
    then show ?thesis
      using Cons.IH[OF rest] v1 r by auto
  qed
qed simp

lemma installValidators_total:
  assumes laws: "state_laws (xS K)" and "\<forall>a. \<exists>r. GetAccount (xS K) a (fst v) = Some r"
  shows "\<exists>vs' v'. installValidators K vals vs v = Some (vs', v')"
  using assms(2)
proof (induction vals arbitrary: vs v)
  case (Cons val vals)
  let ?acc = "(NewAccount (xS K) (valAddress val))\<lparr>acLastUpdated := svHeight (fst v)\<rparr>"
  obtain r where r: "GetAccount (xS K) (valAddress val) (fst v) = Some r"
    using Cons.prems by blast
  obtain v1 where v1: "SetAccount (xS K) (valAddress val) ?acc v = Some v1"
    by (simp add: SetAccount_no_storage codec_lawsD(9)[OF laws])
  have "\<forall>a. \<exists>r. GetAccount (xS K) a (fst v1) = Some r"
    using sv.get_put[OF laws v1] Cons.prems by simp
  from Cons.IH[OF this] Cons.IH[OF Cons.prems] show ?case
    by (cases r) (simp_all add: r v1)
qed simp

lemma sv_Get_UpdateValidatorSet:
  "state_laws S \<Longrightarrow> sv_Get S k (UpdateValidatorSet S chainID vs sv) =
    (if k = CurrentValidatorSetKey \<or> k = ValidatorSetForChainDuringDynastyKey chainID (dynasty vs) then encValidatorSet S vs
     else sv_Get S k sv)"
  by (simp add: UpdateValidatorSet_def Let_def sv_Get_Set)

lemma dynasty_foldl_AddValidator: "dynasty (foldl (\<lambda>vs val. AddValidator val vs) vs vals) = dynasty vs"
  by (induction vals arbitrary: vs) (simp_all add: AddValidator_def)

definition announcedSet :: "vsupdatetx \<Rightarrow> validatorset" where
  "announcedSet t = foldl (\<lambda>vs val. AddValidator val vs) (NewValidatorSet (vuDynasty t)) (vuValidators t)"

text \<open>C9: an accepted validator set update is the first of its block, moves to a strictly later dynasty, installs exactly
  the announced set, which is the one witnessed on the main chain for that dynasty, and records it both
  as the current set and as the set of its dynasty; every validator then has an account, and a second
  update in the block is refused. An update that is not accepted leaves the validator set as it is.
  In both cases the accounts that exist are kept.\<close>

theorem validator_update_rule:
  assumes laws: "state_laws (xS K)" and run: "ValSet_process K chainID t v = Some ((h, res), v')"
  shows "(res = TxOK \<longrightarrow> \<not> svValidatorSetProcessed (fst v) \<and> svValidatorSetProcessed (fst v') \<and>
      (\<exists>current. GetDynasty (xS K) (fst v) = Some (Some current) \<and> current < vuDynasty t) \<and>
      xWitnessedValidatorSet K (vuDynasty t) = Some (announcedSet t) \<and>
      sv_GetValidatorSet (xS K) (fst v') = Some (Some (announcedSet t)) \<and>
      GetValidatorSetForChainDuringDynasty (xS K) (scom_MapChainID K chainID) (vuDynasty t) (fst v') = Some (Some (announcedSet t)) \<and>
      GetDynasty (xS K) (fst v') = Some (Some (vuDynasty t)) \<and>
      (\<forall>val \<in> set (vuValidators t). \<exists>acc. GetAccount (xS K) (valAddress val) (fst v') = Some (Some acc)) \<and>
      (\<forall>t'. \<exists>e. ValSet_process K chainID t' v' = Some ((0, err e), v'))) \<and>
    (res \<noteq> TxOK \<longrightarrow> sv_GetValidatorSet (xS K) (fst v') = sv_GetValidatorSet (xS K) (fst v) \<and>
      svValidatorSetProcessed (fst v') = svValidatorSetProcessed (fst v)) \<and>
    (\<forall>a acc. GetAccount (xS K) a (fst v) = Some (Some acc) \<longrightarrow> GetAccount (xS K) a (fst v') = Some (Some acc))"
proof (cases "svValidatorSetProcessed (fst v)")
  case True
  then show ?thesis
    using run by (auto simp: ValSet_process_def)
next
  case False
  obtain v1 where inst: "installValidators K (vuValidators t) (NewValidatorSet (vuDynasty t)) v = Some (announcedSet t, v1)"
  proof -
    obtain vs v1 where vs: "installValidators K (vuValidators t) (NewValidatorSet (vuDynasty t)) v = Some (vs, v1)"
      using run False by (auto simp: ValSet_process_def bind_eq_Some_conv)
    with installValidators_effect[OF laws vs, THEN conjunct1] show ?thesis
      using that by (simp add: announcedSet_def)
  qed
  note eff = installValidators_effect[OF laws inst, THEN conjunct2]
  have cur: "sv_GetValidatorSet (xS K) (fst v1) = sv_GetValidatorSet (xS K) (fst v)" "GetDynasty (xS K) (fst v1) = GetDynasty (xS K) (fst v)"
    using eff[THEN conjunct1] unfolding sv_GetValidatorSet_def GetDynasty_def by (simp_all cong: readKey_cong add: readKey_def)
  obtain current where current: "GetDynasty (xS K) (fst v) = Some (Some current)"
    using run False inst cur(2) by (auto simp: ValSet_process_def bind_eq_Some_conv)
  define sv where "sv = SetSubchainValidatorSetTransactionProcessed True
    (UpdateValidatorSet (xS K) (scom_MapChainID K chainID) (announcedSet t) (fst v1))"
  have dyn: "dynasty (announcedSet t) = vuDynasty t"
    by (simp add: announcedSet_def dynasty_foldl_AddValidator NewValidatorSet_def)
  have get: "sv_Get (xS K) k sv = (if k = CurrentValidatorSetKey \<or> k = ValidatorSetForChainDuringDynastyKey (scom_MapChainID K chainID) (vuDynasty t)
      then encValidatorSet (xS K) (announcedSet t) else sv_Get (xS K) k (fst v1))" for k
    by (simp add: sv_def sv_Get_UpdateValidatorSet[OF laws] dyn)
  note codec = codec_lawsD(3,4)[OF laws, of "announcedSet t"]
  consider (ok) "current < vuDynasty t" "xWitnessedValidatorSet K (vuDynasty t) = Some (announcedSet t)" "res = TxOK" "v' = (sv, snd v1)"
    | (no) "res \<noteq> TxOK" "v' = v1"
    using run False inst cur(2) current
    by (auto simp: ValSet_process_def sv_def Let_def not_le Equals_iff split: if_splits option.splits)
  then show ?thesis
  proof cases
    case ok
    have acc: "GetAccount (xS K) a sv = GetAccount (xS K) a (fst v1)" for a
      by (rule GetAccount_cong) (simp add: get)
    have "svValidatorSetProcessed sv"
      by (simp add: sv_def SetSubchainValidatorSetTransactionProcessed_def)
    moreover have "readKey (xS K) (decValidatorSet (xS K)) CurrentValidatorSetKey sv = Some (Some (announcedSet t))"
      "readKey (xS K) (decValidatorSet (xS K)) (ValidatorSetForChainDuringDynastyKey (scom_MapChainID K chainID) (vuDynasty t)) sv =
        Some (Some (announcedSet t))"
      using codec by (simp_all add: readKey_def get)
    ultimately show ?thesis
      using ok False current eff acc dyn
      by (simp add: sv_GetValidatorSet_def GetDynasty_def GetValidatorSetForChainDuringDynasty_def ValSet_process_def)
  next
    case no
    then show ?thesis
      using cur eff by simp
  qed
qed

definition example_update :: vsupdatetx where
  "example_update = \<lparr>vuProposer = \<lparr>inAddress = 1, inCoins = noCoins, inSequence = 1, inSignature = Some [1]\<rparr>,
    vuDynasty = 1, vuValidators = [\<lparr>valAddress = 2, valStake = 10\<rparr>, \<lparr>valAddress = 1, valStake = 5\<rparr>]\<rparr>"

text \<open>The witness of the main chain has seen the announced set; the view holds the set of dynasty 0.\<close>

definition example_witness_ops :: "(ex_tree, ex_db, rdb) exec_ops" where
  "example_witness_ops = example_exec_ops\<lparr>xWitnessedValidatorSet := (\<lambda>_. Some (announcedSet example_update)),
    xDecodeTx := (\<lambda>_ _. Some (SubchainValidatorSetUpdateTx example_update))\<rparr>"

definition example_vs_view :: "ex_tree storeview \<times> ex_db" where
  "example_vs_view = (sv_Set example_state_ops CurrentValidatorSetKey (encValidatorSet example_state_ops example_vset) (fst example_view), [])"

lemma example_vs_view_simps:
  "GetAccount example_state_ops a (fst example_vs_view) = (if a = 1 then Some (Some example_payer) else Some None)"
  "GetDynasty example_state_ops (fst example_vs_view) = Some (Some 0)"
  "svValidatorSetProcessed (fst example_vs_view) = False"
proof -
  have "GetAccount example_state_ops a (fst example_vs_view) = GetAccount example_state_ops a (fst example_view)"
    by (rule GetAccount_cong) (simp add: example_vs_view_def sv_Get_Set[OF example_state_laws])
  then show "GetAccount example_state_ops a (fst example_vs_view) = (if a = 1 then Some (Some example_payer) else Some None)"
    by (simp add: example_view_accounts)
  show "GetDynasty example_state_ops (fst example_vs_view) = Some (Some 0)"
    using codec_lawsD(3,4)[OF example_state_laws, of example_vset]
    by (simp add: GetDynasty_def readKey_def example_vs_view_def sv_Get_Set[OF example_state_laws] example_vset_def)
  show "svValidatorSetProcessed (fst example_vs_view) = False"
    by (simp add: example_vs_view_def example_view_def sv_Set_def freshView_def)
qed

lemma example_update_run:
  "\<exists>h v'. ValSet_process example_witness_ops ''sub'' example_update example_vs_view = Some ((h, TxOK), v')"
proof -
  have K: "xS example_witness_ops = example_state_ops" "xWitnessedValidatorSet example_witness_ops d = Some (announcedSet example_update)" for d
    by (simp_all add: example_witness_ops_def example_exec_ops_def)
  have total: "\<forall>a. \<exists>r. GetAccount example_state_ops a (fst example_vs_view) = Some r"
    by (auto simp: example_vs_view_simps(1))
  let ?vals = "vuValidators example_update" and ?vs = "NewValidatorSet (vuDynasty example_update)"
  obtain v1 where v1: "installValidators example_witness_ops ?vals ?vs example_vs_view = Some (announcedSet example_update, v1)"
  proof -
    obtain vs v1 where "installValidators example_witness_ops ?vals ?vs example_vs_view = Some (vs, v1)"
      using installValidators_total[of example_witness_ops example_vs_view ?vals ?vs] example_state_laws total unfolding K by blast
    with installValidators_effect[OF _ this, THEN conjunct1] example_state_laws that show ?thesis
      by (simp add: announcedSet_def K)
  qed
  have "GetDynasty example_state_ops (fst v1) = Some (Some 0)"
    using installValidators_effect[OF _ v1] example_state_laws example_vs_view_simps(2)
    by (simp add: K GetDynasty_def readKey_def)
  then show ?thesis
    using v1 by (simp add: ValSet_process_def example_vs_view_simps K Equals_iff Let_def) (simp add: example_update_def)
qed

theorem validator_update_rule_witness:
  "\<exists>v'. GetDynasty example_state_ops (fst example_vs_view) = Some (Some 0) \<and>
    GetDynasty example_state_ops (fst v') = Some (Some 1) \<and>
    GetAccount example_state_ops 1 (fst v') = Some (Some example_payer)"
proof -
  obtain h v' where run: "ValSet_process example_witness_ops ''sub'' example_update example_vs_view = Some ((h, TxOK), v')"
    using example_update_run by blast
  have K: "xS example_witness_ops = example_state_ops"
    by (simp add: example_witness_ops_def example_exec_ops_def)
  from validator_update_rule[OF _ run] example_state_laws example_vs_view_simps(1)[of 1] example_vs_view_simps(2) show ?thesis
    by (auto simp: K example_update_def)
qed

section \<open>Screening\<close>

text \<open>C11: a transaction that updates the validator set brings the node down when it reaches the transaction pool: the
  screening asks for the validators of the block being processed, there is no such block, and the code
  panics (the outcome is none at all), whoever sent the transaction and whatever it says.\<close>

theorem screening_validator_update_panics:
  assumes "TxFromBytes (gK G) raw = Some (SubchainValidatorSetUpdateTx t)" and "\<not> xSkipSanityCheck (gK G)"
    and "\<not> fst (hasSeen (gP G) (envNanos env) raw (mpBookkeeper (lgMempool l)))"
  shows "insertTransaction G env True ch raw l = None"
proof -
  have "ledger_ScreenTx G env ch raw ls = None" for ls
    using assms(1,2)
    by (simp add: ledger_ScreenTx_def exec_ScreenTx_def processTx_def exec_sanityCheck_def ValSet_sanityCheck_def
        getValidatorSet_def execEnv_def lift_def andThen_def outcome_def bind_eq_None_conv split: bind_splits prod.splits)
  with assms(3) show ?thesis
    by (cases "hasSeen (gP G) (envNanos env) raw (mpBookkeeper (lgMempool l))")
      (simp add: insertTransaction_def InsertTransaction_def)
qed

definition example_witness_params :: "(ex_tree, ex_db, rdb) ledger_params" where
  "example_witness_params = example_params\<lparr>gK := example_witness_ops\<rparr>"

theorem screening_validator_update_panics_witness:
  "insertTransaction example_witness_params example_env True \<lparr>chStore = example_store, chChainID = ''sub'', chRoot = 1\<rparr>
    [201] example_ledger = None"
proof (rule screening_validator_update_panics)
  show "TxFromBytes (gK example_witness_params) [201] = Some (SubchainValidatorSetUpdateTx example_update)"
    by (simp add: TxFromBytes_def example_witness_params_def example_witness_ops_def example_exec_ops_def TxSubchainValidatorSetUpdate_def)
  show "\<not> xSkipSanityCheck (gK example_witness_params)"
    by (simp add: example_witness_params_def example_witness_ops_def example_exec_ops_def)
  show "\<not> fst (hasSeen (gP example_witness_params) (envNanos example_env) [201] (mpBookkeeper (lgMempool example_ledger)))"
    by (simp add: hasSeen_def removeOutdatedTxsUnsafe_def example_ledger_def CreateMempool_def createTransactionBookkeeper_def)
qed

section \<open>Applying a block\<close>

definition sameContents :: "('t, 'd) state_ops \<Rightarrow> 't storeview \<Rightarrow> 't storeview \<Rightarrow> bool" where
  "sameContents S sv sv' \<longleftrightarrow> svHeight sv = svHeight sv' \<and> trGet S (svStore sv) = trGet S (svStore sv')"

lemma sameContents_hash: "state_laws S \<Longrightarrow> sameContents S sv sv' \<Longrightarrow> StoreView_Hash S sv = StoreView_Hash S sv'"
  unfolding sameContents_def StoreView_Hash_def by (rule tree_lawsD(3)) simp_all

lemma TreeStore_Copy_contents:
  assumes "state_laws S" "TreeStore_Copy S t = (c, t1)"
  shows "trGet S t1 = trGet S t \<and> (\<forall>u. c = Some u \<longrightarrow> trGet S u = trGet S t)"
  using assms(2) tree_lawsD(4)[OF assms(1)] tree_lawsD(5)[OF assms(1)]
  by (auto simp: TreeStore_Copy_def Let_def split: option.splits)

lemma StoreView_Copy_contents:
  assumes "state_laws S" "StoreView_Copy S sv = (c, sv1)"
  shows "sameContents S sv1 sv \<and> svCoinbaseProcessed sv1 = svCoinbaseProcessed sv \<and> svValidatorSetProcessed sv1 = svValidatorSetProcessed sv \<and>
    (\<forall>u. c = Some u \<longrightarrow> sameContents S u sv \<and> \<not> svCoinbaseProcessed u \<and> \<not> svValidatorSetProcessed u)"
  using assms(2) TreeStore_Copy_contents[OF assms(1)]
  by (auto simp: StoreView_Copy_def sameContents_def freshView_def Let_def split: prod.splits)

text \<open>The three working views after the copy.\<close>

lemma copyViews_contents:
  assumes laws: "state_laws S" and "copyViews S sv ls = (ok, ls')"
  shows "lsDB ls' = lsDB ls \<and> lsParentBlock ls' = lsParentBlock ls \<and>
    (\<exists>d. lsDelivered ls' = Some d \<and> sameContents S d sv \<and> svCoinbaseProcessed d = svCoinbaseProcessed sv \<and>
      svValidatorSetProcessed d = svValidatorSetProcessed sv) \<and>
    (ok \<longrightarrow> (\<exists>c s. lsChecked ls' = Some c \<and> lsScreened ls' = Some s \<and> sameContents S c sv \<and> sameContents S s sv \<and>
      \<not> svCoinbaseProcessed c \<and> \<not> svValidatorSetProcessed c))"
proof -
  obtain c1 sv1 where 1: "StoreView_Copy S sv = (c1, sv1)"
    by fastforce
  obtain c2 sv2 where 2: "StoreView_Copy S sv1 = (c2, sv2)"
    by fastforce
  note same = StoreView_Copy_contents[OF laws 1] StoreView_Copy_contents[OF laws 2]
  show ?thesis
    using assms(2) same by (cases c1; cases c2) (auto simp: copyViews_def 1 2 sameContents_def)
qed

lemma resetState_contents:
  assumes laws: "state_laws (xS (gK G))" and sv: "NewStoreView (xS (gK G)) (hHeight blk) (hStateHash blk) (lsDB (lgState l)) = Some sv"
  shows "\<exists>d. lsDelivered (lgState (snd (resetState G blk l))) = Some d \<and> sameContents (xS (gK G)) d sv \<and>
    \<not> svCoinbaseProcessed d \<and> \<not> svValidatorSetProcessed d"
proof -
  obtain ok ls where cp: "copyViews (xS (gK G)) sv ((lgState l)\<lparr>lsParentBlock := Some blk\<rparr>) = (ok, ls)"
    by fastforce
  have "\<not> svCoinbaseProcessed sv" "\<not> svValidatorSetProcessed sv"
    using sv by (auto simp: NewStoreView_def freshView_def)
  with copyViews_contents[OF laws cp] show ?thesis
    by (auto simp: resetState_def LedgerState_ResetState_def sv cp)
qed

lemma resetState_frame:
  "lgMempool (snd (resetState G blk l)) = lgMempool l" "lsDB (lgState (snd (resetState G blk l))) = lsDB (lgState l)"
  "lsParentBlock (lgState (snd (resetState G blk l))) = Some blk"
  by (auto simp: resetState_def LedgerState_ResetState_def copyViews_def Let_def split: option.splits prod.splits)

lemma LedgerState_Commit_contents:
  assumes laws: "state_laws S" and tag: "\<forall>n h d r. trNew S r (tag n h d) = trNew S r d"
    and run: "LedgerState_Commit S tag ls = Some (h, ls')" and sv: "lsDelivered ls = Some sv"
  shows "h = StoreView_Hash S sv \<and>
    (\<exists>d c s. lsDelivered ls' = Some d \<and> lsChecked ls' = Some c \<and> lsScreened ls' = Some s \<and>
      (\<forall>u \<in> {d, c, s}. trGet S (svStore u) = trGet S (svStore sv) \<and> svHeight u = svHeight sv + 1)) \<and>
    (\<exists>t. trNew S h (lsDB ls') = Some t \<and> trGet S t = trGet S (svStore sv))"
proof -
  obtain t1 h' d1 where commit': "trCommit S (svStore sv) = Some (h', t1)" "trFlush S t1 h' (lsDB ls) = Some d1"
    using run sv by (auto simp: LedgerState_Commit_def Save_def TreeStore_Commit_def bind_eq_Some_conv)
  obtain ok ls1 where "copyViews S (IncrementHeight (sv\<lparr>svStore := t1\<rparr>)) (ls\<lparr>lsDB := tag (svHeight sv + 1) h' d1\<rparr>) = (ok, ls1)"
    by fastforce
  with run sv commit' have commit: "trCommit S (svStore sv) = Some (h, t1)" and flush: "trFlush S t1 h (lsDB ls) = Some d1"
    and cp: "copyViews S (IncrementHeight (sv\<lparr>svStore := t1\<rparr>)) (ls\<lparr>lsDB := tag (svHeight sv + 1) h d1\<rparr>) = (True, ls')"
    by (auto simp: LedgerState_Commit_def Save_def TreeStore_Commit_def IncrementHeight_def Let_def split: if_splits)
  have t1: "h = trHash S (svStore sv)" "trGet S t1 = trGet S (svStore sv)"
    using tree_lawsD(4)[OF laws commit] by simp_all
  obtain u where "trNew S h d1 = Some u" "trGet S u = trGet S (svStore sv)"
    using tree_lawsD(7)[OF laws commit flush] by blast
  then show ?thesis
    using copyViews_contents[OF laws cp] t1 tag by (auto simp: sameContents_def StoreView_Hash_def IncrementHeight_def)
qed

lemma applyTxs_not_ok: "applyTxs K raws b s = Some (Inl r, s') \<Longrightarrow> r \<noteq> ApplyOK c"
proof (induction raws arbitrary: b s)
  case (Cons raw raws)
  then show ?case
    by (cases "TxFromBytes K raw") (auto simp: bind_eq_Some_conv split: txresult.splits, metis txresult.exhaust)
qed simp


definition example_empty_block :: block where
  "example_empty_block = (example_block 1 1)\<lparr>bTxs := [], hStateHash := 0\<rparr>"

lemma example_empty_copy [simp]:
  "trCommit example_state_ops ([], []) = Some (0, ([], []))" "trCopy example_state_ops t = Some t"
  "trHash example_state_ops ([], []) = 0" "trNew example_state_ops 0 d = Some ([], [])" "trFlush example_state_ops t 0 d = Some d"
  by (simp_all add: example_state_ops_def ex_commit_def ex_hash_def ex_get_def ex_new_def ex_flush_def BytesToHash_def)

lemma example_copyViews [simp]:
  "copyViews example_state_ops (sv\<lparr>svStore := ([], [])\<rparr>) ls = (True,
    ls\<lparr>lsDelivered := Some (sv\<lparr>svStore := ([], [])\<rparr>), lsChecked := Some (freshView (svHeight sv) ([], [])),
       lsScreened := Some (freshView (svHeight sv) ([], []))\<rparr>)"
  by (simp add: copyViews_def StoreView_Copy_def TreeStore_Copy_def Let_def)

lemma example_ledger_delivered: "lsDelivered (lgState example_ledger) = Some (freshView 0 ([], []))"
  using example_copyViews[of "freshView 0 ([], [])"]
  by (simp add: example_ledger_def NewLedgerState_def LedgerState_ResetState_def LedgerState_Finalize_def NewStoreView_def freshView_def)

lemma example_apply:
  assumes root: "root_only ch b"
  shows "\<exists>l'. ApplyBlockTxs example_params example_env example_empty_block ch example_ledger = Some (ApplyOK False, ch, l')"
proof -
  have "xX (gK example_params) = example_chain_ops" "xS (gK example_params) = example_state_ops"
    by (simp_all add: example_params_def example_exec_ops_def)
  moreover have "hParent example_empty_block = 1" "bTxs example_empty_block = []" "hStateHash example_empty_block = 0"
    by (simp_all add: example_empty_block_def)
  ultimately show ?thesis
    using root example_copyViews[of "IncrementHeight (freshView 0 ([], []))"]
    by (simp add: ApplyBlockTxs_def root_only_def xstateOf_def example_ledger_delivered StoreView_Hash_def freshView_def
        LedgerState_Commit_def Save_def TreeStore_Commit_def IncrementHeight_def Let_def)
qed


end
