(* ===== verification/MempoolProps.thy ===== *)
theory MempoolProps
  imports TransferProps
begin

text \<open>
  Properties of the transaction pool: its groups stay well formed under every operation, and reaping hands
  out the transactions of each account in the order of their sequence numbers.
\<close>

section \<open>Well-formed pools\<close>

definition group_wf :: "txgroup \<Rightarrow> bool" where
  "group_wf g \<longleftrightarrow> tgTxs g \<noteq> [] \<and> (\<forall>t \<in> set (tgTxs g). tiAddress (mtInfo t) = tgAddress g)"

definition groups_wf :: "txgroup list \<Rightarrow> bool" where
  "groups_wf gs \<longleftrightarrow> distinct (map tgAddress gs) \<and> (\<forall>g \<in> set gs. group_wf g)"

definition groupTxs :: "txgroup list \<Rightarrow> mptx list" where
  "groupTxs gs = concat (map tgTxs gs)"

abbreviation poolTxs :: "mempool \<Rightarrow> mptx list" where
  "poolTxs mp \<equiv> groupTxs (mpGroups mp)"

abbreviation txSeq :: "mptx \<Rightarrow> nat" where
  "txSeq t \<equiv> unat (tiSequence (mtInfo t))"

abbreviation txAddr :: "mptx \<Rightarrow> address" where
  "txAddr t \<equiv> tiAddress (mtInfo t)"

section \<open>The priority queue\<close>

lemma pqPop_cases:
  assumes "pq_laws P" "q \<noteq> []" "pqPop P f q = (x, rest)"
  obtains ys zs where "q = ys @ x # zs" "rest = ys @ zs" "\<forall>y \<in> set q. f y \<le> f x"
proof -
  let ?i = "plTop P (map f q)"
  have i: "?i < length q" "\<forall>y \<in> set q. f y \<le> f (q ! ?i)"
    using assms(1)[unfolded pq_laws_def, rule_format, of "map f q"] assms(2) by auto
  have "x = q ! ?i" "rest = take ?i q @ drop (Suc ?i) q"
    using assms(3) by (auto simp: pqPop_def Let_def)
  with i(2) id_take_nth_drop[OF i(1)] show ?thesis
    by (intro that[of "take ?i q" "drop (Suc ?i) q"]) simp_all
qed

section \<open>Records of the bookkeeper\<close>

text \<open>Dropping the outdated records a second time at the same moment changes nothing.\<close>

lemma dropOutdated_idem: "dropOutdated now rs m = (rs', m') \<Longrightarrow> dropOutdated now rs' m' = (rs', m')"
  by (induction now rs m rule: dropOutdated.induct) (auto split: if_splits)

lemma removeOutdated_idem [simp]:
  "removeOutdatedTxsUnsafe now (removeOutdatedTxsUnsafe now tb) = removeOutdatedTxsUnsafe now tb"
  by (cases "dropOutdated now (tbList tb) (tbMap tb)")
    (simp add: removeOutdatedTxsUnsafe_def dropOutdated_idem)

definition recorded :: "pool_ops \<Rightarrow> int \<Rightarrow> bookkeeper \<Rightarrow> mptx \<Rightarrow> bool" where
  "recorded P now tb t \<longleftrightarrow> tbMap (removeOutdatedTxsUnsafe now tb) (plHash P (mtRaw t)) \<noteq> None"

lemma getStatus_eq:
  "getStatus now (plHash P (mtRaw t)) tb =
    ((case tbMap (removeOutdatedTxsUnsafe now tb) (plHash P (mtRaw t)) of None \<Rightarrow> TxStatusAbandoned | Some st \<Rightarrow> st,
      recorded P now tb t), removeOutdatedTxsUnsafe now tb)"
  by (auto simp: getStatus_def recorded_def Let_def split: option.split)

lemma recorded_idem [simp]: "recorded P now (removeOutdatedTxsUnsafe now tb) = recorded P now tb"
  by (rule ext) (simp add: recorded_def)

section \<open>Reaping\<close>

lemma groupTxs_simps [simp]:
  "groupTxs [] = []" "groupTxs (g # gs) = tgTxs g @ groupTxs gs" "groupTxs (gs @ hs) = groupTxs gs @ groupTxs hs"
  by (simp_all add: groupTxs_def)

lemma groups_wf_append:
  "groups_wf (gs @ hs) \<longleftrightarrow> groups_wf gs \<and> groups_wf hs \<and> tgAddress ` set gs \<inter> tgAddress ` set hs = {}"
  by (auto simp: groups_wf_def)

lemma groups_wf_Cons: "groups_wf (g # gs) \<longleftrightarrow> group_wf g \<and> groups_wf gs \<and> tgAddress g \<notin> tgAddress ` set gs"
  by (auto simp: groups_wf_def)

lemma groups_wf_addr: "groups_wf gs \<Longrightarrow> t \<in> set (groupTxs gs) \<Longrightarrow> txAddr t \<in> tgAddress ` set gs"
  by (induction gs) (auto simp: groups_wf_Cons group_wf_def)

text \<open>
  One round of the loop: a transaction leaves the pool that has the least sequence number of its account,
  and the rest stays well formed.
\<close>

lemma reap_step:
  assumes laws: "pq_laws P" and wf: "groups_wf gs" "gs \<noteq> []"
    and pop: "pqPop P (txgroup_Priority P) gs = (g, rest)" "PopTx P g = (t, g1)"
  defines "gs1 \<equiv> (if tgTxs g1 = [] then rest else rest @ [g1])"
  shows "groups_wf gs1 \<and> mset (groupTxs gs) = add_mset t (mset (groupTxs gs1)) \<and>
    (\<forall>u \<in> set (groupTxs gs1). txAddr u = txAddr t \<longrightarrow> txSeq t \<le> txSeq u)"
proof -
  obtain ys zs where gs: "gs = ys @ g # zs" "rest = ys @ zs"
    using pqPop_cases[OF laws wf(2) pop(1)] by blast
  have g: "group_wf g" "tgAddress g \<notin> tgAddress ` (set ys \<union> set zs)"
    using wf(1) by (auto simp: gs groups_wf_append groups_wf_Cons)
  obtain ts where ts: "pqPop P mptx_Priority (tgTxs g) = (t, ts)" "g1 = g\<lparr>tgTxs := ts\<rparr>"
    using pop(2) by (auto simp: PopTx_def Let_def split: prod.splits)
  obtain us vs where us: "tgTxs g = us @ t # vs" "ts = us @ vs" "\<forall>u \<in> set (tgTxs g). mptx_Priority u \<le> mptx_Priority t"
    using pqPop_cases[OF laws _ ts(1)] g(1)[unfolded group_wf_def, THEN conjunct1] by blast
  have least: "txSeq t \<le> txSeq u" if "u \<in> set ts" for u
  proof -
    have "mptx_Priority u \<le> mptx_Priority t"
      using us that by simp
    then have "tiSequence (mtInfo t) \<le> tiSequence (mtInfo u)"
      by (simp add: mptx_Priority_def word_le_def)
    then show ?thesis
      by (simp add: word_le_nat_alt)
  qed
  have rest: "groups_wf rest" "tgAddress g \<notin> tgAddress ` set rest"
    using wf(1) g(2) by (auto simp: gs groups_wf_append groups_wf_Cons)
  have wf1: "groups_wf gs1"
    using rest g(1) us by (auto simp: gs1_def ts(2) groups_wf_append groups_wf_def group_wf_def)
  have mset: "mset (groupTxs gs) = add_mset t (mset (groupTxs gs1))"
    using us(1,2) by (simp add: gs1_def gs ts(2))
  have min: "txSeq t \<le> txSeq u" if "u \<in> set (groupTxs gs1)" "txAddr u = txAddr t" for u
  proof -
    have "u \<in> set (groupTxs rest) \<or> u \<in> set ts"
      using that(1) by (auto simp: gs1_def ts(2) split: if_splits)
    moreover have "u \<notin> set (groupTxs rest)"
      using groups_wf_addr[OF rest(1), of u] rest(2) that(2) g(1) us(1) by (auto simp: group_wf_def)
    ultimately show ?thesis
      using least by blast
  qed
  show ?thesis
    by (intro conjI ballI impI wf1 mset min)
qed

text \<open>The transactions the loop takes out, in order, expired ones included.\<close>

lemma reap_loop_spec:
  assumes laws: "pq_laws P" and "groups_wf gs" and "reap_loop P now n gs tb = (raws, gs', tb')"
  shows "\<exists>ts. raws = map mtRaw (filter (recorded P now tb) ts) \<and> length ts \<le> n \<and> (length ts < n \<longrightarrow> gs' = []) \<and>
    mset (groupTxs gs) = mset ts + mset (groupTxs gs') \<and> groups_wf gs' \<and>
    (\<forall>a. sorted (map txSeq (filter (\<lambda>t. txAddr t = a) ts))) \<and>
    (\<forall>t \<in> set ts. \<forall>u \<in> set (groupTxs gs'). txAddr u = txAddr t \<longrightarrow> txSeq t \<le> txSeq u)"
  using assms(2,3)
proof (induction n arbitrary: gs tb raws)
  case (Suc n)
  show ?case
  proof (cases "gs = []")
    case False
    obtain g rest where pop: "pqPop P (txgroup_Priority P) gs = (g, rest)"
      by fastforce
    obtain t g1 where tx: "PopTx P g = (t, g1)"
      by fastforce
    define gs1 where "gs1 = (if tgTxs g1 = [] then rest else rest @ [g1])"
    define tb1 where "tb1 = removeOutdatedTxsUnsafe now tb"
    obtain raws1 where loop: "reap_loop P now n gs1 tb1 = (raws1, gs', tb')"
      and raws: "raws = (if recorded P now tb t then mtRaw t # raws1 else raws1)"
      using Suc.prems(2) False
      by (cases "reap_loop P now n gs1 tb1") (auto simp: pop tx getStatus_eq gs1_def tb1_def)
    note step = reap_step[OF laws Suc.prems(1) False pop tx, folded gs1_def]
    obtain ts where ts: "raws1 = map mtRaw (filter (recorded P now tb1) ts)" "length ts \<le> n" "length ts < n \<longrightarrow> gs' = []"
      "mset (groupTxs gs1) = mset ts + mset (groupTxs gs')" "groups_wf gs'"
      "\<forall>a. sorted (map txSeq (filter (\<lambda>t. txAddr t = a) ts))"
      "\<forall>t \<in> set ts. \<forall>u \<in> set (groupTxs gs'). txAddr u = txAddr t \<longrightarrow> txSeq t \<le> txSeq u"
      using Suc.IH[OF _ loop] step by blast
    have "set (groupTxs gs1) = set ts \<union> set (groupTxs gs')"
      using ts(4) by (metis set_mset_mset set_mset_union)
    with step have "\<forall>u \<in> set ts \<union> set (groupTxs gs'). txAddr u = txAddr t \<longrightarrow> txSeq t \<le> txSeq u"
      by simp
    with ts raws step show ?thesis
      by (intro exI[of _ "t # ts"]) (auto simp: tb1_def)
  qed (use Suc.prems in auto)
qed auto

section \<open>Runs of the pool\<close>

text \<open>
  The ledgers a node can have: from an empty pool by insertions, updates of the pool, proposals, applied
  blocks, resets and finalizations, in any order, at any times, with any block store and messages.
\<close>

inductive ledger_reachable :: "('t, 'd, 's) ledger_params \<Rightarrow> ('t, 'd) ledger \<Rightarrow> bool" for G where
  create: "lgMempool l = CreateMempool \<Longrightarrow> ledger_reachable G l"
| insert: "ledger_reachable G l \<Longrightarrow> insertTransaction G env synced ch raw l = Some (r, l') \<Longrightarrow> ledger_reachable G l'"
| update: "ledger_reachable G l \<Longrightarrow> updateMempool G env ch committed l = Some l' \<Longrightarrow> ledger_reachable G l'"
| propose: "ledger_reachable G l \<Longrightarrow> ProposeBlockTxs G env blk same ch l = Some (r, l') \<Longrightarrow> ledger_reachable G l'"
| apply_block: "ledger_reachable G l \<Longrightarrow> ApplyBlockTxs G env blk ch l = Some (r, ch', l') \<Longrightarrow> ledger_reachable G l'"
| reset: "ledger_reachable G l \<Longrightarrow> resetState G blk l = (r, l') \<Longrightarrow> ledger_reachable G l'"
| finalize: "ledger_reachable G l \<Longrightarrow> FinalizeState G n root l = (r, l') \<Longrightarrow> ledger_reachable G l'"

definition pool_inv :: "mempool \<Rightarrow> bool" where
  "pool_inv mp \<longleftrightarrow> groups_wf (mpGroups mp) \<and> int (length (poolTxs mp)) \<le> mpSize mp"

lemma length_groupTxs: "length (groupTxs gs) = sum_list (map (\<lambda>g. length (tgTxs g)) gs)"
  by (induction gs) simp_all

lemma insert_inv:
  assumes inv: "pool_inv mp" and run: "InsertTransaction P now synced screen raw (mp, l) = Some (r, mp', l')"
  shows "pool_inv mp'"
proof -
  consider (same) "mpGroups mp' = mpGroups mp" "mpSize mp' = mpSize mp"
    | (added) info where "mpSize mp' = mpSize mp + 1" "mpGroups mp' =
        (case find (\<lambda>g. tgAddress g = tiAddress info) (mpGroups mp) of
           Some g \<Rightarrow> filter (\<lambda>g. tgAddress g \<noteq> tiAddress info) (mpGroups mp) @ [AddTx raw info g]
         | None \<Rightarrow> mpGroups mp @ [createMempoolTransactionGroup raw info])"
    using run by (cases "hasSeen P now raw (mpBookkeeper mp)")
      (auto simp: InsertTransaction_def Let_def bind_eq_Some_conv cong: option.case_cong split: if_splits)
  then show ?thesis
  proof cases
    case (added info)
    let ?gs = "mpGroups mp"
    show ?thesis
    proof (cases "find (\<lambda>g. tgAddress g = tiAddress info) ?gs")
      case None
      then have "mpGroups mp' = ?gs @ [createMempoolTransactionGroup raw info]"
        by (simp add: added(2))
      moreover have "tiAddress info \<notin> tgAddress ` set ?gs"
        using None by (auto simp: find_None_iff)
      ultimately show ?thesis
        using inv added(1) by (auto simp: pool_inv_def groups_wf_append groups_wf_def group_wf_def createMempoolTransactionGroup_def AddTx_def)
    next
      case (Some g)
      then have g: "g \<in> set ?gs" "tgAddress g = tiAddress info"
        by (auto simp: find_Some_iff)
      then obtain ys zs where gs: "?gs = ys @ g # zs"
        by (meson split_list)
      have wf: "groups_wf ?gs"
        using inv by (simp add: pool_inv_def)
      have "filter (\<lambda>g. tgAddress g \<noteq> tiAddress info) ?gs = ys @ zs"
      proof -
        have "filter (\<lambda>g. tgAddress g \<noteq> tiAddress info) hs = hs" if "tgAddress g \<notin> tgAddress ` set hs" for hs
          using that unfolding g(2) by (intro filter_True) force
        from this[of ys] this[of zs] show ?thesis
          using wf g(2) by (auto simp: gs groups_wf_append groups_wf_Cons)
      qed
      with Some have gs': "mpGroups mp' = ys @ zs @ [AddTx raw info g]"
        by (simp add: added(2))
      have "group_wf (AddTx raw info g)"
        using wf g by (auto simp: groups_wf_def group_wf_def AddTx_def)
      moreover have "tgAddress (AddTx raw info g) = tgAddress g" "length (tgTxs (AddTx raw info g)) = Suc (length (tgTxs g))"
        by (simp_all add: AddTx_def)
      ultimately show ?thesis
        using inv wf by (auto simp: pool_inv_def gs gs' added(1) groups_wf_append groups_wf_Cons)
          (simp_all add: groups_wf_def)
    qed
  qed (use inv in \<open>simp add: pool_inv_def\<close>)
qed

lemma removeTxs_inv:
  assumes "pool_inv mp"
  shows "pool_inv (removeTxs committed mp)"
proof -
  let ?keep = "\<lambda>g. snd (RemoveTxs committed g)"
  have "groups_wf (filter (\<lambda>g. tgTxs g \<noteq> []) (map ?keep gs)) \<and>
      length (groupTxs (filter (\<lambda>g. tgTxs g \<noteq> []) (map ?keep gs))) + sum_list (map (\<lambda>g. fst (RemoveTxs committed g)) gs) = length (groupTxs gs) \<and>
      tgAddress ` set (filter (\<lambda>g. tgTxs g \<noteq> []) (map ?keep gs)) \<subseteq> tgAddress ` set gs"
    if "groups_wf gs" for gs
    using that
  proof (induction gs)
    case (Cons g gs)
    have "length (filter (\<lambda>t. mtRaw t \<in> set committed) (tgTxs g)) + length (filter (\<lambda>t. mtRaw t \<notin> set committed) (tgTxs g)) =
        length (tgTxs g)"
      by (rule sum_length_filter_compl)
    with Cons show ?case
      by (auto simp: groups_wf_Cons group_wf_def RemoveTxs_def)
  qed (simp add: groups_wf_def)
  from this[of "mpGroups mp"] assms show ?thesis
    by (auto simp: pool_inv_def removeTxs_def Let_def comp_def)
qed

lemma reap_inv:
  assumes "pq_laws P" and inv: "pool_inv mp" and run: "ReapUnsafe P now m mp = (txs, mp')" and "0 < m"
  shows "\<exists>ts. txs = map mtRaw (filter (recorded P now (mpBookkeeper mp)) ts) \<and>
    int (length ts) \<le> m \<and>
    (int (length ts) < min m (mpSize mp) \<longrightarrow> poolTxs mp' = []) \<and>
    mset (poolTxs mp) = mset ts + mset (poolTxs mp') \<and> pool_inv mp' \<and>
    mpSize mp' - int (length (poolTxs mp')) =
      mpSize mp - int (length (poolTxs mp)) + int (length (filter (\<lambda>t. \<not> recorded P now (mpBookkeeper mp) t) ts)) \<and>
    (\<forall>a. sorted (map txSeq (filter (\<lambda>t. txAddr t = a) ts))) \<and>
    (\<forall>t \<in> set ts. \<forall>u \<in> set (poolTxs mp'). txAddr u = txAddr t \<longrightarrow> txSeq t \<le> txSeq u)"
proof -
  let ?n = "min (mpSize mp) m"
  have n: "0 \<le> ?n"
    using inv \<open>0 < m\<close> by (auto simp: pool_inv_def)
  obtain gs tb where loop: "reap_loop P now (nat ?n) (mpGroups mp) (mpBookkeeper mp) = (txs, gs, tb)"
    and mp': "mp' = mp\<lparr>mpGroups := gs, mpBookkeeper := tb, mpSize := mpSize mp - int (length txs)\<rparr>"
    using run \<open>0 < m\<close> by (cases "reap_loop P now (nat ?n) (mpGroups mp) (mpBookkeeper mp)") (auto simp: ReapUnsafe_def Let_def)
  obtain ts where ts: "txs = map mtRaw (filter (recorded P now (mpBookkeeper mp)) ts)" "length ts \<le> nat ?n" "length ts < nat ?n \<longrightarrow> gs = []"
    "mset (poolTxs mp) = mset ts + mset (groupTxs gs)" "groups_wf gs"
    "\<forall>a. sorted (map txSeq (filter (\<lambda>t. txAddr t = a) ts))"
    "\<forall>t \<in> set ts. \<forall>u \<in> set (groupTxs gs). txAddr u = txAddr t \<longrightarrow> txSeq t \<le> txSeq u"
    using reap_loop_spec[OF assms(1) inv[unfolded pool_inv_def, THEN conjunct1] loop] by blast
  have len: "length (poolTxs mp) = length ts + length (groupTxs gs)"
    using arg_cong[OF ts(4), of size] by simp
  have flt: "length (filter (recorded P now (mpBookkeeper mp)) ts) +
      length (filter (\<lambda>t. \<not> recorded P now (mpBookkeeper mp) t) ts) = length ts"
    by (rule sum_length_filter_compl)
  have "int (length ts) \<le> m" "int (length ts) < min m (mpSize mp) \<longrightarrow> groupTxs gs = []"
    using ts(2,3) n by auto
  moreover have "pool_inv mp'"
    using inv ts(1,5) len flt by (simp add: pool_inv_def mp')
  moreover have "mpSize mp' - int (length (poolTxs mp')) =
      mpSize mp - int (length (poolTxs mp)) + int (length (filter (\<lambda>t. \<not> recorded P now (mpBookkeeper mp) t) ts))"
    using ts(1) len flt by (simp add: mp')
  moreover have "poolTxs mp' = groupTxs gs"
    by (simp add: mp')
  ultimately show ?thesis
    using ts(1,4,6,7) by (intro exI[of _ ts]) simp
qed

lemma reap_zero: "ReapUnsafe P now 0 mp = ([], mp)"
  by (simp add: ReapUnsafe_def)

lemma update_inv:
  assumes "pool_inv mp" "UpdateUnsafe P now screen committed (mp, l) = Some (mp', l')"
  shows "pool_inv mp'"
proof -
  obtain invalid tb where "mp' = removeTxs invalid ((removeTxs committed mp)\<lparr>mpBookkeeper := tb\<rparr>)"
    using assms(2) by (auto simp: UpdateUnsafe_def Let_def bind_eq_Some_conv)
  moreover have "pool_inv ((removeTxs committed mp)\<lparr>mpBookkeeper := tb\<rparr>)"
    using removeTxs_inv[OF assms(1), of committed] by (simp add: pool_inv_def)
  ultimately show ?thesis
    using removeTxs_inv by blast
qed

lemma reset_pool [simp]: "lgMempool (snd (resetState G blk l)) = lgMempool l"
  by (simp add: resetState_def split: prod.splits)

lemma apply_pool: "ApplyBlockTxs G env blk ch l = Some (r, ch', l') \<Longrightarrow> lgMempool l' = lgMempool l"
proof -
  assume run: "ApplyBlockTxs G env blk ch l = Some (r, ch', l')"
  then obtain q s where "applyTxs (execEnv G env) (bTxs blk) False (xstateOf l ch (Some blk)) = Some (q, s)"
    by (auto simp: ApplyBlockTxs_def bind_eq_Some_conv split: got.splits)
  with run show ?thesis
    by (cases q) (auto simp: ApplyBlockTxs_def Let_def bind_eq_Some_conv split: if_splits got.splits)
qed

lemma reachable_inv:
  assumes laws: "pq_laws (gP G)" and "ledger_reachable G l"
  shows "pool_inv (lgMempool l)"
  using assms(2)
proof (induction rule: ledger_reachable.induct)
  case (create l)
  then show ?case
    by (simp add: pool_inv_def CreateMempool_def groups_wf_def)
next
  case (insert l env synced ch raw r l')
  then show ?case
    by (auto simp: insertTransaction_def bind_eq_Some_conv intro: insert_inv)
next
  case (update l env ch committed l')
  then show ?case
    by (auto simp: updateMempool_def bind_eq_Some_conv intro: update_inv)
next
  case (propose l env blk same ch r l')
  obtain txs mp where reap: "ReapUnsafe (gP G) (envNanos env) MaxNumRegularTxsPerBlock (lgMempool l) = (txs, mp)" and "lgMempool l' = mp"
    using propose.hyps(2)
    by (cases "ReapUnsafe (gP G) (envNanos env) MaxNumRegularTxsPerBlock (lgMempool l)") (auto simp: ProposeBlockTxs_def bind_eq_Some_conv)
  with reap_inv[OF laws propose.IH reap] show ?case
    by (auto simp: MaxNumRegularTxsPerBlock_def)
next
  case (apply_block l env blk ch r ch' l')
  then show ?case
    using apply_pool by metis
next
  case (reset l blk r l')
  then show ?case
    using reset_pool[of G blk l] by simp
next
  case (finalize l n root r l')
  then show ?case
    by (auto simp: FinalizeState_def split: prod.splits)
qed


section \<open>Witness\<close>

definition example_pool_ledger :: "(ex_tree, ex_db) ledger" where
  "example_pool_ledger =
    \<lparr>lgState = \<lparr>lsChainID = ''sub'', lsDB = snd example_view, lsParentBlock = None, lsFinalized = None,
       lsDelivered = Some (fst example_view), lsChecked = Some (fst example_view), lsScreened = Some (fst example_view)\<rparr>,
     lgMempool = CreateMempool\<rparr>"

definition example_pool_chain :: "rdb chain" where
  "example_pool_chain = \<lparr>chStore = example_store, chChainID = ''sub'', chRoot = 1\<rparr>"

lemma example_pq_laws: "pq_laws example_pool_ops"
  unfolding pq_laws_def
proof (intro allI impI)
  fix xs :: "int list"
  assume xs: "xs \<noteq> []"
  let ?i = "length (takeWhile (\<lambda>x. x < Max (set xs)) xs)"
  have m: "Max (set xs) \<in> set xs"
    using xs by simp
  have "?i < length xs"
  proof (rule ccontr)
    assume "\<not> ?i < length xs"
    then have "takeWhile (\<lambda>x. x < Max (set xs)) xs = xs"
      using length_takeWhile_le[of "\<lambda>x. x < Max (set xs)" xs] takeWhile_eq_all_conv
      by (metis le_antisym not_less take_all takeWhile_eq_take)
    with m show False
      by (metis less_irrefl set_takeWhileD)
  qed
  moreover from nth_length_takeWhile[OF this] have "\<not> xs ! ?i < Max (set xs)" .
  ultimately show "plTop example_pool_ops xs < length xs \<and> (\<forall>x \<in> set xs. x \<le> xs ! plTop example_pool_ops xs)"
    by (auto simp: example_pool_ops_def) (meson List.finite_set Max_ge leD le_less_trans not_le)
qed

lemma example_insert:
  "\<exists>l' info. insertTransaction example_params example_env True example_pool_chain [2] example_pool_ledger = Some (None, l') \<and>
    poolTxs (lgMempool l') = [\<lparr>mtRaw = [2], mtInfo = info\<rparr>] \<and> mpSize (lgMempool l') = 1"
proof -
  have K: "execEnv example_params example_env = example_exec_ops" "gK example_params = example_exec_ops"
    by (simp_all add: execEnv_def example_params_def example_env_def example_exec_ops_def)
  have dec: "TxFromBytes example_exec_ops [2] = Some (SendTx example_send)"
    by (simp add: TxFromBytes_def) (simp add: example_exec_ops_def)
  have hyps: "state_laws (xS example_exec_ops)" "coin_laws (xS example_exec_ops)" "update_laws example_exec_ops"
    "plain_accounts (xS example_exec_ops) (participants example_send) (fst example_view)"
    using example_state_laws example_coin_laws example_send_simps by simp_all
  obtain v' where run: "Send_process example_exec_ops ''sub'' example_send example_view =
      Some ((xTxID example_exec_ops ''sub'' (SendTx example_send), TxOK), v')"
    by (rule Send_effect[OF hyps(1-3) example_send_check hyps(4)])
  have seen: "hasSeen P now raw (mpBookkeeper (lgMempool example_pool_ledger)) = (False, mpBookkeeper (lgMempool example_pool_ledger))" for P now raw
    by (simp add: hasSeen_def removeOutdatedTxsUnsafe_def example_pool_ledger_def CreateMempool_def createTransactionBookkeeper_def)
  have skip: "\<not> xSkipSanityCheck example_exec_ops"
    by (simp add: example_exec_ops_def)
  have price: "lsDelivered ls = Some sv \<Longrightarrow> Send_effectiveGasPrice example_exec_ops example_send ls = Some 0" for ls sv
    by (simp add: LedgerState_Height_def Send_effectiveGasPrice_def getRegularTxGas_def getBlockHeight_def example_exec_ops_def example_send_def Let_def)
  have ins: "\<exists>inp. sendInputs example_send = [inp]"
    by (simp add: example_send_def)
  have "\<exists>info ls. ledger_ScreenTx example_params example_env example_pool_chain [2] (lgState example_pool_ledger) = Some ((Some info, TxOK), ls)"
    using ins
    by (auto simp: price ledger_ScreenTx_def K dec exec_ScreenTx_def processTx_def GetChainID_def example_pool_ledger_def
        exec_sanityCheck_def exec_process_def example_send_check run skip LedgerState_Height_def Let_def)
  then show ?thesis
    by (auto simp: insertTransaction_def InsertTransaction_def seen)
      (auto simp: example_pool_ledger_def CreateMempool_def createMempoolTransactionGroup_def AddTx_def)
qed


end
