(* ===== verification/ProposalProps.thy ===== *)
theory ProposalProps
  imports LedgerProps MempoolProps
begin

text \<open>
  Agreement between the proposer of a block and the nodes that apply it: the checked view of the one and the
  delivered view of the others go through the same states. Two views are alike if they have the same height
  and contents and have seen the same special transactions; the nodes may know different things about the
  main chain.
\<close>

section \<open>Views that are alike\<close>

definition like :: "('t, 'd) state_ops \<Rightarrow> 't storeview \<Rightarrow> 't storeview \<Rightarrow> bool" where
  "like S c d \<longleftrightarrow> sameContents S c d \<and> svCoinbaseProcessed c = svCoinbaseProcessed d \<and>
    svValidatorSetProcessed c = svValidatorSetProcessed d"

definition alike :: "('t, 'd) state_ops \<Rightarrow> 't storeview \<times> 'd \<Rightarrow> 't storeview \<times> 'd \<Rightarrow> bool" where
  "alike S v w \<longleftrightarrow> like S (fst v) (fst w) \<and> snd v = snd w"

lemma like_height: "like S c d \<Longrightarrow> svHeight c = svHeight d"
  by (simp add: like_def sameContents_def)

lemma like_GetAccount: "like S c d \<Longrightarrow> GetAccount S a c = GetAccount S a d"
  by (rule GetAccount_cong) (simp add: like_def sameContents_def sv_Get_def)

lemma alike_SetAccount:
  assumes "state_laws S" "alike S v w" "SetAccount S a acc v = Some v'"
  shows "\<exists>w'. SetAccount S a acc w = Some w' \<and> alike S v' w' \<and> svHeight (fst v') = svHeight (fst v)"
proof -
  have "like S (sv_Set S k x (fst v)) (sv_Set S k x (fst w))" for k x
    using assms(2) by (simp add: alike_def like_def sameContents_def sv_Set_def tree_lawsD(1)[OF assms(1)])
  then show ?thesis
    using assms(2,3) setAccount_flags[of S True a acc v v'] by (auto simp: SetAccount_def setAccount_def alike_def Let_def bind_eq_Some_conv split: if_splits)
qed

section \<open>The executors on views that are alike\<close>

text \<open>The parameters of another node: the same, but for what its witness knows.\<close>

abbreviation otherNode :: "('t, 'd, 's) exec_ops \<Rightarrow> (int \<Rightarrow> validatorset option) \<Rightarrow> int option \<Rightarrow> ('t, 'd, 's) exec_ops" where
  "otherNode K w m \<equiv> K\<lparr>xWitnessedValidatorSet := w, xMainchainHeight := m\<rparr>"

lemma like_accounts:
  assumes "like (xS K) c d"
  shows "getOrMakeAccountImpl (otherNode K w m) d a mk = getOrMakeAccountImpl K c a mk"
    and "getInput (otherNode K w m) d inp mk = getInput K c inp mk"
    and "getInputs (otherNode K w m) d ins accs = getInputs K c ins accs"
    and "getOrMakeOutputs (otherNode K w m) d outs accs = getOrMakeOutputs K c outs accs"
proof -
  show acc: "getOrMakeAccountImpl (otherNode K w m) d a mk = getOrMakeAccountImpl K c a mk" for a mk
    unfolding getOrMakeAccountImpl_def like_GetAccount[OF assms] like_height[OF assms]
    by (cases "GetAccount (xS K) a d") (auto simp: like_GetAccount[OF assms] split: option.split)
  then show "getInput (otherNode K w m) d inp mk = getInput K c inp mk"
    by (simp add: getInput_def)
  show "getInputs (otherNode K w m) d ins accs = getInputs K c ins accs"
    by (induction ins arbitrary: accs) (simp_all add: acc cong: option.case_cong sum.case_cong if_cong)
  show "getOrMakeOutputs (otherNode K w m) d outs accs = getOrMakeOutputs K c outs accs"
    by (induction outs arbitrary: accs) (simp_all add: acc)
qed

lemma otherNode_validate [simp]:
  "validateInputsBasic (otherNode K w m) ins = validateInputsBasic K ins"
  "validateOutputsBasic (otherNode K w m) outs = validateOutputsBasic K outs"
  "validateInputAdvanced (otherNode K w m) acc sb inp h = validateInputAdvanced K acc sb inp h"
  "validateInputsAdvanced (otherNode K w m) accs sb ins h total_coins = validateInputsAdvanced K accs sb ins h total_coins"
  "sanityCheckForSendTxFee (otherNode K w m) fee n h = sanityCheckForSendTxFee K fee n h"
  "sumOutputs (otherNode K w m) outs = sumOutputs K outs"
proof -
  show adv: "validateInputAdvanced (otherNode K w m) acc sb inp h = validateInputAdvanced K acc sb inp h" for acc inp
    by (simp add: validateInputAdvanced_def)
  show "validateInputsAdvanced (otherNode K w m) accs sb ins h total_coins = validateInputsAdvanced K accs sb ins h total_coins"
    by (induction ins arbitrary: total_coins) (simp_all add: adv)
  show "validateInputsBasic (otherNode K w m) ins = validateInputsBasic K ins"
    by (induction ins) simp_all
  show "validateOutputsBasic (otherNode K w m) outs = validateOutputsBasic K outs"
    by (induction outs) simp_all
qed (simp_all add: sanityCheckForSendTxFee_def sumOutputs_def)

lemma like_Send_sanityCheck:
  "like (xS K) c d \<Longrightarrow> Send_sanityCheck (otherNode K w m) chainID d t = Send_sanityCheck K chainID c t"
  by (simp add: Send_sanityCheck_def like_accounts like_height)

lemma like_adjust:
  assumes laws: "state_laws (xS K)"
  shows "alike (xS K) v u \<Longrightarrow> adjustByInputs K ins accs v = Some (accs', v') \<Longrightarrow>
      \<exists>u'. adjustByInputs (otherNode K w m) ins accs u = Some (accs', u') \<and> alike (xS K) v' u' \<and> svHeight (fst v') = svHeight (fst v)"
    and "alike (xS K) v u \<Longrightarrow> adjustByOutputs K outs accs v = Some (accs', v') \<Longrightarrow>
      \<exists>u'. adjustByOutputs (otherNode K w m) outs accs u = Some (accs', u') \<and> alike (xS K) v' u' \<and> svHeight (fst v') = svHeight (fst v)"
proof -
  show "alike (xS K) v u \<Longrightarrow> adjustByInputs K ins accs v = Some (accs', v') \<Longrightarrow>
      \<exists>u'. adjustByInputs (otherNode K w m) ins accs u = Some (accs', u') \<and> alike (xS K) v' u' \<and> svHeight (fst v') = svHeight (fst v)"
  proof (induction ins arbitrary: accs v u)
    case (Cons inp ins)
    obtain acc where acc: "map_of accs (inAddress inp) = Some acc" "coIsGTE (xS K) (acBalance acc) (inCoins inp)"
      using Cons.prems(2) by (auto simp: bind_eq_Some_conv split: if_splits)
    let ?acc = "acc\<lparr>acBalance := coMinus (xS K) (acBalance acc) (inCoins inp), acSequence := acSequence acc + 1\<rparr>"
    obtain v1 where v1: "SetAccount (xS K) (inAddress inp) ?acc v = Some v1"
      "adjustByInputs K ins ((inAddress inp, ?acc) # accs) v1 = Some (accs', v')"
      using Cons.prems(2) acc by (auto simp: Let_def bind_eq_Some_conv)
    obtain u1 where u1: "SetAccount (xS K) (inAddress inp) ?acc u = Some u1" "alike (xS K) v1 u1" "svHeight (fst v1) = svHeight (fst v)"
      using alike_SetAccount[OF laws Cons.prems(1) v1(1)] by blast
    from Cons.IH[OF u1(2) v1(2)] u1 acc show ?case
      by simp
  qed simp
  show "alike (xS K) v u \<Longrightarrow> adjustByOutputs K outs accs v = Some (accs', v') \<Longrightarrow>
      \<exists>u'. adjustByOutputs (otherNode K w m) outs accs u = Some (accs', u') \<and> alike (xS K) v' u' \<and> svHeight (fst v') = svHeight (fst v)"
  proof (induction outs arbitrary: accs v u)
    case (Cons out outs)
    obtain acc where acc: "map_of accs (outAddress out) = Some acc"
      using Cons.prems(2) by (auto simp: bind_eq_Some_conv)
    let ?acc = "acc\<lparr>acBalance := coPlus (xS K) (acBalance acc) (outCoins out)\<rparr>"
    obtain v1 where v1: "SetAccount (xS K) (outAddress out) ?acc v = Some v1"
      "adjustByOutputs K outs ((outAddress out, ?acc) # accs) v1 = Some (accs', v')"
      using Cons.prems(2) acc by (auto simp: Let_def bind_eq_Some_conv)
    obtain u1 where u1: "SetAccount (xS K) (outAddress out) ?acc u = Some u1" "alike (xS K) v1 u1" "svHeight (fst v1) = svHeight (fst v)"
      using alike_SetAccount[OF laws Cons.prems(1) v1(1)] by blast
    from Cons.IH[OF u1(2) v1(2)] u1 acc show ?case
      by simp
  qed simp
qed

lemma like_Send_process:
  assumes laws: "state_laws (xS K)" and "alike (xS K) v u" and "Send_process K chainID t v = Some (r, v')"
  shows "(\<exists>u'. Send_process (otherNode K w m) chainID t u = Some (r, u') \<and> alike (xS K) v' u' \<and> svHeight (fst v') = svHeight (fst v)) \<and> (snd r = TxOK \<or> v' = v)"
proof -
  have like: "like (xS K) (fst v) (fst u)"
    using assms(2) by (simp add: alike_def)
  let ?m = "andThen (getInputs K (fst v) (sendInputs t) []) (getOrMakeOutputs K (fst v) (sendOutputs t))"
  show ?thesis
  proof (cases ?m rule: exec_cases)
    case (3 accs)
    obtain accs1 v1 accs2 where v1: "adjustByInputs K (sendInputs t) accs v = Some (accs1, v1)"
      "adjustByOutputs K (sendOutputs t) accs1 v1 = Some (accs2, v')" "r = (xTxID K chainID (SendTx t), TxOK)"
      using assms(3) 3 by (auto simp: Send_process_def bind_eq_Some_conv)
    obtain u1 where u1: "adjustByInputs (otherNode K w m) (sendInputs t) accs u = Some (accs1, u1)" "alike (xS K) v1 u1" "svHeight (fst v1) = svHeight (fst v)"
      using like_adjust(1)[OF laws assms(2) v1(1)] by blast
    obtain u2 where "adjustByOutputs (otherNode K w m) (sendOutputs t) accs1 u1 = Some (accs2, u2)" "alike (xS K) v' u2" "svHeight (fst v') = svHeight (fst v1)"
      using like_adjust(2)[OF laws u1(2) v1(2)] by blast
    with u1 v1(3) 3 show ?thesis
      by (simp add: Send_process_def like_accounts[OF like])
  qed (use assms(2,3) in \<open>auto simp: Send_process_def like_accounts[OF like]\<close>)
qed

section \<open>One transaction\<close>

text \<open>The transactions whose effect does not depend on the virtual machine or the witness.\<close>

fun ordinary :: "tx \<Rightarrow> bool" where
  "ordinary (CoinbaseTx _) = True"
| "ordinary (SendTx _) = True"
| "ordinary _ = False"

text \<open>The proposer, on its checked view, and a node that applies the block, on its delivered view.\<close>

definition agree :: "('t, 'd, 's) exec_ops \<Rightarrow> ('t, 'd, 's) xstate \<Rightarrow> ('t, 'd, 's) xstate \<Rightarrow> bool" where
  "agree K s sd \<longleftrightarrow>
    (\<exists>c d. lsChecked (xsState s) = Some c \<and> lsDelivered (xsState sd) = Some d \<and> like (xS K) c d \<and>
      LedgerState_Height (xsState s) = Some (svHeight c)) \<and>
    lsDB (xsState s) = lsDB (xsState sd) \<and> lsChainID (xsState s) = lsChainID (xsState sd) \<and> lsChainID (xsState s) \<noteq> [] \<and>
    (\<forall>h. findBlock (xX K) h (xsChain s) = findBlock (xX K) h (xsChain sd)) \<and>
    xsCurrent s \<noteq> None \<and> map_option hParent (xsCurrent s) = map_option hParent (xsCurrent sd)"

lemma hccAncestor_cong:
  "(\<And>h. findBlock X h ch = findBlock X h ch') \<Longrightarrow> hccAncestor X ch i h = hccAncestor X ch' i h"
  by (induction i arbitrary: h rule: nat_less_induct) (subst (1 2) hccAncestor.simps, auto split: nat.splits got.splits)

lemma agree_validators:
  assumes "agree K s sd"
  shows "getValidatorSet (otherNode K w m) sd = getValidatorSet K s"
proof -
  have "hccAncestor (xX K) (xsChain sd) i h = hccAncestor (xX K) (xsChain s) i h" for i h
    using assms by (intro hccAncestor_cong) (simp add: agree_def)
  then have "finalizedValidatorSet (otherNode K w m) sd = finalizedValidatorSet K s"
    using assms by (intro ext) (simp add: finalizedValidatorSet_def agree_def del: hccAncestor.simps)
  then show ?thesis
    using assms by (cases "xsCurrent s"; cases "xsCurrent sd") (auto simp: getValidatorSet_def agree_def)
qed

lemma agree_sanityCheck:
  assumes agree: "agree K s sd" and "lsChecked (xsState s) = Some c" "lsDelivered (xsState sd) = Some d" and "ordinary t"
  shows "exec_sanityCheck (otherNode K w m) chainID d t sd = exec_sanityCheck K chainID c t s"
proof -
  have like: "like (xS K) c d" "LedgerState_Height (xsState s) = Some (svHeight c)"
    using assms(1-3) by (auto simp: agree_def)
  have height: "LedgerState_Height (xsState sd) = LedgerState_Height (xsState s)"
    using like(2) assms(3) like_height[OF like(1)] by (auto simp: LedgerState_Height_def)
  have "svCoinbaseProcessed c = svCoinbaseProcessed d"
    using like(1) by (simp add: like_def)
  then have "Coinbase_sanityCheck (otherNode K w m) chainID d tx sd = Coinbase_sanityCheck K chainID c tx s" for tx
    by (simp add: Coinbase_sanityCheck_def agree_validators[OF agree] like_accounts[OF like(1)] height)
  with \<open>ordinary t\<close> show ?thesis
    by (cases t) (simp_all add: exec_sanityCheck_def like_Send_sanityCheck[OF like(1)])
qed

lemma sanityCheck_decided:
  assumes "ordinary t" "exec_sanityCheck K chainID view t s = Some res" "res \<noteq> TxOK"
  shows "TxIsError res"
proof -
  have out: "TxIsError r" if "outcome p = Some r" "r \<noteq> TxOK" "proper p" for p :: "unit exec" and r
    using that by (cases p rule: exec_cases) (auto simp: outcome_def proper_def)
  show ?thesis
    using assms
    by (cases t) (auto simp: exec_sanityCheck_def Coinbase_sanityCheck_def Send_sanityCheck_def Let_def split: if_splits elim!: out)
qed

lemma Send_process_errors:
  assumes "Send_process K chainID t v = Some (r, v')" "snd r \<noteq> TxOK"
  shows "TxIsError (snd r)"
proof -
  let ?m = "andThen (getInputs K (fst v) (sendInputs t) []) (getOrMakeOutputs K (fst v) (sendOutputs t))"
  have "proper ?m"
    by simp
  with assms show ?thesis
    by (cases ?m rule: exec_cases) (auto simp: Send_process_def proper_def bind_eq_Some_conv)
qed

lemma like_process:
  assumes laws: "state_laws (xS K)" and "alike (xS K) v u" and "ordinary t"
    and "exec_process K chainID b pb cb t v ch = Some (r, v', ch')"
  shows "ch' = ch \<and> (snd r = TxOK \<or> TxIsError (snd r) \<and> v' = v) \<and>
    (\<exists>u'. \<forall>b pb cb ch. exec_process (otherNode K w m) chainID b pb cb t u ch = Some (r, u', ch) \<and> alike (xS K) v' u' \<and>
      svHeight (fst v') = svHeight (fst v))"
proof (cases t)
  case (CoinbaseTx cb)
  have same: "svCoinbaseProcessed (fst v) = svCoinbaseProcessed (fst u)"
    using assms(2) by (simp add: alike_def like_def)
  have "alike (xS K) (SetCoinbaseTransactionProcessed True (fst v), snd v) (SetCoinbaseTransactionProcessed True (fst u), snd u)"
    using assms(2) by (simp add: alike_def like_def sameContents_def SetCoinbaseTransactionProcessed_def)
  with assms(2,4) CoinbaseTx same show ?thesis
    by (cases v; cases u) (auto simp: exec_process_def Coinbase_process_def SetCoinbaseTransactionProcessed_def split: if_splits)
next
  case (SendTx st)
  then obtain r' where run: "Send_process K chainID st v = Some (r, v')" and ch: "ch' = ch"
    using assms(4) by (auto simp: exec_process_def bind_eq_Some_conv)
  have "TxIsError (snd r)" if "snd r \<noteq> TxOK"
    using Send_process_errors[OF run that] .
  with like_Send_process[OF laws assms(2) run, where w = w and m = m] ch SendTx show ?thesis
    by (auto simp: exec_process_def)
qed (use assms(3) in simp_all)

lemma agree_step:
  assumes laws: "state_laws (xS K)" and agree: "agree K s sd" and ord: "ordinary t" and run: "CheckTx K t s = Some ((h, res), s')"
  shows "res \<noteq> TxUndecided \<and> (TxIsError res \<longrightarrow> agree K s' sd) \<and>
    (\<exists>sd'. ExecuteTx (otherNode K w m) t sd = Some ((h, res), sd') \<and> agree K s' sd')"
proof -
  obtain c d where cd: "lsChecked (xsState s) = Some c" "lsDelivered (xsState sd) = Some d" "like (xS K) c d"
      "LedgerState_Height (xsState s) = Some (svHeight c)"
    using agree by (auto simp: agree_def)
  let ?id = "lsChainID (xsState s)" and ?K = "otherNode K w m"
  have ids: "GetChainID S (xsState s) = Some (?id, xsState s)" "GetChainID S (xsState sd) = Some (?id, xsState sd)" for S
    using agree by (auto simp: GetChainID_def agree_def)
  note check = agree_sanityCheck[OF agree cd(1,2) ord, where w = w and m = m and chainID = ?id]
  obtain q where q: "exec_sanityCheck K ?id c t s = Some q"
    using run by (auto simp: CheckTx_def processTx_def ids cd bind_eq_Some_conv)
  show ?thesis
  proof (cases "q = TxOK")
    case False
    have exec: "ExecuteTx ?K t sd = Some ((0, q), sd)"
      using False q by (simp add: ExecuteTx_def processTx_def ids cd check)
    have "h = 0 \<and> res = q \<and> s' = s"
      using run False q by (simp add: CheckTx_def processTx_def ids cd)
    with exec sanityCheck_decided[OF ord q False] agree show ?thesis
      by auto
  next
    case True
    let ?v = "(c, lsDB (xsState s))" and ?u = "(d, lsDB (xsState sd))"
    obtain v' ch' where v': "exec_process K ?id False (lsParentBlock (xsState s)) (xsCurrent s) t ?v (xsChain s) = Some ((h, res), v', ch')"
      and s': "s' = s\<lparr>xsState := (xsState s)\<lparr>lsChecked := Some (fst v'), lsDB := snd v'\<rparr>, xsChain := ch'\<rparr>"
      using run True q by (auto simp: CheckTx_def processTx_def ids cd bind_eq_Some_conv)
    have al: "alike (xS K) ?v ?u"
      using cd agree by (simp add: alike_def agree_def)
    note eff = like_process[OF laws al ord v', where w = w and m = m]
    obtain u' where u': "exec_process ?K ?id b pb cb t ?u ch = Some ((h, res), u', ch)" "alike (xS K) v' u'"
        "svHeight (fst v') = svHeight c" for b pb cb ch
      using eff by auto
    have "ExecuteTx ?K t sd = Some ((h, res), sd\<lparr>xsState := (xsState sd)\<lparr>lsDelivered := Some (fst u'), lsDB := snd u'\<rparr>\<rparr>)"
      using u'(1) q True by (simp add: ExecuteTx_def processTx_def ids cd check)
    moreover have "agree K s' (sd\<lparr>xsState := (xsState sd)\<lparr>lsDelivered := Some (fst u'), lsDB := snd u'\<rparr>\<rparr>)"
      using agree cd(4) eff u'(2,3) by (auto simp: agree_def s' alike_def LedgerState_Height_def)
    moreover have "agree K s' sd" if "TxIsError res"
    proof -
      have "v' = ?v" "ch' = xsChain s"
        using eff that by auto
      then show ?thesis
        using agree cd by (auto simp: agree_def s' LedgerState_Height_def)
    qed
    ultimately show ?thesis
      using eff by auto
  qed
qed

section \<open>A whole block\<close>

lemma otherNode_decode: "TxFromBytes (otherNode K w m) raw = TxFromBytes K raw"
  by (cases "xDecodeType K raw") (auto simp: TxFromBytes_def)

lemma otherNode_agree: "agree (otherNode K w m) s sd = agree K s sd"
  by (simp add: agree_def)

lemma agree_loop:
  assumes laws: "state_laws (xS K)" and "agree K s sd"
    and "\<forall>raw \<in> set raws. \<forall>t. TxFromBytes K raw = Some t \<longrightarrow> ordinary t" and "checkTxs K raws s = Some (txs, s')"
  shows "\<exists>sd'. applyTxs (otherNode K w m) txs False sd = Some (Inr False, sd') \<and> agree K s' sd'"
  using assms(2-4)
proof (induction raws arbitrary: s sd txs)
  case (Cons raw raws)
  show ?case
  proof (cases "TxFromBytes K raw")
    case None
    with Cons show ?thesis
      by simp
  next
    case (Some t)
    then have ord: "ordinary t"
      using Cons.prems(2) by simp
    obtain h res s1 txs1 where step: "CheckTx K t s = Some ((h, res), s1)" and rest: "checkTxs K raws s1 = Some (txs1, s')"
      and txs: "txs = (if TxIsError res then txs1 else raw # txs1)"
      using Cons.prems(3) Some by (auto simp: bind_eq_Some_conv)
    note agrees = agree_step[OF laws Cons.prems(1) ord step, where w = w and m = m]
    have later: "\<forall>raw \<in> set raws. \<forall>t. TxFromBytes K raw = Some t \<longrightarrow> ordinary t"
      using Cons.prems(2) by simp
    show ?thesis
    proof (cases "TxIsError res")
      case True
      then show ?thesis
        using Cons.IH[OF _ later rest] agrees txs by auto
    next
      case False
      then have "res = TxOK"
        using agrees by (cases res) auto
      moreover obtain sd1 where "ExecuteTx (otherNode K w m) t sd = Some ((h, res), sd1)" "agree K s1 sd1"
        using agrees by blast
      moreover have "\<not> isValidatorUpdate t"
        using ord by (cases t) simp_all
      ultimately show ?thesis
        using Cons.IH[OF _ later rest] False txs Some by (simp add: otherNode_decode)
    qed
  qed
qed simp

text \<open>C8: what one node proposes, every other node accepts. Take the transactions a proposer puts into a block, from any
  candidates that are coinbase transactions or transfers, valid or not, and a node whose delivered
  view is like the proposer's checked view before the block, with the same database, chain identifier
  and blocks, whatever its witness knows of the main chain. Executing the block there succeeds
  transaction by transaction and ends with the state root of the proposer, so the block is not refused.\<close>

theorem proposed_block_accepted:
  assumes laws: "state_laws (xS (gK G))"
    and check: "checkTxs (execEnv G env) raws s = Some (txs, s')" and root: "lsChecked (xsState s') = Some c"
    and ord: "\<forall>raw \<in> set raws. \<forall>t. TxFromBytes (gK G) raw = Some t \<longrightarrow> ordinary t"
    and agree: "agree (gK G) s (xstateOf l ch (Some blk))"
    and blk: "bTxs blk = txs" "hStateHash blk = StoreView_Hash (xS (gK G)) c"
    and parent: "findBlock (xX (gK G)) (hParent blk) ch = Got parent"
  shows "(\<exists>sd. applyTxs (execEnv G env') (bTxs blk) False (xstateOf l ch (Some blk)) = Some (Inr False, sd) \<and>
      (\<exists>d. lsDelivered (xsState sd) = Some d \<and> StoreView_Hash (xS (gK G)) d = hStateHash blk)) \<and>
    ApplyBlockTxs G env' blk ch l \<in> {None} \<union> {Some (ApplyOK False, ch', l') |ch' l'. True}"
proof -
  have K: "execEnv G e = otherNode (gK G) (envWitness e) (envMainchainHeight e)" for e
    by (simp add: execEnv_def)
  have "state_laws (xS (execEnv G env))" "agree (execEnv G env) s (xstateOf l ch (Some blk))"
    "\<forall>raw \<in> set raws. \<forall>t. TxFromBytes (execEnv G env) raw = Some t \<longrightarrow> ordinary t"
    using laws agree ord by (simp_all add: K otherNode_agree otherNode_decode)
  from agree_loop[OF this check, where w = "envWitness env'" and m = "envMainchainHeight env'"]
  obtain sd where sd: "applyTxs (execEnv G env') txs False (xstateOf l ch (Some blk)) = Some (Inr False, sd)"
      "agree (execEnv G env) s' sd"
    by (auto simp: K)
  then obtain d where d: "lsDelivered (xsState sd) = Some d" "like (xS (gK G)) c d"
    using root by (auto simp: agree_def K)
  then have hash: "StoreView_Hash (xS (gK G)) d = hStateHash blk"
    using sameContents_hash[OF laws] blk(2) by (auto simp: like_def)
  then have "ApplyBlockTxs G env' blk ch l \<in> {None} \<union> {Some (ApplyOK False, ch', l') |ch' l'. True}"
    using sd(1) d(1) parent blk(1)
    by (cases "LedgerState_Commit (xS (gK G)) (gTag G) (xsState sd)") (auto simp: ApplyBlockTxs_def)
  with sd(1) d(1) hash blk(1) show ?thesis
    by auto
qed

definition example_proposer :: "rdb chain \<Rightarrow> (ex_tree, ex_db, rdb) xstate" where
  "example_proposer ch = \<lparr>xsState = lgState example_pool_ledger, xsChain = ch, xsCurrent = Some (example_block 1 1)\<rparr>"

lemma example_check:
  "\<exists>s' c. checkTxs (execEnv example_params example_env) [[2], [9]] (example_proposer ch) = Some ([[2]], s') \<and> lsChecked (xsState s') = Some c"
proof -
  have K: "execEnv example_params example_env = example_exec_ops"
    by (simp_all add: execEnv_def example_params_def example_env_def example_exec_ops_def)
  have dec: "TxFromBytes example_exec_ops [2] = Some (SendTx example_send)" "TxFromBytes example_exec_ops [9] = None"
    by (simp_all add: TxFromBytes_def) (simp_all add: example_exec_ops_def TxSubchainValidatorSetUpdate_def)
  have hyps: "state_laws (xS example_exec_ops)" "coin_laws (xS example_exec_ops)" "update_laws example_exec_ops"
    "plain_accounts (xS example_exec_ops) (participants example_send) (fst example_view)"
    using example_state_laws example_coin_laws example_send_simps by simp_all
  obtain v' where run: "Send_process example_exec_ops ''sub'' example_send example_view =
      Some ((xTxID example_exec_ops ''sub'' (SendTx example_send), TxOK), v')"
    by (rule Send_effect[OF hyps(1-3) example_send_check hyps(4)])
  have skip: "\<not> xSkipSanityCheck example_exec_ops"
    by (simp add: example_exec_ops_def)
  show ?thesis
    by (simp add: K dec CheckTx_def processTx_def GetChainID_def example_proposer_def example_pool_ledger_def
        exec_sanityCheck_def exec_process_def example_send_check run skip Let_def)
qed

theorem proposed_block_accepted_witness:
  "\<exists>ch blk sd. applyTxs (execEnv example_params example_env) (bTxs blk) False (xstateOf example_pool_ledger ch (Some blk)) =
    Some (Inr False, sd) \<and> bTxs blk = [[2]]"
proof -
  obtain ch b where root: "root_only ch b"
    using example_new_chain by blast
  obtain s' c where s': "checkTxs (execEnv example_params example_env) [[2], [9]] (example_proposer ch) = Some ([[2]], s')"
      "lsChecked (xsState s') = Some c"
    using example_check by blast
  define blk where "blk = (example_block 1 1)\<lparr>bTxs := [[2]], hStateHash := StoreView_Hash example_state_ops c\<rparr>"
  have S: "xS (gK example_params) = example_state_ops" "xX (gK example_params) = example_chain_ops"
    by (simp_all add: example_params_def example_exec_ops_def)
  have dec: "TxFromBytes (gK example_params) [2] = Some (SendTx example_send)" "TxFromBytes (gK example_params) [9] = None"
    by (simp_all add: TxFromBytes_def example_params_def) (simp_all add: example_exec_ops_def TxSubchainValidatorSetUpdate_def)
  have ord: "\<forall>raw \<in> set [[2], [9]]. \<forall>t. TxFromBytes (gK example_params) raw = Some t \<longrightarrow> ordinary t"
    by (simp add: dec)
  have agree: "agree (gK example_params) (example_proposer ch) (xstateOf example_pool_ledger ch (Some blk))"
    by (simp add: agree_def example_proposer_def xstateOf_def example_pool_ledger_def like_def sameContents_def LedgerState_Height_def blk_def)
  have laws: "state_laws (xS (gK example_params))"
    using example_state_laws by (simp add: S)
  have blk: "bTxs blk = [[2]]" "hStateHash blk = StoreView_Hash (xS (gK example_params)) c"
    "findBlock (xX (gK example_params)) (hParent blk) ch = Got b"
    using root by (simp_all add: blk_def S root_only_def)
  from proposed_block_accepted[OF laws s' ord agree blk, of example_env, THEN conjunct1] blk(1) show ?thesis
    by blast
qed

end
