(* ===== verification/VMBase.thy ===== *)
theory VMBase
  imports StoreView "HOL-Library.Log_Nat"
begin

unbundle bit_operations_syntax

text \<open>
  The virtual machine, first part: the interface of the state database (\<open>ledger/vm/interface.go\<close>), the
  machine's words, stack (\<open>stack.go\<close>, \<open>stack_table.go\<close>) and memory (\<open>memory.go\<close>, \<open>common.go\<close>,
  \<open>memory_table.go\<close>), the analysis of jump destinations (\<open>analysis.go\<close>), contracts (\<open>contract.go\<close>) and
  the state of the machine (\<open>vm.go\<close>, \<open>interpreter.go\<close>).

  Parameters (\<open>vm_ops\<close>): the constants of the library's \<open>ledger/vm/params\<close>, its arithmetic
  (\<open>common/math\<close>), its byte-string helpers, and the cryptographic primitives. \<open>math_laws\<close> and
  \<open>gas_laws\<close> state what the code relies on of them. Where the code panics (a slice or an index out of
  range, a nil pointer), the result is \<open>None\<close>.

  The pool of integers (\<open>intpool.go\<close>) recycles big integers that are no longer on a stack; integers are
  values here, so it disappears. Tracing (\<open>Debug\<close>) is left out.
\<close>

section \<open>The state database\<close>

record 's statedb =
  dbCreateAccount :: "address \<Rightarrow> 's \<Rightarrow> 's option"
  dbGetAccount :: "address \<Rightarrow> 's \<Rightarrow> account option option"
  dbCreateAccountWithPreviousBalance :: "address \<Rightarrow> 's \<Rightarrow> 's option"
  dbSubBalance :: "address \<Rightarrow> int \<Rightarrow> 's \<Rightarrow> 's option"
  dbAddBalance :: "address \<Rightarrow> int \<Rightarrow> 's \<Rightarrow> 's option"
  dbGetBalance :: "address \<Rightarrow> 's \<Rightarrow> int option"
  dbSubThetaBalance :: "address \<Rightarrow> int \<Rightarrow> 's \<Rightarrow> 's option"
  dbAddThetaBalance :: "address \<Rightarrow> int \<Rightarrow> 's \<Rightarrow> 's option"
  dbGetThetaBalance :: "address \<Rightarrow> 's \<Rightarrow> int option"
  dbGetThetaStake :: "address \<Rightarrow> 's \<Rightarrow> int"
  dbGetDynasty :: "'s \<Rightarrow> int option option"
  dbGetValidatorSetForChainDuringDynasty :: "int \<Rightarrow> int \<Rightarrow> 's \<Rightarrow> validatorset option option"
  dbGetTFuelTokenBankContractAddress :: "'s \<Rightarrow> address option option"
  dbGetNonce :: "address \<Rightarrow> 's \<Rightarrow> uint64 option"
  dbSetNonce :: "address \<Rightarrow> uint64 \<Rightarrow> 's \<Rightarrow> 's option"
  dbGetCodeHash :: "address \<Rightarrow> 's \<Rightarrow> hash option"
  dbGetCode :: "address \<Rightarrow> 's \<Rightarrow> bytes option"
  dbSetCode :: "address \<Rightarrow> bytes \<Rightarrow> 's \<Rightarrow> 's option"
  dbGetCodeSize :: "address \<Rightarrow> 's \<Rightarrow> nat option"
  dbAddRefund :: "uint64 \<Rightarrow> 's \<Rightarrow> 's"
  dbSubRefund :: "uint64 \<Rightarrow> 's \<Rightarrow> 's option"
  dbGetRefund :: "'s \<Rightarrow> uint64"
  dbGetCommittedState :: "address \<Rightarrow> hash \<Rightarrow> 's \<Rightarrow> hash option"
  dbGetState :: "address \<Rightarrow> hash \<Rightarrow> 's \<Rightarrow> hash option"
  dbSetState :: "address \<Rightarrow> hash \<Rightarrow> hash \<Rightarrow> 's \<Rightarrow> 's option"
  dbGetBlockHeight :: "'s \<Rightarrow> uint64"
  dbSuicide :: "address \<Rightarrow> 's \<Rightarrow> (bool \<times> 's) option"
  dbHasSuicided :: "address \<Rightarrow> 's \<Rightarrow> bool option"
  dbExist :: "address \<Rightarrow> 's \<Rightarrow> bool option"
  dbEmpty :: "address \<Rightarrow> 's \<Rightarrow> bool option"
  dbRevertToSnapshot :: "hash \<Rightarrow> 's \<Rightarrow> 's option"
  dbSnapshot :: "'s \<Rightarrow> hash \<times> 's"
  dbAddLog :: "evmlog \<Rightarrow> 's \<Rightarrow> 's"

text \<open>The store view is the state database of the ledger.\<close>

definition storeview_db :: "('t, 'd) state_ops \<Rightarrow> ('t storeview \<times> 'd) statedb" where
  "storeview_db S =
    \<lparr>dbCreateAccount = CreateAccount S,
     dbGetAccount = (\<lambda>a s. GetAccount S a (fst s)),
     dbCreateAccountWithPreviousBalance = CreateAccountWithPreviousBalance S,
     dbSubBalance = SubBalance S,
     dbAddBalance = AddBalance S,
     dbGetBalance = (\<lambda>a s. GetBalance S a (fst s)),
     dbSubThetaBalance = SubThetaBalance S,
     dbAddThetaBalance = AddThetaBalance S,
     dbGetThetaBalance = (\<lambda>a s. GetThetaBalance S a (fst s)),
     dbGetThetaStake = (\<lambda>a s. GetThetaStake a),
     dbGetDynasty = (\<lambda>s. GetDynasty S (fst s)),
     dbGetValidatorSetForChainDuringDynasty = (\<lambda>c d s. GetValidatorSetForChainDuringDynasty S c d (fst s)),
     dbGetTFuelTokenBankContractAddress = (\<lambda>s. GetTFuelTokenBankContractAddress S (fst s)),
     dbGetNonce = (\<lambda>a s. GetNonce S a (fst s)),
     dbSetNonce = SetNonce S,
     dbGetCodeHash = (\<lambda>a s. GetCodeHash S a (fst s)),
     dbGetCode = (\<lambda>a s. GetCode S a (fst s)),
     dbSetCode = SetCode S,
     dbGetCodeSize = (\<lambda>a s. GetCodeSize S a (fst s)),
     dbAddRefund = (\<lambda>g s. (AddRefund g (fst s), snd s)),
     dbSubRefund = (\<lambda>g s. map_option (\<lambda>sv. (sv, snd s)) (SubRefund g (fst s))),
     dbGetRefund = (\<lambda>s. svRefund (fst s)),
     dbGetCommittedState = GetCommittedState S,
     dbGetState = GetState S,
     dbSetState = SetState S,
     dbGetBlockHeight = (\<lambda>s. GetBlockHeight (fst s)),
     dbSuicide = Suicide S,
     dbHasSuicided = (\<lambda>a s. HasSuicided S a (fst s)),
     dbExist = (\<lambda>a s. Exist S a (fst s)),
     dbEmpty = (\<lambda>a s. Empty S a (fst s)),
     dbRevertToSnapshot = (\<lambda>h s. map_option (\<lambda>sv. (sv, snd s)) (RevertToSnapshot S h (fst s))),
     dbSnapshot = (\<lambda>s. let (h, sv) = Snapshot S (fst s) in (h, sv, snd s)),
     dbAddLog = (\<lambda>l s. (AddLog l (fst s), snd s))\<rparr>"

section \<open>Parameters\<close>

text \<open>The constants of \<open>ledger/vm/params\<close>: limits and prices, prices of transactions and precompiled contracts, the gas table.\<close>

record vm_params =
  StackLimit :: uint64
  CallCreateDepth :: uint64
  MaxCodeSizeForMetachain :: int
  CreateDataGas :: uint64
  CallStipend :: uint64
  MemoryGas :: uint64
  QuadCoeffDiv :: uint64
  CopyGas :: uint64
  LogGas :: uint64
  LogTopicGas :: uint64
  LogDataGas :: uint64
  Sha3Gas :: uint64
  Sha3WordGas :: uint64
  CreateGas :: uint64
  Create2Gas :: uint64
  CallNewAccountGas :: uint64
  CallValueTransferGas :: uint64
  SuicideRefundGas :: uint64
  JumpdestGas :: uint64
  NetSstoreNoopGas :: uint64
  NetSstoreInitGas :: uint64
  NetSstoreCleanGas :: uint64
  NetSstoreDirtyGas :: uint64
  NetSstoreClearRefund :: uint64
  NetSstoreResetRefund :: uint64
  NetSstoreResetClearRefund :: uint64
  HeightJune2021FeeAdjustment :: uint64

record vm_prices =
  TxGas :: uint64
  TxGasContractCreation :: uint64
  TxDataNonZeroGas :: uint64
  TxDataZeroGas :: uint64
  EcrecoverGas :: uint64
  Sha256PerWordGas :: uint64
  Sha256BaseGas :: uint64
  Ripemd160PerWordGas :: uint64
  Ripemd160BaseGas :: uint64
  IdentityPerWordGas :: uint64
  IdentityBaseGas :: uint64
  ModExpQuadCoeffDiv :: uint64
  Bn256AddGas :: uint64
  Bn256AddGasIstanbul :: uint64
  Bn256ScalarMulGas :: uint64
  Bn256ScalarMulGasIstanbul :: uint64
  Bn256PairingBaseGas :: uint64
  Bn256PairingPerPointGas :: uint64
  Bn256PairingBaseGasIstanbul :: uint64
  Bn256PairingPerPointGasIstanbul :: uint64

record gas_table =
  gtExtcodeSize :: uint64
  gtExtcodeCopy :: uint64
  gtExtcodeHash :: uint64
  gtBalance :: uint64
  gtSLoad :: uint64
  gtCalls :: uint64
  gtSuicide :: uint64
  gtExpByte :: uint64
  gtCreateBySuicide :: uint64

record vm_ops =
  params :: vm_params
  prices :: vm_prices
  gasTable :: gas_table
  vmEmptyCodeHash :: hash
  vmMaxGasLimit :: "uint64 \<Rightarrow> int"
  vmMapChainID :: "string \<Rightarrow> uint64 \<Rightarrow> int"
  mathU256 :: "int \<Rightarrow> int"
  mathS256 :: "int \<Rightarrow> int"
  mathExp :: "int \<Rightarrow> int \<Rightarrow> int"
  mathByte :: "int \<Rightarrow> int \<Rightarrow> int \<Rightarrow> byte"
  mathReadBits :: "int \<Rightarrow> nat \<Rightarrow> bytes"
  mathSafeAdd :: "uint64 \<Rightarrow> uint64 \<Rightarrow> uint64 \<times> bool"
  mathSafeMul :: "uint64 \<Rightarrow> uint64 \<Rightarrow> uint64 \<times> bool"
  mathBigMin :: "int \<Rightarrow> int \<Rightarrow> int"
  mathBigMax :: "int \<Rightarrow> int \<Rightarrow> int"
  RightPadBytes :: "bytes \<Rightarrow> int \<Rightarrow> bytes"
  LeftPadBytes :: "bytes \<Rightarrow> int \<Rightarrow> bytes"
  BytesToAddress :: "bytes \<Rightarrow> address"
  BigToAddress :: "int \<Rightarrow> address"
  BigToHash :: "int \<Rightarrow> hash"
  Keccak256 :: "bytes \<Rightarrow> bytes"
  Sha256Sum :: "bytes \<Rightarrow> bytes"
  Ripemd160Sum :: "bytes \<Rightarrow> bytes"
  ValidateSignatureValues :: "byte \<Rightarrow> int \<Rightarrow> int \<Rightarrow> bool \<Rightarrow> bool"
  Ecrecover :: "bytes \<Rightarrow> bytes \<Rightarrow> bytes option"
  CreateAddress :: "address \<Rightarrow> uint64 \<Rightarrow> address"
  CreateAddress2 :: "address \<Rightarrow> hash \<Rightarrow> bytes \<Rightarrow> address"
  bn256Unmarshal :: "bytes \<Rightarrow> bytes option"
  bn256UnmarshalTwist :: "bytes \<Rightarrow> bytes option"
  bn256G1Add :: "bytes \<Rightarrow> bytes \<Rightarrow> bytes"
  bn256G1ScalarMult :: "bytes \<Rightarrow> int \<Rightarrow> bytes"
  bn256PairingCheck :: "bytes list \<Rightarrow> bytes list \<Rightarrow> bool"
  abiPackValidators :: "(address \<times> int) list \<Rightarrow> bytes option"

text \<open>What the code relies on of the library's arithmetic and byte strings.\<close>

definition math_laws :: "vm_ops \<Rightarrow> bool" where
  "math_laws V \<longleftrightarrow>
    (\<forall>x. mathU256 V x = x mod 2 ^ 256) \<and>
    (\<forall>x. mathS256 V x = (if x < 2 ^ 255 then x else x - 2 ^ 256)) \<and>
    (\<forall>x y. 0 \<le> mathExp V x y \<and> mathExp V x y < 2 ^ 256) \<and>
    (\<forall>x n. length (mathReadBits V x n) = n) \<and>
    (\<forall>x y. mathSafeAdd V x y = (x + y, 2 ^ 64 \<le> uint x + uint y)) \<and>
    (\<forall>x y. mathSafeMul V x y = (x * y, 2 ^ 64 \<le> uint x * uint y)) \<and>
    (\<forall>x y. mathBigMin V x y = min x y) \<and>
    (\<forall>x y. mathBigMax V x y = max x y) \<and>
    (\<forall>b l. RightPadBytes V b l = b @ replicate (nat l - length b) 0) \<and>
    (\<forall>b l. LeftPadBytes V b l = replicate (nat l - length b) 0 @ b) \<and>
    (\<forall>b. length (Keccak256 V b) = 32)"

text \<open>
  What the termination of the interpreter relies on of the gas table: every instruction that does not stop
  the execution costs something, and the gas a call gives away is paid for before.
\<close>

definition gas_laws :: "vm_ops \<Rightarrow> bool" where
  "gas_laws V \<longleftrightarrow>
    0 < JumpdestGas (params V) \<and> 0 < LogGas (params V) \<and> 0 < Sha3Gas (params V) \<and> 0 < CreateGas (params V) \<and> 0 < Create2Gas (params V) \<and>
    0 < NetSstoreNoopGas (params V) \<and> 0 < NetSstoreInitGas (params V) \<and> 0 < NetSstoreCleanGas (params V) \<and> 0 < NetSstoreDirtyGas (params V) \<and>
    0 < gtExtcodeSize (gasTable V) \<and> 0 < gtExtcodeCopy (gasTable V) \<and> 0 < gtExtcodeHash (gasTable V) \<and> 0 < gtBalance (gasTable V) \<and> 0 < gtSLoad (gasTable V) \<and> 0 < gtCalls (gasTable V) \<and>
    CallStipend (params V) < CallValueTransferGas (params V) \<and>
    uint (gtCalls (gasTable V)) + uint (CallNewAccountGas (params V)) + uint (CallValueTransferGas (params V)) < 2 ^ 32 \<and>
    uint (MemoryGas (params V)) < 2 ^ 24 \<and> 0 < QuadCoeffDiv (params V) \<and>
    StackLimit (params V) < 2 ^ 32 \<and> CallCreateDepth (params V) < 2 ^ 32 \<and> 0 < gtCreateBySuicide (gasTable V) \<and> 0 < ModExpQuadCoeffDiv (prices V) \<and>
    ModExpQuadCoeffDiv (prices V) < 2 ^ 8"

section \<open>Errors\<close>

datatype vmerror =
    ErrOutOfGas
  | ErrCodeStoreOutOfGas
  | ErrDepth
  | ErrInsufficientBalance
  | ErrContractAddressCollision
  | ErrNoCompatibleInterpreter
  | ErrInvalidGasLimit
  | errWriteProtection
  | errReturnDataOutOfBounds
  | errExecutionReverted
  | errMaxCodeSizeExceeded
  | errGasUintOverflow
  | errBadPairingInput
  | errOther string

fun errorText :: "vmerror \<Rightarrow> string" where
  "errorText ErrOutOfGas = ''out of gas''"
| "errorText ErrCodeStoreOutOfGas = ''contract creation code storage out of gas''"
| "errorText ErrDepth = ''max call depth exceeded''"
| "errorText ErrInsufficientBalance = ''insufficient balance for transfer''"
| "errorText ErrContractAddressCollision = ''contract address collision''"
| "errorText ErrNoCompatibleInterpreter = ''no compatible interpreter''"
| "errorText ErrInvalidGasLimit = ''invalid gas limit''"
| "errorText errWriteProtection = ''evm: write protection''"
| "errorText errReturnDataOutOfBounds = ''evm: return data out of bounds''"
| "errorText errExecutionReverted = ''evm: execution reverted''"
| "errorText errMaxCodeSizeExceeded = ''evm: max code size exceeded''"
| "errorText errGasUintOverflow = ''gas uint64 overflow''"
| "errorText errBadPairingInput = ''bad elliptic curve pairing size''"
| "errorText (errOther s) = s"

section \<open>Integers and slices of the language\<close>

text \<open>\<open>big.Int\<close>: the conversions truncate the absolute value.\<close>

definition BitLen :: "int \<Rightarrow> nat" where
  "BitLen v = nat (bitlen \<bar>v\<bar>)"

definition Uint64 :: "int \<Rightarrow> uint64" where
  "Uint64 v = word_of_int \<bar>v\<bar>"

definition Int64 :: "int \<Rightarrow> int" where
  "Int64 v = sint (word_of_int v :: 64 word)"

definition SetBytes :: "bytes \<Rightarrow> int" where
  "SetBytes b = foldl (\<lambda>n x. 256 * n + uint x) 0 b"

text \<open>The big-endian bytes of a number, without leading zeros (\<open>Bytes\<close>).\<close>

fun natBytes :: "nat \<Rightarrow> bytes" where
  "natBytes n = (if n = 0 then [] else natBytes (n div 256) @ [word_of_nat (n mod 256)])"

declare natBytes.simps [simp del]

definition intBytes :: "int \<Rightarrow> bytes" where
  "intBytes v = natBytes (nat \<bar>v\<bar>)"

definition lenWord :: "'a list \<Rightarrow> uint64" where
  "lenWord xs = word_of_nat (length xs)"

definition goSlice :: "int \<Rightarrow> int \<Rightarrow> 'a list \<Rightarrow> 'a list option" where
  "goSlice i j xs =
    (if 0 \<le> i \<and> i \<le> j \<and> j \<le> int (length xs) then Some (take (nat (j - i)) (drop (nat i) xs)) else None)"

definition overwrite :: "nat \<Rightarrow> 'a list \<Rightarrow> 'a list \<Rightarrow> 'a list" where
  "overwrite i ys xs = take i xs @ ys @ drop (i + length ys) xs"

section \<open>The stack\<close>

text \<open>The top of the stack is the head of the list, the last element of the array \<open>data\<close>.\<close>

type_synonym stack = "int list"

definition push :: "int \<Rightarrow> stack \<Rightarrow> stack" where
  "push d st = d # st"

definition pop :: "stack \<Rightarrow> (int \<times> stack) option" where
  "pop st = (case st of [] \<Rightarrow> None | d # st' \<Rightarrow> Some (d, st'))"

definition peek :: "stack \<Rightarrow> int option" where
  "peek st = (case st of [] \<Rightarrow> None | d # _ \<Rightarrow> Some d)"

definition Back :: "nat \<Rightarrow> stack \<Rightarrow> int option" where
  "Back n st = (if n < length st then Some (st ! n) else None)"

definition swap :: "nat \<Rightarrow> stack \<Rightarrow> stack option" where
  "swap n st =
    (if 0 < n \<and> n \<le> length st then Some (st[n - 1 := st ! 0, 0 := st ! (n - 1)]) else None)"

definition dup :: "nat \<Rightarrow> stack \<Rightarrow> stack option" where
  "dup n st = (if 0 < n \<and> n \<le> length st then Some (push (st ! (n - 1)) st) else None)"

definition require :: "nat \<Rightarrow> stack \<Rightarrow> vmerror option" where
  "require n st = (if length st < n then Some (errOther ''stack underflow'') else None)"

definition makeStackFunc :: "vm_ops \<Rightarrow> nat \<Rightarrow> nat \<Rightarrow> stack \<Rightarrow> vmerror option" where
  "makeStackFunc V pops pushes st =
    (case require pops st of
       Some err \<Rightarrow> Some err
     | None \<Rightarrow>
         if int (length st) + int pushes - int pops > sint (StackLimit (params V)) then Some (errOther ''stack limit reached'') else None)"

definition makeDupStackFunc :: "vm_ops \<Rightarrow> nat \<Rightarrow> stack \<Rightarrow> vmerror option" where
  "makeDupStackFunc V n = makeStackFunc V n (n + 1)"

definition makeSwapStackFunc :: "vm_ops \<Rightarrow> nat \<Rightarrow> stack \<Rightarrow> vmerror option" where
  "makeSwapStackFunc V n = makeStackFunc V n n"

section \<open>Data\<close>

definition calcMemSize :: "int \<Rightarrow> int \<Rightarrow> int" where
  "calcMemSize off l = (if l = 0 then 0 else off + l)"

definition getData :: "vm_ops \<Rightarrow> bytes \<Rightarrow> uint64 \<Rightarrow> uint64 \<Rightarrow> bytes option" where
  "getData V data start sz =
    (let len = lenWord data;
         start' = (if start > len then len else start);
         end = start' + sz;
         end' = (if end > len then len else end)
     in map_option (\<lambda>b. RightPadBytes V b (sint sz)) (goSlice (uint start') (uint end') data))"

definition getDataBig :: "vm_ops \<Rightarrow> bytes \<Rightarrow> int \<Rightarrow> int \<Rightarrow> bytes option" where
  "getDataBig V data start sz =
    (let dlen = int (length data);
         s = mathBigMin V start dlen;
         e = mathBigMin V (s + sz) dlen
     in map_option (\<lambda>b. RightPadBytes V b (sint (Uint64 sz))) (goSlice (uint (Uint64 s)) (uint (Uint64 e)) data))"

definition bigUint64 :: "int \<Rightarrow> uint64 \<times> bool" where
  "bigUint64 v = (Uint64 v, BitLen v > 64)"

text \<open>\<open>math.MaxUint64Val\<close> is the largest \<open>uint64\<close>.\<close>

definition toWordSize :: "uint64 \<Rightarrow> uint64" where
  "toWordSize sz = (if sz > - 1 - 31 then - 1 div 32 + 1 else (sz + 31) div 32)"

definition allZero :: "bytes \<Rightarrow> bool" where
  "allZero b \<longleftrightarrow> list_all (\<lambda>x. x = 0) b"

section \<open>Memory\<close>

record memory =
  memStore :: bytes
  memLastGasCost :: uint64

definition NewMemory :: memory where
  "NewMemory = \<lparr>memStore = [], memLastGasCost = 0\<rparr>"

definition Memory_Set :: "uint64 \<Rightarrow> uint64 \<Rightarrow> bytes \<Rightarrow> memory \<Rightarrow> memory option" where
  "Memory_Set offset sz value m =
    (if sz > 0 then
       if offset + sz > lenWord (memStore m) then None
       else if offset > offset + sz then None
       else Some (m\<lparr>memStore := overwrite (unat offset) (take (unat sz) value) (memStore m)\<rparr>)
     else Some m)"

definition Memory_Set32 :: "vm_ops \<Rightarrow> uint64 \<Rightarrow> int \<Rightarrow> memory \<Rightarrow> memory option" where
  "Memory_Set32 V offset val m =
    (if offset + 32 > lenWord (memStore m) then None
     else if offset > offset + 32 then None
     else Some (m\<lparr>memStore := overwrite (unat offset) (mathReadBits V val 32) (memStore m)\<rparr>))"

definition Memory_Resize :: "uint64 \<Rightarrow> memory \<Rightarrow> memory" where
  "Memory_Resize sz m =
    (if lenWord (memStore m) < sz
     then m\<lparr>memStore := memStore m @ replicate (unat (sz - lenWord (memStore m))) 0\<rparr> else m)"

text \<open>
  A slice of the store that starts inside it and ends behind it is a panic here; in the language it may
  still lie within the capacity of the array. The interpreter never takes one.
\<close>

definition Memory_Get :: "int \<Rightarrow> int \<Rightarrow> memory \<Rightarrow> bytes option" where
  "Memory_Get offset sz m =
    (if sz = 0 then Some []
     else if int (length (memStore m)) > offset then goSlice offset (offset + sz) (memStore m)
     else Some [])"

definition Memory_GetPtr :: "int \<Rightarrow> int \<Rightarrow> memory \<Rightarrow> bytes option" where
  "Memory_GetPtr offset sz m =
    (if sz = 0 then Some []
     else if int (length (memStore m)) > offset then goSlice offset (offset + sz) (memStore m)
     else Some [])"

definition Memory_Len :: "memory \<Rightarrow> nat" where
  "Memory_Len m = length (memStore m)"

section \<open>Memory an instruction needs\<close>

definition memoryBack :: "nat \<Rightarrow> nat \<Rightarrow> stack \<Rightarrow> int option" where
  "memoryBack i j st = do { off \<leftarrow> Back i st; l \<leftarrow> Back j st; Some (calcMemSize off l) }"

definition memorySha3 :: "stack \<Rightarrow> int option" where
  "memorySha3 = memoryBack 0 1"

definition memoryCallDataCopy :: "stack \<Rightarrow> int option" where
  "memoryCallDataCopy = memoryBack 0 2"

definition memoryReturnDataCopy :: "stack \<Rightarrow> int option" where
  "memoryReturnDataCopy = memoryBack 0 2"

definition memoryCodeCopy :: "stack \<Rightarrow> int option" where
  "memoryCodeCopy = memoryBack 0 2"

definition memoryExtCodeCopy :: "stack \<Rightarrow> int option" where
  "memoryExtCodeCopy = memoryBack 1 3"

definition memoryMLoad :: "stack \<Rightarrow> int option" where
  "memoryMLoad st = do { off \<leftarrow> Back 0 st; Some (calcMemSize off 32) }"

definition memoryMStore8 :: "stack \<Rightarrow> int option" where
  "memoryMStore8 st = do { off \<leftarrow> Back 0 st; Some (calcMemSize off 1) }"

definition memoryMStore :: "stack \<Rightarrow> int option" where
  "memoryMStore st = do { off \<leftarrow> Back 0 st; Some (calcMemSize off 32) }"

definition memoryCreate :: "stack \<Rightarrow> int option" where
  "memoryCreate = memoryBack 1 2"

definition memoryCreate2 :: "stack \<Rightarrow> int option" where
  "memoryCreate2 = memoryBack 1 2"

definition memoryCall :: "vm_ops \<Rightarrow> stack \<Rightarrow> int option" where
  "memoryCall V st = do { x \<leftarrow> memoryBack 5 6 st; y \<leftarrow> memoryBack 3 4 st; Some (mathBigMax V x y) }"

definition memoryDelegateCall :: "vm_ops \<Rightarrow> stack \<Rightarrow> int option" where
  "memoryDelegateCall V st = do { x \<leftarrow> memoryBack 4 5 st; y \<leftarrow> memoryBack 2 3 st; Some (mathBigMax V x y) }"

definition memoryStaticCall :: "vm_ops \<Rightarrow> stack \<Rightarrow> int option" where
  "memoryStaticCall V st = do { x \<leftarrow> memoryBack 4 5 st; y \<leftarrow> memoryBack 2 3 st; Some (mathBigMax V x y) }"

definition memoryReturn :: "stack \<Rightarrow> int option" where
  "memoryReturn = memoryBack 0 1"

definition memoryRevert :: "stack \<Rightarrow> int option" where
  "memoryRevert = memoryBack 0 1"

definition memoryLog :: "stack \<Rightarrow> int option" where
  "memoryLog = memoryBack 0 1"

section \<open>Jump destinations\<close>

type_synonym bitvec = bytes

definition bitvec_set :: "uint64 \<Rightarrow> bitvec \<Rightarrow> bitvec option" where
  "bitvec_set pos bits =
    (let i = unat (pos div 8)
     in if i < length bits then Some (bits[i := bits ! i OR drop_bit (unat (pos mod 8)) 0x80]) else None)"

definition bitvec_set8 :: "uint64 \<Rightarrow> bitvec \<Rightarrow> bitvec option" where
  "bitvec_set8 pos bits =
    (let i = unat (pos div 8); j = unat (pos div 8 + 1); m = drop_bit (unat (pos mod 8)) 0xFF
     in if i < length bits \<and> j < length bits
        then let bits1 = bits[i := bits ! i OR m] in Some (bits1[j := bits1 ! j OR NOT m])
        else None)"

definition codeSegment :: "uint64 \<Rightarrow> bitvec \<Rightarrow> bool option" where
  "codeSegment pos bits =
    (let i = unat (pos div 8)
     in if i < length bits then Some (bits ! i AND drop_bit (unat (pos mod 8)) 0x80 = 0) else None)"

text \<open>The operands of a \<open>PUSH\<close>: eight bits at a time, then one at a time.\<close>

fun mark8 :: "nat \<Rightarrow> uint64 \<Rightarrow> bitvec \<Rightarrow> (nat \<times> uint64 \<times> bitvec) option" where
  "mark8 numbits pc bits =
    (if numbits \<ge> 8 then do { bits1 \<leftarrow> bitvec_set8 pc bits; mark8 (numbits - 8) (pc + 8) bits1 }
     else Some (numbits, pc, bits))"

declare mark8.simps [simp del]

fun mark1 :: "nat \<Rightarrow> uint64 \<Rightarrow> bitvec \<Rightarrow> (uint64 \<times> bitvec) option" where
  "mark1 0 pc bits = Some (pc, bits)"
| "mark1 (Suc n) pc bits = do { bits1 \<leftarrow> bitvec_set pc bits; mark1 n (pc + 1) bits1 }"

definition isPush :: "byte \<Rightarrow> bool" where
  "isPush op \<longleftrightarrow> 0x60 \<le> op \<and> op \<le> 0x7f"

definition markPush :: "byte \<Rightarrow> uint64 \<Rightarrow> bitvec \<Rightarrow> (uint64 \<times> bitvec) option" where
  "markPush op pc bits = do {
    (numbits, pc1, bits1) \<leftarrow> mark8 (unat (op - 0x60 + 1)) (pc + 1) bits;
    mark1 numbits pc1 bits1
  }"

partial_function (option) codeBitmap_loop :: "bytes \<Rightarrow> uint64 \<Rightarrow> bitvec \<Rightarrow> bitvec option" where
  "codeBitmap_loop code pc bits =
    (if pc < lenWord code then
       let op = code ! unat pc in
       if isPush op then do { (pc1, bits1) \<leftarrow> markPush op pc bits; codeBitmap_loop code pc1 bits1 }
       else codeBitmap_loop code (pc + 1) bits
     else Some bits)"

definition codeBitmap :: "bytes \<Rightarrow> bitvec option" where
  "codeBitmap code = codeBitmap_loop code 0 (replicate (length code div 8 + 1 + 4) 0)"

section \<open>Contracts and the machine\<close>

text \<open>
  A contract knows the address it runs at (\<open>self\<close>); the caller it was made with is passed where the code
  reads it back. The analyses of jump destinations that contracts share with their caller
  (\<open>jumpdests\<close>) are one map for a whole tree of calls and are kept with the machine.
\<close>

record contract =
  cCallerAddress :: address
  cSelf :: address
  cAnalysis :: "bitvec option"
  cCode :: bytes
  cCodeHash :: hash
  cCodeAddr :: "address option"
  cInput :: bytes
  cGas :: uint64
  cValue :: "int option"

datatype contractref = AccountRef address | ContractRef contract

fun Ref_Address :: "contractref \<Rightarrow> address" where
  "Ref_Address (AccountRef a) = a"
| "Ref_Address (ContractRef c) = cSelf c"

record vmcontext =
  ctxOrigin :: address
  ctxGasPrice :: "int option"
  ctxGasLimit :: uint64
  ctxBlockNumber :: int
  ctxTime :: "int option"
  ctxChainID :: int

record 's evm =
  evDB :: 's
  evDepth :: int
  evContext :: vmcontext
  evNoRecursion :: bool
  evAbort :: bool
  evCallGasTemp :: uint64
  evReadOnly :: bool
  evReturnData :: bytes
  evJumpdests :: "(hash \<times> bitvec) list"

definition NewEVM :: "vmcontext \<Rightarrow> 's \<Rightarrow> 's evm" where
  "NewEVM ctx statedb =
    \<lparr>evDB = statedb, evDepth = 0, evContext = ctx, evNoRecursion = False, evAbort = False, evCallGasTemp = 0,
     evReadOnly = False, evReturnData = [], evJumpdests = []\<rparr>"

definition Cancel :: "'s evm \<Rightarrow> 's evm" where
  "Cancel e = e\<lparr>evAbort := True\<rparr>"

text \<open>A contract called from an account starts with no analyses; one called from a contract shares its.\<close>

definition NewContract :: "contractref \<Rightarrow> address \<Rightarrow> int option \<Rightarrow> uint64 \<Rightarrow> 's evm \<Rightarrow> contract \<times> 's evm" where
  "NewContract caller object value gas e =
    (\<lparr>cCallerAddress = Ref_Address caller, cSelf = object, cAnalysis = None, cCode = [], cCodeHash = 0,
      cCodeAddr = None, cInput = [], cGas = gas, cValue = value\<rparr>,
     case caller of ContractRef _ \<Rightarrow> e | AccountRef _ \<Rightarrow> e\<lparr>evJumpdests := []\<rparr>)"

definition validJumpdest :: "int \<Rightarrow> contract \<Rightarrow> 's evm \<Rightarrow> (bool \<times> contract \<times> 's evm) option" where
  "validJumpdest dest c e =
    (let udest = Uint64 dest in
     if BitLen dest \<ge> 63 \<or> udest \<ge> lenWord (cCode c) then Some (False, c, e)
     else if cCode c ! unat udest \<noteq> 0x5b then Some (False, c, e)
     else if cCodeHash c \<noteq> 0 then
       (case map_of (evJumpdests e) (cCodeHash c) of
          Some analysis \<Rightarrow> do { ok \<leftarrow> codeSegment udest analysis; Some (ok, c, e) }
        | None \<Rightarrow> do {
            analysis \<leftarrow> codeBitmap (cCode c);
            ok \<leftarrow> codeSegment udest analysis;
            Some (ok, c, e\<lparr>evJumpdests := (cCodeHash c, analysis) # evJumpdests e\<rparr>)
          })
     else do {
       analysis \<leftarrow> (case cAnalysis c of Some a \<Rightarrow> Some a | None \<Rightarrow> codeBitmap (cCode c));
       ok \<leftarrow> codeSegment udest analysis;
       Some (ok, c\<lparr>cAnalysis := Some analysis\<rparr>, e)
     })"

definition AsDelegate :: "contractref \<Rightarrow> contract \<Rightarrow> contract option" where
  "AsDelegate caller c =
    (case caller of
       AccountRef _ \<Rightarrow> None
     | ContractRef parent \<Rightarrow> Some (c\<lparr>cCallerAddress := cCallerAddress parent, cValue := cValue parent\<rparr>))"

definition GetByte :: "uint64 \<Rightarrow> contract \<Rightarrow> byte" where
  "GetByte n c = (if n < lenWord (cCode c) then cCode c ! unat n else 0)"

definition GetOp :: "uint64 \<Rightarrow> contract \<Rightarrow> byte" where
  "GetOp n c = GetByte n c"

definition UseGas :: "uint64 \<Rightarrow> contract \<Rightarrow> bool \<times> contract" where
  "UseGas gas c = (if cGas c < gas then (False, c) else (True, c\<lparr>cGas := cGas c - gas\<rparr>))"

definition SetCallCode :: "address \<Rightarrow> hash \<Rightarrow> bytes \<Rightarrow> contract \<Rightarrow> contract" where
  "SetCallCode addr h code c = c\<lparr>cCode := code, cCodeHash := h, cCodeAddr := Some addr\<rparr>"

text \<open>The code to deploy, with its hash where it has been computed.\<close>

record codeandhash =
  chCode :: bytes
  chHash :: hash

definition codeAndHash_Hash :: "vm_ops \<Rightarrow> codeandhash \<Rightarrow> codeandhash" where
  "codeAndHash_Hash V ch = (if chHash ch = 0 then ch\<lparr>chHash := BytesToHash (Keccak256 V (chCode ch))\<rparr> else ch)"

definition SetCodeOptionalHash :: "address \<Rightarrow> codeandhash \<Rightarrow> contract \<Rightarrow> contract" where
  "SetCodeOptionalHash addr ch c = c\<lparr>cCode := chCode ch, cCodeHash := chHash ch, cCodeAddr := Some addr\<rparr>"

text \<open>What the interpreter keeps for one run: the locals of \<open>Run\<close>.\<close>

record frame =
  frContract :: contract
  frPc :: uint64
  frMem :: memory
  frStack :: stack

end
