(* ===== verification/VMGas.thy ===== *)
theory VMGas
  imports VMBase
begin

text \<open>
  The virtual machine, second part: the price of an instruction (\<open>ledger/vm/gas.go\<close>,
  \<open>ledger/vm/gas_table.go\<close>) and of a transaction (\<open>CalculateIntrinsicGas\<close> of \<open>ledger/vm/exec.go\<close>).

  A gas function returns the price or an error; it may change the memory (the price last paid for it), the
  gas set aside for a call, and the refund counter of the state.
\<close>

section \<open>Prices\<close>

abbreviation GasQuickStep :: uint64 where "GasQuickStep \<equiv> 2"
abbreviation GasFastestStep :: uint64 where "GasFastestStep \<equiv> 3"
abbreviation GasFastStep :: uint64 where "GasFastStep \<equiv> 5"
abbreviation GasMidStep :: uint64 where "GasMidStep \<equiv> 8"
abbreviation GasSlowStep :: uint64 where "GasSlowStep \<equiv> 10"
abbreviation GasExtStep :: uint64 where "GasExtStep \<equiv> 20"

text \<open>A computation that may end in an error, and checked arithmetic.\<close>

definition onOk :: "vmerror + 'a \<Rightarrow> ('a \<Rightarrow> vmerror + 'b) \<Rightarrow> vmerror + 'b" where
  "onOk r f = (case r of Inl err \<Rightarrow> Inl err | Inr x \<Rightarrow> f x)"

definition addGas :: "vm_ops \<Rightarrow> uint64 \<Rightarrow> uint64 \<Rightarrow> vmerror + uint64" where
  "addGas V x y = (let (z, overflow) = mathSafeAdd V x y in if overflow then Inl errGasUintOverflow else Inr z)"

definition mulGas :: "vm_ops \<Rightarrow> uint64 \<Rightarrow> uint64 \<Rightarrow> vmerror + uint64" where
  "mulGas V x y = (let (z, overflow) = mathSafeMul V x y in if overflow then Inl errGasUintOverflow else Inr z)"

definition bigGas :: "int \<Rightarrow> vmerror + uint64" where
  "bigGas v = (let (w, overflow) = bigUint64 v in if overflow then Inl errGasUintOverflow else Inr w)"

definition callGas :: "vm_ops \<Rightarrow> uint64 \<Rightarrow> uint64 \<Rightarrow> int \<Rightarrow> vmerror + uint64" where
  "callGas V availableGas base callCost =
    (let available = availableGas - base; gas = available - available div 64 in
     if gtCreateBySuicide (gasTable V) > 0 \<and> (BitLen callCost > 64 \<or> gas < Uint64 callCost) then Inr gas
     else if BitLen callCost > 64 then Inl errGasUintOverflow
     else Inr (Uint64 callCost))"

definition memoryGasCost :: "vm_ops \<Rightarrow> memory \<Rightarrow> uint64 \<Rightarrow> (vmerror + uint64) \<times> memory" where
  "memoryGasCost V mem newMemSize =
    (if newMemSize = 0 then (Inr 0, mem)
     else if newMemSize > 0xffffffffe0 then (Inl errGasUintOverflow, mem)
     else
       let newMemSizeWords = toWordSize newMemSize;
           newMemSize' = newMemSizeWords * 32
       in if newMemSize' > lenWord (memStore mem) then
            let square = newMemSizeWords * newMemSizeWords;
                linCoef = newMemSizeWords * MemoryGas (params V);
                quadCoef = square div QuadCoeffDiv (params V);
                newTotalFee = linCoef + quadCoef
            in (Inr (newTotalFee - memLastGasCost mem), mem\<lparr>memLastGasCost := newTotalFee\<rparr>)
          else (Inr 0, mem))"

section \<open>The gas functions\<close>

type_synonym 's gasfunc = "frame \<Rightarrow> uint64 \<Rightarrow> 's evm \<Rightarrow> ((vmerror + uint64) \<times> frame \<times> 's evm) option"

definition constGasFunc :: "uint64 \<Rightarrow> 's gasfunc" where
  "constGasFunc gas fr memorySize e = Some (Inr gas, fr, e)"

text \<open>The price of the memory, continued by the rest of the price.\<close>

definition withMemory ::
  "vm_ops \<Rightarrow> frame \<Rightarrow> uint64 \<Rightarrow> 's evm \<Rightarrow> (uint64 \<Rightarrow> vmerror + uint64) \<Rightarrow> ((vmerror + uint64) \<times> frame \<times> 's evm) option" where
  "withMemory V fr memorySize e rest =
    (let (r, mem) = memoryGasCost V (frMem fr) memorySize in Some (onOk r rest, fr\<lparr>frMem := mem\<rparr>, e))"

text \<open>A price and a price for each word of a size on the stack.\<close>

definition perWord :: "vm_ops \<Rightarrow> uint64 \<Rightarrow> uint64 \<Rightarrow> int \<Rightarrow> uint64 \<Rightarrow> vmerror + uint64" where
  "perWord V price wordPrice sz gas =
    onOk (addGas V gas price) (\<lambda>gas1.
    onOk (bigGas sz) (\<lambda>words.
    onOk (mulGas V (toWordSize words) wordPrice) (\<lambda>wordGas.
    addGas V gas1 wordGas)))"

definition gasCallDataCopy :: "vm_ops \<Rightarrow> 's gasfunc" where
  "gasCallDataCopy V fr memorySize e = do {
    l \<leftarrow> Back 2 (frStack fr);
    withMemory V fr memorySize e (perWord V GasFastestStep (CopyGas (params V)) l)
  }"

definition gasReturnDataCopy :: "vm_ops \<Rightarrow> 's gasfunc" where
  "gasReturnDataCopy V fr memorySize e = do {
    l \<leftarrow> Back 2 (frStack fr);
    withMemory V fr memorySize e (perWord V GasFastestStep (CopyGas (params V)) l)
  }"

definition gasSStore :: "vm_ops \<Rightarrow> 's statedb \<Rightarrow> 's gasfunc" where
  "gasSStore V D fr memorySize e = do {
    y \<leftarrow> Back 1 (frStack fr);
    x \<leftarrow> Back 0 (frStack fr);
    current \<leftarrow> dbGetState D (cSelf (frContract fr)) (BigToHash V x) (evDB e);
    let val = BigToHash V y;
    if current = val then Some (Inr (NetSstoreNoopGas (params V)), fr, e)
    else do {
      original \<leftarrow> dbGetCommittedState D (cSelf (frContract fr)) (BigToHash V x) (evDB e);
      if original = current then
        if original = 0 then Some (Inr (NetSstoreInitGas (params V)), fr, e)
        else Some (Inr (NetSstoreCleanGas (params V)), fr,
          if val = 0 then e\<lparr>evDB := dbAddRefund D (NetSstoreClearRefund (params V)) (evDB e)\<rparr> else e)
      else do {
        db1 \<leftarrow> (if original \<noteq> 0 then
                  if current = 0 then dbSubRefund D (NetSstoreClearRefund (params V)) (evDB e)
                  else if val = 0 then Some (dbAddRefund D (NetSstoreClearRefund (params V)) (evDB e))
                  else Some (evDB e)
                else Some (evDB e));
        let db2 = (if original = val then
                     if original = 0 then dbAddRefund D (NetSstoreResetClearRefund (params V)) db1
                     else dbAddRefund D (NetSstoreResetRefund (params V)) db1
                   else db1);
        Some (Inr (NetSstoreDirtyGas (params V)), fr, e\<lparr>evDB := db2\<rparr>)
      }
    }
  }"

definition makeGasLog :: "vm_ops \<Rightarrow> uint64 \<Rightarrow> 's gasfunc" where
  "makeGasLog V n fr memorySize e = do {
    sz \<leftarrow> Back 1 (frStack fr);
    (case bigGas sz of
       Inl err \<Rightarrow> Some (Inl err, fr, e)
     | Inr requestedSize \<Rightarrow>
         withMemory V fr memorySize e (\<lambda>gas.
           onOk (addGas V gas (LogGas (params V))) (\<lambda>gas1.
           onOk (addGas V gas1 (n * LogTopicGas (params V))) (\<lambda>gas2.
           onOk (mulGas V requestedSize (LogDataGas (params V))) (\<lambda>memorySizeGas.
           addGas V gas2 memorySizeGas)))))
  }"

definition gasSha3 :: "vm_ops \<Rightarrow> 's gasfunc" where
  "gasSha3 V fr memorySize e = do {
    l \<leftarrow> Back 1 (frStack fr);
    withMemory V fr memorySize e (perWord V (Sha3Gas (params V)) (Sha3WordGas (params V)) l)
  }"

definition gasCodeCopy :: "vm_ops \<Rightarrow> 's gasfunc" where
  "gasCodeCopy V fr memorySize e = do {
    l \<leftarrow> Back 2 (frStack fr);
    withMemory V fr memorySize e (perWord V GasFastestStep (CopyGas (params V)) l)
  }"

definition gasExtCodeCopy :: "vm_ops \<Rightarrow> 's gasfunc" where
  "gasExtCodeCopy V fr memorySize e = do {
    l \<leftarrow> Back 3 (frStack fr);
    withMemory V fr memorySize e (perWord V (gtExtcodeCopy (gasTable V)) (CopyGas (params V)) l)
  }"

definition gasExtCodeHash :: "vm_ops \<Rightarrow> 's gasfunc" where
  "gasExtCodeHash V = constGasFunc (gtExtcodeHash (gasTable V))"

definition gasMLoad :: "vm_ops \<Rightarrow> 's gasfunc" where
  "gasMLoad V fr memorySize e = withMemory V fr memorySize e (\<lambda>gas. addGas V gas GasFastestStep)"

definition gasMStore8 :: "vm_ops \<Rightarrow> 's gasfunc" where
  "gasMStore8 V fr memorySize e = withMemory V fr memorySize e (\<lambda>gas. addGas V gas GasFastestStep)"

definition gasMStore :: "vm_ops \<Rightarrow> 's gasfunc" where
  "gasMStore V fr memorySize e = withMemory V fr memorySize e (\<lambda>gas. addGas V gas GasFastestStep)"

definition gasCreate :: "vm_ops \<Rightarrow> 's gasfunc" where
  "gasCreate V fr memorySize e = withMemory V fr memorySize e (\<lambda>gas. addGas V gas (CreateGas (params V)))"

definition gasCreate2 :: "vm_ops \<Rightarrow> 's gasfunc" where
  "gasCreate2 V fr memorySize e = do {
    l \<leftarrow> Back 2 (frStack fr);
    withMemory V fr memorySize e (perWord V (Create2Gas (params V)) (Sha3WordGas (params V)) l)
  }"

definition gasBalance :: "vm_ops \<Rightarrow> 's gasfunc" where
  "gasBalance V = constGasFunc (gtBalance (gasTable V))"

definition gasExtCodeSize :: "vm_ops \<Rightarrow> 's gasfunc" where
  "gasExtCodeSize V = constGasFunc (gtExtcodeSize (gasTable V))"

definition gasSLoad :: "vm_ops \<Rightarrow> 's gasfunc" where
  "gasSLoad V = constGasFunc (gtSLoad (gasTable V))"

definition gasExp :: "vm_ops \<Rightarrow> 's gasfunc" where
  "gasExp V fr memorySize e = do {
    x \<leftarrow> Back 1 (frStack fr);
    let expByteLen = word_of_nat ((BitLen x + 7) div 8);
    Some (addGas V (expByteLen * gtExpByte (gasTable V)) GasSlowStep, fr, e)
  }"

text \<open>The end of the price of a call: the gas set aside for the callee is added.\<close>

definition withCallGas ::
  "vm_ops \<Rightarrow> int \<Rightarrow> (vmerror + uint64) \<times> frame \<times> 's evm \<Rightarrow> (vmerror + uint64) \<times> frame \<times> 's evm" where
  "withCallGas V requested p =
    (case p of (r, fr, e) \<Rightarrow>
      (case r of
         Inl err \<Rightarrow> (Inl err, fr, e)
       | Inr gas \<Rightarrow>
           (case callGas V (cGas (frContract fr)) gas requested of
              Inl err \<Rightarrow> (Inl err, fr, e\<lparr>evCallGasTemp := 0\<rparr>)
            | Inr temp \<Rightarrow> (addGas V gas temp, fr, e\<lparr>evCallGasTemp := temp\<rparr>))))"

definition gasCall :: "vm_ops \<Rightarrow> 's statedb \<Rightarrow> 's gasfunc" where
  "gasCall V D fr memorySize e = do {
    val \<leftarrow> Back 2 (frStack fr);
    addr \<leftarrow> Back 1 (frStack fr);
    requested \<leftarrow> Back 0 (frStack fr);
    empty \<leftarrow> (if val \<noteq> 0 then dbEmpty D (BigToAddress V addr) (evDB e) else Some False);
    let gas = gtCalls (gasTable V) + (if val \<noteq> 0 \<and> empty then CallNewAccountGas (params V) else 0)
      + (if val \<noteq> 0 then CallValueTransferGas (params V) else 0);
    p \<leftarrow> withMemory V fr memorySize e (\<lambda>memoryGas. addGas V gas memoryGas);
    Some (withCallGas V requested p)
  }"

definition gasCallCode :: "vm_ops \<Rightarrow> 's gasfunc" where
  "gasCallCode V fr memorySize e = do {
    val \<leftarrow> Back 2 (frStack fr);
    requested \<leftarrow> Back 0 (frStack fr);
    let gas = gtCalls (gasTable V) + (if val \<noteq> 0 then CallValueTransferGas (params V) else 0);
    p \<leftarrow> withMemory V fr memorySize e (\<lambda>memoryGas. addGas V gas memoryGas);
    Some (withCallGas V requested p)
  }"

definition gasReturn :: "vm_ops \<Rightarrow> 's gasfunc" where
  "gasReturn V fr memorySize e = withMemory V fr memorySize e Inr"

definition gasRevert :: "vm_ops \<Rightarrow> 's gasfunc" where
  "gasRevert V fr memorySize e = withMemory V fr memorySize e Inr"

definition gasSuicide :: "vm_ops \<Rightarrow> 's statedb \<Rightarrow> 's gasfunc" where
  "gasSuicide V D fr memorySize e = do {
    addr \<leftarrow> Back 0 (frStack fr);
    empty \<leftarrow> dbEmpty D (BigToAddress V addr) (evDB e);
    balance \<leftarrow> (if empty then dbGetBalance D (cSelf (frContract fr)) (evDB e) else Some 0);
    let gas = gtSuicide (gasTable V) + (if balance \<noteq> 0 then gtCreateBySuicide (gasTable V) else 0);
    suicided \<leftarrow> dbHasSuicided D (cSelf (frContract fr)) (evDB e);
    Some (Inr gas, fr, if suicided then e else e\<lparr>evDB := dbAddRefund D (SuicideRefundGas (params V)) (evDB e)\<rparr>)
  }"

definition gasDelegateCall :: "vm_ops \<Rightarrow> 's gasfunc" where
  "gasDelegateCall V fr memorySize e = do {
    requested \<leftarrow> Back 0 (frStack fr);
    p \<leftarrow> withMemory V fr memorySize e (\<lambda>gas. addGas V gas (gtCalls (gasTable V)));
    Some (withCallGas V requested p)
  }"

definition gasStaticCall :: "vm_ops \<Rightarrow> 's gasfunc" where
  "gasStaticCall V fr memorySize e = do {
    requested \<leftarrow> Back 0 (frStack fr);
    p \<leftarrow> withMemory V fr memorySize e (\<lambda>gas. addGas V gas (gtCalls (gasTable V)));
    Some (withCallGas V requested p)
  }"

definition gasPush :: "'s gasfunc" where
  "gasPush = constGasFunc GasFastestStep"

definition gasSwap :: "'s gasfunc" where
  "gasSwap = constGasFunc GasFastestStep"

definition gasDup :: "'s gasfunc" where
  "gasDup = constGasFunc GasFastestStep"

section \<open>Transactions\<close>

definition CalculateIntrinsicGas :: "vm_ops \<Rightarrow> bytes \<Rightarrow> bool \<Rightarrow> vmerror + uint64" where
  "CalculateIntrinsicGas V data createContract =
    (let gas = (if createContract then TxGasContractCreation (prices V) else TxGas (prices V)) in
     if length data > 0 then
       let nz = word_of_nat (length (filter (\<lambda>b. b \<noteq> 0) data)) in
       if (- 1 - gas) div TxDataNonZeroGas (prices V) < nz then Inl ErrOutOfGas
       else
         let gas1 = gas + nz * TxDataNonZeroGas (prices V);
             z = lenWord data - nz
         in if (- 1 - gas1) div TxDataZeroGas (prices V) < z then Inl ErrOutOfGas
            else Inr (gas1 + z * TxDataZeroGas (prices V))
     else Inr gas)"

end
