(* ===== verification/VMCall.thy ===== *)
theory VMCall
  imports VMGas
begin

text \<open>
  The virtual machine, third part: the precompiled contracts (\<open>ledger/vm/contracts.go\<close>) and the calls of
  contracts (\<open>ledger/vm/vm.go\<close>).

  The interpreter a call hands over to is the argument \<open>R\<close> of the definitions, so that they stand before
  the interpreter, which calls them. A run gives the output, the error if there is one, the contract with
  the gas that is left, and the machine.

  \<open>ecrecover\<close> of the code appends a byte to a slice of its input, which overwrites the 129th byte of an
  input that is longer; the input is not read again, except for the data of a transaction that calls
  \<open>ecrecover\<close> directly. The model leaves the input alone.
\<close>

type_synonym vmresult = "bytes \<times> vmerror option"

type_synonym 's runfunc = "contract \<Rightarrow> bytes \<Rightarrow> bool \<Rightarrow> 's evm \<Rightarrow> (vmresult \<times> contract \<times> 's evm) option"

section \<open>Transfers\<close>

definition CanTransfer :: "'s statedb \<Rightarrow> address \<Rightarrow> int \<Rightarrow> 's \<Rightarrow> bool option" where
  "CanTransfer D addr amount db = do { b \<leftarrow> dbGetBalance D addr db; Some (b \<ge> amount) }"

definition Transfer :: "'s statedb \<Rightarrow> address \<Rightarrow> address \<Rightarrow> int \<Rightarrow> 's \<Rightarrow> 's option" where
  "Transfer D sender recipient amount db = do {
    db1 \<leftarrow> dbSubBalance D sender amount db;
    dbAddBalance D recipient amount db1
  }"

definition HasPreviledgedAccess :: "'s statedb \<Rightarrow> address \<Rightarrow> 's \<Rightarrow> bool option" where
  "HasPreviledgedAccess D callerAddr db = do {
    r \<leftarrow> dbGetTFuelTokenBankContractAddress D db;
    previledgedContract \<leftarrow> r;
    Some (callerAddr = previledgedContract)
  }"

section \<open>Precompiled contracts\<close>

record 's precompile =
  pcRequiredGas :: "bytes \<Rightarrow> uint64 \<Rightarrow> uint64 option"
  pcRun :: "'s \<Rightarrow> bytes \<Rightarrow> address \<Rightarrow> (vmresult \<times> 's) option"

abbreviation ret :: "bytes \<Rightarrow> 's \<Rightarrow> (vmresult \<times> 's) option" where
  "ret b db \<equiv> Some ((b, None), db)"

abbreviation fail :: "vmerror \<Rightarrow> 's \<Rightarrow> (vmresult \<times> 's) option" where
  "fail err db \<equiv> Some (([], Some err), db)"

definition wordPrice :: "bytes \<Rightarrow> uint64 \<Rightarrow> uint64 \<Rightarrow> uint64" where
  "wordPrice input price base = word_of_nat (length input + 31) div 32 * price + base"

definition ecrecover_Run :: "vm_ops \<Rightarrow> 's \<Rightarrow> bytes \<Rightarrow> address \<Rightarrow> (vmresult \<times> 's) option" where
  "ecrecover_Run V db input0 callerAddr = do {
    let input = RightPadBytes V input0 128;
    rb \<leftarrow> goSlice 64 96 input;
    sb \<leftarrow> goSlice 96 128 input;
    let v = input ! 63 - 27;
    pad \<leftarrow> goSlice 32 63 input;
    if \<not> allZero pad \<or> \<not> ValidateSignatureValues V v (SetBytes rb) (SetBytes sb) False then ret [] db
    else do {
      h \<leftarrow> goSlice 0 32 input;
      sig \<leftarrow> goSlice 64 128 input;
      (case Ecrecover V h (sig @ [v]) of
         None \<Rightarrow> ret [] db
       | Some pubKey \<Rightarrow> do {
           key \<leftarrow> goSlice 1 (int (length pubKey)) pubKey;
           addr \<leftarrow> goSlice 12 (int (length (Keccak256 V key))) (Keccak256 V key);
           ret (LeftPadBytes V addr 32) db
         })
    }
  }"

definition sha256hash_Run :: "vm_ops \<Rightarrow> 's \<Rightarrow> bytes \<Rightarrow> address \<Rightarrow> (vmresult \<times> 's) option" where
  "sha256hash_Run V db input callerAddr = ret (Sha256Sum V input) db"

definition ripemd160hash_Run :: "vm_ops \<Rightarrow> 's \<Rightarrow> bytes \<Rightarrow> address \<Rightarrow> (vmresult \<times> 's) option" where
  "ripemd160hash_Run V db input callerAddr = ret (LeftPadBytes V (Ripemd160Sum V input) 32) db"

definition dataCopy_Run :: "'s \<Rightarrow> bytes \<Rightarrow> address \<Rightarrow> (vmresult \<times> 's) option" where
  "dataCopy_Run db input callerAddr = ret input db"

text \<open>The three lengths at the head of the input, and the rest of it.\<close>

definition modExpHead :: "vm_ops \<Rightarrow> bytes \<Rightarrow> (int \<times> int \<times> int) option" where
  "modExpHead V input = do {
    b \<leftarrow> getData V input 0 32;
    e \<leftarrow> getData V input 32 32;
    m \<leftarrow> getData V input 64 32;
    Some (SetBytes b, SetBytes e, SetBytes m)
  }"

definition modExpBody :: "bytes \<Rightarrow> bytes" where
  "modExpBody input = (if length input > 96 then drop 96 input else [])"

definition bigModExp_RequiredGas :: "vm_ops \<Rightarrow> bytes \<Rightarrow> uint64 \<Rightarrow> uint64 option" where
  "bigModExp_RequiredGas V input0 blockHeight = do {
    (baseLen, expLen, modLen) \<leftarrow> modExpHead V input0;
    let input = modExpBody input0;
    expHead \<leftarrow> (if int (length input) \<le> baseLen then Some 0
      else map_option SetBytes (getData V input (Uint64 baseLen) (if expLen > 32 then 32 else Uint64 expLen)));
    let msb = (if BitLen expHead > 0 then BitLen expHead - 1 else 0);
    let adjExpLen = (if expLen > 32 then 8 * (expLen - 32) else 0) + int msb;
    let x = mathBigMax V modLen baseLen;
    let complexity = (if x \<le> 64 then x * x
      else if x \<le> 1024 then x * x div 4 + (96 * x - 3072)
      else x * x div 16 + (480 * x - 199680));
    let gas = complexity * mathBigMax V adjExpLen 1 div uint (ModExpQuadCoeffDiv (prices V));
    Some (if BitLen gas > 64 then - 1 else Uint64 gas)
  }"

definition bigModExp_Run :: "vm_ops \<Rightarrow> 's \<Rightarrow> bytes \<Rightarrow> address \<Rightarrow> (vmresult \<times> 's) option" where
  "bigModExp_Run V db input0 callerAddr = do {
    (bl, el, ml) \<leftarrow> modExpHead V input0;
    let baseLen = Uint64 bl;
    let expLen = Uint64 el;
    let modLen = Uint64 ml;
    let input = modExpBody input0;
    if baseLen = 0 \<and> modLen = 0 then ret [] db
    else do {
      base \<leftarrow> getData V input 0 baseLen;
      exp \<leftarrow> getData V input baseLen expLen;
      modulus \<leftarrow> getData V input (baseLen + expLen) modLen;
      if BitLen (SetBytes modulus) = 0 then ret (LeftPadBytes V [] (sint modLen)) db
      else ret (LeftPadBytes V (intBytes (SetBytes base ^ nat (SetBytes exp) mod SetBytes modulus)) (sint modLen)) db
    }
  }"

definition newCurvePoint :: "vm_ops \<Rightarrow> bytes \<Rightarrow> vmerror + bytes" where
  "newCurvePoint V blob = (case bn256Unmarshal V blob of None \<Rightarrow> Inl (errOther ''bn256'') | Some p \<Rightarrow> Inr p)"

definition newTwistPoint :: "vm_ops \<Rightarrow> bytes \<Rightarrow> vmerror + bytes" where
  "newTwistPoint V blob = (case bn256UnmarshalTwist V blob of None \<Rightarrow> Inl (errOther ''bn256'') | Some p \<Rightarrow> Inr p)"

definition result :: "vmerror + bytes \<Rightarrow> 's \<Rightarrow> (vmresult \<times> 's) option" where
  "result r db = (case r of Inl err \<Rightarrow> fail err db | Inr b \<Rightarrow> ret b db)"

definition bn256Add_RequiredGas :: "vm_ops \<Rightarrow> bytes \<Rightarrow> uint64 \<Rightarrow> uint64 option" where
  "bn256Add_RequiredGas V input blockHeight =
    Some (if blockHeight < HeightJune2021FeeAdjustment (params V) then Bn256AddGas (prices V) else Bn256AddGasIstanbul (prices V))"

definition bn256Add_Run :: "vm_ops \<Rightarrow> 's \<Rightarrow> bytes \<Rightarrow> address \<Rightarrow> (vmresult \<times> 's) option" where
  "bn256Add_Run V db input callerAddr = do {
    b1 \<leftarrow> getData V input 0 64;
    b2 \<leftarrow> getData V input 64 64;
    result (onOk (newCurvePoint V b1) (\<lambda>x. onOk (newCurvePoint V b2) (\<lambda>y. Inr (bn256G1Add V x y)))) db
  }"

definition bn256ScalarMul_RequiredGas :: "vm_ops \<Rightarrow> bytes \<Rightarrow> uint64 \<Rightarrow> uint64 option" where
  "bn256ScalarMul_RequiredGas V input blockHeight =
    Some (if blockHeight < HeightJune2021FeeAdjustment (params V) then Bn256ScalarMulGas (prices V) else Bn256ScalarMulGasIstanbul (prices V))"

definition bn256ScalarMul_Run :: "vm_ops \<Rightarrow> 's \<Rightarrow> bytes \<Rightarrow> address \<Rightarrow> (vmresult \<times> 's) option" where
  "bn256ScalarMul_Run V db input callerAddr = do {
    b1 \<leftarrow> getData V input 0 64;
    b2 \<leftarrow> getData V input 64 32;
    result (onOk (newCurvePoint V b1) (\<lambda>p. Inr (bn256G1ScalarMult V p (SetBytes b2)))) db
  }"

definition true32Byte :: bytes where
  "true32Byte = replicate 31 0 @ [1]"

definition false32Byte :: bytes where
  "false32Byte = replicate 32 0"

definition bn256Pairing_RequiredGas :: "vm_ops \<Rightarrow> bytes \<Rightarrow> uint64 \<Rightarrow> uint64 option" where
  "bn256Pairing_RequiredGas V input blockHeight =
    Some (if blockHeight < HeightJune2021FeeAdjustment (params V)
      then Bn256PairingBaseGas (prices V) + word_of_nat (length input div 192) * Bn256PairingPerPointGas (prices V)
      else Bn256PairingBaseGasIstanbul (prices V) + word_of_nat (length input div 192) * Bn256PairingPerPointGasIstanbul (prices V))"

text \<open>The points of an input whose length is a multiple of 192.\<close>

fun pairingPoints :: "vm_ops \<Rightarrow> bytes \<Rightarrow> vmerror + (bytes list \<times> bytes list)" where
  "pairingPoints V input =
    (if input = [] then Inr ([], [])
     else onOk (newCurvePoint V (take 64 input)) (\<lambda>c.
          onOk (newTwistPoint V (take 128 (drop 64 input))) (\<lambda>t.
          onOk (pairingPoints V (drop 192 input)) (\<lambda>(cs, ts). Inr (c # cs, t # ts)))))"

declare pairingPoints.simps [simp del]

definition bn256Pairing_Run :: "vm_ops \<Rightarrow> 's \<Rightarrow> bytes \<Rightarrow> address \<Rightarrow> (vmresult \<times> 's) option" where
  "bn256Pairing_Run V db input callerAddr =
    (if length input mod 192 > 0 then fail errBadPairingInput db
     else result (onOk (pairingPoints V input) (\<lambda>(cs, ts).
       Inr (if bn256PairingCheck V cs ts then true32Byte else false32Byte))) db)"

definition dynasty_Run :: "vm_ops \<Rightarrow> 's statedb \<Rightarrow> 's \<Rightarrow> bytes \<Rightarrow> address \<Rightarrow> (vmresult \<times> 's) option" where
  "dynasty_Run V D db input callerAddr = do {
    r \<leftarrow> dbGetDynasty D db;
    dyn \<leftarrow> r;
    ret (LeftPadBytes V (intBytes dyn) 32) db
  }"

definition validatorSet_Run :: "vm_ops \<Rightarrow> 's statedb \<Rightarrow> 's \<Rightarrow> bytes \<Rightarrow> address \<Rightarrow> (vmresult \<times> 's) option" where
  "validatorSet_Run V D db input callerAddr = do {
    b1 \<leftarrow> getData V input 0 32;
    b2 \<leftarrow> getData V input 32 32;
    r \<leftarrow> dbGetValidatorSetForChainDuringDynasty D (SetBytes b1) (SetBytes b2) db;
    (case r of
       None \<Rightarrow> ret [] db
     | Some vs \<Rightarrow> do {
         valSetBytes \<leftarrow> abiPackValidators V (map (\<lambda>val. (valAddress val, valStake val)) (validators vs));
         ret valSetBytes db
       })
  }"

definition mintTFuel_Run :: "vm_ops \<Rightarrow> 's statedb \<Rightarrow> 's \<Rightarrow> bytes \<Rightarrow> address \<Rightarrow> (vmresult \<times> 's) option" where
  "mintTFuel_Run V D db input callerAddr = do {
    ok \<leftarrow> HasPreviledgedAccess D callerAddr db;
    if \<not> ok then fail (errOther ''the execution context does not have previledged access'') db
    else do {
      b1 \<leftarrow> getData V input 0 20;
      b2 \<leftarrow> getData V input 20 32;
      let recipient = BytesToAddress V b1;
      let mintAmount = SetBytes b2;
      if mintAmount < 0 then fail (errOther ''mint amount must not be negative'') db
      else do { db1 \<leftarrow> dbAddBalance D recipient mintAmount db; ret [] db1 }
    }
  }"

definition burnTFuel_Run :: "vm_ops \<Rightarrow> 's statedb \<Rightarrow> 's \<Rightarrow> bytes \<Rightarrow> address \<Rightarrow> (vmresult \<times> 's) option" where
  "burnTFuel_Run V D db input callerAddr = do {
    b \<leftarrow> getData V input 0 32;
    let burnAmount = SetBytes b;
    if burnAmount < 0 then fail (errOther ''burn amount must not be negative'') db
    else do {
      ok \<leftarrow> CanTransfer D callerAddr burnAmount db;
      if \<not> ok then fail ErrInsufficientBalance db
      else do { db1 \<leftarrow> dbSubBalance D callerAddr burnAmount db; ret [] db1 }
    }
  }"

definition PrecompiledContracts :: "vm_ops \<Rightarrow> 's statedb \<Rightarrow> (address \<times> 's precompile) list" where
  "PrecompiledContracts V D =
    [(BytesToAddress V [1], \<lparr>pcRequiredGas = (\<lambda>i h. Some (EcrecoverGas (prices V))), pcRun = ecrecover_Run V\<rparr>),
     (BytesToAddress V [2], \<lparr>pcRequiredGas = (\<lambda>i h. Some (wordPrice i (Sha256PerWordGas (prices V)) (Sha256BaseGas (prices V)))),
        pcRun = sha256hash_Run V\<rparr>),
     (BytesToAddress V [3], \<lparr>pcRequiredGas = (\<lambda>i h. Some (wordPrice i (Ripemd160PerWordGas (prices V)) (Ripemd160BaseGas (prices V)))),
        pcRun = ripemd160hash_Run V\<rparr>),
     (BytesToAddress V [4], \<lparr>pcRequiredGas = (\<lambda>i h. Some (wordPrice i (IdentityPerWordGas (prices V)) (IdentityBaseGas (prices V)))),
        pcRun = dataCopy_Run\<rparr>),
     (BytesToAddress V [5], \<lparr>pcRequiredGas = bigModExp_RequiredGas V, pcRun = bigModExp_Run V\<rparr>),
     (BytesToAddress V [6], \<lparr>pcRequiredGas = bn256Add_RequiredGas V, pcRun = bn256Add_Run V\<rparr>),
     (BytesToAddress V [7], \<lparr>pcRequiredGas = bn256ScalarMul_RequiredGas V, pcRun = bn256ScalarMul_Run V\<rparr>),
     (BytesToAddress V [8], \<lparr>pcRequiredGas = bn256Pairing_RequiredGas V, pcRun = bn256Pairing_Run V\<rparr>),
     (BytesToAddress V [180], \<lparr>pcRequiredGas = (\<lambda>i h. Some 200), pcRun = dynasty_Run V D\<rparr>),
     (BytesToAddress V [181], \<lparr>pcRequiredGas = (\<lambda>i h. Some 200), pcRun = validatorSet_Run V D\<rparr>),
     (BytesToAddress V [182], \<lparr>pcRequiredGas = (\<lambda>i h. Some 200), pcRun = mintTFuel_Run V D\<rparr>),
     (BytesToAddress V [183], \<lparr>pcRequiredGas = (\<lambda>i h. Some 200), pcRun = burnTFuel_Run V D\<rparr>)]"

definition RunPrecompiledContract ::
  "'s statedb \<Rightarrow> 's precompile \<Rightarrow> bytes \<Rightarrow> contract \<Rightarrow> 's evm \<Rightarrow> (vmresult \<times> contract \<times> 's evm) option" where
  "RunPrecompiledContract D p input c e = do {
    gas \<leftarrow> pcRequiredGas p input (dbGetBlockHeight D (evDB e));
    let (ok, c1) = UseGas gas c;
    if ok then do {
      (r, db) \<leftarrow> pcRun p (evDB e) input (cCallerAddress c1);
      Some (r, c1, e\<lparr>evDB := db\<rparr>)
    } else Some (([], Some ErrOutOfGas), c1, e)
  }"

section \<open>Calls\<close>

definition getPrecompiledContracts :: "vm_ops \<Rightarrow> 's statedb \<Rightarrow> uint64 \<Rightarrow> address \<Rightarrow> 's precompile option" where
  "getPrecompiledContracts V D blockHeight = map_of (PrecompiledContracts V D)"

definition run :: "vm_ops \<Rightarrow> 's statedb \<Rightarrow> 's runfunc \<Rightarrow> 's runfunc" where
  "run V D R c input readOnly e =
    (case Option.bind (cCodeAddr c) (getPrecompiledContracts V D (dbGetBlockHeight D (evDB e))) of
       Some p \<Rightarrow> RunPrecompiledContract D p input c e
     | None \<Rightarrow> R c input readOnly e)"

text \<open>The end of a call: after an error the state is reverted, and the gas is gone unless the code reverted.\<close>

definition settle ::
  "'s statedb \<Rightarrow> hash \<Rightarrow> vmresult \<times> contract \<times> 's evm \<Rightarrow> ((bytes \<times> uint64 \<times> vmerror option) \<times> 's evm) option" where
  "settle D snapshot p =
    (case p of ((out, err), c, e) \<Rightarrow>
      if err = None then Some ((out, cGas c, err), e)
      else do {
        db \<leftarrow> dbRevertToSnapshot D snapshot (evDB e);
        Some ((out, if err \<noteq> Some errExecutionReverted then cGas (snd (UseGas (cGas c) c)) else cGas c, err), e\<lparr>evDB := db\<rparr>)
      })"

text \<open>The code of an account, in a contract.\<close>

definition loadCode :: "'s statedb \<Rightarrow> address \<Rightarrow> contract \<times> 's evm \<Rightarrow> (contract \<times> 's evm) option" where
  "loadCode D addr p = do {
    h \<leftarrow> dbGetCodeHash D addr (evDB (snd p));
    code \<leftarrow> dbGetCode D addr (evDB (snd p));
    Some (SetCallCode addr h code (fst p), snd p)
  }"

definition Call ::
  "vm_ops \<Rightarrow> 's statedb \<Rightarrow> 's runfunc \<Rightarrow> contractref \<Rightarrow> address \<Rightarrow> bytes \<Rightarrow> uint64 \<Rightarrow> int \<Rightarrow> 's evm \<Rightarrow>
    ((bytes \<times> uint64 \<times> vmerror option) \<times> 's evm) option" where
  "Call V D R caller addr input gas val e =
    (if evNoRecursion e \<and> evDepth e > 0 then Some (([], gas, None), e)
     else if evDepth e > sint (CallCreateDepth (params V)) then Some (([], gas, Some ErrDepth), e)
     else do {
       can \<leftarrow> CanTransfer D (Ref_Address caller) val (evDB e);
       if \<not> can then Some (([], gas, Some ErrInsufficientBalance), e)
       else do {
         let (snapshot, db) = dbSnapshot D (evDB e);
         exist \<leftarrow> dbExist D addr db;
         if \<not> exist \<and> getPrecompiledContracts V D (dbGetBlockHeight D (evDB e)) addr = None \<and> val = 0
         then Some (([], gas, None), e\<lparr>evDB := db\<rparr>)
         else do {
           db1 \<leftarrow> (if exist then Some db else dbCreateAccountWithPreviousBalance D addr db);
           db2 \<leftarrow> Transfer D (Ref_Address caller) addr val db1;
           (c, e1) \<leftarrow> loadCode D addr (NewContract caller addr (Some val) gas (e\<lparr>evDB := db2\<rparr>));
           p \<leftarrow> run V D R c input False e1;
           settle D snapshot p
         }
       }
     })"

definition CallCode ::
  "vm_ops \<Rightarrow> 's statedb \<Rightarrow> 's runfunc \<Rightarrow> contractref \<Rightarrow> address \<Rightarrow> bytes \<Rightarrow> uint64 \<Rightarrow> int \<Rightarrow> 's evm \<Rightarrow>
    ((bytes \<times> uint64 \<times> vmerror option) \<times> 's evm) option" where
  "CallCode V D R caller addr input gas val e =
    (if evNoRecursion e \<and> evDepth e > 0 then Some (([], gas, None), e)
     else if evDepth e > sint (CallCreateDepth (params V)) then Some (([], gas, Some ErrDepth), e)
     else do {
       can \<leftarrow> CanTransfer D (Ref_Address caller) val (evDB e);
       if \<not> can then Some (([], gas, Some ErrInsufficientBalance), e)
       else do {
         let (snapshot, db) = dbSnapshot D (evDB e);
         (c, e1) \<leftarrow> loadCode D addr (NewContract caller (Ref_Address caller) (Some val) gas (e\<lparr>evDB := db\<rparr>));
         p \<leftarrow> run V D R c input False e1;
         settle D snapshot p
       }
     })"

definition DelegateCall ::
  "vm_ops \<Rightarrow> 's statedb \<Rightarrow> 's runfunc \<Rightarrow> contractref \<Rightarrow> address \<Rightarrow> bytes \<Rightarrow> uint64 \<Rightarrow> 's evm \<Rightarrow>
    ((bytes \<times> uint64 \<times> vmerror option) \<times> 's evm) option" where
  "DelegateCall V D R caller addr input gas e =
    (if evNoRecursion e \<and> evDepth e > 0 then Some (([], gas, None), e)
     else if evDepth e > sint (CallCreateDepth (params V)) then Some (([], gas, Some ErrDepth), e)
     else do {
       let (snapshot, db) = dbSnapshot D (evDB e);
       let (c0, e0) = NewContract caller (Ref_Address caller) None gas (e\<lparr>evDB := db\<rparr>);
       c1 \<leftarrow> AsDelegate caller c0;
       (c, e1) \<leftarrow> loadCode D addr (c1, e0);
       p \<leftarrow> run V D R c input False e1;
       settle D snapshot p
     })"

definition StaticCall ::
  "vm_ops \<Rightarrow> 's statedb \<Rightarrow> 's runfunc \<Rightarrow> contractref \<Rightarrow> address \<Rightarrow> bytes \<Rightarrow> uint64 \<Rightarrow> 's evm \<Rightarrow>
    ((bytes \<times> uint64 \<times> vmerror option) \<times> 's evm) option" where
  "StaticCall V D R caller addr input gas e =
    (if evNoRecursion e \<and> evDepth e > 0 then Some (([], gas, None), e)
     else if evDepth e > sint (CallCreateDepth (params V)) then Some (([], gas, Some ErrDepth), e)
     else do {
       let (snapshot, db) = dbSnapshot D (evDB e);
       (c, e1) \<leftarrow> loadCode D addr (NewContract caller addr (Some 0) gas (e\<lparr>evDB := db\<rparr>));
       p \<leftarrow> run V D R c input True e1;
       settle D snapshot p
     })"

text \<open>The end of a creation: the output becomes the code of the account, if there is gas for it.\<close>

definition deploy ::
  "vm_ops \<Rightarrow> 's statedb \<Rightarrow> hash \<Rightarrow> address \<Rightarrow> vmresult \<times> contract \<times> 's evm \<Rightarrow>
    ((bytes \<times> address \<times> uint64 \<times> vmerror option) \<times> 's evm) option" where
  "deploy V D snapshot addr p =
    (case p of ((out, err), c, e) \<Rightarrow> do {
      let maxCodeSizeExceeded = int (length out) > MaxCodeSizeForMetachain (params V);
      let (paid, c1) = UseGas (lenWord out * CreateDataGas (params V)) c;
      let store = (err = None \<and> \<not> maxCodeSizeExceeded);
      db \<leftarrow> (if store \<and> paid then dbSetCode D addr out (evDB e) else Some (evDB e));
      let c2 = (if store then c1 else c);
      let err1 = (if store \<and> \<not> paid then Some ErrCodeStoreOutOfGas else err);
      let failed = (maxCodeSizeExceeded \<or> err1 \<noteq> None);
      db1 \<leftarrow> (if failed then dbRevertToSnapshot D snapshot db else Some db);
      let c3 = (if failed \<and> err1 \<noteq> Some errExecutionReverted then snd (UseGas (cGas c2) c2) else c2);
      let err2 = (if maxCodeSizeExceeded \<and> err1 = None then Some errMaxCodeSizeExceeded else err1);
      Some ((out, addr, cGas c3, err2), e\<lparr>evDB := db1\<rparr>)
    })"

definition create ::
  "vm_ops \<Rightarrow> 's statedb \<Rightarrow> 's runfunc \<Rightarrow> contractref \<Rightarrow> codeandhash \<Rightarrow> uint64 \<Rightarrow> int \<Rightarrow> address \<Rightarrow> 's evm \<Rightarrow>
    ((bytes \<times> address \<times> uint64 \<times> vmerror option) \<times> 's evm) option" where
  "create V D R caller ch gas val addr e =
    (if evDepth e > sint (CallCreateDepth (params V)) then Some (([], 0, gas, Some ErrDepth), e)
     else do {
       can \<leftarrow> CanTransfer D (Ref_Address caller) val (evDB e);
       if \<not> can then Some (([], 0, gas, Some ErrInsufficientBalance), e)
       else do {
         nonce \<leftarrow> dbGetNonce D (Ref_Address caller) (evDB e);
         db \<leftarrow> dbSetNonce D (Ref_Address caller) (nonce + 1) (evDB e);
         contractHash \<leftarrow> dbGetCodeHash D addr db;
         nonce1 \<leftarrow> dbGetNonce D addr db;
         if nonce1 \<noteq> 0 \<or> contractHash \<noteq> 0 \<and> contractHash \<noteq> vmEmptyCodeHash V
         then Some (([], 0, 0, Some ErrContractAddressCollision), e\<lparr>evDB := db\<rparr>)
         else do {
           let (snapshot, db1) = dbSnapshot D db;
           db2 \<leftarrow> dbCreateAccountWithPreviousBalance D addr db1;
           db3 \<leftarrow> Transfer D (Ref_Address caller) addr val db2;
           let (c0, e1) = NewContract caller addr (Some val) gas (e\<lparr>evDB := db3\<rparr>);
           let c = SetCodeOptionalHash addr ch c0;
           if evNoRecursion e \<and> evDepth e > 0 then Some (([], addr, gas, None), e1)
           else do {
             p \<leftarrow> run V D R c [] False e1;
             deploy V D snapshot addr p
           }
         }
       }
     })"

definition Create ::
  "vm_ops \<Rightarrow> 's statedb \<Rightarrow> 's runfunc \<Rightarrow> contractref \<Rightarrow> bytes \<Rightarrow> uint64 \<Rightarrow> int \<Rightarrow> 's evm \<Rightarrow>
    ((bytes \<times> address \<times> uint64 \<times> vmerror option) \<times> 's evm) option" where
  "Create V D R caller code gas val e = do {
    nonce \<leftarrow> dbGetNonce D (Ref_Address caller) (evDB e);
    create V D R caller \<lparr>chCode = code, chHash = 0\<rparr> gas val (CreateAddress V (Ref_Address caller) nonce) e
  }"

definition Create2 ::
  "vm_ops \<Rightarrow> 's statedb \<Rightarrow> 's runfunc \<Rightarrow> contractref \<Rightarrow> bytes \<Rightarrow> uint64 \<Rightarrow> int \<Rightarrow> int \<Rightarrow> 's evm \<Rightarrow>
    ((bytes \<times> address \<times> uint64 \<times> vmerror option) \<times> 's evm) option" where
  "Create2 V D R caller code gas endowment salt e =
    (let ch = codeAndHash_Hash V \<lparr>chCode = code, chHash = 0\<rparr>
     in create V D R caller ch gas endowment
          (CreateAddress2 V (Ref_Address caller) (BigToHash V salt) (hash_bytes (chHash ch))) e)"

end
