(* ===== verification/VMOps.thy ===== *)
theory VMOps
  imports VMCall
begin

text \<open>
  The virtual machine, fourth part: the instructions (\<open>ledger/vm/instructions.go\<close>), their opcodes
  (\<open>opcodes.go\<close>) and the table that gives each its price, its stack discipline and its flags
  (\<open>jump_table.go\<close>).

  An instruction works on the frame of the run (contract, program counter, memory, stack) and on the
  machine; it gives its output and an error if there is one. Where the code overwrites the top of the stack
  in place, the model pops and pushes.
\<close>

type_synonym 's execfunc = "frame \<Rightarrow> 's evm \<Rightarrow> (vmresult \<times> frame \<times> 's evm) option"

section \<open>Arithmetic and comparison\<close>

text \<open>An instruction that only works on the stack.\<close>

definition onStack :: "(stack \<Rightarrow> stack option) \<Rightarrow> 's execfunc" where
  "onStack f fr e = do { st \<leftarrow> f (frStack fr); Some (([], None), fr\<lparr>frStack := st\<rparr>, e) }"

definition unary :: "(int \<Rightarrow> int) \<Rightarrow> stack \<Rightarrow> stack option" where
  "unary f st = do { (x, st1) \<leftarrow> pop st; Some (push (f x) st1) }"

definition binary :: "(int \<Rightarrow> int \<Rightarrow> int) \<Rightarrow> stack \<Rightarrow> stack option" where
  "binary f st = do { (x, st1) \<leftarrow> pop st; (y, st2) \<leftarrow> pop st1; Some (push (f x y) st2) }"

definition ternary :: "(int \<Rightarrow> int \<Rightarrow> int \<Rightarrow> int) \<Rightarrow> stack \<Rightarrow> stack option" where
  "ternary f st = do {
    (x, st1) \<leftarrow> pop st; (y, st2) \<leftarrow> pop st1; (z, st3) \<leftarrow> pop st2;
    Some (push (f x y z) st3)
  }"

definition flag :: "bool \<Rightarrow> int" where
  "flag b = (if b then 1 else 0)"

definition opAdd :: "vm_ops \<Rightarrow> stack \<Rightarrow> stack option" where
  "opAdd V = binary (\<lambda>x y. mathU256 V (x + y))"

definition opSub :: "vm_ops \<Rightarrow> stack \<Rightarrow> stack option" where
  "opSub V = binary (\<lambda>x y. mathU256 V (x - y))"

definition opMul :: "vm_ops \<Rightarrow> stack \<Rightarrow> stack option" where
  "opMul V = binary (\<lambda>x y. mathU256 V (x * y))"

definition opDiv :: "vm_ops \<Rightarrow> stack \<Rightarrow> stack option" where
  "opDiv V = binary (\<lambda>x y. if y \<noteq> 0 then mathU256 V (x div y) else 0)"

definition opSdiv :: "vm_ops \<Rightarrow> stack \<Rightarrow> stack option" where
  "opSdiv V = binary (\<lambda>x' y'.
    let x = mathS256 V x'; y = mathS256 V y' in
    if y = 0 \<or> x = 0 then 0
    else mathU256 V (if sgn x \<noteq> sgn y then - (\<bar>x\<bar> div \<bar>y\<bar>) else \<bar>x\<bar> div \<bar>y\<bar>))"

definition opMod :: "vm_ops \<Rightarrow> stack \<Rightarrow> stack option" where
  "opMod V = binary (\<lambda>x y. if y = 0 then 0 else mathU256 V (x mod y))"

definition opSmod :: "vm_ops \<Rightarrow> stack \<Rightarrow> stack option" where
  "opSmod V = binary (\<lambda>x' y'.
    let x = mathS256 V x'; y = mathS256 V y' in
    if y = 0 then 0
    else mathU256 V (if x < 0 then - (\<bar>x\<bar> mod \<bar>y\<bar>) else \<bar>x\<bar> mod \<bar>y\<bar>))"

definition opExp :: "vm_ops \<Rightarrow> stack \<Rightarrow> stack option" where
  "opExp V = binary (mathExp V)"

definition opSignExtend :: "vm_ops \<Rightarrow> stack \<Rightarrow> stack option" where
  "opSignExtend V st = do {
    (back, st1) \<leftarrow> pop st;
    if back < 31 then do {
      let b = unat (Uint64 back * 8 + 7);
      (num, st2) \<leftarrow> pop st1;
      let mask = push_bit b 1 - 1;
      Some (push (mathU256 V (if bit num b then num OR NOT mask else num AND mask)) st2)
    } else Some st1
  }"

definition opNot :: "vm_ops \<Rightarrow> stack \<Rightarrow> stack option" where
  "opNot V = unary (\<lambda>x. mathU256 V (NOT x))"

definition opLt :: "stack \<Rightarrow> stack option" where
  "opLt = binary (\<lambda>x y. flag (x < y))"

definition opGt :: "stack \<Rightarrow> stack option" where
  "opGt = binary (\<lambda>x y. flag (x > y))"

definition tt255 :: int where
  "tt255 = 2 ^ 255"

definition opSlt :: "stack \<Rightarrow> stack option" where
  "opSlt = binary (\<lambda>x y.
    if x \<ge> tt255 \<and> y < tt255 then 1
    else if x < tt255 \<and> y \<ge> tt255 then 0
    else flag (x < y))"

definition opSgt :: "stack \<Rightarrow> stack option" where
  "opSgt = binary (\<lambda>x y.
    if x \<ge> tt255 \<and> y < tt255 then 0
    else if x < tt255 \<and> y \<ge> tt255 then 1
    else flag (x > y))"

definition opEq :: "stack \<Rightarrow> stack option" where
  "opEq = binary (\<lambda>x y. flag (x = y))"

definition opIszero :: "stack \<Rightarrow> stack option" where
  "opIszero = unary (\<lambda>x. if x > 0 then 0 else 1)"

definition opAnd :: "stack \<Rightarrow> stack option" where
  "opAnd = binary (\<lambda>x y. x AND y)"

definition opOr :: "stack \<Rightarrow> stack option" where
  "opOr = binary (\<lambda>x y. x OR y)"

definition opXor :: "stack \<Rightarrow> stack option" where
  "opXor = binary (\<lambda>x y. x XOR y)"

definition opByte :: "vm_ops \<Rightarrow> stack \<Rightarrow> stack option" where
  "opByte V = binary (\<lambda>th val. if th < 32 then uint (mathByte V val 32 (Int64 th)) else 0)"

definition opAddmod :: "vm_ops \<Rightarrow> stack \<Rightarrow> stack option" where
  "opAddmod V = ternary (\<lambda>x y z. if z > 0 then mathU256 V ((x + y) mod z) else 0)"

definition opMulmod :: "vm_ops \<Rightarrow> stack \<Rightarrow> stack option" where
  "opMulmod V = ternary (\<lambda>x y z. if z > 0 then mathU256 V (x * y mod z) else 0)"

definition opSHL :: "vm_ops \<Rightarrow> stack \<Rightarrow> stack option" where
  "opSHL V = binary (\<lambda>s v.
    let sh = mathU256 V s; val = mathU256 V v in
    if sh \<ge> 256 then 0 else mathU256 V (push_bit (unat (Uint64 sh)) val))"

definition opSHR :: "vm_ops \<Rightarrow> stack \<Rightarrow> stack option" where
  "opSHR V = binary (\<lambda>s v.
    let sh = mathU256 V s; val = mathU256 V v in
    if sh \<ge> 256 then 0 else mathU256 V (drop_bit (unat (Uint64 sh)) val))"

definition opSAR :: "vm_ops \<Rightarrow> stack \<Rightarrow> stack option" where
  "opSAR V = binary (\<lambda>s v.
    let sh = mathU256 V s; val = mathS256 V v in
    if sh \<ge> 256 then mathU256 V (if val \<ge> 0 then 0 else - 1)
    else mathU256 V (drop_bit (unat (Uint64 sh)) val))"

section \<open>The environment\<close>

text \<open>Instructions that push one value, or replace the top of the stack by a value of the state.\<close>

definition pushOp :: "int \<Rightarrow> 's execfunc" where
  "pushOp v = onStack (\<lambda>st. Some (push v st))"

definition lookupOp :: "(int \<Rightarrow> 's \<Rightarrow> int option) \<Rightarrow> 's execfunc" where
  "lookupOp f fr e = do {
    (slot, st) \<leftarrow> pop (frStack fr);
    v \<leftarrow> f slot (evDB e);
    Some (([], None), fr\<lparr>frStack := push v st\<rparr>, e)
  }"

definition opSha3 :: "vm_ops \<Rightarrow> 's execfunc" where
  "opSha3 V fr e = do {
    (offset, st1) \<leftarrow> pop (frStack fr);
    (sz, st2) \<leftarrow> pop st1;
    data \<leftarrow> Memory_Get (Int64 offset) (Int64 sz) (frMem fr);
    Some (([], None), fr\<lparr>frStack := push (SetBytes (Keccak256 V data)) st2\<rparr>, e)
  }"

definition opAddress :: "'s execfunc" where
  "opAddress fr e = pushOp (uint (cSelf (frContract fr))) fr e"

definition opBalance :: "vm_ops \<Rightarrow> 's statedb \<Rightarrow> 's execfunc" where
  "opBalance V D = lookupOp (\<lambda>slot db. dbGetBalance D (BigToAddress V slot) db)"

definition opOrigin :: "'s execfunc" where
  "opOrigin fr e = pushOp (uint (ctxOrigin (evContext e))) fr e"

definition opCaller :: "'s execfunc" where
  "opCaller fr e = pushOp (uint (cCallerAddress (frContract fr))) fr e"

definition opCallValue :: "'s execfunc" where
  "opCallValue fr e = do { v \<leftarrow> cValue (frContract fr); pushOp v fr e }"

definition opCallDataLoad :: "vm_ops \<Rightarrow> 's execfunc" where
  "opCallDataLoad V fr e = do {
    (x, st) \<leftarrow> pop (frStack fr);
    b \<leftarrow> getDataBig V (cInput (frContract fr)) x 32;
    Some (([], None), fr\<lparr>frStack := push (SetBytes b) st\<rparr>, e)
  }"

definition opCallDataSize :: "'s execfunc" where
  "opCallDataSize fr e = pushOp (int (length (cInput (frContract fr)))) fr e"

text \<open>The copies into memory: the data, and the place and length popped from the stack.\<close>

definition copyOp :: "vm_ops \<Rightarrow> bytes \<Rightarrow> stack \<Rightarrow> 's execfunc" where
  "copyOp V data st fr e = do {
    (memOffset, st1) \<leftarrow> pop st;
    (dataOffset, st2) \<leftarrow> pop st1;
    (l, st3) \<leftarrow> pop st2;
    b \<leftarrow> getDataBig V data dataOffset l;
    mem \<leftarrow> Memory_Set (Uint64 memOffset) (Uint64 l) b (frMem fr);
    Some (([], None), fr\<lparr>frMem := mem, frStack := st3\<rparr>, e)
  }"

definition opCallDataCopy :: "vm_ops \<Rightarrow> 's execfunc" where
  "opCallDataCopy V fr e = copyOp V (cInput (frContract fr)) (frStack fr) fr e"

definition opReturnDataSize :: "'s execfunc" where
  "opReturnDataSize fr e = pushOp (uint (lenWord (evReturnData e))) fr e"

definition opReturnDataCopy :: "'s execfunc" where
  "opReturnDataCopy fr e = do {
    (memOffset, st1) \<leftarrow> pop (frStack fr);
    (dataOffset, st2) \<leftarrow> pop st1;
    (l, st3) \<leftarrow> pop st2;
    let end = dataOffset + l;
    if BitLen end > 64 \<or> lenWord (evReturnData e) < Uint64 end
    then Some (([], Some errReturnDataOutOfBounds), fr\<lparr>frStack := st3\<rparr>, e)
    else do {
      b \<leftarrow> goSlice (uint (Uint64 dataOffset)) (uint (Uint64 end)) (evReturnData e);
      mem \<leftarrow> Memory_Set (Uint64 memOffset) (Uint64 l) b (frMem fr);
      Some (([], None), fr\<lparr>frMem := mem, frStack := st3\<rparr>, e)
    }
  }"

definition opExtCodeSize :: "vm_ops \<Rightarrow> 's statedb \<Rightarrow> 's execfunc" where
  "opExtCodeSize V D =
    lookupOp (\<lambda>slot db. do { n \<leftarrow> dbGetCodeSize D (BigToAddress V slot) db; Some (uint (word_of_nat n :: uint64)) })"

definition opCodeSize :: "'s execfunc" where
  "opCodeSize fr e = pushOp (int (length (cCode (frContract fr)))) fr e"

definition opCodeCopy :: "vm_ops \<Rightarrow> 's execfunc" where
  "opCodeCopy V fr e = copyOp V (cCode (frContract fr)) (frStack fr) fr e"

definition opExtCodeCopy :: "vm_ops \<Rightarrow> 's statedb \<Rightarrow> 's execfunc" where
  "opExtCodeCopy V D fr e = do {
    (a, st) \<leftarrow> pop (frStack fr);
    code \<leftarrow> dbGetCode D (BigToAddress V a) (evDB e);
    copyOp V code st fr e
  }"

definition opExtCodeHash :: "vm_ops \<Rightarrow> 's statedb \<Rightarrow> 's execfunc" where
  "opExtCodeHash V D = lookupOp (\<lambda>slot db. do { h \<leftarrow> dbGetCodeHash D (BigToAddress V slot) db; Some (SetBytes (hash_bytes h)) })"

definition opGasprice :: "'s execfunc" where
  "opGasprice fr e = do { p \<leftarrow> ctxGasPrice (evContext e); pushOp p fr e }"

definition opBlockhash :: "'s execfunc" where
  "opBlockhash fr e = Some (([], Some (errOther ''opBlockhash not supported'')), fr, e)"

definition opCoinbase :: "'s execfunc" where
  "opCoinbase fr e = Some (([], Some (errOther ''opCoinbase not supported'')), fr, e)"

definition opTimestamp :: "vm_ops \<Rightarrow> 's execfunc" where
  "opTimestamp V fr e = do { t \<leftarrow> ctxTime (evContext e); pushOp (mathU256 V t) fr e }"

definition opNumber :: "vm_ops \<Rightarrow> 's execfunc" where
  "opNumber V fr e = pushOp (mathU256 V (ctxBlockNumber (evContext e))) fr e"

definition opDifficulty :: "'s execfunc" where
  "opDifficulty fr e = Some (([], Some (errOther ''opDifficulty not supported'')), fr, e)"

definition opGasLimit :: "vm_ops \<Rightarrow> 's execfunc" where
  "opGasLimit V fr e = pushOp (mathU256 V (uint (ctxGasLimit (evContext e)))) fr e"

definition opChainID :: "'s execfunc" where
  "opChainID fr e = pushOp (ctxChainID (evContext e)) fr e"

definition opSelfBalance :: "'s statedb \<Rightarrow> 's execfunc" where
  "opSelfBalance D fr e = do { b \<leftarrow> dbGetBalance D (cSelf (frContract fr)) (evDB e); pushOp b fr e }"

section \<open>Stack, memory, storage and flow\<close>

definition opPop :: "stack \<Rightarrow> stack option" where
  "opPop st = do { (_, st1) \<leftarrow> pop st; Some st1 }"

definition opMload :: "'s execfunc" where
  "opMload fr e = do {
    (offset, st) \<leftarrow> pop (frStack fr);
    b \<leftarrow> Memory_Get (Int64 offset) 32 (frMem fr);
    Some (([], None), fr\<lparr>frStack := push (SetBytes b) st\<rparr>, e)
  }"

definition opMstore :: "vm_ops \<Rightarrow> 's execfunc" where
  "opMstore V fr e = do {
    (mStart, st1) \<leftarrow> pop (frStack fr);
    (val, st2) \<leftarrow> pop st1;
    mem \<leftarrow> Memory_Set32 V (Uint64 mStart) val (frMem fr);
    Some (([], None), fr\<lparr>frMem := mem, frStack := st2\<rparr>, e)
  }"

definition opMstore8 :: "'s execfunc" where
  "opMstore8 fr e = do {
    (offset, st1) \<leftarrow> pop (frStack fr);
    (val, st2) \<leftarrow> pop st1;
    let off = Int64 offset;
    let b = word_of_int (Int64 val AND 0xff);
    if 0 \<le> off \<and> off < int (length (memStore (frMem fr)))
    then Some (([], None), fr\<lparr>frMem := (frMem fr)\<lparr>memStore := (memStore (frMem fr))[nat off := b]\<rparr>, frStack := st2\<rparr>, e)
    else None
  }"

definition opSload :: "vm_ops \<Rightarrow> 's statedb \<Rightarrow> 's execfunc" where
  "opSload V D fr e =
    lookupOp (\<lambda>loc db. do {
      v \<leftarrow> dbGetState D (cSelf (frContract fr)) (BigToHash V loc) db;
      Some (SetBytes (hash_bytes v)) }) fr e"

definition opSstore :: "vm_ops \<Rightarrow> 's statedb \<Rightarrow> 's execfunc" where
  "opSstore V D fr e = do {
    (loc, st1) \<leftarrow> pop (frStack fr);
    (val, st2) \<leftarrow> pop st1;
    db \<leftarrow> dbSetState D (cSelf (frContract fr)) (BigToHash V loc) (BigToHash V val) (evDB e);
    Some (([], None), fr\<lparr>frStack := st2\<rparr>, e\<lparr>evDB := db\<rparr>)
  }"

text \<open>A jump to a position, if it is a destination.\<close>

definition jumpTo :: "int \<Rightarrow> 's execfunc" where
  "jumpTo pos fr e = do {
    (ok, c, e1) \<leftarrow> validJumpdest pos (frContract fr) e;
    if ok then Some (([], None), fr\<lparr>frContract := c, frPc := Uint64 pos\<rparr>, e1)
    else Some (([], Some (errOther ''invalid jump destination'')), fr\<lparr>frContract := c\<rparr>, e1)
  }"

definition opJump :: "'s execfunc" where
  "opJump fr e = do {
    (pos, st) \<leftarrow> pop (frStack fr);
    jumpTo pos (fr\<lparr>frStack := st\<rparr>) e
  }"

definition opJumpi :: "'s execfunc" where
  "opJumpi fr e = do {
    (pos, st1) \<leftarrow> pop (frStack fr);
    (cond, st2) \<leftarrow> pop st1;
    if cond \<noteq> 0 then jumpTo pos (fr\<lparr>frStack := st2\<rparr>) e
    else Some (([], None), fr\<lparr>frStack := st2, frPc := frPc fr + 1\<rparr>, e)
  }"

definition opJumpdest :: "'s execfunc" where
  "opJumpdest fr e = Some (([], None), fr, e)"

definition opPc :: "'s execfunc" where
  "opPc fr e = pushOp (uint (frPc fr)) fr e"

definition opMsize :: "'s execfunc" where
  "opMsize fr e = pushOp (int (Memory_Len (frMem fr))) fr e"

definition opGas :: "'s execfunc" where
  "opGas fr e = pushOp (uint (cGas (frContract fr))) fr e"

section \<open>Calls\<close>

text \<open>The gas given to a creation: all but a 64th.\<close>

definition giveGas :: "contract \<Rightarrow> uint64 \<times> contract" where
  "giveGas c = (let gas = cGas c - cGas c div 64 in (gas, snd (UseGas gas c)))"

text \<open>The gas a call gives back.\<close>

definition returnGas :: "uint64 \<Rightarrow> contract \<Rightarrow> contract" where
  "returnGas gas c = c\<lparr>cGas := cGas c + gas\<rparr>"

definition opCreate :: "vm_ops \<Rightarrow> 's statedb \<Rightarrow> 's runfunc \<Rightarrow> 's execfunc" where
  "opCreate V D R fr e = do {
    (val, st1) \<leftarrow> pop (frStack fr);
    (offset, st2) \<leftarrow> pop st1;
    (sz, st3) \<leftarrow> pop st2;
    input \<leftarrow> Memory_Get (Int64 offset) (Int64 sz) (frMem fr);
    let (gas, c) = giveGas (frContract fr);
    ((res, addr, gasLeft, suberr), e1) \<leftarrow> Create V D R (ContractRef c) input gas val e;
    let st4 = push (if suberr = None then uint addr else 0) st3;
    Some ((if suberr = Some errExecutionReverted then res else [], None),
      fr\<lparr>frContract := returnGas gasLeft c, frStack := st4\<rparr>, e1)
  }"

definition opCreate2 :: "vm_ops \<Rightarrow> 's statedb \<Rightarrow> 's runfunc \<Rightarrow> 's execfunc" where
  "opCreate2 V D R fr e = do {
    (endowment, st1) \<leftarrow> pop (frStack fr);
    (offset, st2) \<leftarrow> pop st1;
    (sz, st3) \<leftarrow> pop st2;
    (salt, st4) \<leftarrow> pop st3;
    input \<leftarrow> Memory_Get (Int64 offset) (Int64 sz) (frMem fr);
    let (gas, c) = giveGas (frContract fr);
    ((res, addr, gasLeft, suberr), e1) \<leftarrow> Create2 V D R (ContractRef c) input gas endowment salt e;
    let st5 = push (if suberr = None then uint addr else 0) st4;
    Some ((if suberr = Some errExecutionReverted then res else [], None),
      fr\<lparr>frContract := returnGas gasLeft c, frStack := st5\<rparr>, e1)
  }"

text \<open>The end of a call: success or failure on the stack, the output in memory, the rest of the gas.\<close>

definition afterCall ::
  "int \<Rightarrow> int \<Rightarrow> stack \<Rightarrow> frame \<Rightarrow> (bytes \<times> uint64 \<times> vmerror option) \<times> 's evm \<Rightarrow> (vmresult \<times> frame \<times> 's evm) option" where
  "afterCall retOffset retSize st fr p =
    (case p of ((out, gasLeft, err), e) \<Rightarrow> do {
      mem \<leftarrow> (if err = None \<or> err = Some errExecutionReverted
        then Memory_Set (Uint64 retOffset) (Uint64 retSize) out (frMem fr) else Some (frMem fr));
      Some ((out, None),
        fr\<lparr>frContract := returnGas gasLeft (frContract fr), frMem := mem, frStack := push (flag (err = None)) st\<rparr>, e)
    })"

definition opCall :: "vm_ops \<Rightarrow> 's statedb \<Rightarrow> 's runfunc \<Rightarrow> 's execfunc" where
  "opCall V D R fr e = do {
    (_, st1) \<leftarrow> pop (frStack fr);
    (addr, st2) \<leftarrow> pop st1;
    (v, st3) \<leftarrow> pop st2;
    (inOffset, st4) \<leftarrow> pop st3;
    (inSize, st5) \<leftarrow> pop st4;
    (retOffset, st6) \<leftarrow> pop st5;
    (retSize, st7) \<leftarrow> pop st6;
    let val = mathU256 V v;
    args \<leftarrow> Memory_Get (Int64 inOffset) (Int64 inSize) (frMem fr);
    let gas = evCallGasTemp e + (if val \<noteq> 0 then CallStipend (params V) else 0);
    p \<leftarrow> Call V D R (ContractRef (frContract fr)) (BigToAddress V addr) args gas val e;
    afterCall retOffset retSize st7 fr p
  }"

definition opCallCode :: "vm_ops \<Rightarrow> 's statedb \<Rightarrow> 's runfunc \<Rightarrow> 's execfunc" where
  "opCallCode V D R fr e = do {
    (_, st1) \<leftarrow> pop (frStack fr);
    (addr, st2) \<leftarrow> pop st1;
    (v, st3) \<leftarrow> pop st2;
    (inOffset, st4) \<leftarrow> pop st3;
    (inSize, st5) \<leftarrow> pop st4;
    (retOffset, st6) \<leftarrow> pop st5;
    (retSize, st7) \<leftarrow> pop st6;
    let val = mathU256 V v;
    args \<leftarrow> Memory_Get (Int64 inOffset) (Int64 inSize) (frMem fr);
    let gas = evCallGasTemp e + (if val \<noteq> 0 then CallStipend (params V) else 0);
    p \<leftarrow> CallCode V D R (ContractRef (frContract fr)) (BigToAddress V addr) args gas val e;
    afterCall retOffset retSize st7 fr p
  }"

definition opDelegateCall :: "vm_ops \<Rightarrow> 's statedb \<Rightarrow> 's runfunc \<Rightarrow> 's execfunc" where
  "opDelegateCall V D R fr e = do {
    (_, st1) \<leftarrow> pop (frStack fr);
    (addr, st2) \<leftarrow> pop st1;
    (inOffset, st3) \<leftarrow> pop st2;
    (inSize, st4) \<leftarrow> pop st3;
    (retOffset, st5) \<leftarrow> pop st4;
    (retSize, st6) \<leftarrow> pop st5;
    args \<leftarrow> Memory_Get (Int64 inOffset) (Int64 inSize) (frMem fr);
    p \<leftarrow> DelegateCall V D R (ContractRef (frContract fr)) (BigToAddress V addr) args (evCallGasTemp e) e;
    afterCall retOffset retSize st6 fr p
  }"

definition opStaticCall :: "vm_ops \<Rightarrow> 's statedb \<Rightarrow> 's runfunc \<Rightarrow> 's execfunc" where
  "opStaticCall V D R fr e = do {
    (_, st1) \<leftarrow> pop (frStack fr);
    (addr, st2) \<leftarrow> pop st1;
    (inOffset, st3) \<leftarrow> pop st2;
    (inSize, st4) \<leftarrow> pop st3;
    (retOffset, st5) \<leftarrow> pop st4;
    (retSize, st6) \<leftarrow> pop st5;
    args \<leftarrow> Memory_Get (Int64 inOffset) (Int64 inSize) (frMem fr);
    p \<leftarrow> StaticCall V D R (ContractRef (frContract fr)) (BigToAddress V addr) args (evCallGasTemp e) e;
    afterCall retOffset retSize st6 fr p
  }"

section \<open>Ends and logs\<close>

definition opReturn :: "'s execfunc" where
  "opReturn fr e = do {
    (offset, st1) \<leftarrow> pop (frStack fr);
    (sz, st2) \<leftarrow> pop st1;
    out \<leftarrow> Memory_GetPtr (Int64 offset) (Int64 sz) (frMem fr);
    Some ((out, None), fr\<lparr>frStack := st2\<rparr>, e)
  }"

definition opRevert :: "'s execfunc" where
  "opRevert fr e = do {
    (offset, st1) \<leftarrow> pop (frStack fr);
    (sz, st2) \<leftarrow> pop st1;
    out \<leftarrow> Memory_GetPtr (Int64 offset) (Int64 sz) (frMem fr);
    Some ((out, None), fr\<lparr>frStack := st2\<rparr>, e)
  }"

definition opStop :: "'s execfunc" where
  "opStop fr e = Some (([], None), fr, e)"

definition opSuicide :: "vm_ops \<Rightarrow> 's statedb \<Rightarrow> 's execfunc" where
  "opSuicide V D fr e = do {
    balance \<leftarrow> dbGetBalance D (cSelf (frContract fr)) (evDB e);
    (a, st) \<leftarrow> pop (frStack fr);
    db \<leftarrow> dbAddBalance D (BigToAddress V a) balance (evDB e);
    (_, db1) \<leftarrow> dbSuicide D (cSelf (frContract fr)) db;
    Some (([], None), fr\<lparr>frStack := st\<rparr>, e\<lparr>evDB := db1\<rparr>)
  }"

fun popTopics :: "vm_ops \<Rightarrow> nat \<Rightarrow> stack \<Rightarrow> (hash list \<times> stack) option" where
  "popTopics V 0 st = Some ([], st)"
| "popTopics V (Suc n) st = do {
    (x, st1) \<leftarrow> pop st;
    (hs, st2) \<leftarrow> popTopics V n st1;
    Some (BigToHash V x # hs, st2)
  }"

definition makeLog :: "vm_ops \<Rightarrow> 's statedb \<Rightarrow> nat \<Rightarrow> 's execfunc" where
  "makeLog V D n fr e = do {
    (mStart, st1) \<leftarrow> pop (frStack fr);
    (mSize, st2) \<leftarrow> pop st1;
    (topics, st3) \<leftarrow> popTopics V n st2;
    d \<leftarrow> Memory_Get (Int64 mStart) (Int64 mSize) (frMem fr);
    Some (([], None), fr\<lparr>frStack := st3\<rparr>,
      e\<lparr>evDB := dbAddLog D \<lparr>lgAddress = cSelf (frContract fr), lgTopics = topics, lgData = d\<rparr> (evDB e)\<rparr>)
  }"

definition makePush :: "vm_ops \<Rightarrow> uint64 \<Rightarrow> int \<Rightarrow> 's execfunc" where
  "makePush V sz pushByteSize fr e = do {
    let codeLen = int (length (cCode (frContract fr)));
    let startMin = (if sint (frPc fr + 1) < codeLen then sint (frPc fr + 1) else codeLen);
    let endMin = (if startMin + pushByteSize < codeLen then startMin + pushByteSize else codeLen);
    b \<leftarrow> goSlice startMin endMin (cCode (frContract fr));
    Some (([], None), fr\<lparr>frStack := push (SetBytes (RightPadBytes V b pushByteSize)) (frStack fr), frPc := frPc fr + sz\<rparr>, e)
  }"

definition makeDup :: "nat \<Rightarrow> stack \<Rightarrow> stack option" where
  "makeDup n = dup n"

definition makeSwap :: "nat \<Rightarrow> stack \<Rightarrow> stack option" where
  "makeSwap n = swap (n + 1)"

section \<open>The table\<close>

record 's operation =
  opnExecute :: "'s execfunc"
  opnGasCost :: "'s gasfunc"
  opnValidateStack :: "stack \<Rightarrow> vmerror option"
  opnMemorySize :: "(stack \<Rightarrow> int option) option"
  opnHalts :: bool
  opnJumps :: bool
  opnWrites :: bool
  opnReverts :: bool
  opnReturns :: bool

text \<open>
  The entries of the table, which are all \<open>valid\<close>; an opcode without an entry is not. An entry without
  flags, with and without a memory size.
\<close>

definition plain :: "'s execfunc \<Rightarrow> 's gasfunc \<Rightarrow> (stack \<Rightarrow> vmerror option) \<Rightarrow> 's operation" where
  "plain execute gasCost validateStack =
    \<lparr>opnExecute = execute, opnGasCost = gasCost, opnValidateStack = validateStack, opnMemorySize = None,
     opnHalts = False, opnJumps = False, opnWrites = False, opnReverts = False, opnReturns = False\<rparr>"

definition sized :: "'s execfunc \<Rightarrow> 's gasfunc \<Rightarrow> (stack \<Rightarrow> vmerror option) \<Rightarrow> (stack \<Rightarrow> int option) \<Rightarrow> 's operation" where
  "sized execute gasCost validateStack memorySize = (plain execute gasCost validateStack)\<lparr>opnMemorySize := Some memorySize\<rparr>"

definition arithmeticOps :: "vm_ops \<Rightarrow> (byte \<times> 's operation) list" where
  "arithmeticOps V =
    [(0x00, (plain opStop (constGasFunc 0) (makeStackFunc V 0 0))\<lparr>opnHalts := True\<rparr>),
     (0x01, plain (onStack (opAdd V)) (constGasFunc GasFastestStep) (makeStackFunc V 2 1)),
     (0x02, plain (onStack (opMul V)) (constGasFunc GasFastStep) (makeStackFunc V 2 1)),
     (0x03, plain (onStack (opSub V)) (constGasFunc GasFastestStep) (makeStackFunc V 2 1)),
     (0x04, plain (onStack (opDiv V)) (constGasFunc GasFastStep) (makeStackFunc V 2 1)),
     (0x05, plain (onStack (opSdiv V)) (constGasFunc GasFastStep) (makeStackFunc V 2 1)),
     (0x06, plain (onStack (opMod V)) (constGasFunc GasFastStep) (makeStackFunc V 2 1)),
     (0x07, plain (onStack (opSmod V)) (constGasFunc GasFastStep) (makeStackFunc V 2 1)),
     (0x08, plain (onStack (opAddmod V)) (constGasFunc GasMidStep) (makeStackFunc V 3 1)),
     (0x09, plain (onStack (opMulmod V)) (constGasFunc GasMidStep) (makeStackFunc V 3 1)),
     (0x0a, plain (onStack (opExp V)) (gasExp V) (makeStackFunc V 2 1)),
     (0x0b, plain (onStack (opSignExtend V)) (constGasFunc GasFastStep) (makeStackFunc V 2 1))]"

definition comparisonOps :: "vm_ops \<Rightarrow> (byte \<times> 's operation) list" where
  "comparisonOps V =
    [(0x10, plain (onStack opLt) (constGasFunc GasFastestStep) (makeStackFunc V 2 1)),
     (0x11, plain (onStack opGt) (constGasFunc GasFastestStep) (makeStackFunc V 2 1)),
     (0x12, plain (onStack opSlt) (constGasFunc GasFastestStep) (makeStackFunc V 2 1)),
     (0x13, plain (onStack opSgt) (constGasFunc GasFastestStep) (makeStackFunc V 2 1)),
     (0x14, plain (onStack opEq) (constGasFunc GasFastestStep) (makeStackFunc V 2 1)),
     (0x15, plain (onStack opIszero) (constGasFunc GasFastestStep) (makeStackFunc V 1 1)),
     (0x16, plain (onStack opAnd) (constGasFunc GasFastestStep) (makeStackFunc V 2 1)),
     (0x18, plain (onStack opXor) (constGasFunc GasFastestStep) (makeStackFunc V 2 1)),
     (0x17, plain (onStack opOr) (constGasFunc GasFastestStep) (makeStackFunc V 2 1)),
     (0x19, plain (onStack (opNot V)) (constGasFunc GasFastestStep) (makeStackFunc V 1 1)),
     (0x1a, plain (onStack (opByte V)) (constGasFunc GasFastestStep) (makeStackFunc V 2 1)),
     (0x20, sized (opSha3 V) (gasSha3 V) (makeStackFunc V 2 1) memorySha3)]"

definition environmentOps :: "vm_ops \<Rightarrow> 's statedb \<Rightarrow> (byte \<times> 's operation) list" where
  "environmentOps V D =
    [(0x30, plain opAddress (constGasFunc GasQuickStep) (makeStackFunc V 0 1)),
     (0x31, plain (opBalance V D) (gasBalance V) (makeStackFunc V 1 1)),
     (0x32, plain opOrigin (constGasFunc GasQuickStep) (makeStackFunc V 0 1)),
     (0x33, plain opCaller (constGasFunc GasQuickStep) (makeStackFunc V 0 1)),
     (0x34, plain opCallValue (constGasFunc GasQuickStep) (makeStackFunc V 0 1)),
     (0x35, plain (opCallDataLoad V) (constGasFunc GasFastestStep) (makeStackFunc V 1 1)),
     (0x36, plain opCallDataSize (constGasFunc GasQuickStep) (makeStackFunc V 0 1)),
     (0x37, sized (opCallDataCopy V) (gasCallDataCopy V) (makeStackFunc V 3 0) memoryCallDataCopy),
     (0x38, plain opCodeSize (constGasFunc GasQuickStep) (makeStackFunc V 0 1)),
     (0x39, sized (opCodeCopy V) (gasCodeCopy V) (makeStackFunc V 3 0) memoryCodeCopy),
     (0x3a, plain opGasprice (constGasFunc GasQuickStep) (makeStackFunc V 0 1)),
     (0x3b, plain (opExtCodeSize V D) (gasExtCodeSize V) (makeStackFunc V 1 1)),
     (0x3c, sized (opExtCodeCopy V D) (gasExtCodeCopy V) (makeStackFunc V 4 0) memoryExtCodeCopy)]"

definition blockOps :: "vm_ops \<Rightarrow> 's statedb \<Rightarrow> (byte \<times> 's operation) list" where
  "blockOps V D =
    [(0x40, plain opBlockhash (constGasFunc GasExtStep) (makeStackFunc V 1 1)),
     (0x41, plain opCoinbase (constGasFunc GasQuickStep) (makeStackFunc V 0 1)),
     (0x42, plain (opTimestamp V) (constGasFunc GasQuickStep) (makeStackFunc V 0 1)),
     (0x43, plain (opNumber V) (constGasFunc GasQuickStep) (makeStackFunc V 0 1)),
     (0x44, plain opDifficulty (constGasFunc GasQuickStep) (makeStackFunc V 0 1)),
     (0x45, plain (opGasLimit V) (constGasFunc GasQuickStep) (makeStackFunc V 0 1)),
     (0x46, plain opChainID (constGasFunc GasQuickStep) (makeStackFunc V 0 1)),
     (0x47, plain (opSelfBalance D) (constGasFunc GasFastStep) (makeStackFunc V 0 1))]"

definition storageOps :: "vm_ops \<Rightarrow> 's statedb \<Rightarrow> (byte \<times> 's operation) list" where
  "storageOps V D =
    [(0x50, plain (onStack opPop) (constGasFunc GasQuickStep) (makeStackFunc V 1 0)),
     (0x51, sized opMload (gasMLoad V) (makeStackFunc V 1 1) memoryMLoad),
     (0x52, sized (opMstore V) (gasMStore V) (makeStackFunc V 2 0) memoryMStore),
     (0x53, sized opMstore8 (gasMStore8 V) (makeStackFunc V 2 0) memoryMStore8),
     (0x54, plain (opSload V D) (gasSLoad V) (makeStackFunc V 1 1)),
     (0x55, (plain (opSstore V D) (gasSStore V D) (makeStackFunc V 2 0))\<lparr>opnWrites := True\<rparr>),
     (0x56, (plain opJump (constGasFunc GasMidStep) (makeStackFunc V 1 0))\<lparr>opnJumps := True\<rparr>),
     (0x57, (plain opJumpi (constGasFunc GasSlowStep) (makeStackFunc V 2 0))\<lparr>opnJumps := True\<rparr>),
     (0x58, plain opPc (constGasFunc GasQuickStep) (makeStackFunc V 0 1)),
     (0x59, plain opMsize (constGasFunc GasQuickStep) (makeStackFunc V 0 1)),
     (0x5a, plain opGas (constGasFunc GasQuickStep) (makeStackFunc V 0 1)),
     (0x5b, plain opJumpdest (constGasFunc (JumpdestGas (params V))) (makeStackFunc V 0 0))]"

text \<open>\<open>PUSH1\<close> to \<open>PUSH32\<close>, \<open>DUP1\<close> to \<open>DUP16\<close>, \<open>SWAP1\<close> to \<open>SWAP16\<close>, \<open>LOG0\<close> to \<open>LOG4\<close>.\<close>

definition pushOps :: "vm_ops \<Rightarrow> (byte \<times> 's operation) list" where
  "pushOps V = map (\<lambda>n. (0x5f + word_of_nat n, plain (makePush V (word_of_nat n) (int n)) gasPush (makeStackFunc V 0 1))) [1..<33]"

definition dupOps :: "vm_ops \<Rightarrow> (byte \<times> 's operation) list" where
  "dupOps V = map (\<lambda>n. (0x7f + word_of_nat n, plain (onStack (makeDup n)) gasDup (makeDupStackFunc V n))) [1..<17]"

definition swapOps :: "vm_ops \<Rightarrow> (byte \<times> 's operation) list" where
  "swapOps V = map (\<lambda>n. (0x8f + word_of_nat n, plain (onStack (makeSwap n)) gasSwap (makeSwapStackFunc V (n + 1)))) [1..<17]"

definition logOps :: "vm_ops \<Rightarrow> 's statedb \<Rightarrow> (byte \<times> 's operation) list" where
  "logOps V D =
    map (\<lambda>n. (0xa0 + word_of_nat n,
      (sized (makeLog V D n) (makeGasLog V (word_of_nat n)) (makeStackFunc V (n + 2) 0) memoryLog)\<lparr>opnWrites := True\<rparr>)) [0..<5]"

definition closureOps :: "vm_ops \<Rightarrow> 's statedb \<Rightarrow> 's runfunc \<Rightarrow> (byte \<times> 's operation) list" where
  "closureOps V D R =
    [(0xf0, (sized (opCreate V D R) (gasCreate V) (makeStackFunc V 3 1) memoryCreate)\<lparr>opnWrites := True, opnReturns := True\<rparr>),
     (0xf1, (sized (opCall V D R) (gasCall V D) (makeStackFunc V 7 1) (memoryCall V))\<lparr>opnReturns := True\<rparr>),
     (0xf2, (sized (opCallCode V D R) (gasCallCode V) (makeStackFunc V 7 1) (memoryCall V))\<lparr>opnReturns := True\<rparr>),
     (0xf3, (sized opReturn (gasReturn V) (makeStackFunc V 2 0) memoryReturn)\<lparr>opnHalts := True\<rparr>),
     (0xff, (plain (opSuicide V D) (gasSuicide V D) (makeStackFunc V 1 0))\<lparr>opnHalts := True, opnWrites := True\<rparr>)]"

definition newFrontierInstructionSet :: "vm_ops \<Rightarrow> 's statedb \<Rightarrow> 's runfunc \<Rightarrow> (byte \<times> 's operation) list" where
  "newFrontierInstructionSet V D R =
    arithmeticOps V @ comparisonOps V @ environmentOps V D @ blockOps V D @ storageOps V D @
    pushOps V @ dupOps V @ swapOps V @ logOps V D @ closureOps V D R"

definition newHomesteadInstructionSet :: "vm_ops \<Rightarrow> 's statedb \<Rightarrow> 's runfunc \<Rightarrow> (byte \<times> 's operation) list" where
  "newHomesteadInstructionSet V D R =
    (0xf4, (sized (opDelegateCall V D R) (gasDelegateCall V) (makeStackFunc V 6 1) (memoryDelegateCall V))\<lparr>opnReturns := True\<rparr>)
    # newFrontierInstructionSet V D R"

definition newByzantiumInstructionSet :: "vm_ops \<Rightarrow> 's statedb \<Rightarrow> 's runfunc \<Rightarrow> (byte \<times> 's operation) list" where
  "newByzantiumInstructionSet V D R =
    [(0xfa, (sized (opStaticCall V D R) (gasStaticCall V) (makeStackFunc V 6 1) (memoryStaticCall V))\<lparr>opnReturns := True\<rparr>),
     (0x3d, plain opReturnDataSize (constGasFunc GasQuickStep) (makeStackFunc V 0 1)),
     (0x3e, sized opReturnDataCopy (gasReturnDataCopy V) (makeStackFunc V 3 0) memoryReturnDataCopy),
     (0xfd, (sized opRevert (gasRevert V) (makeStackFunc V 2 0) memoryRevert)\<lparr>opnReverts := True, opnReturns := True\<rparr>)]
    @ newHomesteadInstructionSet V D R"

definition newConstantinopleInstructionSet :: "vm_ops \<Rightarrow> 's statedb \<Rightarrow> 's runfunc \<Rightarrow> (byte \<times> 's operation) list" where
  "newConstantinopleInstructionSet V D R =
    [(0x1b, plain (onStack (opSHL V)) (constGasFunc GasFastestStep) (makeStackFunc V 2 1)),
     (0x1c, plain (onStack (opSHR V)) (constGasFunc GasFastestStep) (makeStackFunc V 2 1)),
     (0x1d, plain (onStack (opSAR V)) (constGasFunc GasFastestStep) (makeStackFunc V 2 1)),
     (0x3f, plain (opExtCodeHash V D) (gasExtCodeHash V) (makeStackFunc V 1 1)),
     (0xf5, (sized (opCreate2 V D R) (gasCreate2 V) (makeStackFunc V 4 1) memoryCreate2)\<lparr>opnWrites := True, opnReturns := True\<rparr>)]
    @ newByzantiumInstructionSet V D R"

end
