(* ===== verification/VM.thy ===== *)
theory VM
  imports VMOps
begin

text \<open>
  The virtual machine, fifth part: the interpreter (\<open>ledger/vm/interpreter.go\<close>).

  The loop of the interpreter is a partial function: \<open>None\<close> stands for a panic as for a loop that does not
  end; that neither happens is a theorem about it. It passes itself, as the interpreter of the contracts
  that are called, to the step it repeats.
\<close>

section \<open>The interpreter\<close>

definition enforceRestrictions :: "byte \<Rightarrow> 's operation \<Rightarrow> stack \<Rightarrow> 's evm \<Rightarrow> vmerror option option" where
  "enforceRestrictions op opn st e =
    (if evReadOnly e then
       if opnWrites opn then Some (Some errWriteProtection)
       else if op = 0xf1 then do { v \<leftarrow> Back 2 st; Some (if BitLen v > 0 then Some errWriteProtection else None) }
       else Some None
     else Some None)"

text \<open>The memory an operation needs, in bytes, rounded up to words.\<close>

definition memorySizeOf :: "vm_ops \<Rightarrow> 's operation \<Rightarrow> stack \<Rightarrow> (vmerror + uint64) option" where
  "memorySizeOf V opn st =
    (case opnMemorySize opn of
       None \<Rightarrow> Some (Inr 0)
     | Some f \<Rightarrow> do {
         v \<leftarrow> f st;
         Some (onOk (bigGas v) (\<lambda>memSize. mulGas V (toWordSize memSize) 32))
       })"

text \<open>The checks before an instruction, its price, the growth of the memory, the instruction itself.\<close>

definition chargeAndExecute ::
  "'s operation \<Rightarrow> uint64 \<Rightarrow> frame \<Rightarrow> 's evm \<Rightarrow> (vmresult \<times> frame \<times> 's evm) option" where
  "chargeAndExecute opn memorySize fr e = do {
    (r, fr1, e1) \<leftarrow> opnGasCost opn fr memorySize e;
    (case r of
       Inl _ \<Rightarrow> Some (([], Some ErrOutOfGas), fr1, e1)
     | Inr cost \<Rightarrow>
         let (ok, c) = UseGas cost (frContract fr1) in
         if \<not> ok then Some (([], Some ErrOutOfGas), fr1, e1)
         else
           let mem = (if memorySize > 0 then Memory_Resize memorySize (frMem fr1) else frMem fr1)
           in opnExecute opn (fr1\<lparr>frContract := c, frMem := mem\<rparr>) e1)
  }"

text \<open>One iteration of the loop: the end of the run, or the frame to go on with.\<close>

definition step ::
  "vm_ops \<Rightarrow> 's statedb \<Rightarrow> 's runfunc \<Rightarrow> frame \<Rightarrow> 's evm \<Rightarrow> (vmresult option \<times> frame \<times> 's evm) option" where
  "step V D R fr e =
    (let op = GetOp (frPc fr) (frContract fr) in
     case map_of (newConstantinopleInstructionSet V D R) op of
       None \<Rightarrow> Some (Some ([], Some (errOther ''invalid opcode'')), fr, e)
     | Some opn \<Rightarrow>
         (case opnValidateStack opn (frStack fr) of
            Some err \<Rightarrow> Some (Some ([], Some err), fr, e)
          | None \<Rightarrow> do {
              restriction \<leftarrow> enforceRestrictions op opn (frStack fr) e;
              (case restriction of
                 Some err \<Rightarrow> Some (Some ([], Some err), fr, e)
               | None \<Rightarrow> do {
                   ms \<leftarrow> memorySizeOf V opn (frStack fr);
                   (case ms of
                      Inl err \<Rightarrow> Some (Some ([], Some err), fr, e)
                    | Inr memorySize \<Rightarrow> do {
                        ((res, err), fr1, e1) \<leftarrow> chargeAndExecute opn memorySize fr e;
                        let e2 = (if opnReturns opn then e1\<lparr>evReturnData := res\<rparr> else e1);
                        Some (if err \<noteq> None then (Some ([], err), fr1, e2)
                          else if opnReverts opn then (Some (res, Some errExecutionReverted), fr1, e2)
                          else if opnHalts opn then (Some (res, None), fr1, e2)
                          else (None, if opnJumps opn then fr1 else fr1\<lparr>frPc := frPc fr1 + 1\<rparr>, e2))
                      })
                 })
            }))"

text \<open>\<open>Run\<close> around its loop: the depth, the read-only mode and the return data, and their reset.\<close>

definition Run_with :: "(frame \<Rightarrow> 's evm \<Rightarrow> (vmresult \<times> frame \<times> 's evm) option) \<Rightarrow> 's runfunc" where
  "Run_with loop c input readOnly e =
    (let setReadOnly = (readOnly \<and> \<not> evReadOnly e);
         e1 = e\<lparr>evDepth := evDepth e + 1, evReadOnly := evReadOnly e \<or> readOnly, evReturnData := []\<rparr>;
         leave = (\<lambda>e. e\<lparr>evDepth := evDepth e - 1, evReadOnly := (if setReadOnly then False else evReadOnly e)\<rparr>)
     in if cCode c = [] then Some (([], None), c, leave e1)
        else do {
          (r, fr, e2) \<leftarrow> loop \<lparr>frContract = c\<lparr>cInput := input\<rparr>, frPc = 0, frMem = NewMemory, frStack = []\<rparr> e1;
          Some (r, frContract fr, leave e2)
        })"

text \<open>
  A step uses the interpreter it is given only by running contracts with it: where a run that ends for one
  interpreter ends in the same way for another, so does the step.
\<close>

definition ole :: "'a option \<Rightarrow> 'a option \<Rightarrow> bool" where
  "ole m m' \<longleftrightarrow> (\<forall>y. m = Some y \<longrightarrow> m' = Some y)"

definition refines :: "'s runfunc \<Rightarrow> 's runfunc \<Rightarrow> bool" where
  "refines R R' \<longleftrightarrow> (\<forall>c i ro e. ole (R c i ro e) (R' c i ro e))"

named_theorems vm_mono "what ends with one interpreter ends with a larger one"

lemma oleD: "ole m m' \<Longrightarrow> m = Some y \<Longrightarrow> m' = Some y"
  by (simp add: ole_def)

lemma ole_refl [vm_mono]: "ole m m"
  by (simp add: ole_def)

lemma ole_bind [vm_mono]: "ole m m' \<Longrightarrow> (\<And>x. ole (f x) (g x)) \<Longrightarrow> ole (Option.bind m f) (Option.bind m' g)"
  by (auto simp: ole_def bind_eq_Some_conv)

lemma ole_split [vm_mono]:
  "ole m1 m1' \<Longrightarrow> ole m2 m2' \<Longrightarrow> ole (if b then m1 else m2) (if b then m1' else m2')"
  "(\<And>x y. ole (f x y) (g x y)) \<Longrightarrow> ole (case_prod f p) (case_prod g p)"
  "ole n n' \<Longrightarrow> (\<And>x. ole (h x) (h' x)) \<Longrightarrow> ole (case_option n h r) (case_option n' h' r)"
  "(\<And>x. ole (k x) (k' x)) \<Longrightarrow> (\<And>x. ole (l x) (l' x)) \<Longrightarrow> ole (case_sum k l s) (case_sum k' l' s)"
  by (simp_all split: prod.split option.split sum.split)

lemma refinesD: "refines R R' \<Longrightarrow> ole (R c i ro e) (R' c i ro e)"
  unfolding refines_def by blast

lemma run_refines [vm_mono]: "refines R R' \<Longrightarrow> ole (run V D R c i ro e) (run V D R' c i ro e)"
  unfolding run_def by (intro vm_mono refinesD)

lemma calls_refine [vm_mono]:
  assumes "refines R R'"
  shows "ole (Call V D R cl a i g v e) (Call V D R' cl a i g v e)"
    and "ole (CallCode V D R cl a i g v e) (CallCode V D R' cl a i g v e)"
    and "ole (DelegateCall V D R cl a i g e) (DelegateCall V D R' cl a i g e)"
    and "ole (StaticCall V D R cl a i g e) (StaticCall V D R' cl a i g e)"
    and "ole (create V D R cl ch g v a e) (create V D R' cl ch g v a e)"
  unfolding Call_def CallCode_def DelegateCall_def StaticCall_def create_def Let_def
  by (intro vm_mono assms)+

lemma creates_refine [vm_mono]:
  assumes "refines R R'"
  shows "ole (Create V D R cl i g v e) (Create V D R' cl i g v e)"
    and "ole (Create2 V D R cl i g v s e) (Create2 V D R' cl i g v s e)"
  unfolding Create_def Create2_def Let_def
  by (intro vm_mono assms)+

lemma ops_refine [vm_mono]:
  assumes "refines R R'"
  shows "ole (opCreate V D R fr e) (opCreate V D R' fr e)"
    and "ole (opCreate2 V D R fr e) (opCreate2 V D R' fr e)"
    and "ole (opCall V D R fr e) (opCall V D R' fr e)"
    and "ole (opCallCode V D R fr e) (opCallCode V D R' fr e)"
    and "ole (opDelegateCall V D R fr e) (opDelegateCall V D R' fr e)"
    and "ole (opStaticCall V D R fr e) (opStaticCall V D R' fr e)"
  unfolding opCreate_def opCreate2_def opCall_def opCallCode_def opDelegateCall_def opStaticCall_def Let_def
  by (intro vm_mono assms)+

text \<open>Two tables that differ only in what their instructions do with the interpreter.\<close>

definition opn_le :: "byte \<times> 's operation \<Rightarrow> byte \<times> 's operation \<Rightarrow> bool" where
  "opn_le p q \<longleftrightarrow> fst p = fst q \<and> snd q = (snd p)\<lparr>opnExecute := opnExecute (snd q)\<rparr> \<and>
    (\<forall>fr e. ole (opnExecute (snd p) fr e) (opnExecute (snd q) fr e))"

lemma opn_le_refl: "opn_le p p"
  by (simp add: opn_le_def ole_refl)

lemma opn_le_list_refl: "list_all2 opn_le xs xs"
  by (simp add: list_all2_refl opn_le_refl)

lemma table_le:
  assumes "refines R R'"
  shows "list_all2 opn_le (newConstantinopleInstructionSet V D R) (newConstantinopleInstructionSet V D R')"
  using assms
  unfolding newConstantinopleInstructionSet_def newByzantiumInstructionSet_def newHomesteadInstructionSet_def
    newFrontierInstructionSet_def closureOps_def
  by (intro list_all2_appendI list.rel_intros opn_le_list_refl)
    (simp_all add: opn_le_def sized_def plain_def vm_mono)

lemma map_of_le:
  assumes "list_all2 opn_le xs ys"
  shows "case map_of xs k of None \<Rightarrow> map_of ys k = None | Some p \<Rightarrow> \<exists>q. map_of ys k = Some q \<and> opn_le (k, p) (k, q)"
  using assms by (induction rule: list_all2_induct) (auto simp: opn_le_def split: option.splits)

lemma step_refines:
  assumes R: "refines R R'"
  shows "ole (step V D R fr e) (step V D R' fr e)"
proof -
  let ?k = "GetOp (frPc fr) (frContract fr)"
  note le = map_of_le[OF table_le[OF R, of V D], of ?k]
  show ?thesis
  proof (cases "map_of (newConstantinopleInstructionSet V D R) ?k")
    case None
    then show ?thesis
      using le by (simp add: step_def Let_def ole_refl)
  next
    case (Some p)
    then obtain q where q: "map_of (newConstantinopleInstructionSet V D R') ?k = Some q"
      and opn: "q = p\<lparr>opnExecute := opnExecute q\<rparr>"
      and ex: "\<And>fr e. ole (opnExecute p fr e) (opnExecute q fr e)"
      using le by (auto simp: opn_le_def)
    have eqs: "opnValidateStack q = opnValidateStack p" "opnReturns q = opnReturns p" "opnReverts q = opnReverts p"
      "opnHalts q = opnHalts p" "opnJumps q = opnJumps p" "opnGasCost q = opnGasCost p"
      "opnWrites q = opnWrites p" "opnMemorySize q = opnMemorySize p"
      by (subst opn, simp)+
    then have "enforceRestrictions ?k q st e = enforceRestrictions ?k p st e" "memorySizeOf V q st = memorySizeOf V p st" for st e
      by (simp_all add: enforceRestrictions_def memorySizeOf_def)
    note eqs = eqs this
    have charge: "ole (chargeAndExecute p m fr e) (chargeAndExecute q m fr e)" for m fr e
      unfolding chargeAndExecute_def eqs Let_def by (intro vm_mono ex)
    show ?thesis
      unfolding step_def Let_def Some q option.case eqs by (intro vm_mono charge)
  qed
qed

lemma flat_ord_ole: "flat_ord None m m' \<longleftrightarrow> ole m m'"
  by (cases m) (auto simp: flat_ord_def ole_def)

lemma step_mono [partial_function_mono]:
  fixes R :: "('b \<Rightarrow> 'c option) \<Rightarrow> 's runfunc"
  assumes "\<And>c i ro e. mono_option (\<lambda>f. R f c i ro e)"
  shows "mono_option (\<lambda>f. step V D (R f) fr e)"
proof (rule monotoneI)
  fix f g :: "'b \<Rightarrow> 'c option"
  assume fg: "fun_ord (flat_ord None) f g"
  have "refines (R f) (R g)"
    unfolding refines_def flat_ord_ole[symmetric] using assms fg by (blast dest: monotoneD)
  then show "flat_ord None (step V D (R f) fr e) (step V D (R g) fr e)"
    unfolding flat_ord_ole by (rule step_refines)
qed

lemma Run_with_mono [partial_function_mono]:
  assumes "\<And>fr e. mono_option (\<lambda>f. L f fr e)"
  shows "mono_option (\<lambda>f. Run_with (L f) c i ro e)"
  unfolding Run_with_def Let_def using assms
  by (cases "cCode c = []") (auto intro!: partial_function_mono)

partial_function (option) Run_loop ::
  "vm_ops \<Rightarrow> 's statedb \<Rightarrow> frame \<Rightarrow> 's evm \<Rightarrow> (vmresult \<times> frame \<times> 's evm) option" where
  "Run_loop V D fr e =
    (if evAbort e then Some (([], None), fr, e)
     else do {
       (r, fr1, e1) \<leftarrow> step V D (Run_with (Run_loop V D)) fr e;
       (case r of Some res \<Rightarrow> Some (res, fr1, e1) | None \<Rightarrow> Run_loop V D fr1 e1)
     })"

definition Run :: "vm_ops \<Rightarrow> 's statedb \<Rightarrow> 's runfunc" where
  "Run V D = Run_with (Run_loop V D)"

end
