(* ===== verification/VMExec.thy ===== *)
theory VMExec
  imports VM Execution
begin

text \<open>
  The execution of a transaction by the virtual machine (\<open>ledger/vm/exec.go\<close>), and the executors of the
  ledger with this machine in the place of their parameter.
\<close>

section \<open>Transactions\<close>

definition executionContext :: "vm_ops \<Rightarrow> blockinfo \<Rightarrow> smarttx \<Rightarrow> vmcontext" where
  "executionContext V bi t =
    (let blockNumber = biHeight bi + 1
     in \<lparr>ctxOrigin = inAddress (smFrom t), ctxGasPrice = smGasPrice t, ctxGasLimit = smGasLimit t,
         ctxBlockNumber = uint blockNumber, ctxTime = biTimestamp bi, ctxChainID = vmMapChainID V (biChainID bi) blockNumber\<rparr>)"

text \<open>What is left of the gas is taken from the limit; the code calls the other case one that should not happen.\<close>

definition gasUsedOf :: "uint64 \<Rightarrow> uint64 \<Rightarrow> uint64" where
  "gasUsedOf gasLimit leftOverGas = (if leftOverGas > gasLimit then 0 else gasLimit - leftOverGas)"

definition evmResult :: "bytes \<Rightarrow> address \<Rightarrow> uint64 \<Rightarrow> vmerror option \<Rightarrow> evmresult" where
  "evmResult out addr gasUsed er =
    \<lparr>evRet = out, evContractAddr = addr, evGasUsed = gasUsed, evErr = map_option errorText er\<rparr>"

definition Execute :: "vm_ops \<Rightarrow> 's statedb \<Rightarrow> blockinfo \<Rightarrow> smarttx \<Rightarrow> 's \<Rightarrow> (evmresult \<times> 's) option" where
  "Execute V D bi t db =
    (let e = NewEVM (executionContext V bi t) db;
         val = coTFuel (inCoins (smFrom t));
         gasLimit = smGasLimit t;
         caller = AccountRef (inAddress (smFrom t));
         contractAddr = outAddress (smTo t);
         createContract = (contractAddr = 0)
     in if uint gasLimit > vmMaxGasLimit V (dbGetBlockHeight D db) then Some (evmResult [] 0 0 (Some ErrInvalidGasLimit), db)
        else
          (case CalculateIntrinsicGas V (smData t) createContract of
             Inl er \<Rightarrow> Some (evmResult [] 0 0 (Some er), db)
           | Inr intrinsicGas \<Rightarrow>
               if intrinsicGas > gasLimit then Some (evmResult [] 0 0 (Some ErrOutOfGas), db)
               else
                 let remainingGas = gasLimit - intrinsicGas in
                 if createContract then do {
                   ((out, addr, left, er), e1) \<leftarrow> Create V D (Run V D) caller (smData t) remainingGas val e;
                   Some (evmResult out addr (gasUsedOf gasLimit left) er, evDB e1)
                 }
                 else do {
                   ((out, left, er), e1) \<leftarrow> Call V D (Run V D) caller contractAddr (smData t) remainingGas val e;
                   Some (evmResult out contractAddr (gasUsedOf gasLimit left) er, evDB e1)
                 }))"

text \<open>The executors of the ledger with this machine.\<close>

definition with_vm :: "vm_ops \<Rightarrow> ('t, 'd, 's) exec_ops \<Rightarrow> ('t, 'd, 's) exec_ops" where
  "with_vm V K =
    K\<lparr>xExecute := Execute V (storeview_db (xS K)),
      xIntrinsicGas := (\<lambda>data createContract. case CalculateIntrinsicGas V data createContract of Inl _ \<Rightarrow> None | Inr gas \<Rightarrow> Some gas)\<rparr>"

end
