(* ===== verification/Spec2Isabelle.thy ===== *)
theory Spec2Isabelle
  imports Certificate Stake ChainProps NodeProps EngineProps ProposalProps VMExec
begin

text \<open>
  A verification development for the Theta subchain node (Go, under \<open>src/\<close>).

  \<^bold>\<open>The program.\<close> A node keeps a tree of blocks (\<open>blockchain/\<close>) in a layered database (\<open>store/rollingdb\<close>). Its
  consensus engine (\<open>consensus/\<close>) proposes blocks, votes, commits a block once two thirds of the stake
  voted for it and finalizes the parent of a block that is committed directly on top of it. Blocks carry
  transactions, which the ledger (\<open>ledger/\<close>) executes on a state store: coinbase transactions, transfers,
  contract calls and updates of the validator set, which follow the main chain. Transactions wait in a pool
  (\<open>mempool/\<close>).

  \<^bold>\<open>Modelling.\<close> Definitions are functions over records with the fields of the Go structs. Where the code
  changes an object, the function returns the changed record; where it panics, exits or dereferences nil,
  the result is \<open>None\<close>; errors are values. Machine integers are words and wrap, \<open>big.Int\<close> is \<open>int\<close>, a Go map
  is a list with distinct keys, or a function. Loops are structural recursion, except the search for the
  tip of the tree (\<open>tip_loop\<close>) and the walks along parents, which are \<open>partial_function (option)\<close>: that
  they return is proved from the invariant of the tree (\<open>GetTip_highest\<close>, \<open>IsDescendant_iff\<close>).
  A method guarded by a mutex is one atomic step. Code of the library \<open>theta\<close>, which is not part of the
  repository, is a parameter of the definitions; what is assumed of it are the named laws \<open>tree_laws\<close>,
  \<open>codec_laws\<close>, \<open>coin_laws\<close>, \<open>update_laws\<close>, \<open>pq_laws\<close>, which the concrete instances of \<open>StateExample\<close> and
  \<open>NodeExample\<close> meet.

  \<^bold>\<open>Theories.\<close>
  \<^item> \<open>Prelude\<close>: types shared by all components, lists with distinct keys.
  \<^item> \<open>Vote\<close>, \<open>ValidatorSet\<close>, \<open>Certificate\<close> (\<open>core/vote.go\<close>, \<open>core/validator.go\<close>): votes, vote sets, the two-thirds
    majority (locale \<open>quorum_system\<close>, interpretation \<open>vq\<close>), commit certificates. Two valid certificates share
    a third of the stake; the order in which a Go map is visited does not matter.
  \<^item> \<open>Stake\<close>, \<open>Bloom\<close>, \<open>Block\<close> (\<open>core/stake.go\<close>, \<open>core/bloom.go\<close>, \<open>core/block.go\<close>): stakes are conserved and stay
    locked, bloom filters have no false negatives; headers, blocks, hashes, status.
  \<^item> \<open>RollingDB\<close>, \<open>StoreKeys\<close>, \<open>BlockTree\<close>, \<open>Chain\<close>, \<open>ChainFacts\<close>, \<open>ChainProps\<close>
    (\<open>store/rollingdb/rollingdb.go\<close>, \<open>blockchain/\<close>): the layered database is a map (locale \<open>kv_store\<close>); the
    block store over any such map (locale \<open>chain_store\<close>, interpretation \<open>rc\<close>) keeps a consistent tree, and
    finalization marks exactly the ancestors.
  \<^item> \<open>ProposerSelection\<close>, \<open>ConsensusState\<close>, \<open>Engine\<close>, \<open>EngineRun\<close> (\<open>consensus/\<close>): the proposer of an epoch, the
    persisted state, every handler of the engine, and the step relation of its main loop, interleaved with other
    users of the block store and restarts. The engine sees the ledger through the locale \<open>engine_env\<close>.
  \<^item> \<open>StoreView\<close>, \<open>LedgerState\<close> (\<open>ledger/state/\<close>, \<open>store/treestore\<close>), \<open>Execution\<close> (\<open>ledger/execution/\<close>,
    \<open>ledger/types/tx.go\<close>), \<open>Mempool\<close> (\<open>mempool/\<close>), \<open>Ledger\<close> (\<open>ledger/ledger.go\<close>): state, transactions, pool, and
    the ledger that composes them. \<open>StateFacts\<close> has the table of accounts (locale \<open>account_table\<close>,
    interpretation \<open>sv\<close>).
  \<^item> \<open>Node\<close>: the engine on this block store and this ledger (interpretation \<open>node\<close> of \<open>engine_env\<close>).
  \<^item> \<open>NodeProps\<close>: over every run of a node, with restarts, it never votes for two blocks of one height.
    \<open>EngineProps\<close>: the search for the tip ends and finds the highest block; epochs and commits need two thirds
    of the stake, finalization follows the two-block rule. \<open>TransferProps\<close>: transfers conserve the
    balances and cannot be replayed. \<open>LedgerProps\<close>: applying a block is all or nothing; the validator set
    moves to strictly later dynasties; a validator set update sent to the pool panics the node.
    \<open>MempoolProps\<close>: reaping respects the order of each account.

  \<^bold>\<open>Not modelled.\<close> The virtual machine is the parameter \<open>xExecute\<close> of the executors. Timers, channels and logging of the
  engine, printing and JSON, background compaction of the database, and state pruning (disabled in the code)
  are left out. Polling other chains, peer-to-peer synchronisation, snapshots on disk, RPC, the
  command line, the generated contract bindings and the vendored Ethereum code are input and output around
  the parts modelled here.
\<close>

end
